(* ===== verification/Go_Prelude.thy ===== *)
theory Go_Prelude
  imports Main "HOL-Library.Word" "HOL-Library.AList"
begin

text \<open>
  The prelude of the development: what the server takes from Go and its standard library, and
  the generic lemmas the component theories share.

  \<^item> Go errors. \<open>go_error\<close> is the tree that \<open>errors.New\<close>, \<open>fmt.Errorf\<close> with
    \<open>%w\<close>, \<open>errors.Join\<close> and the repository's own error types build; \<open>errors_is\<close> is
    \<open>errors.Is\<close> against a sentinel, \<open>error_text\<close> the \<open>Error()\<close> string. A fallible function
    returns \<open>'a res\<close>, a check returns \<open>go_error option\<close> (\<open>None\<close> is Go's \<open>nil\<close>).
  \<^item> Strings are byte strings, as Go's are: \<open>strings.Split\<close>, \<open>strings.Join\<close>,
    \<open>strings.HasPrefix\<close>, \<open>strings.TrimPrefix\<close>, \<open>strconv.FormatUint\<close> and
    \<open>strconv.ParseUint\<close> in base ten.
  \<^item> Go maps are association lists with distinct keys (\<open>gmap\<close>), so that \<open>len\<close> and
    iteration are computable.
  \<^item> The locale \<open>codec\<close> is the contract of a printer and a parser that undo each other; the
    component theories interpret it for their own text formats.
\<close>

named_theorems go_err_simps \<open>equations of errors_is and error_text\<close>
named_theorems res_simps \<open>inversion of result and check chains\<close>
named_theorems go_eval \<open>equations that evaluate closed terms of the prelude by simp\<close>

section \<open>Errors\<close>

datatype sentinel =
    ErrClientExists | ErrClientNotFound | ErrEmptyClientUpdate | ErrGeneratedParamsUnchanged
  | ErrEmptyClientIDs | ErrEmptyLANGroupID | ErrDuplicateClientID
  | ErrInvalidParams | ErrInvalidPort | ErrInvalidDNS | ErrInvalidRouting
  | ErrMaxInterfacesReached | ErrPortInUse | ErrPortShared | ErrProfilePortConflict
  | ErrRollbackFailed | ErrSnapshotFailed

fun sentinel_text :: "sentinel \<Rightarrow> string" where
  "sentinel_text ErrClientExists = ''client already exists''"
| "sentinel_text ErrClientNotFound = ''client not found''"
| "sentinel_text ErrEmptyClientUpdate =
     ''at least one of protocol_version, awg_params, or routing is required''"
| "sentinel_text ErrGeneratedParamsUnchanged = ''failed to generate distinct awg params''"
| "sentinel_text ErrEmptyClientIDs = ''client_ids is required''"
| "sentinel_text ErrEmptyLANGroupID = ''lan_group_id is required''"
| "sentinel_text ErrDuplicateClientID = ''client_ids must be unique''"
| "sentinel_text ErrInvalidParams = ''invalid awg params''"
| "sentinel_text ErrInvalidPort = ''port must be 0 or between 1024 and 65535''"
| "sentinel_text ErrInvalidDNS = ''dns must be empty or a valid IPv4 address''"
| "sentinel_text ErrInvalidRouting = ''invalid routing''"
| "sentinel_text ErrMaxInterfacesReached = ''maximum number of interfaces reached''"
| "sentinel_text ErrPortInUse = ''port already in use by another interface''"
| "sentinel_text ErrPortShared = ''cannot change port on interface shared by multiple peers''"
| "sentinel_text ErrProfilePortConflict =
     ''requested port does not match existing profile interface''"
| "sentinel_text ErrRollbackFailed = ''rollback failed''"
| "sentinel_text ErrSnapshotFailed = ''required usage snapshot failed''"

text \<open>
  \<open>Plain\<close> is \<open>errors.New\<close> or \<open>fmt.Errorf\<close> without \<open>%w\<close>; \<open>Wrap pre e post\<close> is
  \<open>fmt.Errorf\<close> with one \<open>%w\<close> between the texts \<open>pre\<close> and \<open>post\<close>; the four next
  constructors are the error structs of the repository.
\<close>

datatype go_error =
    Sentinel sentinel
  | Plain string
  | Wrap string go_error string
  | ValidationError string string
  | RoutingValidationError string string
  | RollbackError go_error go_error
  | PersistenceError string go_error "go_error option"
  | Joined "go_error list"

fun errors_is :: "go_error \<Rightarrow> sentinel \<Rightarrow> bool" where
  "errors_is (Sentinel s) t = (s = t)"
| "errors_is (Plain m) t = False"
| "errors_is (Wrap a e b) t = errors_is e t"
| "errors_is (ValidationError f r) t = (t = ErrInvalidParams)"
| "errors_is (RoutingValidationError f r) t = (t = ErrInvalidRouting)"
| "errors_is (RollbackError e r) t = (t = ErrRollbackFailed)"
| "errors_is (PersistenceError m e r) t = errors_is e t"
| "errors_is (Joined es) t = (\<exists>e \<in> set es. errors_is e t)"

fun join_str :: "string \<Rightarrow> string list \<Rightarrow> string" where
  "join_str sep [] = []"
| "join_str sep [x] = x"
| "join_str sep (x # y # ys) = x @ sep @ join_str sep (y # ys)"

fun error_text :: "go_error \<Rightarrow> string" where
  "error_text (Sentinel s) = sentinel_text s"
| "error_text (Plain m) = m"
| "error_text (Wrap a e b) = a @ error_text e @ b"
| "error_text (ValidationError f r) = f @ '': '' @ r"
| "error_text (RoutingValidationError f r) = f @ '': '' @ r"
| "error_text (RollbackError e r) = error_text e @ ''; rollback failed: '' @ error_text r"
| "error_text (PersistenceError m e None) = m @ '': '' @ error_text e"
| "error_text (PersistenceError m e (Some r)) =
     m @ '': '' @ error_text e @ ''; rollback device state: '' @ error_text r"
| "error_text (Joined es) = join_str [CHR 0x0A] (map error_text es)"

text \<open>\<open>errors.Join\<close> drops nil errors and is nil when nothing is left.\<close>

definition errors_Join :: "go_error option list \<Rightarrow> go_error option" where
  "errors_Join es = (let xs = List.map_filter id es in if xs = [] then None else Some (Joined xs))"

type_synonym 'a res = "go_error + 'a"

definition res_bind :: "'a res \<Rightarrow> ('a \<Rightarrow> 'b res) \<Rightarrow> 'b res" where
  "res_bind r f = (case r of Inl e \<Rightarrow> Inl e | Inr x \<Rightarrow> f x)"

definition map_err :: "(go_error \<Rightarrow> go_error) \<Rightarrow> 'a res \<Rightarrow> 'a res" where
  "map_err g r = (case r of Inl e \<Rightarrow> Inl (g e) | Inr x \<Rightarrow> Inr x)"

text \<open>\<open>check c r\<close> is the Go idiom \<open>if err := c; err != nil { return err }\<close> before \<open>r\<close>.\<close>

definition check :: "go_error option \<Rightarrow> 'a res \<Rightarrow> 'a res" where
  "check c r = (case c of Some e \<Rightarrow> Inl e | None \<Rightarrow> r)"

fun first_err :: "go_error option list \<Rightarrow> go_error option" where
  "first_err [] = None"
| "first_err (c # cs) = (case c of Some e \<Rightarrow> Some e | None \<Rightarrow> first_err cs)"

definition fail_if :: "bool \<Rightarrow> go_error \<Rightarrow> go_error option" where
  "fail_if b e = (if b then Some e else None)"

lemma res_bind_simps [simp]:
  "res_bind (Inl e) f = Inl e" "res_bind (Inr x) f = f x"
  by (simp_all add: res_bind_def)

lemma res_bind_eq_Inr [res_simps]:
  "res_bind r f = Inr y \<longleftrightarrow> (\<exists>x. r = Inr x \<and> f x = Inr y)"
  by (cases r) auto

lemma res_bind_eq_Inl [res_simps]:
  "res_bind r f = Inl e \<longleftrightarrow> r = Inl e \<or> (\<exists>x. r = Inr x \<and> f x = Inl e)"
  by (cases r) auto

lemma check_simps [simp]: "check None r = r" "check (Some e) r = Inl e"
  by (simp_all add: check_def)

lemma check_eq_Inr [res_simps]: "check c r = Inr y \<longleftrightarrow> c = None \<and> r = Inr y"
  by (cases c) auto

lemma map_err_simps [simp]:
  "map_err g (Inl e) = Inl (g e)" "map_err g (Inr x) = Inr x"
  by (simp_all add: map_err_def)

lemma map_err_eq_Inr [res_simps]: "map_err g r = Inr x \<longleftrightarrow> r = Inr x"
  by (cases r) auto

lemma first_err_None_iff [res_simps]: "first_err cs = None \<longleftrightarrow> (\<forall>c \<in> set cs. c = None)"
  by (induction cs) (auto split: option.splits)

lemma first_err_None_simps [simp]:
  "first_err [] = None \<longleftrightarrow> True"
  "first_err (c # cs) = None \<longleftrightarrow> c = None \<and> first_err cs = None"
  "first_err (as @ bs) = None \<longleftrightarrow> first_err as = None \<and> first_err bs = None"
  by (simp_all only: first_err_None_iff set_append ball_Un list.set ball_simps insert_iff)

lemmas first_err_eval [go_eval] = first_err.simps

declare first_err.simps [simp del]

lemma guard_None: "(if \<not> b then Some e else r) = None \<longleftrightarrow> b \<and> r = None"
  by simp

lemma first_err_Some_mem: "first_err cs = Some e \<Longrightarrow> Some e \<in> set cs"
  by (induction cs) (auto simp: first_err.simps split: option.splits)

lemma fail_if_eq [res_simps]:
  "fail_if b e = None \<longleftrightarrow> \<not> b" "fail_if b e = Some e' \<longleftrightarrow> b \<and> e' = e"
  by (auto simp: fail_if_def)

lemma errors_Join_None_iff [res_simps]: "errors_Join es = None \<longleftrightarrow> (\<forall>e \<in> set es. e = None)"
  by (induction es) (auto simp: errors_Join_def Let_def map_filter_simps split: option.splits if_splits)

lemma errors_Join_Some [simp]: "errors_Join (Some e # es) = Some (Joined (e # List.map_filter id es))"
  by (simp add: errors_Join_def map_filter_simps)

lemma errors_is_RollbackError [go_err_simps]:
  "errors_is (RollbackError e r) t \<longleftrightarrow> t = ErrRollbackFailed"
  by simp

section \<open>Strings\<close>

fun split_on :: "char \<Rightarrow> string \<Rightarrow> string list" where
  "split_on c [] = [[]]"
| "split_on c (x # xs) =
     (if x = c then [] # split_on c xs
      else (case split_on c xs of [] \<Rightarrow> [[x]] | p # ps \<Rightarrow> (x # p) # ps))"

fun has_prefix :: "string \<Rightarrow> string \<Rightarrow> bool" where
  "has_prefix xs [] = True"
| "has_prefix [] (p # ps) = False"
| "has_prefix (x # xs) (p # ps) = (x = p \<and> has_prefix xs ps)"

definition trim_prefix :: "string \<Rightarrow> string \<Rightarrow> string" where
  "trim_prefix s p = (if has_prefix s p then drop (length p) s else s)"

definition has_suffix :: "string \<Rightarrow> string \<Rightarrow> bool" where
  "has_suffix s p = has_prefix (rev s) (rev p)"

definition trim_suffix :: "string \<Rightarrow> string \<Rightarrow> string" where
  "trim_suffix s p = (if has_suffix s p then take (length s - length p) s else s)"

lemma split_on_not_Nil [simp]: "split_on c s \<noteq> []"
  by (induction s) (auto split: list.splits)

lemma split_on_no_sep: "c \<notin> set s \<Longrightarrow> split_on c s = [s]"
  by (induction s) auto

lemma split_on_append: "c \<notin> set s \<Longrightarrow> split_on c (s @ c # t) = s # split_on c t"
  by (induction s) auto

lemma split_on_parts_no_sep: "p \<in> set (split_on c s) \<Longrightarrow> c \<notin> set p"
  by (induction s arbitrary: p) (auto split: if_splits list.splits)

lemma join_split_on: "join_str [c] (split_on c s) = s"
proof (induction s)
  case (Cons x xs)
  obtain p ps where ps: "split_on c xs = p # ps"
    by (cases "split_on c xs") auto
  with Cons show ?case by (cases ps) auto
qed simp

lemma split_on_join:
  "ps \<noteq> [] \<Longrightarrow> \<forall>p \<in> set ps. c \<notin> set p \<Longrightarrow> split_on c (join_str [c] ps) = ps"
proof (induction "[c]" ps rule: join_str.induct)
  case (2 x)
  then show ?case by (simp add: split_on_no_sep)
next
  case (3 x y ys)
  then show ?case by (simp add: split_on_append)
qed simp

lemma join_str_snoc: "ps \<noteq> [] \<Longrightarrow> join_str sep (ps @ [x]) = join_str sep ps @ sep @ x"
  by (induction sep ps rule: join_str.induct) auto

lemma join_str_inject:
  assumes "join_str [c] ps = join_str [c] qs" "ps \<noteq> []" "qs \<noteq> []"
    and "\<forall>p \<in> set ps. c \<notin> set p" "\<forall>q \<in> set qs. c \<notin> set q"
  shows "ps = qs"
  using assms by (metis split_on_join)

lemma has_prefix_iff: "has_prefix s p \<longleftrightarrow> (\<exists>t. s = p @ t)"
  by (induction s p rule: has_prefix.induct) auto

lemma has_prefix_append [simp]: "has_prefix (p @ t) p"
  by (auto simp: has_prefix_iff)

lemma trim_prefix_append [simp]: "trim_prefix (p @ t) p = t"
  by (simp add: trim_prefix_def)

lemma trim_prefix_neq_iff: "p \<noteq> [] \<Longrightarrow> trim_prefix s p \<noteq> s \<longleftrightarrow> has_prefix s p"
  by (auto simp: trim_prefix_def has_prefix_iff)

lemma has_suffix_iff: "has_suffix s p \<longleftrightarrow> (\<exists>t. s = t @ p)"
  by (metis has_prefix_iff has_suffix_def rev_append rev_rev_ident)

lemma trim_suffix_append [simp]: "trim_suffix (t @ p) p = t"
  by (auto simp: trim_suffix_def has_suffix_iff)

definition is_space :: "char \<Rightarrow> bool" where
  "is_space c = (c \<in> {CHR 0x09, CHR 0x0A, CHR 0x0B, CHR 0x0C, CHR 0x0D, CHR '' ''})"

text \<open>\<open>strings.TrimSpace\<close> on ASCII text.\<close>

definition TrimSpace :: "string \<Rightarrow> string" where
  "TrimSpace s = rev (dropWhile is_space (rev (dropWhile is_space s)))"

text \<open>
  \<open>utf8.RuneCountInString\<close>: \<open>rune_len\<close> is the length of the first encoded rune, or 1 for a
  byte that starts no valid encoding.
\<close>

definition byte_in :: "nat \<Rightarrow> nat \<Rightarrow> nat \<Rightarrow> string \<Rightarrow> bool" where
  "byte_in i lo hi s = (i < length s \<and> lo \<le> (of_char (s ! i) :: nat) \<and> (of_char (s ! i) :: nat) \<le> hi)"

definition rune_len :: "string \<Rightarrow> nat" where
  "rune_len s =
     (let cont = (\<lambda>i. byte_in i 128 191 s) in
      if byte_in 0 194 223 s \<and> cont 1 then 2
      else if (byte_in 0 224 224 s \<and> byte_in 1 160 191 s \<or> byte_in 0 225 236 s \<and> cont 1
               \<or> byte_in 0 237 237 s \<and> byte_in 1 128 159 s \<or> byte_in 0 238 239 s \<and> cont 1) \<and> cont 2 then 3
      else if (byte_in 0 240 240 s \<and> byte_in 1 144 191 s \<or> byte_in 0 241 243 s \<and> cont 1
               \<or> byte_in 0 244 244 s \<and> byte_in 1 128 143 s) \<and> cont 2 \<and> cont 3 then 4
      else 1)"

lemma rune_len_pos: "0 < rune_len s"
  by (simp add: rune_len_def Let_def)

function rune_count :: "string \<Rightarrow> nat" where
  "rune_count s = (if s = [] then 0 else Suc (rune_count (drop (rune_len s) s)))"
  by auto
termination
  by (relation "measure length") (simp_all add: rune_len_pos)

declare rune_count.simps [simp del]

lemma rune_count_Nil [simp]: "rune_count [] = 0"
  by (simp add: rune_count.simps)

lemma rune_count_le: "rune_count s \<le> length s"
proof (induction s rule: rune_count.induct)
  case (1 s)
  show ?case
  proof (cases "s = []")
    case False
    then have "rune_count s = Suc (rune_count (drop (rune_len s) s))" by (subst rune_count.simps) simp
    moreover have "0 < length s" using False by simp
    ultimately show ?thesis using "1.IH" [OF False] rune_len_pos [of s] by (simp only: length_drop)
  qed simp
qed

section \<open>Decimal numbers\<close>

definition is_digit :: "char \<Rightarrow> bool" where
  "is_digit c = (48 \<le> (of_char c :: nat) \<and> (of_char c :: nat) \<le> 57)"

definition digit_val :: "char \<Rightarrow> nat" where
  "digit_val c = of_char c - 48"

definition digit_char :: "nat \<Rightarrow> char" where
  "digit_char d = char_of (48 + d)"

text \<open>\<open>strconv.FormatUint(n, 10)\<close>, and \<open>%d\<close> of a signed integer.\<close>

fun dec_nat :: "nat \<Rightarrow> string" where
  "dec_nat n = (if n < 10 then [digit_char n] else dec_nat (n div 10) @ [digit_char (n mod 10)])"

declare dec_nat.simps [simp del]

definition dec_int :: "int \<Rightarrow> string" where
  "dec_int i = (if i < 0 then CHR ''-'' # dec_nat (nat (- i)) else dec_nat (nat i))"

definition dec_val :: "string \<Rightarrow> nat" where
  "dec_val s = foldl (\<lambda>v c. v * 10 + digit_val c) 0 s"

definition all_digits :: "string \<Rightarrow> bool" where
  "all_digits s = list_all is_digit s"

text \<open>
  \<open>strconv.ParseUint(s, 10, bits)\<close>: decimal digits only, no sign, no empty string, and a
  value that fits the width.
\<close>

definition parse_uint :: "nat \<Rightarrow> string \<Rightarrow> nat option" where
  "parse_uint bits s =
     (if s \<noteq> [] \<and> all_digits s \<and> dec_val s < 2 ^ bits then Some (dec_val s) else None)"

text \<open>\<open>strconv.ParseInt(s, 10, 64)\<close>: an optional sign and decimal digits, within 64 bits.\<close>

definition parse_int64 :: "string \<Rightarrow> int option" where
  "parse_int64 s =
     (let neg = (s \<noteq> [] \<and> hd s = CHR ''-''); digits = (if s \<noteq> [] \<and> hd s \<in> {CHR ''-'', CHR ''+''} then tl s else s);
          v = (if neg then - int (dec_val digits) else int (dec_val digits)) in
      if digits \<noteq> [] \<and> all_digits digits \<and> - (2 ^ 63) \<le> v \<and> v < 2 ^ 63 then Some v else None)"

lemma digit_char_table [go_eval]:
  "digit_char 0 = CHR ''0''" "digit_char 1 = CHR ''1''" "digit_char 2 = CHR ''2''"
  "digit_char 3 = CHR ''3''" "digit_char 4 = CHR ''4''" "digit_char 5 = CHR ''5''"
  "digit_char 6 = CHR ''6''" "digit_char 7 = CHR ''7''" "digit_char 8 = CHR ''8''"
  "digit_char 9 = CHR ''9''" "digit_char (Suc 0) = CHR ''1''"
  by code_simp+

lemmas decimal_eval [go_eval] =
  dec_nat.simps dec_int_def dec_val_def digit_val_def is_digit_def parse_uint_def

lemma digit_char_props:
  assumes "d < 10"
  shows "is_digit (digit_char d)" "digit_val (digit_char d) = d"
  using assms by (simp_all add: is_digit_def digit_val_def digit_char_def)

lemma dec_val_Nil [simp]: "dec_val [] = 0"
  by (simp add: dec_val_def)

lemma dec_val_snoc [simp]: "dec_val (s @ [c]) = dec_val s * 10 + digit_val c"
  by (simp add: dec_val_def)

lemma all_digits_simps [simp]:
  "all_digits []" "all_digits (c # s) \<longleftrightarrow> is_digit c \<and> all_digits s"
  "all_digits (s @ t) \<longleftrightarrow> all_digits s \<and> all_digits t"
  by (simp_all add: all_digits_def)

lemma dec_nat_not_Nil [simp]: "dec_nat n \<noteq> []"
  by (subst dec_nat.simps) simp

lemma all_digits_dec_nat [simp]: "all_digits (dec_nat n)"
proof (induction n rule: dec_nat.induct)
  case (1 n)
  then show ?case by (subst dec_nat.simps) (auto simp: digit_char_props)
qed

lemma dec_val_dec_nat [simp]: "dec_val (dec_nat n) = n"
proof (induction n rule: dec_nat.induct)
  case (1 n)
  show ?case
  proof (cases "n < 10")
    case True
    then show ?thesis
      by (subst dec_nat.simps) (simp add: dec_val_def digit_char_props)
  next
    case False
    with 1 show ?thesis by (subst dec_nat.simps) (simp add: digit_char_props)
  qed
qed

lemma dec_nat_inject [simp]: "dec_nat m = dec_nat n \<longleftrightarrow> m = n"
  by (metis dec_val_dec_nat)

lemma all_digits_no_char: "all_digits s \<Longrightarrow> \<not> is_digit c \<Longrightarrow> c \<notin> set s"
  by (auto simp: all_digits_def list_all_iff)

lemma all_digits_no_sep:
  "all_digits s \<Longrightarrow> CHR ''-'' \<notin> set s" "all_digits s \<Longrightarrow> CHR ''.'' \<notin> set s"
  "all_digits s \<Longrightarrow> CHR ''/'' \<notin> set s"
  by (simp_all add: all_digits_no_char is_digit_def)

lemma dec_nat_no_sep [simp]:
  "CHR ''-'' \<notin> set (dec_nat n)" "CHR ''.'' \<notin> set (dec_nat n)" "CHR ''/'' \<notin> set (dec_nat n)"
  "CHR '' '' \<notin> set (dec_nat n)" "CHR '','' \<notin> set (dec_nat n)" "CHR 0x0A \<notin> set (dec_nat n)"
  by (rule all_digits_no_char [OF all_digits_dec_nat]; simp add: is_digit_def)+

lemma parse_uint_dec_nat: "n < 2 ^ bits \<Longrightarrow> parse_uint bits (dec_nat n) = Some n"
  by (simp add: parse_uint_def)

lemma parse_uint_Some:
  "parse_uint bits s = Some n \<longleftrightarrow> s \<noteq> [] \<and> all_digits s \<and> dec_val s = n \<and> n < 2 ^ bits"
  by (auto simp: parse_uint_def)

text \<open>A decimal without a leading zero is the print of its value.\<close>

lemma digit_char_digit_val: "is_digit c \<Longrightarrow> digit_char (digit_val c) = c \<and> digit_val c < 10"
  by (auto simp: is_digit_def digit_char_def digit_val_def)

lemma dec_val_pos:
  "all_digits s \<Longrightarrow> s \<noteq> [] \<Longrightarrow> hd s \<noteq> CHR ''0'' \<Longrightarrow> 0 < dec_val s"
proof (induction s rule: rev_induct)
  case (snoc c s)
  show ?case
  proof (cases "s = []")
    case True
    have "c \<noteq> CHR ''0''" using snoc.prems True by simp
    moreover have "digit_char (digit_val c) = c"
      using snoc.prems digit_char_digit_val [of c] by simp
    ultimately have "digit_val c \<noteq> 0" by (metis digit_char_table(1))
    then show ?thesis using True by (simp add: dec_val_def)
  next
    case False
    with snoc show ?thesis by simp
  qed
qed simp

lemma dec_nat_dec_val:
  "all_digits s \<Longrightarrow> s \<noteq> [] \<Longrightarrow> hd s \<noteq> CHR ''0'' \<or> length s = 1 \<Longrightarrow> dec_nat (dec_val s) = s"
proof (induction s rule: rev_induct)
  case (snoc c s)
  have c: "digit_char (digit_val c) = c" "digit_val c < 10"
    using snoc.prems digit_char_digit_val [of c] by simp_all
  show ?case
  proof (cases "s = []")
    case True
    with c show ?thesis by (subst dec_nat.simps) (simp add: dec_val_def)
  next
    case False
    with snoc.prems have "hd s \<noteq> CHR ''0''" by (cases s) auto
    with False snoc have "dec_nat (dec_val s) = s" "0 < dec_val s"
      by (auto intro: dec_val_pos)
    with c show ?thesis by (subst dec_nat.simps) simp
  qed
qed simp

section \<open>Maps and sums\<close>

type_synonym ('k, 'v) gmap = "('k \<times> 'v) list"

abbreviation gm_wf :: "('k, 'v) gmap \<Rightarrow> bool" where
  "gm_wf m \<equiv> distinct (map fst m)"

lemma map_of_gm_delete:
  "gm_wf m \<Longrightarrow> map_of (AList.delete k m) k' = (if k' = k then None else map_of m k')"
  by (simp add: AList.delete_conv fun_upd_def)

lemma map_of_gm_update [simp]:
  "map_of (AList.update k v m) k' = (if k' = k then Some v else map_of m k')"
  by (simp add: AList.update_conv fun_upd_def)

lemma gm_wf_update [simp]: "gm_wf m \<Longrightarrow> gm_wf (AList.update k v m)"
  by (rule distinct_update)

lemma gm_wf_delete [simp]: "gm_wf m \<Longrightarrow> gm_wf (AList.delete k m)"
  by (rule distinct_delete)

lemma gm_set_update:
  "gm_wf m \<Longrightarrow> set (AList.update k v m) = insert (k, v) {(a, b). (a, b) \<in> set m \<and> a \<noteq> k}"
  by (induction m) (auto simp: image_iff split: if_splits)

lemma gm_set_delete: "set (AList.delete k m) = {(a, b). (a, b) \<in> set m \<and> a \<noteq> k}"
  by (induction m) auto

lemma gm_length_update:
  "length (AList.update k v m) = (if map_of m k = None then Suc (length m) else length m)"
  by (induction m) auto

lemma gm_length_delete:
  "gm_wf m \<Longrightarrow> length (AList.delete k m) = (if map_of m k = None then length m else length m - 1)"
proof (induction m)
  case (Cons a m)
  show ?case
  proof (cases "fst a = k")
    case True
    with Cons.prems have "map_of m k = None" by (simp add: map_of_eq_None_iff)
    with True Cons show ?thesis by simp
  next
    case False
    with Cons show ?thesis
      by (cases m) (auto split: if_splits)
  qed
qed simp

lemma gm_mem_iff: "gm_wf m \<Longrightarrow> (k, v) \<in> set m \<longleftrightarrow> map_of m k = Some v"
  by (simp add: map_of_eq_Some_iff)

lemma set_map_filter_iff: "x \<in> set (List.map_filter f xs) \<longleftrightarrow> (\<exists>y \<in> set xs. f y = Some x)"
  by (induction xs) (auto simp: map_filter_simps split: option.splits)

lemma map_filter_append: "List.map_filter f (xs @ ys) = List.map_filter f xs @ List.map_filter f ys"
  by (induction xs) (simp_all add: map_filter_simps split: option.splits)

lemmas map_filter_memD = set_map_filter_iff [THEN iffD1]

lemma map_filter_memI: "y \<in> set xs \<Longrightarrow> f y = Some x \<Longrightarrow> x \<in> set (List.map_filter f xs)"
  by (rule set_map_filter_iff [THEN iffD2]) blast

section \<open>Printers and parsers\<close>

locale codec =
  fixes enc :: "'a \<Rightarrow> 'b" and dec :: "'b \<Rightarrow> 'a option" and wf_val :: "'a \<Rightarrow> bool"
  assumes dec_enc: "wf_val x \<Longrightarrow> dec (enc x) = Some x"
begin

lemma enc_inject: "wf_val x \<Longrightarrow> wf_val y \<Longrightarrow> enc x = enc y \<longleftrightarrow> x = y"
  by (metis dec_enc option.inject)

lemma dec_accepts_enc: "wf_val x \<Longrightarrow> dec (enc x) \<noteq> None"
  by (simp add: dec_enc)

end

interpretation decimal: codec dec_nat "parse_uint bits" "\<lambda>n. n < 2 ^ bits" for bits
  by unfold_locales (rule parse_uint_dec_nat)

end
