(* ===== verification/Netip.thy ===== *)
theory Netip
  imports Go_Prelude
begin

unbundle bit_operations_syntax

text \<open>
  IPv4 addresses and prefixes as the server uses them from \<open>net/netip\<close>: \<open>ParseAddr\<close> and
  \<open>ParsePrefix\<close> restricted to what \<open>Is4\<close> lets through (every caller rejects the rest),
  \<open>Masked\<close>, \<open>Contains\<close> and \<open>String\<close>. An address is a 32-bit word. The lemmas are the round
  trips of the two text formats and the interval that a prefix denotes.
\<close>

section \<open>Text forms\<close>

type_synonym addr4 = "32 word"
type_synonym prefix4 = "addr4 \<times> nat"

definition addr_octets :: "addr4 \<Rightarrow> nat list" where
  "addr_octets w = (let n = unat w in [n div 16777216, n div 65536 mod 256, n div 256 mod 256, n mod 256])"

definition octets_addr :: "nat list \<Rightarrow> addr4" where
  "octets_addr os = of_nat (foldl (\<lambda>v x. v * 256 + x) 0 os)"

definition addr_String :: "addr4 \<Rightarrow> string" where
  "addr_String w = join_str ''.'' (map dec_nat (addr_octets w))"

definition no_leading_zero :: "string \<Rightarrow> bool" where
  "no_leading_zero s = (hd s \<noteq> CHR ''0'' \<or> length s = 1)"

definition valid_octet :: "string \<Rightarrow> bool" where
  "valid_octet s = (s \<noteq> [] \<and> all_digits s \<and> no_leading_zero s \<and> dec_val s \<le> 255)"

definition ParseAddr4 :: "string \<Rightarrow> addr4 option" where
  "ParseAddr4 s =
     (let parts = split_on (CHR ''.'') s in
      if length parts = 4 \<and> list_all valid_octet parts
      then Some (octets_addr (map dec_val parts)) else None)"

definition ParsePrefix4 :: "string \<Rightarrow> prefix4 option" where
  "ParsePrefix4 s =
     (case split_on (CHR ''/'') s of
        [a, b] \<Rightarrow>
          (case ParseAddr4 a of
             None \<Rightarrow> None
           | Some w \<Rightarrow>
               if b \<noteq> [] \<and> all_digits b \<and> no_leading_zero b \<and> dec_val b \<le> 32
               then Some (w, dec_val b) else None)
      | _ \<Rightarrow> None)"

definition prefix_String :: "prefix4 \<Rightarrow> string" where
  "prefix_String p = addr_String (fst p) @ ''/'' @ dec_nat (snd p)"

definition prefix_mask :: "nat \<Rightarrow> addr4" where
  "prefix_mask n = push_bit (32 - n) (- 1)"

definition Masked :: "prefix4 \<Rightarrow> prefix4" where
  "Masked p = (fst p AND prefix_mask (snd p), snd p)"

definition Contains :: "prefix4 \<Rightarrow> addr4 \<Rightarrow> bool" where
  "Contains p x = (x AND prefix_mask (snd p) = fst p AND prefix_mask (snd p))"

definition prefix_set :: "prefix4 \<Rightarrow> addr4 set" where
  "prefix_set p = {x. Contains p x}"

section \<open>Octets\<close>

lemma unat_addr_less: "unat (w :: addr4) < 4294967296"
  using unsigned_less [of w, where ?'a = nat] by simp

lemma unat_of_nat_addr: "n < 4294967296 \<Longrightarrow> unat (of_nat n :: addr4) = n"
  by (simp add: unat_of_nat)

lemma unat_Suc_addr: "a < b \<Longrightarrow> unat (a + 1 :: addr4) = Suc (unat a)"
  using unat_of_nat_addr [of "Suc (unat a)"] unat_addr_less [of b]
  by (simp add: word_less_nat_alt add.commute)

lemma addr_step: "a < b \<Longrightarrow> unat b - unat (a + 1 :: addr4) < unat b - unat a"
  using unat_Suc_addr [of a b] by (simp add: word_less_nat_alt)

lemma octets_value:
  "n < 4294967296 \<Longrightarrow>
   ((n div 16777216 * 256 + n div 65536 mod 256) * 256 + n div 256 mod 256) * 256 + n mod 256 = (n::nat)"
  by (simp add: div_mult2_eq [of n 256 256, simplified] div_mult2_eq [of n 65536 256, simplified])

lemma octets_addr_octets [simp]: "octets_addr (addr_octets w) = w"
  using octets_value [OF unat_addr_less [of w]]
  by (simp add: octets_addr_def addr_octets_def Let_def)

lemma addr_octets_bound: "x \<in> set (addr_octets w) \<Longrightarrow> x \<le> 255"
  using unat_addr_less [of w] by (auto simp: addr_octets_def Let_def)

lemma length_addr_octets [simp]: "length (addr_octets w) = 4"
  by (simp add: addr_octets_def Let_def)

lemma base256: "y \<le> 255 \<Longrightarrow> (x * 256 + y) div 256 = x \<and> (x * 256 + y) mod 256 = (y::nat)"
  by auto

lemma addr_octets_octets:
  assumes "length os = 4" "\<forall>x \<in> set os. x \<le> 255"
  shows "addr_octets (octets_addr os) = os"
proof -
  obtain a b c d where os: "os = [a, b, c, d]"
    using assms(1) by (auto simp: eval_nat_numeral length_Suc_conv)
  have n: "((a * 256 + b) * 256 + c) * 256 + d < 4294967296" (is "?n < _")
    using assms(2) by (simp add: os)
  have "octets_addr os = of_nat ?n" by (simp add: octets_addr_def os)
  then have un: "unat (octets_addr os) = ?n" using unat_of_nat_addr [OF n] by (simp only:)
  have le: "a \<le> 255" "b \<le> 255" "c \<le> 255" "d \<le> 255" using assms(2) by (simp_all add: os)
  have "?n div 256 = (a * 256 + b) * 256 + c" "?n mod 256 = d" using base256 [OF le(4)] by blast+
  moreover have "?n div 65536 = ?n div 256 div 256" "?n div 16777216 = ?n div 256 div 256 div 256"
    by (simp_all flip: div_mult2_eq)
  ultimately have "?n div 16777216 = a" "?n div 65536 mod 256 = b" "?n div 256 mod 256 = c" "?n mod 256 = d"
    using base256 [OF le(3)] base256 [OF le(2)] by presburger+
  with un show ?thesis by (simp only: addr_octets_def os Let_def)
qed

section \<open>Round trips\<close>

lemma no_leading_zero_dec_nat [simp]: "no_leading_zero (dec_nat n)"
proof (induction n rule: dec_nat.induct)
  case (1 n)
  show ?case
  proof (cases "n < 10")
    case True
    then show ?thesis by (subst dec_nat.simps) (simp add: no_leading_zero_def)
  next
    case False
    then have m: "0 < n div 10" by simp
    have "hd (dec_nat (n div 10)) \<noteq> CHR ''0''"
    proof
      assume z: "hd (dec_nat (n div 10)) = CHR ''0''"
      with 1 False have "length (dec_nat (n div 10)) = 1" by (simp add: no_leading_zero_def)
      with z have "dec_nat (n div 10) = ''0''" by (cases "dec_nat (n div 10)") auto
      then have "dec_val (dec_nat (n div 10)) = dec_val ''0''" by (rule arg_cong)
      moreover have "dec_val ''0'' = 0" by (simp add: go_eval)
      ultimately have "n div 10 = 0" by simp
      with m show False by simp
    qed
    with False show ?thesis by (subst dec_nat.simps) (simp add: no_leading_zero_def)
  qed
qed

lemma valid_octet_dec_nat [simp]: "valid_octet (dec_nat n) \<longleftrightarrow> n \<le> 255"
  by (simp add: valid_octet_def)

lemma dec_nat_dec_val_octet: "valid_octet s \<Longrightarrow> dec_nat (dec_val s) = s"
  by (simp add: valid_octet_def no_leading_zero_def dec_nat_dec_val)

lemma split_addr_String: "split_on (CHR ''.'') (addr_String w) = map dec_nat (addr_octets w)"
proof -
  have "map dec_nat (addr_octets w) \<noteq> []" by (simp add: addr_octets_def Let_def)
  then show ?thesis by (simp add: addr_String_def split_on_join)
qed

lemma ParseAddr4_String [simp]: "ParseAddr4 (addr_String w) = Some w"
proof -
  have "list_all valid_octet (map dec_nat (addr_octets w))"
    using addr_octets_bound [of _ w] by (auto simp: list_all_iff)
  moreover have "map dec_val (map dec_nat (addr_octets w)) = addr_octets w"
    by (simp add: comp_def)
  ultimately show ?thesis by (simp add: ParseAddr4_def split_addr_String)
qed

lemma addr_String_ParseAddr4:
  assumes "ParseAddr4 s = Some w"
  shows "addr_String w = s"
proof -
  let ?p = "split_on (CHR ''.'') s"
  have p: "length ?p = 4" "list_all valid_octet ?p" "w = octets_addr (map dec_val ?p)"
    using assms by (auto simp: ParseAddr4_def Let_def split: if_splits)
  have "\<forall>x \<in> set (map dec_val ?p). x \<le> 255" using p(2) by (auto simp: list_all_iff valid_octet_def)
  then have "addr_octets w = map dec_val ?p" using p(1,3) by (simp add: addr_octets_octets)
  moreover have "map dec_nat (map dec_val ?p) = ?p"
    using p(2) by (auto simp: list_all_iff dec_nat_dec_val_octet intro: map_idI)
  ultimately show ?thesis by (simp add: addr_String_def join_split_on)
qed

text \<open>IPv4 text is canonical: an address has one spelling.\<close>

interpretation addr_text: codec addr_String ParseAddr4 "\<lambda>_. True"
  by unfold_locales simp

lemma addr_String_no_slash: "CHR ''/'' \<notin> set (addr_String w)"
proof -
  have "set (join_str [c] ps) \<subseteq> insert c (\<Union>p \<in> set ps. set p)" for c :: char and ps
    by (induction "[c]" ps rule: join_str.induct) auto
  from this [of "CHR ''.''" "map dec_nat (addr_octets w)"] show ?thesis
    by (auto simp: addr_String_def)
qed

lemma ParsePrefix4_String: "n \<le> 32 \<Longrightarrow> ParsePrefix4 (prefix_String (w, n)) = Some (w, n)"
  by (simp add: ParsePrefix4_def prefix_String_def split_on_append split_on_no_sep addr_String_no_slash)

lemma ParsePrefix4_Some:
  assumes "ParsePrefix4 s = Some (w, n)"
  shows "n \<le> 32 \<and> s = prefix_String (w, n)"
proof -
  obtain a b where ab: "split_on (CHR ''/'') s = [a, b]" "ParseAddr4 a = Some w"
    "b \<noteq> []" "all_digits b" "no_leading_zero b" "n = dec_val b" "n \<le> 32"
    using assms by (auto simp: ParsePrefix4_def split: list.splits option.splits if_splits)
  have "s = a @ ''/'' @ b" using join_split_on [of "CHR ''/''" s] ab(1) by simp
  moreover have "addr_String w = a" using ab(2) by (rule addr_String_ParseAddr4)
  moreover have "dec_nat n = b" using ab(3-6) by (simp add: dec_nat_dec_val no_leading_zero_def)
  ultimately show ?thesis using ab(7) by (simp add: prefix_String_def)
qed

interpretation prefix_text: codec prefix_String ParsePrefix4 "\<lambda>p. snd p \<le> 32"
proof
  fix x :: prefix4
  assume "snd x \<le> 32"
  then show "ParsePrefix4 (prefix_String x) = Some x" by (cases x) (simp add: ParsePrefix4_String)
qed

section \<open>Prefixes as intervals\<close>

lemma mask_as_shift: "a AND prefix_mask n = push_bit (32 - n) (drop_bit (32 - n) a)"
  for a :: addr4
  by (rule bit_word_eqI) (auto simp: prefix_mask_def bit_simps)

lemma unat_masked: "unat (a AND prefix_mask n) = unat a div 2 ^ (32 - n) * 2 ^ (32 - n)"
  for a :: addr4
proof -
  have "unat a div 2 ^ (32 - n) * 2 ^ (32 - n) \<le> unat a" by (rule div_times_less_eq_dividend)
  then have "unat a div 2 ^ (32 - n) * 2 ^ (32 - n) < 4294967296"
    using unat_addr_less [of a] by linarith
  moreover have "unat (drop_bit (32 - n) a) = unat a div 2 ^ (32 - n)"
    by (simp only: unat_drop_bit_eq drop_bit_eq_div [where ?'a = nat])
  then have "unat (push_bit (32 - n) (drop_bit (32 - n) a)) =
      take_bit 32 (unat a div 2 ^ (32 - n) * 2 ^ (32 - n))"
    by (simp add: unsigned_push_bit_eq push_bit_eq_mult [where ?'a = nat])
  ultimately show ?thesis by (simp add: mask_as_shift take_bit_nat_eq_self)
qed

lemma Contains_nat:
  "Contains (a, n) x \<longleftrightarrow> unat x div 2 ^ (32 - n) = unat a div 2 ^ (32 - n)"
proof -
  have "Contains (a, n) x \<longleftrightarrow> unat (x AND prefix_mask n) = unat (a AND prefix_mask n)"
    by (simp add: Contains_def word_unat_eq_iff)
  also have "\<dots> \<longleftrightarrow> unat x div 2 ^ (32 - n) = unat a div 2 ^ (32 - n)"
    by (simp add: unat_masked)
  finally show ?thesis .
qed

lemma Contains_interval:
  "Contains (a, n) x \<longleftrightarrow>
     unat (fst (Masked (a, n))) \<le> unat x \<and> unat x < unat (fst (Masked (a, n))) + 2 ^ (32 - n)"
proof -
  have "(x div m = y div m) = (y div m * m \<le> x \<and> x < y div m * m + m)" if "0 < m" for x y m :: nat
  proof
    assume eq: "x div m = y div m"
    have "x div m * m \<le> x" by (rule div_times_less_eq_dividend)
    moreover have "x < x div m * m + m" using dividend_less_div_times [OF that, of x] by (simp only: add.commute)
    ultimately show "y div m * m \<le> x \<and> x < y div m * m + m" by (simp add: eq)
  next
    assume "y div m * m \<le> x \<and> x < y div m * m + m"
    then show "x div m = y div m"
      using that by (intro div_nat_eqI) (auto simp: algebra_simps)
  qed
  then show ?thesis by (simp add: Contains_nat Masked_def unat_masked)
qed

lemma Masked_idem [simp]: "Masked (Masked p) = Masked p"
  by (simp add: Masked_def and.assoc)

lemma prefix_set_Masked [simp]: "prefix_set (Masked p) = prefix_set p"
  by (simp add: prefix_set_def Contains_def Masked_def and.assoc)

lemma Masked_aligned:
  assumes "2 ^ (32 - n) dvd unat a"
  shows "Masked (a, n) = (a, n)"
proof -
  have "unat (a AND prefix_mask n) = unat a" using assms by (simp add: unat_masked)
  then show ?thesis by (simp add: Masked_def word_unat_eq_iff)
qed

end
