(* ===== verification/Routing_Ranges.thy ===== *)
theory Routing_Ranges
  imports Netip
begin

text \<open>
  The IPv4 range arithmetic of \<^verbatim>\<open>src/internal/clients/routing_ranges.go\<close>: prefixes to ranges, the
  merge of sorted ranges, the two-pointer subtraction and the greedy split into CIDR blocks.
  Bounds are 32-bit words and cursors 64-bit words, as in the source, so that the wrap-around
  at 255.255.255.255 is part of the model. A slice with a moving index is the suffix of the list
  that the index still points at.

  The lemmas give each routine its meaning on sets of addresses. They are stated once in the
  locale \<open>ipv4_range_algebra\<close>, the contract that the routing policy relies on.
\<close>

section \<open>Model\<close>

datatype ipv4Range = IPv4Range (rstart: addr4) (rend: addr4)

text \<open>The order of the \<open>sort.Slice\<close> comparison: by start, then by end.\<close>

instantiation ipv4Range :: linorder
begin

definition less_eq_ipv4Range :: "ipv4Range \<Rightarrow> ipv4Range \<Rightarrow> bool" where
  "less_eq_ipv4Range a b = (if rstart a = rstart b then rend a \<le> rend b else rstart a < rstart b)"

definition less_ipv4Range :: "ipv4Range \<Rightarrow> ipv4Range \<Rightarrow> bool" where
  "less_ipv4Range a b = (if rstart a = rstart b then rend a < rend b else rstart a < rstart b)"

instance
  by standard (auto simp: less_eq_ipv4Range_def less_ipv4Range_def ipv4Range.expand split: if_splits)

end

definition u64 :: "addr4 \<Rightarrow> 64 word" where
  "u64 w = ucast w"

definition u32 :: "64 word \<Rightarrow> addr4" where
  "u32 w = ucast w"

definition prefixRange :: "prefix4 \<Rightarrow> ipv4Range" where
  "prefixRange p =
     (let start = fst (Masked p);
          blockSize = push_bit (32 - snd p) (1 :: 64 word)
      in IPv4Range start (u32 (u64 start + blockSize - 1)))"

definition prefixesToIPv4Ranges :: "string list \<Rightarrow> ipv4Range list" where
  "prefixesToIPv4Ranges prefixes = map prefixRange (List.map_filter ParsePrefix4 prefixes)"

fun merge_loop :: "ipv4Range \<Rightarrow> ipv4Range list \<Rightarrow> ipv4Range list" where
  "merge_loop prev [] = [prev]"
| "merge_loop prev (current # rest) =
     (if u64 (rstart current) \<le> u64 (rend prev) + 1
      then merge_loop (if rend current > rend prev then IPv4Range (rstart prev) (rend current) else prev) rest
      else prev # merge_loop current rest)"

definition mergeIPv4Ranges :: "ipv4Range list \<Rightarrow> ipv4Range list" where
  "mergeIPv4Ranges ranges = (case sort ranges of [] \<Rightarrow> [] | first # rest \<Rightarrow> merge_loop first rest)"

fun skip_exclusions :: "64 word \<Rightarrow> ipv4Range list \<Rightarrow> ipv4Range list" where
  "skip_exclusions cursor [] = []"
| "skip_exclusions cursor (e # es) =
     (if u64 (rend e) < cursor then skip_exclusions cursor es else e # es)"

text \<open>The inner loop returns the pieces it appends, the cursor and the exclusions left.\<close>

fun cut_loop :: "64 word \<Rightarrow> 64 word \<Rightarrow> ipv4Range list \<Rightarrow> ipv4Range list \<times> 64 word \<times> ipv4Range list" where
  "cut_loop cursor baseEnd [] = ([], cursor, [])"
| "cut_loop cursor baseEnd (e # es) =
     (if u64 (rstart e) \<le> baseEnd then
        (let exclusionStart = u64 (rstart e);
             exclusionEnd = u64 (rend e);
             piece = (if exclusionStart > cursor
                      then [IPv4Range (u32 cursor) (u32 (exclusionStart - 1))] else []);
             cursor' = exclusionEnd + 1
         in if cursor' > baseEnd then (piece, cursor', e # es)
            else (case cut_loop cursor' baseEnd es of (ps, c, rest) \<Rightarrow> (piece @ ps, c, rest)))
      else ([], cursor, e # es))"

fun subtract_loop :: "ipv4Range list \<Rightarrow> ipv4Range list \<Rightarrow> ipv4Range list" where
  "subtract_loop [] excluded = []"
| "subtract_loop (b # bs) excluded =
     (case cut_loop (u64 (rstart b)) (u64 (rend b)) (skip_exclusions (u64 (rstart b)) excluded) of
        (pieces, cursor, excluded') \<Rightarrow>
          pieces @ (if cursor \<le> u64 (rend b) then [IPv4Range (u32 cursor) (rend b)] else [])
          @ subtract_loop bs excluded')"

definition subtractIPv4Ranges :: "ipv4Range list \<Rightarrow> ipv4Range list \<Rightarrow> ipv4Range list" where
  "subtractIPv4Ranges base0 excluded0 =
     (let base = mergeIPv4Ranges base0; excluded = mergeIPv4Ranges excluded0 in
      if base = [] \<or> excluded = [] then base else subtract_loop base excluded)"

text \<open>\<open>bits.TrailingZeros64\<close>: 64 for zero.\<close>

fun trailing_zeros :: "nat \<Rightarrow> nat" where
  "trailing_zeros n = (if n = 0 \<or> odd n then 0 else Suc (trailing_zeros (n div 2)))"

declare trailing_zeros.simps [simp del]

definition TrailingZeros64 :: "64 word \<Rightarrow> nat" where
  "TrailingZeros64 w = (if w = 0 then 64 else trailing_zeros (unat w))"

function shrink_block :: "64 word \<Rightarrow> 64 word \<Rightarrow> 64 word" where
  "shrink_block blockSize remaining =
     (if blockSize > remaining then shrink_block (drop_bit 1 blockSize) remaining else blockSize)"
  by pat_completeness auto

lemma unat_drop_bit_1: "unat (drop_bit 1 w) = unat w div 2" for w :: "64 word"
  by (simp add: unat_drop_bit_eq drop_bit_eq_div [where ?'a = nat, of 1, simplified])

termination shrink_block
proof (relation "measure (\<lambda>(b, r). unat b)")
  fix b r :: "64 word"
  assume "r < b"
  then have "0 < unat b" by (simp add: word_less_nat_alt)
  then show "((drop_bit 1 b, r), b, r) \<in> measure (\<lambda>(b, r). unat b)"
    by (simp add: unat_drop_bit_1 del: drop_bit_Suc One_nat_def)
qed simp

declare shrink_block.simps [simp del]

definition cidr_block :: "64 word \<Rightarrow> addr4 \<Rightarrow> 64 word" where
  "cidr_block cursor rangeEnd =
     (let alignmentBits = min (TrailingZeros64 cursor) 32;
          remaining = u64 rangeEnd - cursor + 1
      in shrink_block (push_bit alignmentBits 1) remaining)"

section \<open>Words of the two widths\<close>

lemma unat_u64 [simp]: "unat (u64 w) = unat w"
  using unat_addr_less [of w]
  by (simp add: u64_def unsigned_ucast_eq take_bit_nat_eq_self)

lemma unat_u32: "unat w < 4294967296 \<Longrightarrow> unat (u32 w) = unat w"
  by (simp add: u32_def unsigned_ucast_eq take_bit_nat_eq_self)

lemma unat_u64_Suc [simp]: "unat (u64 w + 1) = Suc (unat w)"
  using unat_addr_less [of w] by (simp add: unat_word_ariths)

lemma unat_u64_pred: "c < u64 w \<Longrightarrow> unat (u32 (u64 w - 1)) = unat w - 1"
proof -
  assume "c < u64 w"
  then have "0 < unat w" by (simp add: word_less_nat_alt)
  then have "unat (u64 w - 1) = unat w - 1" by (simp add: unat_sub_if_size)
  with unat_addr_less [of w] show ?thesis by (simp add: unat_u32)
qed

lemma unat_pred: "0 < unat w \<Longrightarrow> unat (w - 1) = unat w - 1" for w :: "64 word"
  by (simp add: unat_sub_if_size)

lemmas word_nat_simps = word_less_nat_alt word_le_nat_alt unat_u64 unat_u64_Suc

section \<open>Blocks\<close>

lemma trailing_zeros_dvd: "2 ^ trailing_zeros n dvd n"
proof (induction n rule: trailing_zeros.induct)
  case (1 n)
  show ?case
  proof (cases "n = 0 \<or> odd n")
    case False
    then have "2 * (n div 2) = n" by simp
    moreover have "2 * 2 ^ trailing_zeros (n div 2) dvd 2 * (n div 2)"
      using 1 False by (intro mult_dvd_mono) auto
    ultimately show ?thesis using False by (subst trailing_zeros.simps) simp
  qed (subst trailing_zeros.simps, simp)
qed

lemma trailing_zeros_power: "trailing_zeros (2 ^ k) = k"
proof (induction k)
  case (Suc k)
  then show ?case by (subst trailing_zeros.simps) simp
qed (simp add: trailing_zeros.simps)

lemma shrink_block_power:
  "unat b = 2 ^ k \<Longrightarrow> 0 < unat r \<Longrightarrow> \<exists>j \<le> k. unat (shrink_block b r) = 2 ^ j \<and> 2 ^ j \<le> unat r"
proof (induction b r arbitrary: k rule: shrink_block.induct)
  case (1 b r)
  show ?case
  proof (cases "b > r")
    case False
    with "1.prems" show ?thesis
      by (subst shrink_block.simps) (auto simp: word_less_nat_alt not_less)
  next
    case True
    then have "1 < unat b" using "1.prems" by (simp add: word_less_nat_alt)
    with "1.prems" obtain m where m: "k = Suc m" by (cases k) auto
    then have "unat (drop_bit 1 b) = 2 ^ m" using "1.prems" by (simp only: unat_drop_bit_1) simp
    with 1 True m obtain j where "j \<le> m" "unat (shrink_block (drop_bit 1 b) r) = 2 ^ j" "2 ^ j \<le> unat r"
      by metis
    with True m show ?thesis by (subst shrink_block.simps) (auto intro!: exI [of _ j])
  qed
qed

lemma unat_push_bit_1: "k \<le> 32 \<Longrightarrow> unat (push_bit k (1 :: 64 word)) = 2 ^ k"
proof -
  assume "k \<le> 32"
  then have "take_bit LENGTH(64) (push_bit k (unat (1 :: 64 word))) = 2 ^ k"
    by (simp add: take_bit_nat_eq_self)
  then show ?thesis by (simp only: unsigned_push_bit_eq)
qed

lemma unat_remaining:
  "c \<le> u64 e \<Longrightarrow> unat (u64 e - c + 1) = unat e - unat c + 1"
  using unat_addr_less [of e]
  by (simp add: word_le_nat_alt unat_word_ariths(1) unat_sub_if_size)

lemma cidr_block_facts:
  assumes "c \<le> u64 e"
  obtains j where "j \<le> 32" "unat (cidr_block c e) = 2 ^ j" "2 ^ j dvd unat c"
    "unat c + 2 ^ j \<le> unat e + 1" "unat (c + cidr_block c e) = unat c + 2 ^ j"
proof -
  define k where "k = min (TrailingZeros64 c) 32"
  have dvd: "2 ^ k dvd unat c"
  proof (cases "c = 0")
    case False
    then have "k \<le> trailing_zeros (unat c)" by (simp add: k_def TrailingZeros64_def)
    then show ?thesis by (rule power_le_dvd [OF trailing_zeros_dvd])
  qed simp
  have "unat (push_bit k (1 :: 64 word)) = 2 ^ k" by (rule unat_push_bit_1) (simp add: k_def)
  moreover have "0 < unat (u64 e - c + 1)" by (simp add: unat_remaining [OF assms])
  ultimately obtain j where j: "j \<le> k" "unat (cidr_block c e) = 2 ^ j" "2 ^ j \<le> unat (u64 e - c + 1)"
    using shrink_block_power [of "push_bit k 1" k "u64 e - c + 1"]
    by (auto simp: cidr_block_def k_def Let_def)
  have le: "unat c + 2 ^ j \<le> unat e + 1"
    using j(3) assms by (simp add: unat_remaining word_le_nat_alt)
  have "unat (c + cidr_block c e) = unat c + 2 ^ j"
    using le j(2) unat_addr_less [of e] by (simp add: unat_word_ariths)
  moreover have "2 ^ j dvd unat c" by (rule power_le_dvd [OF dvd j(1)])
  moreover have "j \<le> 32" using j(1) by (simp add: k_def)
  ultimately show thesis using that j(2) le by blast
qed

text \<open>
  The loop of \<open>ipv4RangesToPrefixes\<close> for one range. The end of the range is a 32-bit value,
  so that the block never reaches past it and the cursor never wraps: the loop terminates on
  every input.
\<close>

function cidr_loop :: "64 word \<Rightarrow> addr4 \<Rightarrow> prefix4 list" where
  "cidr_loop cursor rangeEnd =
     (if cursor \<le> u64 rangeEnd
      then (let blockSize = cidr_block cursor rangeEnd in
            (u32 cursor, 32 - TrailingZeros64 blockSize) # cidr_loop (cursor + blockSize) rangeEnd)
      else [])"
  by pat_completeness auto

termination cidr_loop
proof (relation "measure (\<lambda>(c, e). Suc (unat e) - unat c)")
  fix c :: "64 word" and e :: addr4 and b
  assume c: "c \<le> u64 e" and b: "b = cidr_block c e"
  from c obtain j where "unat c + 2 ^ j \<le> unat e + 1" "unat (c + b) = unat c + 2 ^ j"
    unfolding b by (rule cidr_block_facts)
  moreover have "(0::nat) < 2 ^ j" by simp
  ultimately have "Suc (unat e) - unat (c + b) < Suc (unat e) - unat c" by linarith
  then show "((c + b, e), c, e) \<in> measure (\<lambda>(c, e). Suc (unat e) - unat c)" by simp
qed simp

declare cidr_loop.simps [simp del]

definition ipv4RangesToPrefixes :: "ipv4Range list \<Rightarrow> string list" where
  "ipv4RangesToPrefixes ranges =
     map prefix_String
       (concat (map (\<lambda>current. cidr_loop (u64 (rstart current)) (rend current)) (mergeIPv4Ranges ranges)))"

section \<open>Sets of addresses\<close>

definition valid_range :: "ipv4Range \<Rightarrow> bool" where
  "valid_range r = (rstart r \<le> rend r)"

definition range_set :: "ipv4Range \<Rightarrow> addr4 set" where
  "range_set r = {rstart r .. rend r}"

definition ranges_set :: "ipv4Range list \<Rightarrow> addr4 set" where
  "ranges_set rs = (\<Union>r \<in> set rs. range_set r)"

definition prefixes_set :: "string list \<Rightarrow> addr4 set" where
  "prefixes_set ps = (\<Union>p \<in> set (List.map_filter ParsePrefix4 ps). prefix_set p)"

lemma ranges_set_simps [simp]:
  "ranges_set [] = {}" "ranges_set (r # rs) = range_set r \<union> ranges_set rs"
  "ranges_set (rs @ qs) = ranges_set rs \<union> ranges_set qs"
  by (auto simp: ranges_set_def)

lemma range_set_nat: "x \<in> range_set r \<longleftrightarrow> unat (rstart r) \<le> unat x \<and> unat x \<le> unat (rend r)"
  by (simp add: range_set_def word_le_nat_alt)

lemma range_set_ordered_nat:
  "x \<in> range_set (IPv4Range a b) \<longleftrightarrow> unat a \<le> unat x \<and> unat x \<le> unat b"
  by (simp add: range_set_nat)

text \<open>Merged ranges are valid, sorted and separated by at least one address.\<close>

fun separated :: "ipv4Range list \<Rightarrow> bool" where
  "separated [] = True"
| "separated (r # rs) =
     (valid_range r \<and> (\<forall>q \<in> set rs. unat (rend r) + 1 < unat (rstart q)) \<and> separated rs)"

lemma separated_valid: "separated rs \<Longrightarrow> r \<in> set rs \<Longrightarrow> valid_range r"
  by (induction rs) auto

subsection \<open>Merge\<close>

lemma sorted_starts: "sorted (r # rs) \<Longrightarrow> q \<in> set rs \<Longrightarrow> unat (rstart r) \<le> unat (rstart q)"
  by (auto simp: less_eq_ipv4Range_def word_less_nat_alt split: if_splits)

lemma merge_loop_props:
  assumes "valid_range l" "\<forall>r \<in> set rs. valid_range r \<and> unat (rstart l) \<le> unat (rstart r)" "sorted rs"
  shows "ranges_set (merge_loop l rs) = range_set l \<union> ranges_set rs \<and> separated (merge_loop l rs)
    \<and> (\<forall>r \<in> set (merge_loop l rs). unat (rstart l) \<le> unat (rstart r))"
  using assms
proof (induction l rs rule: merge_loop.induct)
  case (1 l)
  then show ?case by simp
next
  case (2 l c cs)
  let ?l = "if rend c > rend l then IPv4Range (rstart l) (rend c) else l"
  have c: "valid_range c" "unat (rstart l) \<le> unat (rstart c)" "sorted cs"
    using "2.prems" by auto
  show ?case
  proof (cases "u64 (rstart c) \<le> u64 (rend l) + 1")
    case True
    then have near: "unat (rstart c) \<le> unat (rend l) + 1" by (simp add: word_nat_simps)
    have start: "rstart ?l = rstart l" by simp
    have "valid_range ?l" using "2.prems"(1) by (auto simp: valid_range_def)
    with "2.IH"(1) [OF True] "2.prems" start
    have IH: "ranges_set (merge_loop ?l cs) = range_set ?l \<union> ranges_set cs"
      "separated (merge_loop ?l cs)" "\<forall>r \<in> set (merge_loop ?l cs). unat (rstart l) \<le> unat (rstart r)"
      by auto
    have "range_set ?l = range_set l \<union> range_set c"
      using near c "2.prems"(1)
      by (auto simp: set_eq_iff range_set_nat word_less_nat_alt valid_range_def word_le_nat_alt)
    with IH True show ?thesis by auto
  next
    case False
    then have far: "unat (rend l) + 1 < unat (rstart c)" by (simp add: word_nat_simps)
    have le: "\<forall>r \<in> set cs. valid_range r \<and> unat (rstart c) \<le> unat (rstart r)"
      using "2.prems" sorted_starts [of c cs] by auto
    from "2.IH"(2) [OF False c(1) le c(3)] False far c "2.prems"(1)
    show ?thesis by fastforce
  qed
qed

lemma mergeIPv4Ranges_props:
  assumes "\<forall>r \<in> set rs. valid_range r"
  shows "ranges_set (mergeIPv4Ranges rs) = ranges_set rs" "separated (mergeIPv4Ranges rs)"
proof -
  have "ranges_set (mergeIPv4Ranges rs) = ranges_set rs \<and> separated (mergeIPv4Ranges rs)"
  proof (cases "sort rs")
    case Nil
    then show ?thesis by (simp add: mergeIPv4Ranges_def flip: set_empty [of "sort rs"])
  next
    case (Cons f fs)
    have "sorted (sort rs)" "set (sort rs) = set rs" by simp_all
    then have srt: "sorted (f # fs)" "set (f # fs) = set rs" by (simp_all only: Cons)
    then have "\<forall>r \<in> set fs. valid_range r \<and> unat (rstart f) \<le> unat (rstart r)" "valid_range f"
      using assms sorted_starts by auto
    with srt merge_loop_props [of f fs] have
      "ranges_set (merge_loop f fs) = ranges_set (f # fs)" "separated (merge_loop f fs)" by auto
    moreover have "ranges_set (f # fs) = ranges_set rs" by (simp only: ranges_set_def srt)
    ultimately show ?thesis by (simp add: mergeIPv4Ranges_def Cons)
  qed
  then show "ranges_set (mergeIPv4Ranges rs) = ranges_set rs" "separated (mergeIPv4Ranges rs)" by auto
qed

subsection \<open>Subtraction\<close>

lemma skip_exclusions_suffix:
  "\<exists>ds. es = ds @ skip_exclusions c es \<and> (\<forall>d \<in> set ds. unat (rend d) < unat c)"
proof (induction c es rule: skip_exclusions.induct)
  case (2 c e es)
  then show ?case
  proof (cases "u64 (rend e) < c")
    case True
    with 2 obtain ds where "es = ds @ skip_exclusions c es" "\<forall>d \<in> set ds. unat (rend d) < unat c" by auto
    with True show ?thesis by (intro exI [of _ "e # ds"]) (auto simp: word_less_nat_alt)
  qed simp
qed simp

lemma skip_exclusions_head:
  "skip_exclusions c es = e # es' \<Longrightarrow> unat c \<le> unat (rend e)"
  by (induction c es rule: skip_exclusions.induct) (auto simp: word_less_nat_alt split: if_splits)

lemma separated_append: "separated (ds @ es) \<Longrightarrow> separated es"
  by (induction ds) auto

definition cut_piece :: "64 word \<Rightarrow> addr4 \<Rightarrow> ipv4Range list" where
  "cut_piece c a = (if u64 a > c then [IPv4Range (u32 c) (u32 (u64 a - 1))] else [])"

lemma cut_piece_props:
  "x \<in> ranges_set (cut_piece c a) \<longleftrightarrow> unat c \<le> unat x \<and> unat x < unat a"
  "\<forall>p \<in> set (cut_piece c a). valid_range p"
proof -
  have "(x \<in> ranges_set (cut_piece c a) \<longleftrightarrow> unat c \<le> unat x \<and> unat x < unat a)
      \<and> (\<forall>p \<in> set (cut_piece c a). valid_range p)"
  proof (cases "u64 a > c")
    case True
    then have "unat c < unat a" by (simp add: word_less_nat_alt)
    moreover from this have "unat (u32 c) = unat c" using unat_addr_less [of a] by (simp add: unat_u32)
    ultimately show ?thesis using True unat_u64_pred [OF True]
      by (auto simp: cut_piece_def range_set_ordered_nat valid_range_def word_le_nat_alt)
  qed (auto simp: cut_piece_def word_less_nat_alt)
  then show "x \<in> ranges_set (cut_piece c a) \<longleftrightarrow> unat c \<le> unat x \<and> unat x < unat a"
    "\<forall>p \<in> set (cut_piece c a). valid_range p" by auto
qed

lemma cut_loop_Cons:
  "cut_loop c e (q # qs) =
     (if \<not> u64 (rstart q) \<le> e then ([], c, q # qs)
      else if u64 (rend q) + 1 > e then (cut_piece c (rstart q), u64 (rend q) + 1, q # qs)
      else (case cut_loop (u64 (rend q) + 1) e qs of
              (ps, c', rest) \<Rightarrow> (cut_piece c (rstart q) @ ps, c', rest)))"
  by (simp add: cut_piece_def Let_def)

lemma ranges_set_after:
  "\<forall>r \<in> set qs. m < unat (rstart r) \<Longrightarrow> x \<in> ranges_set qs \<Longrightarrow> m < unat x"
  by (fastforce simp: ranges_set_def range_set_nat)

text \<open>
  One base range: the pieces and what is left from the cursor on are the addresses of the range
  outside the exclusions; the exclusions that the loop passes end before the range does.
\<close>

lemma cut_loop_props:
  assumes "cut_loop c (u64 e) es = (ps, c', rest)" "separated es" "unat c \<le> unat e + 1"
    "\<forall>q \<in> set es. unat c \<le> unat (rend q)"
  shows "(\<forall>x. x \<in> ranges_set ps \<or> unat c' \<le> unat x \<and> unat x \<le> unat e
            \<longleftrightarrow> unat c \<le> unat x \<and> unat x \<le> unat e \<and> x \<notin> ranges_set es)
    \<and> (\<forall>p \<in> set ps. valid_range p)
    \<and> (\<exists>ds. es = ds @ rest \<and> (\<forall>d \<in> set ds. unat (rend d) < unat e))
    \<and> unat c \<le> unat c'"
  using assms
proof (induction es arbitrary: c ps c' rest)
  case Nil
  then show ?case by simp
next
  case (Cons q qs)
  let ?a = "unat (rstart q)" and ?b = "unat (rend q)"
  have q: "?a \<le> ?b" "\<forall>r \<in> set qs. ?b + 1 < unat (rstart r)" "separated qs" "unat c \<le> ?b"
    using Cons.prems by (auto simp: valid_range_def word_le_nat_alt)
  note after = ranges_set_after [OF q(2)] and piece = cut_piece_props(1) [of _ c "rstart q"] cut_piece_props(2) [of c "rstart q"]
  show ?case
  proof (cases "u64 (rstart q) \<le> u64 e")
    case False
    then have "unat e < ?a" by (simp add: word_nat_simps)
    then have "unat x \<le> unat e \<Longrightarrow> x \<notin> ranges_set (q # qs)" for x
      using q(1) after [of x] by (auto simp: range_set_nat)
    with False Cons.prems(1) show ?thesis by (auto simp: cut_loop_Cons simp del: cut_loop.simps)
  next
    case in_range: True
    then have ae: "?a \<le> unat e" by (simp add: word_nat_simps)
    show ?thesis
    proof (cases "u64 (rend q) + 1 > u64 e")
      case True
      then have "unat e < ?b + 1" by (simp add: word_nat_simps)
      moreover have "ps = cut_piece c (rstart q)" "c' = u64 (rend q) + 1" "rest = q # qs"
        using Cons.prems(1) in_range True by (simp_all add: cut_loop_Cons del: cut_loop.simps)
      ultimately show ?thesis using piece q ae
        by (auto simp: range_set_nat dest: after)
    next
      case False
      then have be: "?b + 1 \<le> unat e" by (simp add: word_nat_simps)
      obtain ps' where rec: "cut_loop (u64 (rend q) + 1) (u64 e) qs = (ps', c', rest)"
        "ps = cut_piece c (rstart q) @ ps'"
        using Cons.prems(1) in_range False
        by (auto simp: cut_loop_Cons simp del: cut_loop.simps split: prod.splits)
      have ends: "\<forall>r \<in> set qs. unat (u64 (rend q) + 1) \<le> unat (rend r)"
        using q(2,3) separated_valid [OF q(3)] by (fastforce simp: valid_range_def word_le_nat_alt)
      from Cons.IH [OF rec(1) q(3) _ ends] be
      have IH: "\<forall>x. x \<in> ranges_set ps' \<or> unat c' \<le> unat x \<and> unat x \<le> unat e
            \<longleftrightarrow> ?b + 1 \<le> unat x \<and> unat x \<le> unat e \<and> x \<notin> ranges_set qs"
          "\<forall>p \<in> set ps'. valid_range p" "?b + 1 \<le> unat c'"
          "\<exists>ds. qs = ds @ rest \<and> (\<forall>d \<in> set ds. unat (rend d) < unat e)" by simp_all
      have "\<exists>ds. q # qs = ds @ rest \<and> (\<forall>d \<in> set ds. unat (rend d) < unat e)"
        using IH(4) be by (metis Suc_eq_plus1 Suc_le_lessD append_Cons set_ConsD)
      moreover have "x \<in> ranges_set ps \<or> unat c' \<le> unat x \<and> unat x \<le> unat e
            \<longleftrightarrow> unat c \<le> unat x \<and> unat x \<le> unat e \<and> x \<notin> ranges_set (q # qs)" for x
        using IH(1) [rule_format, of x] piece(1) [of x] after [of x] q ae be rec(2)
        by (auto simp: range_set_nat)
      ultimately show ?thesis using rec(2) piece(2) IH(2,3) q(4) by auto
    qed
  qed
qed

text \<open>An exclusion that ends before every base range excludes nothing from them.\<close>

lemma drop_early_exclusions:
  assumes "\<forall>d \<in> set ds. \<forall>b \<in> set bs. unat (rend d) < unat (rstart b)"
  shows "ranges_set bs - ranges_set (ds @ es) = ranges_set bs - ranges_set es"
  using assms by (fastforce simp: ranges_set_def range_set_nat)

lemma subtract_loop_props:
  "separated bs \<Longrightarrow> separated es \<Longrightarrow>
   ranges_set (subtract_loop bs es) = ranges_set bs - ranges_set es
   \<and> (\<forall>r \<in> set (subtract_loop bs es). valid_range r)"
proof (induction bs es rule: subtract_loop.induct)
  case (1 es)
  then show ?case by simp
next
  case (2 b bs es)
  let ?s = "rstart b" and ?e = "rend b"
  define es1 where "es1 = skip_exclusions (u64 ?s) es"
  obtain ps c es2 where cut: "cut_loop (u64 ?s) (u64 ?e) es1 = (ps, c, es2)"
    by (cases "cut_loop (u64 ?s) (u64 ?e) es1") auto
  define tl where "tl = (if c \<le> u64 ?e then [IPv4Range (u32 c) ?e] else [])"
  have b: "unat ?s \<le> unat ?e" "\<forall>r \<in> set bs. unat ?e + 1 < unat (rstart r)" "separated bs"
    using "2.prems"(1) by (auto simp: valid_range_def word_le_nat_alt)
  obtain ds where ds: "es = ds @ es1" "\<forall>d \<in> set ds. unat (rend d) < unat ?s"
    using skip_exclusions_suffix [of es "u64 ?s"] by (auto simp: es1_def)
  then have sep1: "separated es1" using "2.prems"(2) separated_append by blast
  have ends: "\<forall>q \<in> set es1. unat (u64 ?s) \<le> unat (rend q)"
  proof (cases es1)
    case (Cons q qs)
    with skip_exclusions_head [of "u64 ?s" es q qs] sep1 separated_valid [of es1] show ?thesis
      by (fastforce simp: es1_def valid_range_def word_le_nat_alt)
  qed simp
  from cut_loop_props [OF cut sep1 _ ends] b(1)
  have P: "\<forall>x. x \<in> ranges_set ps \<or> unat c \<le> unat x \<and> unat x \<le> unat ?e
            \<longleftrightarrow> unat ?s \<le> unat x \<and> unat x \<le> unat ?e \<and> x \<notin> ranges_set es1"
      "\<forall>p \<in> set ps. valid_range p"
      "\<exists>ds. es1 = ds @ es2 \<and> (\<forall>d \<in> set ds. unat (rend d) < unat ?e)" by simp_all
  obtain ds2 where ds2: "es1 = ds2 @ es2" "\<forall>d \<in> set ds2. unat (rend d) < unat ?e" using P(3) by blast
  have IH: "ranges_set (subtract_loop bs es2) = ranges_set bs - ranges_set es2"
      "\<forall>r \<in> set (subtract_loop bs es2). valid_range r"
    using "2.IH" [OF cut [unfolded es1_def, symmetric] refl b(3)] separated_append sep1 ds2(1) by auto
  have tl: "x \<in> ranges_set tl \<longleftrightarrow> unat c \<le> unat x \<and> unat x \<le> unat ?e" "\<forall>r \<in> set tl. valid_range r" for x
    using unat_addr_less [of ?e]
    by (auto simp: tl_def word_le_nat_alt range_set_ordered_nat unat_u32 valid_range_def)
  have "ranges_set ps \<union> ranges_set tl = range_set b - ranges_set es1"
    using P(1) tl(1) by (auto simp: set_eq_iff range_set_nat)
  moreover have "range_set b - ranges_set es1 = range_set b - ranges_set es"
    using drop_early_exclusions [of ds "[b]" es1] ds by auto
  moreover have "ranges_set bs - ranges_set es2 = ranges_set bs - ranges_set es"
    using drop_early_exclusions [of "ds @ ds2" bs es2] ds ds2 b(1,2) by fastforce
  moreover have "subtract_loop (b # bs) es = ps @ tl @ subtract_loop bs es2"
    using cut by (simp add: es1_def tl_def)
  ultimately show ?case using IH P(2) tl(2) by auto
qed

lemma subtractIPv4Ranges_props:
  assumes "\<forall>r \<in> set bs. valid_range r" "\<forall>r \<in> set es. valid_range r"
  shows "ranges_set (subtractIPv4Ranges bs es) = ranges_set bs - ranges_set es"
    "\<forall>r \<in> set (subtractIPv4Ranges bs es). valid_range r"
proof -
  note m = mergeIPv4Ranges_props [OF assms(1)] mergeIPv4Ranges_props [OF assms(2)]
  show "ranges_set (subtractIPv4Ranges bs es) = ranges_set bs - ranges_set es"
    using subtract_loop_props [OF m(2,4)] m(1,3) by (auto simp: subtractIPv4Ranges_def Let_def)
  show "\<forall>r \<in> set (subtractIPv4Ranges bs es). valid_range r"
    using subtract_loop_props [OF m(2,4)] separated_valid [OF m(2)]
    by (auto simp: subtractIPv4Ranges_def Let_def)
qed

subsection \<open>Prefixes\<close>

lemma prefixRange_props:
  assumes "n \<le> 32"
  shows "range_set (prefixRange (a, n)) = prefix_set (a, n)" "valid_range (prefixRange (a, n))"
proof -
  let ?s = "fst (Masked (a, n))" and ?k = "32 - n"
  have pow: "unat (push_bit ?k (1 :: 64 word)) = 2 ^ ?k" by (rule unat_push_bit_1) simp
  have "2 ^ ?k dvd unat ?s" by (simp add: Masked_def unat_masked)
  then have fits: "unat ?s + 2 ^ ?k \<le> 4294967296"
  proof (rule dvdE)
    fix q assume q: "unat ?s = 2 ^ ?k * q"
    have two: "(4294967296::nat) = 2 ^ ?k * 2 ^ n"
      using assms by (simp flip: power_add)
    have "2 ^ ?k * q < 2 ^ ?k * 2 ^ n" using unat_addr_less [of ?s] by (simp only: q two)
    then have "Suc q \<le> 2 ^ n" by simp
    then have "2 ^ ?k * Suc q \<le> 2 ^ ?k * 2 ^ n" by (rule mult_le_mono2)
    then show ?thesis by (simp only: q two) simp
  qed
  then have "unat (u64 ?s + push_bit ?k 1) = unat ?s + 2 ^ ?k"
    by (simp only: unat_word_ariths(1) pow unat_u64) simp
  then have "unat (u64 ?s + push_bit ?k 1 - 1) = unat ?s + 2 ^ ?k - 1"
    using unat_pred [of "u64 ?s + push_bit ?k 1"] by (simp del: push_bit_of_1)
  then have last: "unat (u32 (u64 ?s + push_bit ?k 1 - 1)) = unat ?s + 2 ^ ?k - 1"
    using fits by (subst unat_u32) simp_all
  have pos: "(0::nat) < 2 ^ ?k" by simp
  have r: "prefixRange (a, n) = IPv4Range ?s (u32 (u64 ?s + push_bit ?k 1 - 1))"
    by (simp only: prefixRange_def Let_def snd_conv)
  have "x \<in> range_set (prefixRange (a, n)) \<longleftrightarrow> Contains (a, n) x" for x
    unfolding r range_set_ordered_nat Contains_interval last using pos by linarith
  then show "range_set (prefixRange (a, n)) = prefix_set (a, n)" by (auto simp: prefix_set_def)
  show "valid_range (prefixRange (a, n))"
    unfolding r valid_range_def word_le_nat_alt ipv4Range.sel last using pos by linarith
qed

lemma prefixesToIPv4Ranges_props:
  "ranges_set (prefixesToIPv4Ranges ps) = prefixes_set ps"
  "\<forall>r \<in> set (prefixesToIPv4Ranges ps). valid_range r"
proof -
  have "range_set (prefixRange p) = prefix_set p \<and> valid_range (prefixRange p)"
    if mem: "p \<in> set (List.map_filter ParsePrefix4 ps)" for p
  proof -
    obtain s where "ParsePrefix4 s = Some p" using map_filter_memD [OF mem] by blast
    then have "snd p \<le> 32" using ParsePrefix4_Some [of s "fst p" "snd p"] by simp
    then show ?thesis using prefixRange_props [of "snd p" "fst p"] by simp
  qed
  then show "ranges_set (prefixesToIPv4Ranges ps) = prefixes_set ps"
    "\<forall>r \<in> set (prefixesToIPv4Ranges ps). valid_range r"
    by (auto simp: prefixesToIPv4Ranges_def ranges_set_def prefixes_set_def)
qed

text \<open>The blocks of one range are aligned, in order, and cover the range exactly.\<close>

lemma cidr_loop_props:
  "(\<Union>p \<in> set (cidr_loop c e). prefix_set p) = {x. unat c \<le> unat x \<and> unat x \<le> unat e}
   \<and> (\<forall>p \<in> set (cidr_loop c e). snd p \<le> 32 \<and> Masked p = p)
   \<and> sorted_wrt (\<lambda>p q. prefix_set p \<inter> prefix_set q = {}) (cidr_loop c e)"
proof (induction c e rule: cidr_loop.induct)
  case (1 c e)
  show ?case
  proof (cases "c \<le> u64 e")
    case False
    then show ?thesis by (auto simp: cidr_loop.simps [of c e] word_nat_simps)
  next
    case True
    from True obtain j where j: "j \<le> 32" "unat (cidr_block c e) = 2 ^ j" "2 ^ j dvd unat c"
      "unat c + 2 ^ j \<le> unat e + 1" "unat (c + cidr_block c e) = unat c + 2 ^ j"
      by (rule cidr_block_facts)
    let ?p = "(u32 c, 32 - j)"
    have "cidr_block c e \<noteq> 0" using j(2) by (auto simp flip: unat_eq_0)
    then have "TrailingZeros64 (cidr_block c e) = j"
      by (simp add: TrailingZeros64_def j(2) trailing_zeros_power)
    then have loop: "cidr_loop c e = ?p # cidr_loop (c + cidr_block c e) e"
      using True by (simp add: cidr_loop.simps [of c e] Let_def)
    have uc: "unat (u32 c) = unat c"
      using True unat_addr_less [of e] by (simp add: unat_u32 word_nat_simps)
    have al: "Masked ?p = ?p" using j(1,3) uc by (intro Masked_aligned) simp
    have mem: "x \<in> prefix_set ?p \<longleftrightarrow> unat c \<le> unat x \<and> unat x < unat c + 2 ^ j" for x
      using j(1) by (simp add: prefix_set_def Contains_interval al uc)
    from "1.IH" [OF True refl] j(5)
    have IH: "(\<Union>p \<in> set (cidr_loop (c + cidr_block c e) e). prefix_set p)
        = {x. unat c + 2 ^ j \<le> unat x \<and> unat x \<le> unat e}"
      "\<forall>p \<in> set (cidr_loop (c + cidr_block c e) e). snd p \<le> 32 \<and> Masked p = p"
      "sorted_wrt (\<lambda>p q. prefix_set p \<inter> prefix_set q = {}) (cidr_loop (c + cidr_block c e) e)"
      by simp_all
    have "prefix_set q \<subseteq> {x. unat c + 2 ^ j \<le> unat x}" if "q \<in> set (cidr_loop (c + cidr_block c e) e)" for q
      using IH(1) that by blast
    moreover have "prefix_set ?p \<inter> {x. unat c + 2 ^ j \<le> unat x} = {}"
      using mem by (simp add: disjoint_iff)
    ultimately have "\<forall>q \<in> set (cidr_loop (c + cidr_block c e) e). prefix_set ?p \<inter> prefix_set q = {}"
      by blast
    moreover have "prefix_set ?p \<union> {x. unat c + 2 ^ j \<le> unat x \<and> unat x \<le> unat e}
        = {x. unat c \<le> unat x \<and> unat x \<le> unat e}"
    proof (rule set_eqI, unfold Un_iff mem mem_Collect_eq)
      fix x :: addr4
      have "unat c + 2 ^ j \<le> Suc (unat e)" using j(4) by simp
      then show "(unat c \<le> unat x \<and> unat x < unat c + 2 ^ j) \<or> unat c + 2 ^ j \<le> unat x \<and> unat x \<le> unat e
          \<longleftrightarrow> unat c \<le> unat x \<and> unat x \<le> unat e" by linarith
    qed
    ultimately show ?thesis using IH al by (simp add: loop)
  qed
qed

definition range_blocks :: "ipv4Range list \<Rightarrow> prefix4 list" where
  "range_blocks rs = concat (map (\<lambda>r. cidr_loop (u64 (rstart r)) (rend r)) rs)"

lemma range_blocks_props:
  "(\<Union>p \<in> set (range_blocks rs). prefix_set p) = ranges_set rs"
  "p \<in> set (range_blocks rs) \<Longrightarrow> snd p \<le> 32 \<and> Masked p = p"
  using cidr_loop_props
  by (fastforce simp: range_blocks_def ranges_set_def range_set_def word_le_nat_alt)+

lemma range_blocks_disjoint:
  "separated rs \<Longrightarrow> sorted_wrt (\<lambda>p q. prefix_set p \<inter> prefix_set q = {}) (range_blocks rs)"
proof (induction rs)
  case (Cons r rs)
  let ?l = "cidr_loop (u64 (rstart r)) (rend r)"
  have "prefix_set p \<subseteq> range_set r" if "p \<in> set ?l" for p
    using cidr_loop_props [of "u64 (rstart r)" "rend r"] that by (auto simp: range_set_nat)
  moreover have "prefix_set q \<subseteq> ranges_set rs" if "q \<in> set (range_blocks rs)" for q
    using range_blocks_props(1) [of rs] that by auto
  moreover have "range_set r \<inter> ranges_set rs = {}"
    using Cons.prems ranges_set_after [of rs "unat (rend r)"] by (fastforce simp: range_set_nat)
  ultimately have "\<forall>p \<in> set ?l. \<forall>q \<in> set (range_blocks rs). prefix_set p \<inter> prefix_set q = {}"
    by blast
  with Cons cidr_loop_props [of "u64 (rstart r)" "rend r"] show ?case
    by (simp add: range_blocks_def sorted_wrt_append)
qed (simp add: range_blocks_def)

lemma ipv4RangesToPrefixes_blocks:
  "ipv4RangesToPrefixes rs = map prefix_String (range_blocks (mergeIPv4Ranges rs))"
  by (simp add: ipv4RangesToPrefixes_def range_blocks_def)

lemma map_filter_prefix_String:
  "\<forall>p \<in> set ps. snd p \<le> 32 \<Longrightarrow> List.map_filter ParsePrefix4 (map prefix_String ps) = ps"
  by (induction ps) (simp_all add: map_filter_simps prefix_text.dec_enc)

lemma parsed_ipv4RangesToPrefixes:
  "List.map_filter ParsePrefix4 (ipv4RangesToPrefixes rs) = range_blocks (mergeIPv4Ranges rs)"
  unfolding ipv4RangesToPrefixes_blocks
  by (rule map_filter_prefix_String) (auto dest: range_blocks_props(2))

section \<open>The contract of the range arithmetic\<close>

locale ipv4_range_algebra =
  fixes from_prefixes :: "string list \<Rightarrow> 'r" and subtract :: "'r \<Rightarrow> 'r \<Rightarrow> 'r"
    and to_prefixes :: "'r \<Rightarrow> string list" and denote :: "'r \<Rightarrow> addr4 set" and wf_ranges :: "'r \<Rightarrow> bool"
  assumes from_wf: "wf_ranges (from_prefixes ps)"
    and from_denote: "denote (from_prefixes ps) = prefixes_set ps"
    and subtract_wf: "wf_ranges a \<Longrightarrow> wf_ranges b \<Longrightarrow> wf_ranges (subtract a b)"
    and subtract_denote: "wf_ranges a \<Longrightarrow> wf_ranges b \<Longrightarrow> denote (subtract a b) = denote a - denote b"
    and to_denote: "wf_ranges a \<Longrightarrow> prefixes_set (to_prefixes a) = denote a"
    and to_canonical: "p \<in> set (to_prefixes a) \<Longrightarrow>
      \<exists>q. ParsePrefix4 p = Some q \<and> Masked q = q \<and> p = prefix_String q"
begin

lemma computed_denote:
  "prefixes_set (to_prefixes (subtract (from_prefixes bs) (from_prefixes es)))
   = prefixes_set bs - prefixes_set es"
  by (simp add: to_denote subtract_wf from_wf subtract_denote from_denote)

lemma to_prefixes_empty_iff:
  assumes "wf_ranges a"
  shows "to_prefixes a = [] \<longleftrightarrow> denote a = {}"
proof
  assume "to_prefixes a = []"
  then show "denote a = {}" using to_denote [OF assms] by (simp add: prefixes_set_def map_filter_simps)
next
  assume none: "denote a = {}"
  show "to_prefixes a = []"
  proof (rule ccontr)
    assume "to_prefixes a \<noteq> []"
    then obtain p where p: "p \<in> set (to_prefixes a)" by (cases "to_prefixes a") auto
    then obtain q where "ParsePrefix4 p = Some q" using to_canonical by blast
    with p have "q \<in> set (List.map_filter ParsePrefix4 (to_prefixes a))" by (rule map_filter_memI)
    then have "prefix_set q \<subseteq> prefixes_set (to_prefixes a)" unfolding prefixes_set_def by blast
    moreover have "fst q \<in> prefix_set q" by (simp add: prefix_set_def Contains_def)
    ultimately show False using none to_denote [OF assms] by auto
  qed
qed

lemma computed_empty_iff:
  "to_prefixes (subtract (from_prefixes bs) (from_prefixes es)) = [] \<longleftrightarrow>
     prefixes_set bs \<subseteq> prefixes_set es"
  by (simp add: to_prefixes_empty_iff subtract_wf from_wf subtract_denote from_denote)

end

interpretation ranges: ipv4_range_algebra prefixesToIPv4Ranges subtractIPv4Ranges ipv4RangesToPrefixes
  ranges_set "\<lambda>rs. \<forall>r \<in> set rs. valid_range r"
proof
  fix ps :: "string list"
  show "\<forall>r \<in> set (prefixesToIPv4Ranges ps). valid_range r"
    "ranges_set (prefixesToIPv4Ranges ps) = prefixes_set ps"
    by (rule prefixesToIPv4Ranges_props)+
next
  fix a b :: "ipv4Range list"
  assume ab: "\<forall>r \<in> set a. valid_range r" "\<forall>r \<in> set b. valid_range r"
  show "\<forall>r \<in> set (subtractIPv4Ranges a b). valid_range r"
    "ranges_set (subtractIPv4Ranges a b) = ranges_set a - ranges_set b"
    using subtractIPv4Ranges_props [OF ab] by auto
next
  fix a :: "ipv4Range list"
  assume "\<forall>r \<in> set a. valid_range r"
  then show "prefixes_set (ipv4RangesToPrefixes a) = ranges_set a"
    by (simp add: prefixes_set_def parsed_ipv4RangesToPrefixes range_blocks_props(1) mergeIPv4Ranges_props)
next
  fix p and a :: "ipv4Range list"
  assume "p \<in> set (ipv4RangesToPrefixes a)"
  then show "\<exists>q. ParsePrefix4 p = Some q \<and> Masked q = q \<and> p = prefix_String q"
    using range_blocks_props(2) by (auto simp: ipv4RangesToPrefixes_blocks prefix_text.dec_enc)
qed

section \<open>Properties\<close>

text \<open>Merging keeps the addresses and leaves ranges that are sorted and separated by at least one
  address, even when a range ends at 255.255.255.255, where end + 1 needs the 64-bit width.\<close>

lemma mergeIPv4Ranges_correct:
  "\<forall>r \<in> set rs. valid_range r \<Longrightarrow>
   ranges_set (mergeIPv4Ranges rs) = ranges_set rs \<and> separated (mergeIPv4Ranges rs)"
  by (simp add: mergeIPv4Ranges_props)

text \<open>C19. The two-pointer subtraction removes exactly the excluded addresses.\<close>

theorem subtractIPv4Ranges_correct:
  "\<forall>r \<in> set bs. valid_range r \<Longrightarrow> \<forall>r \<in> set es. valid_range r \<Longrightarrow>
   ranges_set (subtractIPv4Ranges bs es) = ranges_set bs - ranges_set es"
  by (rule ranges.subtract_denote)

theorem subtractIPv4Ranges_correct_witness:
  "ranges_set (subtractIPv4Ranges [IPv4Range 0 0xFFFFFFFF] [IPv4Range 5 9, IPv4Range 0xFFFFFFFF 0xFFFFFFFF])
   = ranges_set [IPv4Range 0 0xFFFFFFFF] - ranges_set [IPv4Range 5 9, IPv4Range 0xFFFFFFFF 0xFFFFFFFF]"
  by (rule subtractIPv4Ranges_correct) (simp_all add: valid_range_def)

text \<open>The CIDR split of a list of ranges denotes exactly the addresses of the ranges, its blocks are
  aligned and printed canonically, and no two of them overlap.\<close>

lemma ipv4RangesToPrefixes_correct:
  "\<forall>r \<in> set rs. valid_range r \<Longrightarrow>
   prefixes_set (ipv4RangesToPrefixes rs) = ranges_set rs
   \<and> (\<forall>p \<in> set (ipv4RangesToPrefixes rs). \<exists>q. ParsePrefix4 p = Some q \<and> Masked q = q \<and> p = prefix_String q)
   \<and> sorted_wrt (\<lambda>p q. prefix_set p \<inter> prefix_set q = {})
        (List.map_filter ParsePrefix4 (ipv4RangesToPrefixes rs))"
  using ranges.to_denote ranges.to_canonical range_blocks_disjoint [OF mergeIPv4Ranges_props(2)]
  by (simp add: parsed_ipv4RangesToPrefixes)


end
