(* ===== verification/Routing.thy ===== *)
theory Routing
  imports Routing_Ranges
begin

text \<open>
  The client routing policy, \<^verbatim>\<open>src/internal/clients/routing.go\<close>: validation and normalisation of a
  policy, and the \<open>AllowedIPs\<close> text of the generated client configuration. A nil policy is
  \<open>None\<close>. The properties say that a normalised policy is a fixpoint of normalisation, that it
  can always be rendered, and that what is rendered denotes exactly the addresses the policy
  routes.
\<close>

section \<open>Model\<close>

record Routing =
  Mode :: string
  AllowedIPs :: "string list"
  ExcludedIPs :: "string list"

definition RoutingModeFull :: string where "RoutingModeFull = ''full''"
definition RoutingModeSplit :: string where "RoutingModeSplit = ''split''"
definition RoutingModeBypass :: string where "RoutingModeBypass = ''bypass''"
definition MaxRoutingListEntries :: nat where "MaxRoutingListEntries = 4096"
definition MaxComputedRoutingCIDRs :: nat where "MaxComputedRoutingCIDRs = 16384"
definition fullTunnelAllowedIPs :: string where "fullTunnelAllowedIPs = ''0.0.0.0/0, ::/0''"

lemmas routing_consts = RoutingModeFull_def RoutingModeSplit_def RoutingModeBypass_def

definition invalidRouting :: "string \<Rightarrow> string \<Rightarrow> go_error" where
  "invalidRouting field reason = RoutingValidationError field reason"

definition quoted :: "string \<Rightarrow> string" where
  "quoted s = [CHR 0x22] @ s @ [CHR 0x22]"

definition modeError :: go_error where
  "modeError = invalidRouting ''routing.mode''
     (''must be '' @ quoted ''full'' @ '', '' @ quoted ''split'' @ '', or '' @ quoted ''bypass'')"

text \<open>The loop of \<open>normalizeIPv4Prefixes\<close>; \<open>seen\<close> is both the output so far and the duplicate set.\<close>

fun normalize_loop :: "string \<Rightarrow> nat \<Rightarrow> string list \<Rightarrow> string list \<Rightarrow> (string list) res" where
  "normalize_loop field i seen [] = Inr seen"
| "normalize_loop field i seen (value # values) =
     (case ParsePrefix4 value of
        None \<Rightarrow> Inl (invalidRouting (field @ ''['' @ dec_nat i @ '']'') ''must be a valid IPv4 CIDR'')
      | Some prefix \<Rightarrow>
          (let normalized = prefix_String (Masked prefix) in
           if normalized \<in> set seen then normalize_loop field (Suc i) seen values
           else normalize_loop field (Suc i) (seen @ [normalized]) values))"

definition normalizeIPv4Prefixes :: "string list \<Rightarrow> string \<Rightarrow> (string list) res" where
  "normalizeIPv4Prefixes values field = normalize_loop field 0 [] values"

definition computedIPv4AllowedIPs :: "Routing \<Rightarrow> (string list) res" where
  "computedIPv4AllowedIPs routing =
     (let base = (if Mode routing = RoutingModeBypass then [''0.0.0.0/0''] else AllowedIPs routing);
          remaining = subtractIPv4Ranges (prefixesToIPv4Ranges base) (prefixesToIPv4Ranges (ExcludedIPs routing));
          computed = ipv4RangesToPrefixes remaining
      in if computed = [] then
           Inl (invalidRouting ''routing.excluded_ips'' ''must not exclude the complete IPv4 routing set'')
         else if length computed > MaxComputedRoutingCIDRs then
           Inl (invalidRouting ''routing.excluded_ips''
                  (''computed routing exceeds '' @ dec_nat MaxComputedRoutingCIDRs @ '' IPv4 CIDRs''))
         else Inr computed)"

text \<open>The tail of \<open>NormalizeRouting\<close> after the mode switch.\<close>

definition normalizeLists :: "Routing \<Rightarrow> (Routing option) res" where
  "normalizeLists routing =
     (if length (AllowedIPs routing) > MaxRoutingListEntries then
        Inl (invalidRouting ''routing.allowed_ips''
               (''must not contain more than '' @ dec_nat MaxRoutingListEntries @ '' entries''))
      else if length (ExcludedIPs routing) > MaxRoutingListEntries then
        Inl (invalidRouting ''routing.excluded_ips''
               (''must not contain more than '' @ dec_nat MaxRoutingListEntries @ '' entries''))
      else
        res_bind (normalizeIPv4Prefixes (AllowedIPs routing) ''routing.allowed_ips'') (\<lambda>allowedIPs.
        res_bind (normalizeIPv4Prefixes (ExcludedIPs routing) ''routing.excluded_ips'') (\<lambda>excludedIPs.
          let normalized = \<lparr>Mode = Mode routing, AllowedIPs = allowedIPs, ExcludedIPs = excludedIPs\<rparr> in
          if length excludedIPs > 0 then
            res_bind (computedIPv4AllowedIPs normalized) (\<lambda>_. Inr (Some normalized))
          else Inr (Some normalized))))"

fun NormalizeRouting :: "Routing option \<Rightarrow> (Routing option) res" where
  "NormalizeRouting None = Inr None"
| "NormalizeRouting (Some routing) =
     (if Mode routing = RoutingModeFull then
        if length (AllowedIPs routing) > 0 then
          Inl (invalidRouting ''routing.allowed_ips'' (''must be empty when mode is '' @ quoted ''full''))
        else if length (ExcludedIPs routing) > 0 then
          Inl (invalidRouting ''routing.excluded_ips'' (''must be empty when mode is '' @ quoted ''full''))
        else Inr None
      else if Mode routing = RoutingModeBypass then
        if length (AllowedIPs routing) > 0 then
          Inl (invalidRouting ''routing.allowed_ips'' (''must be empty when mode is '' @ quoted ''bypass''))
        else if length (ExcludedIPs routing) = 0 then
          Inl (invalidRouting ''routing.excluded_ips''
                 (''must contain at least one IPv4 CIDR when mode is '' @ quoted ''bypass''))
        else normalizeLists routing
      else if Mode routing = RoutingModeSplit then
        if length (AllowedIPs routing) = 0 then
          Inl (invalidRouting ''routing.allowed_ips''
                 (''must contain at least one IPv4 CIDR when mode is '' @ quoted ''split''))
        else normalizeLists routing
      else Inl modeError)"

definition EffectiveRouting :: "Routing option \<Rightarrow> Routing" where
  "EffectiveRouting routing = (case routing of
      None \<Rightarrow> \<lparr>Mode = RoutingModeFull, AllowedIPs = [], ExcludedIPs = []\<rparr>
    | Some r \<Rightarrow> \<lparr>Mode = Mode r, AllowedIPs = AllowedIPs r, ExcludedIPs = ExcludedIPs r\<rparr>)"

fun routingAllowedIPs :: "Routing option \<Rightarrow> string res" where
  "routingAllowedIPs None = Inr fullTunnelAllowedIPs"
| "routingAllowedIPs (Some routing) =
     (if Mode routing = RoutingModeFull then Inr fullTunnelAllowedIPs
      else if Mode routing = RoutingModeSplit \<and> length (ExcludedIPs routing) = 0 then
        Inr (join_str '', '' (AllowedIPs routing))
      else if Mode routing \<noteq> RoutingModeSplit \<and> Mode routing \<noteq> RoutingModeBypass then Inl modeError
      else
        res_bind (computedIPv4AllowedIPs routing) (\<lambda>computed.
          let allowedIPs = join_str '', '' computed in
          Inr (if Mode routing = RoutingModeBypass then allowedIPs @ '', ::/0'' else allowedIPs)))"

section \<open>Normalised prefix lists\<close>

definition canonical_prefix :: "string \<Rightarrow> bool" where
  "canonical_prefix s = (case ParsePrefix4 s of None \<Rightarrow> False | Some p \<Rightarrow> prefix_String (Masked p) = s)"

lemma canonical_prefix_Masked:
  assumes "ParsePrefix4 v = Some p"
  shows "ParsePrefix4 (prefix_String (Masked p)) = Some (Masked p)" "canonical_prefix (prefix_String (Masked p))"
proof -
  have "snd p \<le> 32" using ParsePrefix4_Some [of v "fst p" "snd p"] assms by simp
  then show "ParsePrefix4 (prefix_String (Masked p)) = Some (Masked p)"
    by (simp add: prefix_text.dec_enc Masked_def)
  then show "canonical_prefix (prefix_String (Masked p))" by (simp add: canonical_prefix_def)
qed

lemma prefixes_set_append [simp]: "prefixes_set (ps @ qs) = prefixes_set ps \<union> prefixes_set qs"
  by (simp add: prefixes_set_def map_filter_append)

lemma prefixes_set_Cons: "ParsePrefix4 v = Some p \<Longrightarrow> prefixes_set (v # vs) = prefix_set p \<union> prefixes_set vs"
  by (simp add: prefixes_set_def map_filter_simps)

lemma prefixes_set_mem:
  "s \<in> set seen \<Longrightarrow> ParsePrefix4 s = Some p \<Longrightarrow> prefix_set p \<subseteq> prefixes_set seen"
  unfolding prefixes_set_def by (blast intro: map_filter_memI)

text \<open>
  A successful normalisation keeps the addresses, and yields canonical, distinct prefixes, no more
  than it was given and none only when given none.
\<close>

lemma normalize_loop_props:
  assumes "normalize_loop field i seen vs = Inr out" "distinct seen" "\<forall>s \<in> set seen. canonical_prefix s"
  shows "distinct out \<and> (\<forall>s \<in> set out. canonical_prefix s)
    \<and> prefixes_set out = prefixes_set seen \<union> prefixes_set vs
    \<and> length out \<le> length seen + length vs \<and> (out = [] \<longrightarrow> seen = [] \<and> vs = [])"
  using assms
proof (induction vs arbitrary: i seen)
  case Nil
  then show ?case by (auto simp: prefixes_set_def map_filter_simps)
next
  case (Cons v vs)
  then obtain p where p: "ParsePrefix4 v = Some p" by (auto split: option.splits)
  let ?n = "prefix_String (Masked p)"
  note canon = canonical_prefix_Masked [OF p]
  show ?case
  proof (cases "?n \<in> set seen")
    case True
    then have "prefix_set p \<subseteq> prefixes_set seen" using prefixes_set_mem [OF _ canon(1)] by simp
    moreover have "normalize_loop field (Suc i) seen vs = Inr out"
      using Cons.prems(1) p True by (simp add: Let_def)
    ultimately show ?thesis
      using Cons.IH [of "Suc i" seen] Cons.prems(2,3) p True by (auto simp: prefixes_set_Cons)
  next
    case False
    have "prefixes_set [?n] = prefix_set p" using canon(1) by (simp add: prefixes_set_def map_filter_simps)
    moreover have "normalize_loop field (Suc i) (seen @ [?n]) vs = Inr out"
      using Cons.prems(1) p False by (simp add: Let_def)
    ultimately show ?thesis
      using Cons.IH [of "Suc i" "seen @ [?n]"] Cons.prems(2,3) p False canon(2)
      by (auto simp: prefixes_set_Cons)
  qed
qed

lemma normalize_loop_canonical:
  "distinct (seen @ vs) \<Longrightarrow> \<forall>s \<in> set vs. canonical_prefix s \<Longrightarrow>
   normalize_loop field i seen vs = Inr (seen @ vs)"
proof (induction vs arbitrary: i seen)
  case (Cons v vs)
  then obtain p where "ParsePrefix4 v = Some p" "prefix_String (Masked p) = v"
    by (auto simp: canonical_prefix_def split: option.splits)
  with Cons show ?case by (simp add: Let_def)
qed simp

lemma normalizeIPv4Prefixes_props:
  assumes "normalizeIPv4Prefixes vs field = Inr out"
  shows "normalizeIPv4Prefixes out field' = Inr out" "prefixes_set out = prefixes_set vs"
    "length out \<le> length vs" "out = [] \<longleftrightarrow> vs = []" "s \<in> set out \<Longrightarrow> canonical_prefix s"
proof -
  have p: "distinct out" "\<forall>s \<in> set out. canonical_prefix s" "prefixes_set out = prefixes_set vs"
    "length out \<le> length vs" "out = [] \<longrightarrow> vs = []"
    using normalize_loop_props [OF assms [unfolded normalizeIPv4Prefixes_def]]
    by (auto simp: prefixes_set_def map_filter_simps)
  show "normalizeIPv4Prefixes out field' = Inr out"
    unfolding normalizeIPv4Prefixes_def using normalize_loop_canonical [of "[]" out] p(1,2) by simp
  show "prefixes_set out = prefixes_set vs" "length out \<le> length vs" by (fact p)+
  show "out = [] \<longleftrightarrow> vs = []" using p(4,5) by auto
  show "s \<in> set out \<Longrightarrow> canonical_prefix s" using p(2) by blast
qed

section \<open>What a policy routes\<close>

text \<open>The IPv4 addresses a policy sends through the tunnel.\<close>

definition routed_set :: "Routing option \<Rightarrow> addr4 set" where
  "routed_set routing = (case routing of
      None \<Rightarrow> UNIV
    | Some r \<Rightarrow>
        if Mode r = RoutingModeSplit then prefixes_set (AllowedIPs r) - prefixes_set (ExcludedIPs r)
        else if Mode r = RoutingModeBypass then UNIV - prefixes_set (ExcludedIPs r)
        else UNIV)"

definition routed_base :: "Routing \<Rightarrow> addr4 set" where
  "routed_base r = (if Mode r = RoutingModeBypass then UNIV else prefixes_set (AllowedIPs r))"

lemma parse_default_route: "ParsePrefix4 ''0.0.0.0/0'' = Some (0, 0)"
  by (simp add: ParsePrefix4_def ParseAddr4_def valid_octet_def no_leading_zero_def octets_addr_def go_eval)

lemma prefixes_set_default_route: "prefixes_set [''0.0.0.0/0''] = UNIV"
proof -
  have "Contains (0, 0) x" for x using unat_addr_less [of x] by (simp add: Contains_nat)
  then show ?thesis by (simp add: prefixes_set_def map_filter_simps parse_default_route prefix_set_def)
qed

lemma computed_Inr:
  assumes "computedIPv4AllowedIPs r = Inr cs"
  shows "cs \<noteq> []" "length cs \<le> MaxComputedRoutingCIDRs"
    "prefixes_set cs = (if Mode r = RoutingModeBypass then UNIV else prefixes_set (AllowedIPs r))
       - prefixes_set (ExcludedIPs r)"
  using assms prefixes_set_default_route
  by (auto simp: computedIPv4AllowedIPs_def Let_def ranges.computed_denote split: if_splits)

lemma normalizeLists_Inr:
  assumes "normalizeLists r = Inr n"
  obtains al ex where "n = Some \<lparr>Mode = Mode r, AllowedIPs = al, ExcludedIPs = ex\<rparr>"
    "normalizeIPv4Prefixes (AllowedIPs r) ''routing.allowed_ips'' = Inr al"
    "normalizeIPv4Prefixes (ExcludedIPs r) ''routing.excluded_ips'' = Inr ex"
    "length (AllowedIPs r) \<le> MaxRoutingListEntries" "length (ExcludedIPs r) \<le> MaxRoutingListEntries"
    "ex \<noteq> [] \<longrightarrow> (\<exists>cs. computedIPv4AllowedIPs \<lparr>Mode = Mode r, AllowedIPs = al, ExcludedIPs = ex\<rparr> = Inr cs)"
  using assms by (auto simp: normalizeLists_def res_simps Let_def split: if_splits)

lemma NormalizeRouting_Inr_Some:
  assumes "NormalizeRouting (Some r) = Inr (Some n)"
  shows "normalizeLists r = Inr (Some n) \<and>
    (Mode r = RoutingModeBypass \<and> AllowedIPs r = [] \<and> ExcludedIPs r \<noteq> []
     \<or> Mode r = RoutingModeSplit \<and> AllowedIPs r \<noteq> [])"
  using assms by (auto split: if_splits)

lemma normalizeLists_fixpoint:
  assumes "normalizeLists r = Inr (Some n)"
  shows "normalizeLists n = Inr (Some n) \<and> Mode n = Mode r
    \<and> (AllowedIPs n = [] \<longleftrightarrow> AllowedIPs r = []) \<and> (ExcludedIPs n = [] \<longleftrightarrow> ExcludedIPs r = [])"
  using assms
proof (rule normalizeLists_Inr)
  fix al ex
  assume n: "Some n = Some \<lparr>Mode = Mode r, AllowedIPs = al, ExcludedIPs = ex\<rparr>"
    and al: "normalizeIPv4Prefixes (AllowedIPs r) ''routing.allowed_ips'' = Inr al"
    and ex: "normalizeIPv4Prefixes (ExcludedIPs r) ''routing.excluded_ips'' = Inr ex"
    and len: "length (AllowedIPs r) \<le> MaxRoutingListEntries" "length (ExcludedIPs r) \<le> MaxRoutingListEntries"
    and comp: "ex \<noteq> [] \<longrightarrow>
      (\<exists>cs. computedIPv4AllowedIPs \<lparr>Mode = Mode r, AllowedIPs = al, ExcludedIPs = ex\<rparr> = Inr cs)"
  note A = normalizeIPv4Prefixes_props [OF al] and E = normalizeIPv4Prefixes_props [OF ex]
  have "normalizeLists n = Inr (Some n)"
    using n len comp A(1,3) E(1,3) by (auto simp: normalizeLists_def Let_def)
  with n A(4) E(4) show ?thesis by simp
qed

lemma routed_set_normalized:
  assumes "NormalizeRouting (Some r) = Inr (Some n)"
  shows "routed_set (Some n) = routed_set (Some r)"
proof -
  note N = NormalizeRouting_Inr_Some [OF assms]
  then obtain al ex where "n = \<lparr>Mode = Mode r, AllowedIPs = al, ExcludedIPs = ex\<rparr>"
    "normalizeIPv4Prefixes (AllowedIPs r) ''routing.allowed_ips'' = Inr al"
    "normalizeIPv4Prefixes (ExcludedIPs r) ''routing.excluded_ips'' = Inr ex"
    by (auto elim: normalizeLists_Inr)
  with N show ?thesis by (auto simp: routed_set_def normalizeIPv4Prefixes_props(2))
qed

lemma NormalizeRouting_Inr_None:
  "NormalizeRouting (Some r) = Inr None \<Longrightarrow> Mode r = RoutingModeFull"
  by (auto simp: normalizeLists_def res_simps Let_def split: if_splits)

lemma routed_set_preserved:
  assumes "NormalizeRouting r = Inr n"
  shows "routed_set n = routed_set r"
proof (cases r)
  case (Some r')
  with assms routed_set_normalized NormalizeRouting_Inr_None show ?thesis
    by (cases n) (auto simp: routed_set_def routing_consts simp del: NormalizeRouting.simps)
qed (use assms in simp)

text \<open>Rendering of a policy that normalisation returned.\<close>

lemma routingAllowedIPs_Some:
  assumes "NormalizeRouting (Some r) = Inr (Some n)"
  shows "\<exists>ps. routingAllowedIPs (Some n) =
      Inr (join_str '', '' (ps @ (if Mode n = RoutingModeBypass then [''::/0''] else [])))
      \<and> ps \<noteq> [] \<and> prefixes_set ps = routed_set (Some n)"
proof -
  note N = NormalizeRouting_Inr_Some [OF assms]
  then have F: "normalizeLists n = Inr (Some n)" "Mode n = Mode r" "AllowedIPs n = [] \<longleftrightarrow> AllowedIPs r = []"
    "ExcludedIPs n = [] \<longleftrightarrow> ExcludedIPs r = []"
    using normalizeLists_fixpoint [of r n] by auto
  show ?thesis
  proof (cases "ExcludedIPs n = []")
    case True
    with N F have "Mode n = RoutingModeSplit" "AllowedIPs n \<noteq> []" by auto
    with True show ?thesis
      by (auto simp: routing_consts routed_set_def prefixes_set_def map_filter_simps
          intro!: exI [of _ "AllowedIPs n"])
  next
    case False
    with F(1) obtain cs where cs: "computedIPv4AllowedIPs n = Inr cs"
      by (auto elim!: normalizeLists_Inr dest: normalizeIPv4Prefixes_props(4))
    note C = computed_Inr [OF cs]
    consider "Mode n = RoutingModeBypass" | "Mode n = RoutingModeSplit" using N F(2) by auto
    then show ?thesis
    proof cases
      case 1
      then have "routingAllowedIPs (Some n) = Inr (join_str '', '' (cs @ [''::/0'']))"
        using cs C(1) by (simp add: routing_consts join_str_snoc Let_def)
      with 1 C show ?thesis by (intro exI [of _ cs]) (simp add: routed_set_def routing_consts)
    next
      case 2
      then have "routingAllowedIPs (Some n) = Inr (join_str '', '' cs)"
        using cs False by (simp add: routing_consts Let_def)
      with 2 C show ?thesis by (intro exI [of _ cs]) (simp add: routed_set_def routing_consts)
    qed
  qed
qed

lemma NormalizeRouting_idem:
  "NormalizeRouting r = Inr n \<Longrightarrow> NormalizeRouting n = Inr n"
proof (cases r)
  case (Some r')
  assume ok: "NormalizeRouting r = Inr n"
  show ?thesis
  proof (cases n)
    case (Some n')
    with ok \<open>r = Some r'\<close> have "NormalizeRouting (Some r') = Inr (Some n')" by simp
    note N = NormalizeRouting_Inr_Some [OF this]
    from N normalizeLists_fixpoint [of r' n'] Some show ?thesis by (auto simp: routing_consts)
  qed simp
qed auto

section \<open>Properties\<close>

text \<open>C20. Normalisation is idempotent: a policy that NormalizeRouting returned is accepted again and
  returned unchanged, which is what lets a restart re-validate the stored policies.\<close>

theorem NormalizeRouting_idempotent:
  "NormalizeRouting r = Inr n \<Longrightarrow> NormalizeRouting n = Inr n"
  by (rule NormalizeRouting_idem)

abbreviation example_split :: Routing where
  "example_split \<equiv> \<lparr>Mode = ''split'', AllowedIPs = [''10.0.0.7/24'', ''10.0.0.0/24''], ExcludedIPs = []\<rparr>"

lemma NormalizeRouting_example:
  "NormalizeRouting (Some example_split)
   = Inr (Some \<lparr>Mode = ''split'', AllowedIPs = [''10.0.0.0/24''], ExcludedIPs = []\<rparr>)"
proof -
  have "ParsePrefix4 ''10.0.0.7/24'' = Some (0x0A000007, 24)" "ParsePrefix4 ''10.0.0.0/24'' = Some (0x0A000000, 24)"
    by (simp_all add: ParsePrefix4_def ParseAddr4_def valid_octet_def no_leading_zero_def octets_addr_def go_eval)
  moreover have "Masked (0x0A000007, 24) = (0x0A000000, 24)" "Masked (0x0A000000, 24) = (0x0A000000, 24)"
    by (simp_all add: Masked_def word_unat_eq_iff unat_masked)
  moreover have "prefix_String (0x0A000000, 24) = ''10.0.0.0/24''"
    by (simp add: prefix_String_def addr_String_def addr_octets_def go_eval)
  ultimately show ?thesis
    by (simp add: routing_consts normalizeLists_def normalizeIPv4Prefixes_def MaxRoutingListEntries_def Let_def)
qed

theorem NormalizeRouting_idempotent_witness:
  "NormalizeRouting (Some \<lparr>Mode = ''split'', AllowedIPs = [''10.0.0.0/24''], ExcludedIPs = []\<rparr>)
   = Inr (Some \<lparr>Mode = ''split'', AllowedIPs = [''10.0.0.0/24''], ExcludedIPs = []\<rparr>)"
  by (rule NormalizeRouting_idempotent [OF NormalizeRouting_example])

text \<open>Normalisation does not change what is routed: the normalised policy sends exactly the
  addresses of the requested policy through the tunnel.\<close>

lemma NormalizeRouting_preserves_routes:
  "NormalizeRouting r = Inr n \<Longrightarrow> routed_set n = routed_set r"
  by (rule routed_set_preserved)



text \<open>A split or bypass policy is refused with an error on routing.excluded_ips exactly when the exclusions
  cover everything it would route or the result needs more than 16384 CIDRs.\<close>

lemma computedIPv4AllowedIPs_error:
  "(\<exists>e. computedIPv4AllowedIPs r = Inl e) \<longleftrightarrow>
     routed_base r \<subseteq> prefixes_set (ExcludedIPs r)
     \<or> MaxComputedRoutingCIDRs < length (ipv4RangesToPrefixes
         (subtractIPv4Ranges (prefixesToIPv4Ranges
            (if Mode r = RoutingModeBypass then [''0.0.0.0/0''] else AllowedIPs r))
          (prefixesToIPv4Ranges (ExcludedIPs r))))"
  using prefixes_set_default_route
  by (simp add: computedIPv4AllowedIPs_def Let_def ranges.computed_empty_iff routed_base_def)

end
