(* ===== verification/Uint16_Range.thy ===== *)
theory Uint16_Range
  imports Go_Prelude
begin

text \<open>
  The configuration's unsigned 16-bit scalar-or-range type, \<^verbatim>\<open>src/internal/config/range.go\<close>: the
  parser, the canonical form, the printer and the JSON forms. A JSON document is the value that
  \<open>encoding/json\<close> hands to \<open>UnmarshalJSON\<close>; a number keeps its literal text, as Go's raw
  message does. The lemmas show that the parser accepts exactly the texts the comments describe,
  that printing and parsing agree up to the canonical form, and that the canonical form is
  a fixpoint.
\<close>

section \<open>Model\<close>

datatype json = JNull | JBool bool | JNum string | JStr string | JArr "json list"
  | JObj "(string \<times> json) list"

datatype uint16RangeKind = uint16RangeScalar | uint16RangeSpan | uint16RangeOff

record Uint16Range =
  kind :: uint16RangeKind
  range_start :: "16 word"
  range_end :: "16 word"

definition parseUint16Decimal :: "string \<Rightarrow> (16 word) res" where
  "parseUint16Decimal value =
     (if value = [] then Inl (Plain ''empty decimal value'')
      else if \<not> all_digits value then Inl (Plain ''non-decimal value'')
      else (case parse_uint 16 value of
              None \<Rightarrow> Inl (Plain (''strconv.ParseUint: parsing '' @ [CHR 0x22] @ value @ [CHR 0x22]
                             @ '': value out of range''))
            | Some n \<Rightarrow> Inr (of_nat n)))"

definition ParseUint16Range :: "string \<Rightarrow> Uint16Range res" where
  "ParseUint16Range value =
     (if value = ''off'' then Inr \<lparr>kind = uint16RangeOff, range_start = 0, range_end = 0\<rparr>
      else if count_list value (CHR ''-'') = 0 then
        res_bind (map_err (\<lambda>e. Wrap ''parse unsigned 16-bit range: '' e []) (parseUint16Decimal value))
          (\<lambda>scalar. Inr \<lparr>kind = uint16RangeScalar, range_start = scalar, range_end = scalar\<rparr>)
      else if count_list value (CHR ''-'') \<noteq> 1 then
        Inl (Plain ''parse unsigned 16-bit range: malformed range'')
      else
        (let parts = split_on (CHR ''-'') value in
         res_bind (map_err (\<lambda>e. Wrap ''parse unsigned 16-bit range start: '' e [])
                     (parseUint16Decimal (parts ! 0)))
           (\<lambda>start. res_bind (map_err (\<lambda>e. Wrap ''parse unsigned 16-bit range end: '' e [])
                                (parseUint16Decimal (parts ! 1)))
              (\<lambda>end'. if start > end'
                 then Inl (Plain ''parse unsigned 16-bit range: start must not exceed end'')
                 else Inr \<lparr>kind = uint16RangeSpan, range_start = start, range_end = end'\<rparr>))))"

definition IsScalar :: "Uint16Range \<Rightarrow> bool" where
  "IsScalar value = (kind value = uint16RangeScalar)"

definition IsCanonical :: "Uint16Range \<Rightarrow> bool" where
  "IsCanonical value =
     (kind value = uint16RangeScalar \<or>
      kind value = uint16RangeSpan \<and> range_start value \<noteq> range_end value)"

definition Canonical :: "Uint16Range \<Rightarrow> Uint16Range" where
  "Canonical value =
     (if IsCanonical value then value
      else \<lparr>kind = uint16RangeScalar, range_start = range_start value, range_end = range_start value\<rparr>)"

definition range_Scalar :: "Uint16Range \<Rightarrow> 16 word \<times> bool" where
  "range_Scalar value = (if \<not> IsScalar value then (0, False) else (range_start value, True))"

definition range_String :: "Uint16Range \<Rightarrow> string" where
  "range_String value =
     (let canonical = Canonical value in
      case kind canonical of
        uint16RangeSpan \<Rightarrow> dec_nat (unat (range_start canonical)) @ ''-'' @ dec_nat (unat (range_end canonical))
      | _ \<Rightarrow> dec_nat (unat (range_start canonical)))"

definition range_MarshalJSON :: "Uint16Range \<Rightarrow> json" where
  "range_MarshalJSON value =
     (let canonical = Canonical value in
      if IsScalar canonical then JNum (range_String canonical) else JStr (range_String canonical))"

fun range_UnmarshalJSON :: "json \<Rightarrow> Uint16Range res" where
  "range_UnmarshalJSON JNull = Inl (Plain ''unsigned 16-bit range cannot be null'')"
| "range_UnmarshalJSON (JStr text) = ParseUint16Range text"
| "range_UnmarshalJSON (JNum literal) = ParseUint16Range literal"
| "range_UnmarshalJSON (JBool b) = ParseUint16Range (if b then ''true'' else ''false'')"
| "range_UnmarshalJSON (JArr xs) =
     Inl (Wrap ''parse unsigned 16-bit range: '' (Plain ''non-decimal value'') [])"
| "range_UnmarshalJSON (JObj xs) =
     Inl (Wrap ''parse unsigned 16-bit range: '' (Plain ''non-decimal value'') [])"

text \<open>What the parser establishes of every value it returns.\<close>

definition range_wf :: "Uint16Range \<Rightarrow> bool" where
  "range_wf r = (case kind r of
      uint16RangeScalar \<Rightarrow> range_start r = range_end r
    | uint16RangeSpan \<Rightarrow> range_start r \<le> range_end r
    | uint16RangeOff \<Rightarrow> range_start r = 0 \<and> range_end r = 0)"

section \<open>Lemmas\<close>

lemma parseUint16Decimal_Inr:
  "parseUint16Decimal s = Inr w \<longleftrightarrow>
     s \<noteq> [] \<and> all_digits s \<and> dec_val s < 65536 \<and> w = of_nat (dec_val s)"
  by (auto simp: parseUint16Decimal_def parse_uint_def split: if_splits)

lemma parseUint16Decimal_dec_nat [simp]: "parseUint16Decimal (dec_nat (unat w)) = Inr w"
  for w :: "16 word"
proof -
  have "unat w < 65536" using unsigned_less [of w, where ?'a = nat] by simp
  then show ?thesis by (simp add: parseUint16Decimal_Inr)
qed

lemma dec_nat_not_off [simp]: "dec_nat n \<noteq> ''off''" "dec_nat m @ CHR ''-'' # t \<noteq> ''off''"
proof -
  have "hd (dec_nat k) \<noteq> CHR ''o''" for k
    using all_digits_dec_nat [of k] by (cases "dec_nat k") (auto simp: is_digit_def)
  then show "dec_nat n \<noteq> ''off''" "dec_nat m @ CHR ''-'' # t \<noteq> ''off''"
    by (metis list.sel(1), metis dec_nat_not_Nil hd_append2 list.sel(1))
qed

lemma count_dash_dec_nat [simp]: "count_list (dec_nat n) (CHR ''-'') = 0"
  by (simp add: count_list_0_iff)

lemma Parse_scalar:
  "ParseUint16Range (dec_nat (unat w)) =
     Inr \<lparr>kind = uint16RangeScalar, range_start = w, range_end = w\<rparr>"
  by (simp add: ParseUint16Range_def)

lemma Parse_span:
  "ParseUint16Range (dec_nat (unat a) @ ''-'' @ dec_nat (unat b)) =
     (if a \<le> b then Inr \<lparr>kind = uint16RangeSpan, range_start = a, range_end = b\<rparr>
      else Inl (Plain ''parse unsigned 16-bit range: start must not exceed end''))"
proof -
  have "split_on (CHR ''-'') (dec_nat (unat a) @ ''-'' @ dec_nat (unat b)) =
      [dec_nat (unat a), dec_nat (unat b)]"
    by (simp add: split_on_append split_on_no_sep)
  then show ?thesis by (auto simp: ParseUint16Range_def)
qed

lemma Canonical_idem [simp]: "Canonical (Canonical r) = Canonical r"
  by (simp add: Canonical_def IsCanonical_def)

lemma IsCanonical_Canonical [simp]: "IsCanonical (Canonical r)"
  by (simp add: Canonical_def IsCanonical_def)

lemma range_String_Canonical [simp]: "range_String (Canonical r) = range_String r"
  by (simp add: range_String_def)

lemma Canonical_wf: "range_wf r \<Longrightarrow> range_wf (Canonical r)"
  by (auto simp: Canonical_def range_wf_def)

lemma Canonical_cases:
  assumes "range_wf r"
  obtains (scalar) w where "Canonical r = \<lparr>kind = uint16RangeScalar, range_start = w, range_end = w\<rparr>"
  | (span) a b where "Canonical r = \<lparr>kind = uint16RangeSpan, range_start = a, range_end = b\<rparr>" "a < b"
proof -
  have "range_wf (Canonical r)" "IsCanonical (Canonical r)" using assms by (auto intro: Canonical_wf)
  then show thesis
    using that by (cases "Canonical r") (auto simp: range_wf_def IsCanonical_def split: uint16RangeKind.splits)
qed

lemma Parse_range_String:
  assumes "range_wf r"
  shows "ParseUint16Range (range_String r) = Inr (Canonical r)"
  using assms
proof (cases rule: Canonical_cases)
  case (scalar w)
  then have "range_String r = dec_nat (unat w)" by (simp add: range_String_def)
  with scalar show ?thesis by (simp add: Parse_scalar)
next
  case (span a b)
  then have "range_String r = dec_nat (unat a) @ ''-'' @ dec_nat (unat b)"
    by (simp add: range_String_def)
  with span show ?thesis using Parse_span [of a b] by simp
qed

text \<open>The interface the profile encoding relies on: the printed text determines the canonical range.\<close>

interpretation range_text: codec range_String
  "\<lambda>s. case ParseUint16Range s of Inr r \<Rightarrow> Some r | Inl _ \<Rightarrow> None"
  "\<lambda>r. range_wf r \<and> IsCanonical r"
  by unfold_locales (simp add: Parse_range_String Canonical_def)

lemma count_list_one_split:
  assumes "count_list s c = 1"
  obtains a b where "s = a @ c # b" "c \<notin> set a" "c \<notin> set b"
proof -
  have "c \<in> set s" using assms by (metis count_notin zero_neq_one)
  then obtain a b where s: "s = a @ c # b" and a: "c \<notin> set a"
    by (meson split_list_first)
  with assms have "count_list b c = 0" by (simp add: count_notin)
  then have "c \<notin> set b" by (simp add: count_list_0_iff)
  with s a that show thesis by blast
qed

text \<open>A scalar has equal bounds, a span ordered bounds, and the off alias is zero.\<close>

lemma ParseUint16Range_range_wf: "ParseUint16Range s = Inr r \<Longrightarrow> range_wf r"
  by (auto simp: ParseUint16Range_def range_wf_def res_simps Let_def split: if_splits)

section \<open>Properties\<close>

lemma Parse_25_35:
  "ParseUint16Range ''25-35'' = Inr \<lparr>kind = uint16RangeSpan, range_start = 25, range_end = 35\<rparr>"
  by (simp add: ParseUint16Range_def parseUint16Decimal_def go_eval)

text \<open>Printing a parsed range and parsing the text again gives the canonical form of the range;
  so the printed text, which is hashed into profile keys and written to configurations, loses
  nothing but the spelling (off for 0, N-N for N).\<close>

lemma range_text_roundtrip:
  "ParseUint16Range s = Inr r \<Longrightarrow> ParseUint16Range (range_String r) = Inr (Canonical r)"
  by (rule Parse_range_String [OF ParseUint16Range_range_wf])

text \<open>What ParseUint16Range accepts: the word off, one decimal below 65536, or two of them in
  order around a single dash.\<close>

lemma ParseUint16Range_accepts:
  "(\<exists>r. ParseUint16Range s = Inr r) \<longleftrightarrow>
     s = ''off''
     \<or> s \<noteq> [] \<and> all_digits s \<and> dec_val s < 65536
     \<or> (\<exists>a b. s = a @ ''-'' @ b \<and> a \<noteq> [] \<and> b \<noteq> [] \<and> all_digits a \<and> all_digits b
          \<and> dec_val a \<le> dec_val b \<and> dec_val b < 65536)"
  (is "?L = (?O \<or> ?S \<or> ?R)")
proof (cases "count_list s (CHR ''-'')" "1::nat" rule: linorder_cases)
  case less
  then have no: "CHR ''-'' \<notin> set s" by (simp add: count_list_0_iff)
  then have "\<not> ?R" by auto
  with less show ?thesis
    by (auto simp: ParseUint16Range_def res_simps parseUint16Decimal_Inr split: if_splits)
next
  case equal
  then obtain a b where s: "s = a @ CHR ''-'' # b" and ab: "CHR ''-'' \<notin> set a" "CHR ''-'' \<notin> set b"
    by (rule count_list_one_split)
  have parts: "split_on (CHR ''-'') s = [a, b]"
    using ab by (simp add: s split_on_append split_on_no_sep)
  have not_s: "\<not> all_digits s" by (simp add: s is_digit_def)
  have uniq: "s = a' @ ''-'' @ b' \<Longrightarrow> all_digits a' \<Longrightarrow> all_digits b' \<Longrightarrow> a' = a \<and> b' = b" for a' b'
  proof -
    assume eq: "s = a' @ ''-'' @ b'" and d: "all_digits a'" "all_digits b'"
    then have "CHR ''-'' \<notin> set a'" "CHR ''-'' \<notin> set b'"
      by (simp_all add: all_digits_no_sep)
    then have "split_on (CHR ''-'') s = [a', b']" by (simp add: eq split_on_append split_on_no_sep)
    with parts show ?thesis by simp
  qed
  have off: "s \<noteq> ''off''" using equal by (auto)
  have word: "dec_val a < 65536 \<Longrightarrow> dec_val b < 65536 \<Longrightarrow>
      (of_nat (dec_val a) :: 16 word) \<le> of_nat (dec_val b) \<longleftrightarrow> dec_val a \<le> dec_val b"
    by (simp add: word_le_nat_alt unat_of_nat)
  have "?L \<longleftrightarrow> (\<exists>x y. parseUint16Decimal a = Inr x \<and> parseUint16Decimal b = Inr y \<and> x \<le> y)"
    using equal off by (auto simp: ParseUint16Range_def parts res_simps simp flip: not_less)
  also have "\<dots> \<longleftrightarrow> a \<noteq> [] \<and> b \<noteq> [] \<and> all_digits a \<and> all_digits b
      \<and> dec_val a \<le> dec_val b \<and> dec_val b < 65536"
    using word by (auto simp: parseUint16Decimal_Inr)
  finally have "?L \<longleftrightarrow> a \<noteq> [] \<and> b \<noteq> [] \<and> all_digits a \<and> all_digits b
      \<and> dec_val a \<le> dec_val b \<and> dec_val b < 65536" .
  moreover have "?R \<longleftrightarrow> a \<noteq> [] \<and> b \<noteq> [] \<and> all_digits a \<and> all_digits b
      \<and> dec_val a \<le> dec_val b \<and> dec_val b < 65536" (is "_ \<longleftrightarrow> ?ab")
  proof
    assume ?R
    then obtain a' b' where R: "s = a' @ ''-'' @ b'" "all_digits a'" "all_digits b'"
      "a' \<noteq> [] \<and> b' \<noteq> [] \<and> dec_val a' \<le> dec_val b' \<and> dec_val b' < 65536" by blast
    with uniq [OF R(1-3)] show ?ab by blast
  next
    assume ?ab
    moreover have "s = a @ ''-'' @ b" by (simp add: s)
    ultimately show ?R by blast
  qed
  ultimately show ?thesis using not_s off by blast
next
  case greater
  have "\<not> all_digits s"
    using greater all_digits_no_sep(1) [of s] count_notin [of "CHR ''-''" s] by linarith
  moreover have "\<not> ?R"
  proof
    assume ?R
    then obtain a b where "s = a @ ''-'' @ b" "all_digits a" "all_digits b" by blast
    then have "count_list s (CHR ''-'') = 1"
      by (simp add: count_notin all_digits_no_sep)
    with greater show False by simp
  qed
  moreover have "s \<noteq> ''off''" using greater by auto
  moreover have "\<not> ?L" using greater \<open>s \<noteq> ''off''\<close> by (simp add: ParseUint16Range_def)
  ultimately show ?thesis by blast
qed

text \<open>The JSON form written to the storage file reads back as the canonical range.\<close>

lemma range_json_roundtrip:
  "range_wf r \<Longrightarrow> range_UnmarshalJSON (range_MarshalJSON r) = Inr (Canonical r)"
  by (simp add: range_MarshalJSON_def Let_def Parse_range_String)


end
