(* ===== verification/Params.thy ===== *)
theory Params
  imports Uint16_Range
begin

text \<open>
  AmneziaWG parameters, \<^verbatim>\<open>src/internal/awg/params.go\<close> and \<^verbatim>\<open>src/internal/awg/version.go\<close>: the
  parameter record, the simple bounds, the text forms for the command line and the configuration
  file, and the random generators. A pointer field is an \<open>option\<close>; \<open>DNSServers\<close> is an
  \<open>option\<close> of a list because the validator distinguishes nil from an empty slice.

  \<open>crypto/rand\<close> is an explicit source of 32-bit draws (\<open>entropy\<close>): a draw takes the head, and
  \<open>rand.Read\<close> fails when the source is exhausted. A finite source covers every run of the
  rejection loop that ends.
\<close>

section \<open>Model\<close>

subsection \<open>Versions\<close>

type_synonym ProtocolVersion = string

definition ProtocolVersion2 :: ProtocolVersion where "ProtocolVersion2 = ''2.0''"
definition ProtocolVersion31 :: ProtocolVersion where "ProtocolVersion31 = ''3.1''"

lemmas version_consts = ProtocolVersion2_def ProtocolVersion31_def

definition ParseProtocolVersion :: "string \<Rightarrow> ProtocolVersion res" where
  "ParseProtocolVersion value =
     (if value = ''2'' \<or> value = ProtocolVersion2 then Inr ProtocolVersion2
      else if value = ProtocolVersion31 then Inr ProtocolVersion31
      else Inl (Plain (''unsupported protocol version '' @ [CHR 0x22] @ value @ [CHR 0x22])))"

definition version_Valid :: "ProtocolVersion \<Rightarrow> bool" where
  "version_Valid version = (version = ProtocolVersion2 \<or> version = ProtocolVersion31)"

subsection \<open>Parameters\<close>

definition MinPort :: int where "MinPort = 1024"
definition MaxPort :: int where "MaxPort = 65535"
definition MinMTU :: int where "MinMTU = 1280"
definition MaxMTU :: int where "MaxMTU = 1420"
definition DefaultPersistentKeepalive :: int where "DefaultPersistentKeepalive = 25"

lemmas param_consts = MinPort_def MaxPort_def MinMTU_def MaxMTU_def DefaultPersistentKeepalive_def

record AWGParams =
  Port :: int
  ClientListenPort :: int
  MTU :: int
  DNS :: string
  DNSMode :: string
  DNSServers :: "string list option"
  dnsSet :: bool
  dnsModeSet :: bool
  dnsServersSet :: bool
  PersistentKeepalive :: "Uint16Range option"
  ContentPaddingAddition :: "Uint16Range option"
  RekeyAfterTime :: "Uint16Range option"
  RekeyTimeout :: "Uint16Range option"
  RejectAfterTime :: "Uint16Range option"
  KeepaliveTimeout :: "Uint16Range option"
  MaxHandshakeAttempts :: "Uint16Range option"
  RandomTrailers :: string
  DisableCookies :: string
  Jc :: int
  Jmin :: int
  Jmax :: int
  S1 :: int
  S2 :: int
  S3 :: int
  S4 :: int
  H1 :: string
  H2 :: string
  H3 :: string
  H4 :: string
  I1 :: string
  I2 :: string
  I3 :: string
  I4 :: string
  I5 :: string

text \<open>Go's zero value \<open>AWGParams{}\<close>.\<close>

definition zeroParams :: AWGParams where
  "zeroParams = \<lparr>Port = 0, ClientListenPort = 0, MTU = 0, DNS = [], DNSMode = [], DNSServers = None,
     dnsSet = False, dnsModeSet = False, dnsServersSet = False,
     PersistentKeepalive = None, ContentPaddingAddition = None, RekeyAfterTime = None,
     RekeyTimeout = None, RejectAfterTime = None, KeepaliveTimeout = None,
     MaxHandshakeAttempts = None, RandomTrailers = [], DisableCookies = [],
     Jc = 0, Jmin = 0, Jmax = 0, S1 = 0, S2 = 0, S3 = 0, S4 = 0,
     H1 = [], H2 = [], H3 = [], H4 = [], I1 = [], I2 = [], I3 = [], I4 = [], I5 = []\<rparr>"

definition ValidatePort :: "int \<Rightarrow> go_error option" where
  "ValidatePort port =
     (if port = 0 then None
      else if port < MinPort \<or> port > MaxPort then Some (Sentinel ErrInvalidPort)
      else None)"

definition ValidateMTU :: "int \<Rightarrow> go_error option" where
  "ValidateMTU mtu =
     (if mtu = 0 then None
      else if mtu < MinMTU \<or> mtu > MaxMTU
      then Some (Plain (''mtu must be between '' @ dec_int MinMTU @ '' and '' @ dec_int MaxMTU))
      else None)"

definition ValidatePersistentKeepalive :: "Uint16Range option \<Rightarrow> go_error option" where
  "ValidatePersistentKeepalive value = None"

definition PersistentKeepaliveValue :: "AWGParams \<Rightarrow> int" where
  "PersistentKeepaliveValue p =
     (case PersistentKeepalive p of
        None \<Rightarrow> DefaultPersistentKeepalive
      | Some r \<Rightarrow> (case range_Scalar r of
          (value, ok) \<Rightarrow> if \<not> ok then DefaultPersistentKeepalive else int (unat value)))"

definition PersistentKeepaliveConfigValue :: "AWGParams \<Rightarrow> ProtocolVersion \<Rightarrow> string" where
  "PersistentKeepaliveConfigValue p version =
     (case PersistentKeepalive p of
        Some r \<Rightarrow> range_String r
      | None \<Rightarrow> if version = ProtocolVersion2 then dec_int DefaultPersistentKeepalive else [])"

subsection \<open>Text forms\<close>

definition params_Key :: "AWGParams \<Rightarrow> string" where
  "params_Key p = ''h1='' @ H1 p @ '',h2='' @ H2 p @ '',h3='' @ H3 p @ '',h4='' @ H4 p
     @ '',s1='' @ dec_int (S1 p) @ '',s2='' @ dec_int (S2 p) @ '',s3='' @ dec_int (S3 p)
     @ '',s4='' @ dec_int (S4 p)"

definition appendRangeCLIArgs :: "string list \<Rightarrow> string \<Rightarrow> Uint16Range option \<Rightarrow> string list" where
  "appendRangeCLIArgs args name value =
     (case value of None \<Rightarrow> args | Some r \<Rightarrow> args @ [name, range_String r])"

definition arg_pos :: "string \<Rightarrow> int \<Rightarrow> string list" where
  "arg_pos name v = (if v > 0 then [name, dec_int v] else [])"

definition arg_str :: "string \<Rightarrow> string \<Rightarrow> string list" where
  "arg_str name v = (if v \<noteq> [] then [name, v] else [])"

definition CLIArgs :: "AWGParams \<Rightarrow> string list" where
  "CLIArgs p =
     (let args = arg_pos ''jc'' (Jc p) @ arg_pos ''jmin'' (Jmin p) @ arg_pos ''jmax'' (Jmax p)
            @ arg_pos ''s1'' (S1 p) @ arg_pos ''s2'' (S2 p)
            @ [''s3'', dec_int (S3 p)] @ [''s4'', dec_int (S4 p)]
            @ arg_str ''h1'' (H1 p) @ arg_str ''h2'' (H2 p) @ arg_str ''h3'' (H3 p) @ arg_str ''h4'' (H4 p);
          args = appendRangeCLIArgs args ''content-padding-addition'' (ContentPaddingAddition p);
          args = appendRangeCLIArgs args ''rekey-after-time'' (RekeyAfterTime p);
          args = appendRangeCLIArgs args ''rekey-timeout'' (RekeyTimeout p);
          args = appendRangeCLIArgs args ''reject-after-time'' (RejectAfterTime p);
          args = appendRangeCLIArgs args ''keepalive-timeout'' (KeepaliveTimeout p);
          args = appendRangeCLIArgs args ''max-handshake-attempts'' (MaxHandshakeAttempts p)
      in args @ arg_str ''random-trailers'' (RandomTrailers p) @ arg_str ''disable-cookies'' (DisableCookies p))"

definition cfg_line :: "string \<Rightarrow> string \<Rightarrow> string" where
  "cfg_line name value = CHR 0x0A # name @ '' = '' @ value"

definition line_pos :: "string \<Rightarrow> int \<Rightarrow> string" where
  "line_pos name v = (if v > 0 then cfg_line name (dec_int v) else [])"

definition line_str :: "string \<Rightarrow> string \<Rightarrow> string" where
  "line_str name v = (if v \<noteq> [] then cfg_line name v else [])"

definition appendRangeConfigLine :: "string \<Rightarrow> string \<Rightarrow> Uint16Range option \<Rightarrow> string" where
  "appendRangeConfigLine lines name value =
     (case value of None \<Rightarrow> lines | Some r \<Rightarrow> lines @ cfg_line name (range_String r))"

definition serverConfigLines :: "AWGParams \<Rightarrow> string" where
  "serverConfigLines p =
     (let lines = line_pos ''Jc'' (Jc p) @ line_pos ''Jmin'' (Jmin p) @ line_pos ''Jmax'' (Jmax p)
            @ line_pos ''S1'' (S1 p) @ line_pos ''S2'' (S2 p)
            @ cfg_line ''S3'' (dec_int (S3 p)) @ cfg_line ''S4'' (dec_int (S4 p))
            @ line_str ''H1'' (H1 p) @ line_str ''H2'' (H2 p) @ line_str ''H3'' (H3 p) @ line_str ''H4'' (H4 p);
          lines = appendRangeConfigLine lines ''ContentPaddingAddition'' (ContentPaddingAddition p);
          lines = appendRangeConfigLine lines ''RekeyAfterTime'' (RekeyAfterTime p);
          lines = appendRangeConfigLine lines ''RekeyTimeout'' (RekeyTimeout p);
          lines = appendRangeConfigLine lines ''RejectAfterTime'' (RejectAfterTime p);
          lines = appendRangeConfigLine lines ''KeepaliveTimeout'' (KeepaliveTimeout p);
          lines = appendRangeConfigLine lines ''MaxHandshakeAttempts'' (MaxHandshakeAttempts p)
      in lines @ line_str ''RandomTrailers'' (RandomTrailers p) @ line_str ''DisableCookies'' (DisableCookies p))"

definition ConfigLines :: "AWGParams \<Rightarrow> string" where
  "ConfigLines p = serverConfigLines p @ line_str ''I1'' (I1 p) @ line_str ''I2'' (I2 p)
     @ line_str ''I3'' (I3 p) @ line_str ''I4'' (I4 p) @ line_str ''I5'' (I5 p)"

subsection \<open>Generation\<close>

type_synonym entropy = "32 word list"

record GeneratedParams =
  gH1 :: string
  gH2 :: string
  gH3 :: string
  gH4 :: string
  gS1 :: int
  gS2 :: int

record GeneratedParamsV31 = GeneratedParams +
  gS3 :: int
  gS4 :: int

definition randRead :: "entropy \<Rightarrow> (32 word \<times> entropy) res" where
  "randRead ent = (case ent of [] \<Rightarrow> Inl (Plain ''rand.Read failed'') | n # ent' \<Rightarrow> Inr (n, ent'))"

definition randUint32Range :: "32 word \<Rightarrow> 32 word \<Rightarrow> entropy \<Rightarrow> (32 word \<times> entropy) res" where
  "randUint32Range lo hi ent =
     res_bind (randRead ent) (\<lambda>(n, ent'). Inr (lo + n mod (hi - lo), ent'))"

definition randIntRange :: "int \<Rightarrow> int \<Rightarrow> entropy \<Rightarrow> (int \<times> entropy) res" where
  "randIntRange lo hi ent =
     res_bind (randRead ent) (\<lambda>(n, ent'). Inr (lo + uint n mod (hi - lo), ent'))"

definition generateHRange :: "32 word \<Rightarrow> 32 word \<Rightarrow> entropy \<Rightarrow> (string \<times> entropy) res" where
  "generateHRange tierMin tierMax ent =
     (let mid = tierMin + (tierMax - tierMin) div 2 in
      res_bind (randUint32Range tierMin mid ent) (\<lambda>(lo, ent1).
      res_bind (randUint32Range mid tierMax ent1) (\<lambda>(hi, ent2).
        Inr (dec_nat (unat lo) @ ''-'' @ dec_nat (unat hi), ent2))))"

definition generateHValue :: "32 word \<Rightarrow> 32 word \<Rightarrow> entropy \<Rightarrow> (string \<times> entropy) res" where
  "generateHValue tierMin tierMax ent =
     res_bind (randUint32Range tierMin tierMax ent) (\<lambda>(value, ent'). Inr (dec_nat (unat value), ent'))"

definition wrap_gen :: "string \<Rightarrow> 'a res \<Rightarrow> 'a res" where
  "wrap_gen what r = map_err (\<lambda>e. Wrap (''generate '' @ what @ '': '') e []) r"

text \<open>The rejection loop for S2, on the draws that are left.\<close>

fun draw_s2 :: "int \<Rightarrow> entropy \<Rightarrow> (int \<times> entropy) res" where
  "draw_s2 s1 [] = wrap_gen ''s2'' (randIntRange 15 151 [])"
| "draw_s2 s1 (n # ent) =
     res_bind (wrap_gen ''s2'' (randIntRange 15 151 (n # ent)))
       (\<lambda>(s2, ent'). if s1 + 56 \<noteq> s2 then Inr (s2, ent') else draw_s2 s1 ent)"

definition GenerateParams :: "entropy \<Rightarrow> (GeneratedParams \<times> entropy) res" where
  "GenerateParams ent =
     res_bind (wrap_gen ''h1'' (generateHRange 100000 800000 ent)) (\<lambda>(h1, ent).
     res_bind (wrap_gen ''h2'' (generateHRange 1000000 8000000 ent)) (\<lambda>(h2, ent).
     res_bind (wrap_gen ''h3'' (generateHRange 10000000 80000000 ent)) (\<lambda>(h3, ent).
     res_bind (wrap_gen ''h4'' (generateHRange 100000000 800000000 ent)) (\<lambda>(h4, ent).
     res_bind (wrap_gen ''s1'' (randIntRange 15 151 ent)) (\<lambda>(s1, ent).
     res_bind (draw_s2 s1 ent) (\<lambda>(s2, ent).
       Inr (\<lparr>gH1 = h1, gH2 = h2, gH3 = h3, gH4 = h4, gS1 = s1, gS2 = s2\<rparr>, ent)))))))"

definition GenerateParamsV31 :: "entropy \<Rightarrow> (GeneratedParamsV31 \<times> entropy) res" where
  "GenerateParamsV31 ent =
     res_bind (wrap_gen ''h1'' (generateHValue 100000 800000 ent)) (\<lambda>(h1, ent).
     res_bind (wrap_gen ''h2'' (generateHValue 1000000 8000000 ent)) (\<lambda>(h2, ent).
     res_bind (wrap_gen ''h3'' (generateHValue 10000000 80000000 ent)) (\<lambda>(h3, ent).
     res_bind (wrap_gen ''h4'' (generateHValue 100000000 800000000 ent)) (\<lambda>(h4, ent).
     res_bind (wrap_gen ''s1'' (randIntRange 15 151 ent)) (\<lambda>(s1, ent).
     res_bind (draw_s2 s1 ent) (\<lambda>(s2, ent).
     res_bind (wrap_gen ''s3'' (randIntRange 15 64 ent)) (\<lambda>(s3, ent).
       Inr (\<lparr>gH1 = h1, gH2 = h2, gH3 = h3, gH4 = h4, gS1 = s1, gS2 = s2, gS3 = s3, gS4 = 12\<rparr>, ent))))))))"

definition ApplyGeneratedParams :: "AWGParams option \<Rightarrow> GeneratedParams \<Rightarrow> AWGParams" where
  "ApplyGeneratedParams params g =
     (let result = (case params of None \<Rightarrow> zeroParams | Some p \<Rightarrow> p) in
      result\<lparr>H1 := gH1 g, H2 := gH2 g, H3 := gH3 g, H4 := gH4 g, S1 := gS1 g, S2 := gS2 g\<rparr>)"

definition ApplyGeneratedParamsV31 :: "AWGParams option \<Rightarrow> GeneratedParamsV31 \<Rightarrow> AWGParams" where
  "ApplyGeneratedParamsV31 params g =
     (let result = (case params of None \<Rightarrow> zeroParams | Some p \<Rightarrow> p) in
      result\<lparr>H1 := gH1 g, H2 := gH2 g, H3 := gH3 g, H4 := gH4 g,
             S1 := gS1 g, S2 := gS2 g, S3 := gS3 g, S4 := gS4 g\<rparr>)"

section \<open>Bounds of the generators\<close>

lemma randUint32Range_bounds:
  assumes "randUint32Range lo hi ent = Inr (v, ent')" "lo < hi"
  shows "unat lo \<le> unat v \<and> unat v < unat hi"
proof -
  obtain n where v: "v = lo + n mod (hi - lo)"
    using assms(1) by (auto simp: randUint32Range_def randRead_def res_simps split: list.splits)
  have d: "unat (hi - lo) = unat hi - unat lo" "unat lo < unat hi"
    using assms(2) by (simp_all add: unat_sub_if_size word_less_nat_alt)
  have m: "unat (n mod (hi - lo)) < unat hi - unat lo"
    using d by (simp add: unat_mod)
  moreover have "unat lo + unat (n mod (hi - lo)) < 2 ^ LENGTH(32)"
    using m d(2) unsigned_less [of hi, where ?'a = nat] by linarith
  then have "unat v = unat lo + unat (n mod (hi - lo))"
    using v unat_add_lem by blast
  ultimately show ?thesis by linarith
qed

lemma randIntRange_bounds:
  "randIntRange lo hi ent = Inr (v, ent') \<Longrightarrow> lo < hi \<Longrightarrow> lo \<le> v \<and> v < hi"
  by (auto simp: randIntRange_def randRead_def res_simps split: list.splits)
     (metis add.commute diff_gt_0_iff_gt less_diff_eq pos_mod_bound)

lemma draw_s2_props:
  "draw_s2 s1 ent = Inr (s2, ent') \<Longrightarrow> 15 \<le> s2 \<and> s2 < 151 \<and> s1 + 56 \<noteq> s2"
proof (induction s1 ent rule: draw_s2.induct)
  case (2 s1 n ent)
  then show ?case
    by (auto simp: wrap_gen_def res_simps split: if_splits dest: randIntRange_bounds)
qed (simp add: wrap_gen_def randIntRange_def randRead_def)

text \<open>A generated header range stays in its tier, and its two halves are in order.\<close>

lemma generateHRange_tier:
  assumes "generateHRange lo hi ent = Inr (h, ent')" "lo < hi" "1 < hi - lo"
  obtains a b where "h = dec_nat a @ ''-'' @ dec_nat b" "unat lo \<le> a" "a \<le> b" "b < unat (hi :: 32 word)"
proof -
  let ?mid = "lo + (hi - lo) div 2"
  obtain a e1 b where ab: "randUint32Range lo ?mid ent = Inr (a, e1)"
    "randUint32Range ?mid hi e1 = Inr (b, ent')" "h = dec_nat (unat a) @ ''-'' @ dec_nat (unat b)"
    using assms(1) by (auto simp: generateHRange_def res_simps Let_def)
  have d: "unat (hi - lo) = unat hi - unat lo" "unat lo < unat hi"
    using assms(2) by (simp_all add: unat_sub_if_size word_less_nat_alt)
  have half: "unat ((hi - lo) div 2) = (unat hi - unat lo) div 2" using d by (simp add: unat_div)
  have "unat lo + unat ((hi - lo) div 2) < 2 ^ LENGTH(32)"
    using half d(2) unsigned_less [of hi, where ?'a = nat] by simp
  then have mid: "unat ?mid = unat lo + (unat hi - unat lo) div 2"
    using half unat_add_lem by metis
  have two: "2 \<le> unat hi - unat lo" using assms(3) d(1) by (simp add: word_less_nat_alt)
  then have "lo < ?mid" "?mid < hi" unfolding word_less_nat_alt mid by linarith+
  with randUint32Range_bounds [OF ab(1)] randUint32Range_bounds [OF ab(2)]
  have "unat lo \<le> unat a" "unat a < unat ?mid" "unat ?mid \<le> unat b" "unat b < unat hi" by auto
  then show thesis using that [OF ab(3)] by simp
qed

lemma generateHValue_tier:
  assumes "generateHValue lo hi ent = Inr (h, ent')" "lo < hi"
  obtains v where "h = dec_nat v" "unat lo \<le> v" "v < unat (hi :: 32 word)"
  using assms randUint32Range_bounds [of lo hi ent]
  by (auto simp: generateHValue_def res_simps)

end
