(* ===== verification/Validation.thy ===== *)
theory Validation
  imports Params Netip
begin

text \<open>
  The validators of AmneziaWG parameters, \<^verbatim>\<open>src/internal/awg/validation.go\<close>, with the DNS settings
  of \<^verbatim>\<open>src/internal/awg/dns.go\<close> they call. The Go validators return the first error in source order; here
  that is \<open>first_err\<close> over the list of checks. Two declarative specifications are proved
  equivalent to the code: \<open>cps_packet\<close>, the grammar of custom protocol signature packets, and
  \<open>profile_ok\<close>, what an effective profile has to satisfy. The generators of \<open>Params\<close> are proved
  to produce profiles that pass.
\<close>

section \<open>Model\<close>

definition MaxJunkPacketCount :: int where "MaxJunkPacketCount = 128"
definition MaxJunkPacketSize :: int where "MaxJunkPacketSize = 1280"
definition MaxS1 :: int where "MaxS1 = 1132"
definition MaxS2 :: int where "MaxS2 = 1188"
definition MaxS3 :: int where "MaxS3 = 64"
definition MaxS4 :: int where "MaxS4 = 32"
definition MaxCPSTagSize :: nat where "MaxCPSTagSize = 1000"
definition MaxCPSPacketSize :: nat where "MaxCPSPacketSize = 1280"

lemmas limit_consts = MaxJunkPacketCount_def MaxJunkPacketSize_def MaxS1_def MaxS2_def MaxS3_def
  MaxS4_def MaxCPSTagSize_def MaxCPSPacketSize_def

definition invalidParam :: "string \<Rightarrow> string \<Rightarrow> go_error" where
  "invalidParam field reason = ValidationError field reason"

definition validationFrom :: "string \<Rightarrow> go_error \<Rightarrow> go_error" where
  "validationFrom field err = ValidationError field (trim_prefix (error_text err) (field @ '' ''))"

definition validateToggle :: "string \<Rightarrow> string \<Rightarrow> go_error option" where
  "validateToggle field value =
     (if value = [] \<or> value = ''on'' \<or> value = ''off'' then None
      else Some (invalidParam field ''must be on or off''))"

subsection \<open>Header ranges\<close>

record headerRange =
  hdr_start :: "32 word"
  hdr_end :: "32 word"

definition parseUint32Decimal :: "string \<Rightarrow> (32 word) res" where
  "parseUint32Decimal value =
     (if value = [] then Inl (Plain ''empty decimal value'')
      else if \<not> all_digits value then Inl (Plain ''non-decimal value'')
      else (case parse_uint 32 value of
              None \<Rightarrow> Inl (Plain (''strconv.ParseUint: parsing '' @ [CHR 0x22] @ value @ [CHR 0x22]
                             @ '': value out of range''))
            | Some n \<Rightarrow> Inr (of_nat n)))"

definition parseHeaderRange :: "string \<Rightarrow> string \<Rightarrow> headerRange res" where
  "parseHeaderRange field value =
     (let parts = split_on (CHR ''-'') value;
          malformed = invalidParam field ''must be an unsigned decimal value or start-end range'' in
      if length parts < 1 \<or> length parts > 2 then Inl malformed
      else
        res_bind (map_err (\<lambda>_. malformed) (parseUint32Decimal (parts ! 0))) (\<lambda>start.
        res_bind (if length parts = 2 then map_err (\<lambda>_. malformed) (parseUint32Decimal (parts ! 1))
                  else Inr start) (\<lambda>end'.
          if start > end' then Inl (invalidParam field ''range start must not exceed range end'')
          else Inr \<lparr>hdr_start = start, hdr_end = end'\<rparr>)))"

subsection \<open>CPS packets\<close>

definition isHexDigit :: "char \<Rightarrow> bool" where
  "isHexDigit c = (let v = (of_char c :: nat) in
     48 \<le> v \<and> v \<le> 57 \<or> 97 \<le> v \<and> v \<le> 102 \<or> 65 \<le> v \<and> v \<le> 70)"

definition isControl :: "char \<Rightarrow> bool" where
  "isControl c = ((of_char c :: nat) < 32 \<or> (of_char c :: nat) = 127)"

definition parseCPSSize :: "string \<Rightarrow> nat res" where
  "parseCPSSize value =
     (if value = [] then Inl (Plain ''empty size'')
      else if \<not> all_digits value then Inl (Plain ''non-decimal size'')
      else (case parse_uint 16 value of
              None \<Rightarrow> Inl (Plain ''size out of range'')
            | Some parsed \<Rightarrow>
                if parsed > MaxCPSTagSize then Inl (Plain ''size out of range'') else Inr parsed))"

definition cpsTagSize :: "string \<Rightarrow> string \<Rightarrow> nat res" where
  "cpsTagSize field tag =
     (if list_ex isControl tag then Inl (invalidParam field ''contains a control character'')
      else if tag = ''t'' then Inr 4
      else
        (let parts = split_on (CHR '' '') tag in
         if length parts \<noteq> 2 \<or> parts ! 0 = [] \<or> parts ! 1 = []
         then Inl (invalidParam field ''contains a malformed CPS tag'')
         else if parts ! 0 = ''b'' then
           (if \<not> has_prefix (parts ! 1) ''0x''
            then Inl (invalidParam field ''static byte tags must use the 0x prefix'')
            else
              (let hexValue = drop 2 (parts ! 1) in
               if hexValue = [] \<or> length hexValue mod 2 \<noteq> 0
               then Inl (invalidParam field ''static byte tags require non-empty even-length hex'')
               else if \<not> list_all isHexDigit hexValue
               then Inl (invalidParam field ''static byte tags contain invalid hex'')
               else Inr (length hexValue div 2)))
         else if parts ! 0 = ''r'' \<or> parts ! 0 = ''rc'' \<or> parts ! 0 = ''rd'' then
           map_err (\<lambda>_. invalidParam field (parts ! 0 @ '' tag size must be between 0 and ''
                          @ dec_nat MaxCPSTagSize))
             (parseCPSSize (parts ! 1))
         else Inl (invalidParam field ''contains an unsupported CPS tag'')))"

text \<open>The loop of \<open>validateCPS\<close>, on the part of the value that is left.\<close>

function validateCPS_loop :: "string \<Rightarrow> nat \<Rightarrow> string \<Rightarrow> go_error option" where
  "validateCPS_loop field totalSize [] = None"
| "validateCPS_loop field totalSize (c # rest) =
     (if c \<noteq> CHR ''<'' then Some (invalidParam field ''must contain only supported CPS tags'')
      else if CHR ''>'' \<notin> set rest then Some (invalidParam field ''contains an unterminated CPS tag'')
      else
        (let tag = takeWhile (\<lambda>x. x \<noteq> CHR ''>'') rest in
         case cpsTagSize field tag of
           Inl err \<Rightarrow> Some err
         | Inr tagSize \<Rightarrow>
             (if totalSize + tagSize > MaxCPSPacketSize
              then Some (invalidParam field (''expanded packet size must not exceed ''
                           @ dec_nat MaxCPSPacketSize @ '' bytes''))
              else validateCPS_loop field (totalSize + tagSize) (drop (length tag + 1) rest))))"
  by pat_completeness auto
termination by (relation "measure (\<lambda>(_, _, s). length s)") auto

definition validateCPS :: "string \<Rightarrow> string \<Rightarrow> go_error option" where
  "validateCPS field value = validateCPS_loop field 0 value"

subsection \<open>DNS settings\<close>

definition DNSModeDefault :: string where "DNSModeDefault = ''default''"
definition DNSModeCustom :: string where "DNSModeCustom = ''custom''"
definition DNSModeSystem :: string where "DNSModeSystem = ''system''"

lemmas dns_consts = DNSModeDefault_def DNSModeCustom_def DNSModeSystem_def

definition ValidateDNS :: "string \<Rightarrow> go_error option" where
  "ValidateDNS dns =
     (if dns = [] then None
      else case ParseAddr4 dns of None \<Rightarrow> Some (Sentinel ErrInvalidDNS) | Some _ \<Rightarrow> None)"

text \<open>A nil slice and an empty one have the same elements.\<close>

definition slice :: "'a list option \<Rightarrow> 'a list" where
  "slice xs = (case xs of None \<Rightarrow> [] | Some ys \<Rightarrow> ys)"

definition dns_server_check :: "nat \<times> string \<Rightarrow> go_error option" where
  "dns_server_check iv =
     (case ParseAddr4 (snd iv) of
        None \<Rightarrow> Some (invalidParam (''dns_servers['' @ dec_nat (fst iv) @ '']'') ''must be a valid IPv4 address'')
      | Some _ \<Rightarrow> None)"

definition validateDNSSettings :: "AWGParams \<Rightarrow> go_error option" where
  "validateDNSSettings params =
     (let legacySet = (dnsSet params \<or> DNS params \<noteq> []);
          modeSet = (dnsModeSet params \<or> DNSMode params \<noteq> []);
          serversSet = (dnsServersSet params \<or> DNSServers params \<noteq> None);
          servers = slice (DNSServers params);
          address_checks = first_err (map dns_server_check (enumerate 0 servers)) in
      if legacySet \<and> (modeSet \<or> serversSet)
      then Some (invalidParam ''dns'' ''cannot be combined with dns_mode or dns_servers'')
      else if \<not> modeSet then
        (if serversSet then Some (invalidParam ''dns_servers'' ''requires dns_mode'')
         else map_option (validationFrom ''dns'') (ValidateDNS (DNS params)))
      else if DNSMode params = DNSModeDefault \<or> DNSMode params = DNSModeSystem then
        (if length servers > 0
         then Some (invalidParam ''dns_servers''
                      (''must be empty for dns_mode '' @ [CHR 0x22] @ DNSMode params @ [CHR 0x22]))
         else address_checks)
      else if DNSMode params = DNSModeCustom then
        (if length servers = 0
         then Some (invalidParam ''dns_servers'' ''must contain at least one IPv4 address for custom mode'')
         else address_checks)
      else Some (invalidParam ''dns_mode'' ''must be default, custom, or system''))"

subsection \<open>The validators\<close>

definition v31_only_checks :: "AWGParams \<Rightarrow> go_error option list" where
  "v31_only_checks params =
     map (\<lambda>(field, isset). fail_if isset (invalidParam field ''is only supported for protocol version 3.1''))
       [(''content_padding_addition'', ContentPaddingAddition params \<noteq> None),
        (''rekey_after_time'', RekeyAfterTime params \<noteq> None),
        (''rekey_timeout'', RekeyTimeout params \<noteq> None),
        (''reject_after_time'', RejectAfterTime params \<noteq> None),
        (''keepalive_timeout'', KeepaliveTimeout params \<noteq> None),
        (''max_handshake_attempts'', MaxHandshakeAttempts params \<noteq> None),
        (''random_trailers'', RandomTrailers params \<noteq> []),
        (''disable_cookies'', DisableCookies params \<noteq> [])]"

definition numeric_checks :: "AWGParams \<Rightarrow> go_error option list" where
  "numeric_checks params =
     map (\<lambda>(field, value, mx). fail_if (value < 0 \<or> value > mx)
            (invalidParam field (''must be between 0 and '' @ dec_int mx)))
       [(''jc'', Jc params, MaxJunkPacketCount), (''jmin'', Jmin params, MaxJunkPacketSize),
        (''jmax'', Jmax params, MaxJunkPacketSize), (''s1'', S1 params, MaxS1),
        (''s2'', S2 params, MaxS2), (''s3'', S3 params, MaxS3), (''s4'', S4 params, MaxS4)]"

definition headers_of :: "AWGParams \<Rightarrow> (string \<times> string) list" where
  "headers_of params =
     [(''h1'', H1 params), (''h2'', H2 params), (''h3'', H3 params), (''h4'', H4 params)]"

definition header_check :: "string \<times> string \<Rightarrow> go_error option" where
  "header_check fv =
     (if snd fv = [] then None
      else case parseHeaderRange (fst fv) (snd fv) of Inl err \<Rightarrow> Some err | Inr _ \<Rightarrow> None)"

definition cps_checks :: "AWGParams \<Rightarrow> go_error option list" where
  "cps_checks params =
     map (\<lambda>(field, value). if value = [] then None else validateCPS field value)
       [(''i1'', I1 params), (''i2'', I2 params), (''i3'', I3 params), (''i4'', I4 params),
        (''i5'', I5 params)]"

definition ValidateOverridesForVersion :: "ProtocolVersion \<Rightarrow> AWGParams option \<Rightarrow> go_error option" where
  "ValidateOverridesForVersion version params =
     (if \<not> version_Valid version then Some (invalidParam ''protocol_version'' ''must be 2.0 or 3.1'')
      else case params of
        None \<Rightarrow> None
      | Some p \<Rightarrow> first_err (
          [map_option (validationFrom ''port'') (ValidatePort (Port p)),
           fail_if (ClientListenPort p \<noteq> 0 \<and> (ClientListenPort p < MinPort \<or> ClientListenPort p > MaxPort))
             (invalidParam ''client_listen_port''
                (''must be 0 or between '' @ dec_int MinPort @ '' and '' @ dec_int MaxPort)),
           map_option (validationFrom ''mtu'') (ValidateMTU (MTU p)),
           validateDNSSettings p,
           map_option (validationFrom ''persistent_keepalive'')
             (ValidatePersistentKeepalive (PersistentKeepalive p)),
           fail_if (version = ProtocolVersion2
                    \<and> (case PersistentKeepalive p of None \<Rightarrow> False | Some r \<Rightarrow> \<not> IsScalar r))
             (invalidParam ''persistent_keepalive'' ''must be a scalar for protocol version 2.0'')]
          @ (if version = ProtocolVersion2 then v31_only_checks p
             else [validateToggle ''random_trailers'' (RandomTrailers p),
                   validateToggle ''disable_cookies'' (DisableCookies p)])
          @ numeric_checks p
          @ map header_check (headers_of p)
          @ cps_checks p))"

definition ValidateOverrides :: "AWGParams option \<Rightarrow> go_error option" where
  "ValidateOverrides params = ValidateOverridesForVersion ProtocolVersion2 params"

text \<open>The loop that collects the four header ranges, and the nested loop over the pairs.\<close>

fun collect_headers :: "(string \<times> string) list \<Rightarrow> (string \<times> headerRange) list res" where
  "collect_headers [] = Inr []"
| "collect_headers ((field, value) # rest) =
     (if value = [] then Inl (invalidParam field ''is required in the effective profile'')
      else res_bind (parseHeaderRange field value) (\<lambda>parsed.
           res_bind (collect_headers rest) (\<lambda>ranges. Inr ((field, parsed) # ranges))))"

definition overlap_check :: "string \<times> headerRange \<Rightarrow> string \<times> headerRange \<Rightarrow> go_error option" where
  "overlap_check a b =
     (if hdr_end (snd a) < hdr_start (snd b) \<or> hdr_end (snd b) < hdr_start (snd a) then None
      else Some (invalidParam (fst b) (''range must not overlap '' @ fst a)))"

fun overlap_checks :: "(string \<times> headerRange) list \<Rightarrow> go_error option list" where
  "overlap_checks [] = []"
| "overlap_checks (a # rest) = map (overlap_check a) rest @ overlap_checks rest"

definition ValidateProfileForVersion :: "ProtocolVersion \<Rightarrow> AWGParams \<Rightarrow> go_error option" where
  "ValidateProfileForVersion version p = first_err (
     [ValidateOverridesForVersion version (Some p)]
     @ (if version = ProtocolVersion31
        then map (\<lambda>(field, value). fail_if (value < 12)
                    (invalidParam field ''must be at least 12 for protocol version 3.1''))
               [(''s1'', S1 p), (''s2'', S2 p), (''s3'', S3 p), (''s4'', S4 p)]
        else [])
     @ (if Jc p > 0
        then [fail_if (Jmin p \<le> 0) (invalidParam ''jmin'' ''must be greater than 0 when jc is enabled''),
              fail_if (Jmax p \<le> 0) (invalidParam ''jmax'' ''must be greater than 0 when jc is enabled''),
              fail_if (Jmin p \<ge> Jmax p) (invalidParam ''jmin'' ''must be less than jmax'')]
        else [])
     @ [fail_if (S1 p + 56 = S2 p) (invalidParam ''s2'' ''must not equal s1 + 56''),
        case collect_headers (headers_of p) of
          Inl err \<Rightarrow> Some err
        | Inr ranges \<Rightarrow> first_err (overlap_checks ranges)])"

definition ValidateProfile :: "AWGParams \<Rightarrow> go_error option" where
  "ValidateProfile params = ValidateProfileForVersion ProtocolVersion2 params"

section \<open>The grammar of CPS packets\<close>

text \<open>
  A packet is a sequence of tags: the timestamp, static bytes in hexadecimal, or random bytes of a
  given size in one of three alphabets. \<open>cps_size\<close> is the number of bytes a tag expands to.
\<close>

datatype cps_tag = CpsTimestamp | CpsStatic string | CpsRandom string string

fun cps_text :: "cps_tag \<Rightarrow> string" where
  "cps_text CpsTimestamp = ''t''"
| "cps_text (CpsStatic hex) = ''b 0x'' @ hex"
| "cps_text (CpsRandom alphabet digits) = alphabet @ '' '' @ digits"

fun cps_size :: "cps_tag \<Rightarrow> nat" where
  "cps_size CpsTimestamp = 4"
| "cps_size (CpsStatic hex) = length hex div 2"
| "cps_size (CpsRandom alphabet digits) = dec_val digits"

fun cps_tag_ok :: "cps_tag \<Rightarrow> bool" where
  "cps_tag_ok CpsTimestamp = True"
| "cps_tag_ok (CpsStatic hex) = (hex \<noteq> [] \<and> even (length hex) \<and> list_all isHexDigit hex)"
| "cps_tag_ok (CpsRandom alphabet digits) =
     (alphabet \<in> {''r'', ''rc'', ''rd''} \<and> digits \<noteq> [] \<and> all_digits digits \<and> dec_val digits \<le> 1000)"

definition cps_packet :: "cps_tag list \<Rightarrow> string" where
  "cps_packet tags = concat (map (\<lambda>t. ''<'' @ cps_text t @ ''>'') tags)"

lemma parseCPSSize_Inr:
  "parseCPSSize s = Inr n \<longleftrightarrow> s \<noteq> [] \<and> all_digits s \<and> dec_val s = n \<and> n \<le> 1000"
  by (auto simp: parseCPSSize_def parse_uint_def MaxCPSTagSize_def split: if_splits)

lemma hex_chars:
  assumes "list_all isHexDigit s"
  shows "\<not> list_ex isControl s" "CHR '' '' \<notin> set s" "CHR ''>'' \<notin> set s"
  using assms by (auto simp: list_all_iff list_ex_iff isHexDigit_def isControl_def Let_def)

lemma digits_hex: "all_digits s \<Longrightarrow> list_all isHexDigit s"
  by (auto simp: all_digits_def list_all_iff isHexDigit_def is_digit_def)

lemmas digit_chars = hex_chars [OF digits_hex]

lemma cps_text_no_close: "cps_tag_ok t \<Longrightarrow> CHR ''>'' \<notin> set (cps_text t)"
  by (cases t) (auto dest: hex_chars digit_chars)

lemma split_two:
  "c \<notin> set a \<Longrightarrow> c \<notin> set b \<Longrightarrow> split_on c (a @ c # b) = [a, b]"
  by (simp add: split_on_append split_on_no_sep)

lemma split_two_iff:
  "split_on c s = [a, b] \<longleftrightarrow> s = a @ c # b \<and> c \<notin> set a \<and> c \<notin> set b"
proof
  assume eq: "split_on c s = [a, b]"
  then have "c \<notin> set a" "c \<notin> set b" using split_on_parts_no_sep [of _ c s] by auto
  moreover have "s = a @ c # b" using join_split_on [of c s] eq by simp
  ultimately show "s = a @ c # b \<and> c \<notin> set a \<and> c \<notin> set b" by blast
qed (simp add: split_two)

lemma cpsTagSize_complete:
  assumes "cps_tag_ok t"
  shows "cpsTagSize field (cps_text t) = Inr (cps_size t)"
proof (cases t)
  case CpsTimestamp
  then show ?thesis by (simp add: cpsTagSize_def isControl_def)
next
  case (CpsStatic hex)
  with assms have hex: "list_all isHexDigit hex" "hex \<noteq> []" "even (length hex)" by simp_all
  have "split_on (CHR '' '') (''b'' @ CHR '' '' # ''0x'' @ hex) = [''b'', ''0x'' @ hex]"
    using hex_chars [OF hex(1)] by (intro split_two) auto
  moreover have "\<not> list_ex isControl (''b 0x'' @ hex)"
    using hex_chars [OF hex(1)] by (simp add: isControl_def)
  ultimately show ?thesis using hex CpsStatic
    by (auto simp: cpsTagSize_def Let_def)
next
  case (CpsRandom alphabet digits)
  with assms have d: "alphabet \<in> {''r'', ''rc'', ''rd''}" "digits \<noteq> []" "all_digits digits"
    "dec_val digits \<le> 1000" by simp_all
  have "split_on (CHR '' '') (alphabet @ CHR '' '' # digits) = [alphabet, digits]"
    using d(1) digit_chars(2) [OF d(3)] by (intro split_two) auto
  moreover have "\<not> list_ex isControl (alphabet @ '' '' @ digits)"
    using d(1) digit_chars(1) [OF d(3)] by (auto simp: isControl_def)
  moreover have "parseCPSSize digits = Inr (dec_val digits)" using d by (simp add: parseCPSSize_Inr)
  moreover have "alphabet @ '' '' @ digits \<noteq> ''t''" using d(1) by auto
  ultimately show ?thesis using d(1,2) CpsRandom by (auto simp: cpsTagSize_def Let_def)
qed

lemma cpsTagSize_sound:
  assumes "cpsTagSize field tag = Inr n"
  shows "\<exists>t. cps_tag_ok t \<and> cps_text t = tag \<and> cps_size t = n"
proof (cases "tag = ''t''")
  case True
  with assms have "n = 4" by (simp add: cpsTagSize_def isControl_def)
  with True show ?thesis by (intro exI [of _ CpsTimestamp]) simp
next
  case False
  have "length (split_on (CHR '' '') tag) = 2"
    using assms False by (auto simp: cpsTagSize_def Let_def split: if_splits)
  then obtain a b where ab: "split_on (CHR '' '') tag = [a, b]"
    by (auto simp: eval_nat_numeral length_Suc_conv)
  then have tag: "tag = a @ CHR '' '' # b" by (simp add: split_two_iff)
  consider "a = ''b''" | "a \<in> {''r'', ''rc'', ''rd''}"
    using assms False ab by (auto simp: cpsTagSize_def Let_def split: if_splits)
  then show ?thesis
  proof cases
    case 1
    obtain hex where b: "b = ''0x'' @ hex" "hex \<noteq> []" "even (length hex)" "list_all isHexDigit hex"
        "n = length hex div 2"
      using assms False ab 1
      by (auto simp: cpsTagSize_def Let_def has_prefix_iff even_iff_mod_2_eq_zero split: if_splits)
    then show ?thesis using tag 1 by (intro exI [of _ "CpsStatic hex"]) simp
  next
    case 2
    then have "parseCPSSize b = Inr n"
      using assms False ab
      by (auto simp: cpsTagSize_def Let_def res_simps split: if_splits)
    then show ?thesis using tag 2
      by (intro exI [of _ "CpsRandom a b"]) (auto simp: parseCPSSize_Inr)
  qed
qed

lemma cps_packet_simps [simp]:
  "cps_packet [] = []" "cps_packet (t # ts) = CHR ''<'' # cps_text t @ CHR ''>'' # cps_packet ts"
  by (simp_all add: cps_packet_def)

lemma takeWhile_close: "c \<notin> set a \<Longrightarrow> takeWhile (\<lambda>x. x \<noteq> c) (a @ c # b) = a"
  by (induction a) auto

lemma validateCPS_complete:
  "\<forall>t \<in> set ts. cps_tag_ok t \<Longrightarrow> size0 + sum_list (map cps_size ts) \<le> 1280 \<Longrightarrow>
   validateCPS_loop field size0 (cps_packet ts) = None"
proof (induction ts arbitrary: size0)
  case (Cons t ts)
  then have "CHR ''>'' \<notin> set (cps_text t)" "cpsTagSize field (cps_text t) = Inr (cps_size t)"
    by (auto simp: cps_text_no_close cpsTagSize_complete)
  with Cons show ?case by (simp add: takeWhile_close MaxCPSPacketSize_def)
qed simp

lemma validateCPS_sound:
  assumes "validateCPS_loop field size0 s = None" "size0 \<le> 1280"
  shows "\<exists>ts. (\<forall>t \<in> set ts. cps_tag_ok t) \<and> s = cps_packet ts \<and> size0 + sum_list (map cps_size ts) \<le> 1280"
  using assms
proof (induction field size0 s rule: validateCPS_loop.induct)
  case (1 field size0)
  then show ?case by (intro exI [of _ "[]"]) simp
next
  case (2 field size0 c rest)
  define tag where "tag = takeWhile (\<lambda>x. x \<noteq> CHR ''>'') rest"
  have c: "c = CHR ''<''" "CHR ''>'' \<in> set rest" using "2.prems" by (auto split: if_splits)
  then obtain n where n: "cpsTagSize field tag = Inr n" "size0 + n \<le> 1280"
    "validateCPS_loop field (size0 + n) (drop (length tag + 1) rest) = None"
    using "2.prems" by (auto simp: Let_def tag_def MaxCPSPacketSize_def split: sum.splits if_splits)
  have "\<exists>ts. (\<forall>t \<in> set ts. cps_tag_ok t) \<and> drop (length tag + 1) rest = cps_packet ts
      \<and> size0 + n + sum_list (map cps_size ts) \<le> 1280"
    using "2.IH" [of tag n] c n by (auto simp: tag_def MaxCPSPacketSize_def)
  then obtain ts where ts: "\<forall>t \<in> set ts. cps_tag_ok t" "drop (length tag + 1) rest = cps_packet ts"
      "size0 + n + sum_list (map cps_size ts) \<le> 1280" by blast
  obtain t where t: "cps_tag_ok t" "cps_text t = tag" "cps_size t = n"
    using cpsTagSize_sound [OF n(1)] by blast
  obtain a b where ab: "rest = a @ CHR ''>'' # b" "CHR ''>'' \<notin> set a"
    using split_list_first [OF c(2)] by blast
  then have "rest = tag @ CHR ''>'' # drop (length tag + 1) rest"
    by (simp add: tag_def takeWhile_close)
  then have "c # rest = cps_packet (t # ts)" using ts t c by simp
  with t ts show ?case by (intro exI [of _ "t # ts"]) auto
qed

section \<open>What the validators accept\<close>

text \<open>A header text denotes the interval of message types from \<open>a\<close> to \<open>b\<close>.\<close>

definition header_spans :: "string \<Rightarrow> nat \<times> nat \<Rightarrow> bool" where
  "header_spans v = (\<lambda>(a, b). a \<le> b \<and> b < 2 ^ 32 \<and>
     (v \<noteq> [] \<and> all_digits v \<and> dec_val v = a \<and> a = b \<or>
      (\<exists>x y. v = x @ ''-'' @ y \<and> x \<noteq> [] \<and> y \<noteq> [] \<and> all_digits x \<and> all_digits y
         \<and> dec_val x = a \<and> dec_val y = b)))"

definition dns_ok :: "AWGParams \<Rightarrow> bool" where
  "dns_ok p \<longleftrightarrow>
     (DNSMode p = [] \<and> \<not> dnsModeSet p \<and> \<not> dnsServersSet p \<and> DNSServers p = None
        \<and> (DNS p = [] \<or> ParseAddr4 (DNS p) \<noteq> None)
      \<or> DNSMode p \<in> {''default'', ''system'', ''custom''} \<and> \<not> dnsSet p \<and> DNS p = []
        \<and> (DNSMode p = ''custom'' \<longleftrightarrow> slice (DNSServers p) \<noteq> [])
        \<and> (\<forall>s \<in> set (slice (DNSServers p)). ParseAddr4 s \<noteq> None))"

definition cps_ok :: "string \<Rightarrow> bool" where
  "cps_ok s \<longleftrightarrow> (\<exists>tags. (\<forall>t \<in> set tags. cps_tag_ok t) \<and> s = cps_packet tags
     \<and> sum_list (map cps_size tags) \<le> 1280)"

definition overrides_ok :: "ProtocolVersion \<Rightarrow> AWGParams \<Rightarrow> bool" where
  "overrides_ok v p \<longleftrightarrow>
     v \<in> {''2.0'', ''3.1''}
     \<and> (Port p = 0 \<or> Port p \<in> {1024..65535})
     \<and> (ClientListenPort p = 0 \<or> ClientListenPort p \<in> {1024..65535})
     \<and> (MTU p = 0 \<or> MTU p \<in> {1280..1420})
     \<and> dns_ok p
     \<and> (v = ''2.0'' \<longrightarrow>
          (\<forall>r. PersistentKeepalive p = Some r \<longrightarrow> kind r = uint16RangeScalar)
          \<and> ContentPaddingAddition p = None \<and> RekeyAfterTime p = None \<and> RekeyTimeout p = None
          \<and> RejectAfterTime p = None \<and> KeepaliveTimeout p = None \<and> MaxHandshakeAttempts p = None
          \<and> RandomTrailers p = [] \<and> DisableCookies p = [])
     \<and> (v = ''3.1'' \<longrightarrow> RandomTrailers p \<in> {[], ''on'', ''off''} \<and> DisableCookies p \<in> {[], ''on'', ''off''})
     \<and> Jc p \<in> {0..128} \<and> Jmin p \<in> {0..1280} \<and> Jmax p \<in> {0..1280}
     \<and> S1 p \<in> {0..1132} \<and> S2 p \<in> {0..1188} \<and> S3 p \<in> {0..64} \<and> S4 p \<in> {0..32}
     \<and> (\<forall>h \<in> {H1 p, H2 p, H3 p, H4 p}. h = [] \<or> (\<exists>ab. header_spans h ab))
     \<and> (\<forall>i \<in> {I1 p, I2 p, I3 p, I4 p, I5 p}. cps_ok i)"

lemma overrides_dns: "overrides_ok v p \<Longrightarrow> dns_ok p"
  unfolding overrides_ok_def by (elim conjE)

definition disjoint_spans :: "(nat \<times> nat) list \<Rightarrow> bool" where
  "disjoint_spans = sorted_wrt (\<lambda>(a, b) (c, d). {a..b} \<inter> {c..d} = {})"

definition profile_ok :: "ProtocolVersion \<Rightarrow> AWGParams \<Rightarrow> bool" where
  "profile_ok v p \<longleftrightarrow>
     overrides_ok v p
     \<and> (v = ''3.1'' \<longrightarrow> 12 \<le> S1 p \<and> 12 \<le> S2 p \<and> 12 \<le> S3 p \<and> 12 \<le> S4 p)
     \<and> (Jc p > 0 \<longrightarrow> 0 < Jmin p \<and> Jmin p < Jmax p)
     \<and> S1 p + 56 \<noteq> S2 p
     \<and> (\<exists>spans. list_all2 header_spans [H1 p, H2 p, H3 p, H4 p] spans \<and> disjoint_spans spans)"

lemma parseUint32Decimal_Inr:
  "parseUint32Decimal s = Inr w \<longleftrightarrow>
     s \<noteq> [] \<and> all_digits s \<and> dec_val s < 2 ^ 32 \<and> w = of_nat (dec_val s)"
  by (auto simp: parseUint32Decimal_def parse_uint_def split: if_splits)

lemma uint32_span:
  assumes "a < 2 ^ 32" "b < 2 ^ 32"
  shows "(of_nat a :: 32 word) \<le> of_nat b \<longleftrightarrow> a \<le> b" "unat (of_nat a :: 32 word) = a"
  using assms by (simp_all add: word_le_nat_alt unat_of_nat)

lemma parseHeaderRange_plain:
  assumes "CHR ''-'' \<notin> set v"
  shows "parseHeaderRange f v = Inr r \<longleftrightarrow>
    v \<noteq> [] \<and> all_digits v \<and> dec_val v < 2 ^ 32
    \<and> r = \<lparr>hdr_start = of_nat (dec_val v), hdr_end = of_nat (dec_val v)\<rparr>"
  using split_on_no_sep [OF assms]
  by (auto simp: parseHeaderRange_def Let_def res_simps parseUint32Decimal_Inr)

lemma parseHeaderRange_dash:
  assumes "CHR ''-'' \<notin> set x" "CHR ''-'' \<notin> set y"
  shows "parseHeaderRange f (x @ CHR ''-'' # y) = Inr r \<longleftrightarrow>
    x \<noteq> [] \<and> y \<noteq> [] \<and> all_digits x \<and> all_digits y \<and> dec_val x \<le> dec_val y \<and> dec_val y < 2 ^ 32
    \<and> r = \<lparr>hdr_start = of_nat (dec_val x), hdr_end = of_nat (dec_val y)\<rparr>"
proof -
  have "parseHeaderRange f (x @ CHR ''-'' # y) = Inr r \<longleftrightarrow>
      (\<exists>a b. parseUint32Decimal x = Inr a \<and> parseUint32Decimal y = Inr b \<and> a \<le> b
        \<and> r = \<lparr>hdr_start = a, hdr_end = b\<rparr>)"
    using split_two [OF assms] by (auto simp: parseHeaderRange_def Let_def res_simps not_less)
  then show ?thesis
    using uint32_span(1) [of "dec_val x" "dec_val y"] by (auto simp: parseUint32Decimal_Inr)
qed

lemma parseHeaderRange_shape:
  assumes "parseHeaderRange f v = Inr r"
  shows "CHR ''-'' \<notin> set v \<or> (\<exists>x y. v = x @ CHR ''-'' # y \<and> CHR ''-'' \<notin> set x \<and> CHR ''-'' \<notin> set y)"
proof -
  have "length (split_on (CHR ''-'') v) \<le> 2"
    using assms by (auto simp: parseHeaderRange_def Let_def split: if_splits)
  then consider a where "split_on (CHR ''-'') v = [a]" | a b where "split_on (CHR ''-'') v = [a, b]"
    by (cases "split_on (CHR ''-'') v"; cases "tl (split_on (CHR ''-'') v)") auto
  then show ?thesis
  proof cases
    case 1
    then show ?thesis using split_on_parts_no_sep [of a "CHR ''-''" v] join_split_on [of "CHR ''-''" v] by simp
  next
    case 2
    then show ?thesis by (auto simp: split_two_iff)
  qed
qed

lemma parseHeaderRange_spans:
  assumes "parseHeaderRange f v = Inr r"
  shows "header_spans v (unat (hdr_start r), unat (hdr_end r))"
proof (cases "CHR ''-'' \<in> set v")
  case False
  then show ?thesis using assms
    by (auto simp: parseHeaderRange_plain header_spans_def uint32_span(2))
next
  case True
  with parseHeaderRange_shape [OF assms] obtain x y
    where v: "v = x @ CHR ''-'' # y" and xy: "CHR ''-'' \<notin> set x" "CHR ''-'' \<notin> set y" by auto
  have props: "x \<noteq> []" "y \<noteq> []" "all_digits x" "all_digits y" "dec_val x \<le> dec_val y" "dec_val y < 2 ^ 32"
    and r: "r = \<lparr>hdr_start = of_nat (dec_val x), hdr_end = of_nat (dec_val y)\<rparr>"
    using assms parseHeaderRange_dash [OF xy] v by auto
  have "dec_val x < 2 ^ 32" using props by linarith
  with props r have "unat (hdr_start r) = dec_val x" "unat (hdr_end r) = dec_val y"
    by (simp_all add: uint32_span(2))
  with props show ?thesis unfolding header_spans_def v by auto
qed

lemma spans_parseHeaderRange:
  assumes "header_spans v (a, b)"
  shows "parseHeaderRange f v = Inr \<lparr>hdr_start = of_nat a, hdr_end = of_nat b\<rparr>" "v \<noteq> []"
proof -
  consider "v \<noteq> []" "all_digits v" "dec_val v = a" "a = b" "b < 2 ^ 32"
    | x y where "v = x @ CHR ''-'' # y" "x \<noteq> []" "y \<noteq> []" "all_digits x" "all_digits y"
      "dec_val x = a" "dec_val y = b" "a \<le> b" "b < 2 ^ 32"
    using assms by (auto simp: header_spans_def)
  then have "parseHeaderRange f v = Inr \<lparr>hdr_start = of_nat a, hdr_end = of_nat b\<rparr> \<and> v \<noteq> []"
  proof cases
    case 1
    then show ?thesis by (simp add: parseHeaderRange_plain all_digits_no_sep)
  next
    case 2
    then show ?thesis by (simp add: parseHeaderRange_dash all_digits_no_sep)
  qed
  then show "parseHeaderRange f v = Inr \<lparr>hdr_start = of_nat a, hdr_end = of_nat b\<rparr>" "v \<noteq> []" by auto
qed

lemma header_spans_unique: "header_spans v ab \<Longrightarrow> header_spans v cd \<Longrightarrow> ab = cd"
proof -
  assume *: "header_spans v ab" "header_spans v cd"
  obtain a b c d where ab: "ab = (a, b)" and cd: "cd = (c, d)" by (cases ab; cases cd)
  have "of_nat a = (of_nat c :: 32 word)" "of_nat b = (of_nat d :: 32 word)"
    using spans_parseHeaderRange(1) [of v a b "[]"] spans_parseHeaderRange(1) [of v c d "[]"] * ab cd by auto
  moreover have "a < 2 ^ 32" "b < 2 ^ 32" "c < 2 ^ 32" "d < 2 ^ 32"
    using * by (auto simp: header_spans_def ab cd)
  ultimately show ?thesis unfolding ab cd by (metis uint32_span(2))
qed

lemma header_check_None:
  "header_check (f, v) = None \<longleftrightarrow> v = [] \<or> (\<exists>ab. header_spans v ab)"
  by (auto simp: header_check_def split: sum.splits dest: parseHeaderRange_spans spans_parseHeaderRange(1) [where f = f])

lemma validateCPS_None: "(if v = [] then None else validateCPS f v) = None \<longleftrightarrow> cps_ok v"
proof (cases "v = []")
  case True
  moreover have "cps_ok []" unfolding cps_ok_def by (rule exI [of _ "[]"]) simp
  ultimately show ?thesis by simp
next
  case False
  have "validateCPS f v = None \<longleftrightarrow> cps_ok v"
    using validateCPS_complete [of _ 0 f] validateCPS_sound [of f 0 v]
    by (auto simp: validateCPS_def cps_ok_def)
  with False show ?thesis by simp
qed

lemma cps_ok_Nil [simp]: "cps_ok []"
  using validateCPS_None [of "[]"] by simp

lemma dns_servers_None:
  "first_err (map dns_server_check (enumerate n xs)) = None \<longleftrightarrow> (\<forall>s \<in> set xs. ParseAddr4 s \<noteq> None)"
  by (induction xs arbitrary: n) (auto simp: dns_server_check_def split: option.splits)

lemma ValidateDNS_None: "ValidateDNS d = None \<longleftrightarrow> d = [] \<or> ParseAddr4 d \<noteq> None"
  by (auto simp: ValidateDNS_def split: option.splits)

lemma slice_empty: "slice xs = [] \<longleftrightarrow> xs = None \<or> xs = Some []"
  by (auto simp: slice_def split: option.splits)

lemma validateDNSSettings_None: "validateDNSSettings p = None \<longleftrightarrow> dns_ok p"
  by (auto simp: validateDNSSettings_def Let_def dns_servers_None dns_ok_def dns_consts ValidateDNS_None)

lemma ValidatePort_None: "ValidatePort x = None \<longleftrightarrow> x = 0 \<or> x \<in> {1024..65535}"
  by (auto simp: ValidatePort_def param_consts)

lemma ValidateMTU_None: "ValidateMTU x = None \<longleftrightarrow> x = 0 \<or> x \<in> {1280..1420}"
  by (auto simp: ValidateMTU_def param_consts)

lemma numeric_checks_None:
  "first_err (numeric_checks p) = None \<longleftrightarrow>
     Jc p \<in> {0..128} \<and> Jmin p \<in> {0..1280} \<and> Jmax p \<in> {0..1280}
     \<and> S1 p \<in> {0..1132} \<and> S2 p \<in> {0..1188} \<and> S3 p \<in> {0..64} \<and> S4 p \<in> {0..32}"
  by (auto simp: numeric_checks_def limit_consts fail_if_eq)

lemma v31_only_checks_None:
  "first_err (v31_only_checks p) = None \<longleftrightarrow>
     ContentPaddingAddition p = None \<and> RekeyAfterTime p = None \<and> RekeyTimeout p = None
     \<and> RejectAfterTime p = None \<and> KeepaliveTimeout p = None \<and> MaxHandshakeAttempts p = None
     \<and> RandomTrailers p = [] \<and> DisableCookies p = []"
  by (auto simp: v31_only_checks_def fail_if_eq)

lemma validateToggle_None: "validateToggle f v = None \<longleftrightarrow> v \<in> {[], ''on'', ''off''}"
  by (auto simp: validateToggle_def)

lemma cps_checks_None:
  "first_err (cps_checks p) = None \<longleftrightarrow> (\<forall>i \<in> {I1 p, I2 p, I3 p, I4 p, I5 p}. cps_ok i)"
  by (simp only: cps_checks_def list.map first_err_None_simps list.set ball_simps insert_iff empty_iff
        prod.case validateCPS_None simp_thms)

lemma headers_None:
  "first_err (map header_check (headers_of p)) = None \<longleftrightarrow>
     (\<forall>h \<in> {H1 p, H2 p, H3 p, H4 p}. h = [] \<or> (\<exists>ab. header_spans h ab))"
  by (simp add: headers_of_def header_check_None)

lemmas validator_None = ValidatePort_None ValidateMTU_None validateDNSSettings_None
  numeric_checks_None v31_only_checks_None validateToggle_None cps_checks_None headers_None

lemma scalar_keepalive:
  "(case k of None \<Rightarrow> False | Some r \<Rightarrow> \<not> IsScalar r) \<longleftrightarrow> (\<exists>r. k = Some r \<and> kind r \<noteq> uint16RangeScalar)"
  by (cases k) (auto simp: IsScalar_def)

lemma ValidateOverrides_None:
  "ValidateOverridesForVersion v (Some p) = None \<longleftrightarrow> overrides_ok v p"
proof (cases "version_Valid v")
  case False
  then show ?thesis
    by (simp add: ValidateOverridesForVersion_def overrides_ok_def version_Valid_def version_consts)
next
  case True
  have mode: "first_err (if v = ProtocolVersion2 then v31_only_checks p
             else [validateToggle ''random_trailers'' (RandomTrailers p),
                   validateToggle ''disable_cookies'' (DisableCookies p)]) = None
      \<longleftrightarrow> (v = ''2.0'' \<longrightarrow> first_err (v31_only_checks p) = None)
        \<and> (v = ''3.1'' \<longrightarrow> RandomTrailers p \<in> {[], ''on'', ''off''} \<and> DisableCookies p \<in> {[], ''on'', ''off''})"
    using True by (auto simp only: version_Valid_def version_consts first_err_None_simps validateToggle_None
        if_P if_not_P list.inject char.inject simp_thms split: if_split)
  show ?thesis using True
    unfolding ValidateOverridesForVersion_def option.case guard_None first_err_None_simps mode validator_None
      option.map_disc_iff overrides_ok_def fail_if_eq scalar_keepalive
    by (simp add: version_Valid_def version_consts ValidatePersistentKeepalive_def param_consts not_less
        imp_conjR conj_assoc)
qed

lemma overlap_check_None:
  assumes "hdr_start (snd a) \<le> hdr_end (snd a)" "hdr_start (snd b) \<le> hdr_end (snd b)"
  shows "overlap_check a b = None \<longleftrightarrow>
    {unat (hdr_start (snd a))..unat (hdr_end (snd a))} \<inter> {unat (hdr_start (snd b))..unat (hdr_end (snd b))} = {}"
proof -
  have "{a..b} \<inter> {c..d} = {} \<longleftrightarrow> b < c \<or> d < a" if "a \<le> b" "c \<le> d" for a b c d :: nat
    using that by auto
  from this [of "unat (hdr_start (snd a))" "unat (hdr_end (snd a))"
      "unat (hdr_start (snd b))" "unat (hdr_end (snd b))"]
  show ?thesis using assms by (auto simp: overlap_check_def word_less_nat_alt word_le_nat_alt)
qed

lemma overlap_checks_None:
  assumes "\<forall>a \<in> set rs. hdr_start (snd a) \<le> hdr_end (snd a)"
  shows "first_err (overlap_checks rs) = None \<longleftrightarrow>
    disjoint_spans (map (\<lambda>a. (unat (hdr_start (snd a)), unat (hdr_end (snd a)))) rs)"
  using assms
proof (induction rs)
  case (Cons a rs)
  have "first_err (map (overlap_check a) rs) = None \<longleftrightarrow> (\<forall>b \<in> set rs. overlap_check a b = None)"
    by (simp add: first_err_None_iff)
  also have "\<dots> \<longleftrightarrow> (\<forall>b \<in> set rs. {unat (hdr_start (snd a))..unat (hdr_end (snd a))}
      \<inter> {unat (hdr_start (snd b))..unat (hdr_end (snd b))} = {})"
    using Cons.prems by (intro ball_cong refl overlap_check_None) auto
  finally show ?case using Cons by (simp add: first_err_None_simps disjoint_spans_def)
qed (simp add: disjoint_spans_def)

lemma collect_headers_Inr:
  "collect_headers fvs = Inr rs \<Longrightarrow>
     list_all2 header_spans (map snd fvs) (map (\<lambda>a. (unat (hdr_start (snd a)), unat (hdr_end (snd a)))) rs)
     \<and> (\<forall>a \<in> set rs. hdr_start (snd a) \<le> hdr_end (snd a))"
proof (induction fvs arbitrary: rs rule: collect_headers.induct)
  case (2 f v rest)
  then obtain r rs' where "parseHeaderRange f v = Inr r" "collect_headers rest = Inr rs'"
    "rs = (f, r) # rs'" "v \<noteq> []" by (auto simp: res_simps split: if_splits)
  moreover from this have "header_spans v (unat (hdr_start r), unat (hdr_end r))"
    by (auto dest: parseHeaderRange_spans)
  ultimately show ?case using 2 by (auto simp: header_spans_def word_le_nat_alt)
qed simp

lemma collect_headers_complete:
  "list_all2 header_spans (map snd fvs) spans \<Longrightarrow> \<exists>rs. collect_headers fvs = Inr rs"
proof (induction fvs arbitrary: spans rule: collect_headers.induct)
  case (2 f v rest)
  then obtain a b spans' where ab: "header_spans v (a, b)" "list_all2 header_spans (map snd rest) spans'"
    by (auto simp: list_all2_Cons1)
  then obtain rs where "collect_headers rest = Inr rs"
    using 2(1) spans_parseHeaderRange(2) [OF ab(1)] spans_parseHeaderRange(1) [OF ab(1), of f] by blast
  then show ?case
    using spans_parseHeaderRange(2) [OF ab(1)] spans_parseHeaderRange(1) [OF ab(1), of f] by simp
qed simp

lemma header_spans_list_unique:
  "list_all2 header_spans vs xs \<Longrightarrow> list_all2 header_spans vs ys \<Longrightarrow> xs = ys"
  by (induction vs arbitrary: xs ys) (auto simp: list_all2_Cons1 dest: header_spans_unique)

lemma headers_disjoint_iff:
  "(case collect_headers (headers_of p) of Inl err \<Rightarrow> Some err | Inr rs \<Rightarrow> first_err (overlap_checks rs)) = None
   \<longleftrightarrow> (\<exists>spans. list_all2 header_spans [H1 p, H2 p, H3 p, H4 p] spans \<and> disjoint_spans spans)"
proof (cases "collect_headers (headers_of p)")
  case (Inl e)
  then show ?thesis using collect_headers_complete [of "headers_of p"] by (auto simp: headers_of_def)
next
  case (Inr rs)
  let ?spans = "map (\<lambda>a. (unat (hdr_start (snd a)), unat (hdr_end (snd a)))) rs"
  have *: "list_all2 header_spans [H1 p, H2 p, H3 p, H4 p] ?spans"
    "\<forall>a \<in> set rs. hdr_start (snd a) \<le> hdr_end (snd a)"
    using collect_headers_Inr [OF Inr] by (simp_all add: headers_of_def)
  then have "disjoint_spans ?spans \<longleftrightarrow>
      (\<exists>spans. list_all2 header_spans [H1 p, H2 p, H3 p, H4 p] spans \<and> disjoint_spans spans)"
    using header_spans_list_unique by blast
  then show ?thesis unfolding Inr sum.case overlap_checks_None [OF *(2)] .
qed

lemma ValidateProfile_None: "ValidateProfileForVersion v p = None \<longleftrightarrow> profile_ok v p"
proof -
  have v31: "first_err (if v = ProtocolVersion31
        then map (\<lambda>(field, value). fail_if (value < 12)
                    (invalidParam field ''must be at least 12 for protocol version 3.1''))
               [(''s1'', S1 p), (''s2'', S2 p), (''s3'', S3 p), (''s4'', S4 p)]
        else []) = None
      \<longleftrightarrow> (v = ''3.1'' \<longrightarrow> 12 \<le> S1 p \<and> 12 \<le> S2 p \<and> 12 \<le> S3 p \<and> 12 \<le> S4 p)"
    by (simp add: fail_if_eq version_consts not_less)
  have junk: "first_err (if Jc p > 0
        then [fail_if (Jmin p \<le> 0) a, fail_if (Jmax p \<le> 0) b, fail_if (Jmin p \<ge> Jmax p) c] else []) = None
      \<longleftrightarrow> (Jc p > 0 \<longrightarrow> 0 < Jmin p \<and> Jmin p < Jmax p)" for a b c
    by (auto simp: fail_if_eq)
  show ?thesis
    unfolding ValidateProfileForVersion_def profile_ok_def first_err_None_simps v31 junk
      ValidateOverrides_None headers_disjoint_iff fail_if_eq by blast
qed

section \<open>Generated profiles\<close>

lemma header_spans_print:
  "a \<le> b \<Longrightarrow> b < 2 ^ 32 \<Longrightarrow> header_spans (dec_nat a @ CHR ''-'' # dec_nat b) (a, b)"
  "a < 2 ^ 32 \<Longrightarrow> header_spans (dec_nat a) (a, a)"
proof -
  show "header_spans (dec_nat a @ CHR ''-'' # dec_nat b) (a, b)" if "a \<le> b" "b < 2 ^ 32"
    unfolding header_spans_def prod.case using that
    by (intro conjI disjI2 exI [of _ "dec_nat a"] exI [of _ "dec_nat b"]) simp_all
qed (simp add: header_spans_def)

definition in_tier :: "string \<Rightarrow> nat \<Rightarrow> nat \<Rightarrow> bool" where
  "in_tier h lo hi \<longleftrightarrow> (\<exists>a b. header_spans h (a, b) \<and> lo \<le> a \<and> b < hi)"

lemma generateHRange_in_tier:
  "generateHRange lo hi ent = Inr (h, ent') \<Longrightarrow> lo < hi \<Longrightarrow> 1 < hi - lo \<Longrightarrow> in_tier h (unat lo) (unat hi)"
proof (erule generateHRange_tier)
  fix a b
  assume h: "h = dec_nat a @ ''-'' @ dec_nat b" "unat lo \<le> a" "a \<le> b" "b < unat hi"
  moreover have "b < 2 ^ 32" using h(4) unat_addr_less [of hi] by simp
  ultimately show "in_tier h (unat lo) (unat hi)"
    using header_spans_print(1) [of a b] by (auto simp: in_tier_def)
qed auto

lemma generateHValue_in_tier:
  "generateHValue lo hi ent = Inr (h, ent') \<Longrightarrow> lo < hi \<Longrightarrow> in_tier h (unat lo) (unat hi)"
proof (erule generateHValue_tier)
  fix v
  assume h: "h = dec_nat v" "unat lo \<le> v" "v < unat hi"
  moreover have "v < 2 ^ 32" using h(3) unat_addr_less [of hi] by simp
  ultimately show "in_tier h (unat lo) (unat hi)"
    using header_spans_print(2) [of v] by (auto simp: in_tier_def)
qed auto

lemma wrap_gen_Inr [simp]: "wrap_gen what r = Inr x \<longleftrightarrow> r = Inr x"
  by (simp add: wrap_gen_def res_simps)

lemma GenerateParams_tiers:
  assumes "GenerateParams ent = Inr (g, ent')"
  shows "in_tier (gH1 g) 100000 800000" "in_tier (gH2 g) 1000000 8000000"
    "in_tier (gH3 g) 10000000 80000000" "in_tier (gH4 g) 100000000 800000000"
    "15 \<le> gS1 g \<and> gS1 g < 151" "15 \<le> gS2 g \<and> gS2 g < 151" "gS1 g + 56 \<noteq> gS2 g"
proof -
  obtain e1 e2 e3 e4 e5 e6 where run:
    "generateHRange 100000 800000 ent = Inr (gH1 g, e1)" "generateHRange 1000000 8000000 e1 = Inr (gH2 g, e2)"
    "generateHRange 10000000 80000000 e2 = Inr (gH3 g, e3)"
    "generateHRange 100000000 800000000 e3 = Inr (gH4 g, e4)"
    "randIntRange 15 151 e4 = Inr (gS1 g, e5)" "draw_s2 (gS1 g) e5 = Inr (gS2 g, e6)"
    using assms unfolding GenerateParams_def by (auto simp: res_simps)
  show "in_tier (gH1 g) 100000 800000" "in_tier (gH2 g) 1000000 8000000"
    "in_tier (gH3 g) 10000000 80000000" "in_tier (gH4 g) 100000000 800000000"
    using generateHRange_in_tier [OF run(1)] generateHRange_in_tier [OF run(2)]
      generateHRange_in_tier [OF run(3)] generateHRange_in_tier [OF run(4)] by simp_all
  show "15 \<le> gS1 g \<and> gS1 g < 151" using randIntRange_bounds [OF run(5)] by simp
  show "15 \<le> gS2 g \<and> gS2 g < 151" "gS1 g + 56 \<noteq> gS2 g" using draw_s2_props [OF run(6)] by simp_all
qed

lemma GenerateParamsV31_tiers:
  assumes "GenerateParamsV31 ent = Inr (g, ent')"
  shows "in_tier (gH1 g) 100000 800000" "in_tier (gH2 g) 1000000 8000000"
    "in_tier (gH3 g) 10000000 80000000" "in_tier (gH4 g) 100000000 800000000"
    "15 \<le> gS1 g \<and> gS1 g < 151" "15 \<le> gS2 g \<and> gS2 g < 151" "gS1 g + 56 \<noteq> gS2 g"
    "15 \<le> gS3 g \<and> gS3 g < 64" "gS4 g = 12"
proof -
  obtain e1 e2 e3 e4 e5 e6 e7 where run:
    "generateHValue 100000 800000 ent = Inr (gH1 g, e1)" "generateHValue 1000000 8000000 e1 = Inr (gH2 g, e2)"
    "generateHValue 10000000 80000000 e2 = Inr (gH3 g, e3)"
    "generateHValue 100000000 800000000 e3 = Inr (gH4 g, e4)"
    "randIntRange 15 151 e4 = Inr (gS1 g, e5)" "draw_s2 (gS1 g) e5 = Inr (gS2 g, e6)"
    "randIntRange 15 64 e6 = Inr (gS3 g, e7)" "gS4 g = 12"
    using assms unfolding GenerateParamsV31_def by (auto simp: res_simps)
  show "in_tier (gH1 g) 100000 800000" "in_tier (gH2 g) 1000000 8000000"
    "in_tier (gH3 g) 10000000 80000000" "in_tier (gH4 g) 100000000 800000000"
    using generateHValue_in_tier [OF run(1)] generateHValue_in_tier [OF run(2)]
      generateHValue_in_tier [OF run(3)] generateHValue_in_tier [OF run(4)] by simp_all
  show "15 \<le> gS1 g \<and> gS1 g < 151" using randIntRange_bounds [OF run(5)] by simp
  show "15 \<le> gS2 g \<and> gS2 g < 151" "gS1 g + 56 \<noteq> gS2 g" using draw_s2_props [OF run(6)] by simp_all
  show "15 \<le> gS3 g \<and> gS3 g < 64" "gS4 g = 12" using randIntRange_bounds [OF run(7)] run(8) by simp_all
qed

lemma tiers_disjoint:
  assumes "in_tier h1 100000 800000" "in_tier h2 1000000 8000000"
    "in_tier h3 10000000 80000000" "in_tier h4 100000000 800000000"
  shows "\<exists>spans. list_all2 header_spans [h1, h2, h3, h4] spans \<and> disjoint_spans spans"
proof -
  obtain a1 b1 a2 b2 a3 b3 a4 b4 where
    "header_spans h1 (a1, b1)" "header_spans h2 (a2, b2)" "header_spans h3 (a3, b3)" "header_spans h4 (a4, b4)"
    and "b1 < 800000" "1000000 \<le> a2" "b2 < 8000000" "10000000 \<le> a3" "b3 < 80000000" "100000000 \<le> a4"
    using assms unfolding in_tier_def by blast
  then show ?thesis
    by (intro exI [of _ "[(a1, b1), (a2, b2), (a3, b3), (a4, b4)]"]) (auto simp: disjoint_spans_def)
qed

lemma in_tier_spans: "in_tier h lo hi \<Longrightarrow> \<exists>ab. header_spans h ab"
  by (auto simp: in_tier_def)

lemma dns_ok_headers [simp]:
  "dns_ok (p\<lparr>H1 := h1, H2 := h2, H3 := h3, H4 := h4, S1 := s1, S2 := s2\<rparr>) = dns_ok p"
  "dns_ok (p\<lparr>H1 := h1, H2 := h2, H3 := h3, H4 := h4, S1 := s1, S2 := s2, S3 := s3, S4 := s4\<rparr>) = dns_ok p"
  by (simp_all add: dns_ok_def)

lemma generated_profile_ok:
  assumes "GenerateParams ent = Inr (g, ent')" "overrides_ok ''2.0'' p"
    and "Jc p > 0 \<longrightarrow> 0 < Jmin p \<and> Jmin p < Jmax p"
  shows "profile_ok ''2.0'' (ApplyGeneratedParams (Some p) g)"
  using assms(2,3) GenerateParams_tiers [OF assms(1)]
    GenerateParams_tiers(1-4) [OF assms(1), THEN in_tier_spans]
    tiers_disjoint [OF GenerateParams_tiers(1-4) [OF assms(1)]]
  by (simp add: profile_ok_def overrides_ok_def ApplyGeneratedParams_def)

lemma generated31_profile_ok:
  assumes "GenerateParamsV31 ent = Inr (g, ent')" "overrides_ok ''3.1'' p"
    and "Jc p > 0 \<longrightarrow> 0 < Jmin p \<and> Jmin p < Jmax p"
  shows "profile_ok ''3.1'' (ApplyGeneratedParamsV31 (Some p) g)"
  using assms(2,3) GenerateParamsV31_tiers [OF assms(1)]
    GenerateParamsV31_tiers(1-4) [OF assms(1), THEN in_tier_spans]
    tiers_disjoint [OF GenerateParamsV31_tiers(1-4) [OF assms(1)]]
  by (simp add: profile_ok_def overrides_ok_def ApplyGeneratedParamsV31_def)

lemma zeroParams_ok: "overrides_ok ''2.0'' zeroParams" "overrides_ok ''3.1'' zeroParams"
  by (simp_all add: overrides_ok_def zeroParams_def dns_ok_def slice_def)

lemmas generate_eval = randRead_def randUint32Range_def randIntRange_def generateHRange_def
  generateHValue_def wrap_gen_def draw_s2.simps go_eval

lemma GenerateParams_zeros:
  "GenerateParams [0, 0, 0, 0, 0, 0, 0, 0, 0, 0] =
     Inr (\<lparr>gH1 = ''100000-450000'', gH2 = ''1000000-4500000'', gH3 = ''10000000-45000000'',
           gH4 = ''100000000-450000000'', gS1 = 15, gS2 = 15\<rparr>, [])"
  by (simp add: GenerateParams_def generate_eval)

lemma GenerateParamsV31_zeros:
  "GenerateParamsV31 [0, 0, 0, 0, 0, 0, 0] =
     Inr (\<lparr>gH1 = ''100000'', gH2 = ''1000000'', gH3 = ''10000000'', gH4 = ''100000000'',
           gS1 = 15, gS2 = 15, gS3 = 15, gS4 = 12\<rparr>, [])"
  by (simp add: GenerateParamsV31_def generate_eval)

section \<open>Properties\<close>

text \<open>C26. validateCPS accepts exactly the sequences of well-formed tags (timestamp, even non-empty
  hexadecimal bytes, random bytes of at most 1000) that expand to at most 1280 bytes.\<close>

theorem validateCPS_grammar:
  "validateCPS field v = None \<longleftrightarrow>
     (\<exists>tags. list_all cps_tag_ok tags \<and> v = cps_packet tags \<and> sum_list (map cps_size tags) \<le> 1280)"
  using validateCPS_complete [of _ 0 field] validateCPS_sound [of field 0 v]
  by (auto simp: validateCPS_def list_all_iff)

text \<open>C25. ValidateOverridesForVersion accepts exactly the parameters inside the documented bounds, with
  consistent DNS settings, parsable headers and packets, and nothing of version 3.1 under 2.0.\<close>

theorem ValidateOverridesForVersion_correct:
  "ValidateOverridesForVersion v (Some p) = None \<longleftrightarrow> overrides_ok v p"
  by (rule ValidateOverrides_None)

text \<open>C15. ValidateProfileForVersion accepts exactly the effective profiles: valid overrides, the
  minimal paddings of version 3.1, ordered junk sizes, S1 + 56 different from S2, and four
  header ranges that are pairwise disjoint as sets of message types.\<close>

theorem ValidateProfileForVersion_correct:
  "ValidateProfileForVersion v p = None \<longleftrightarrow> profile_ok v p"
  by (rule ValidateProfile_None)





end
