(* ===== verification/Dns.thy ===== *)
theory Dns
  imports Validation
begin

text \<open>
  DNS settings and the normal form of parameter overrides, \<^verbatim>\<open>src/internal/awg/dns.go\<close>. Values of the
  model are immutable, so \<open>cloneAWGParams\<close> (a deep copy) is the identity. The plain decoding of
  \<open>encoding/json\<close> into the struct is a parameter of \<open>params_UnmarshalJSON\<close>; the null check and
  the presence flags that the repository adds on top of it are modelled.
\<close>

section \<open>Model\<close>

text \<open>
  \<open>strings.EqualFold\<close> against an ASCII name: ASCII letters fold to lower case, and the only other
  runes that fold to an ASCII letter are U+017F (long s) and U+212A (Kelvin sign).
\<close>

definition lower_char :: "char \<Rightarrow> char" where
  "lower_char c = (let v = (of_char c :: nat) in if 65 \<le> v \<and> v \<le> 90 then char_of (v + 32) else c)"

fun fold_name :: "string \<Rightarrow> string" where
  "fold_name [] = []"
| "fold_name (a # s) =
     (case s of
        b # t \<Rightarrow>
          if a = CHR 0xC5 \<and> b = CHR 0xBF then CHR ''s'' # fold_name t
          else (case t of
                  c # u \<Rightarrow> if a = CHR 0xE2 \<and> b = CHR 0x84 \<and> c = CHR 0xAA then CHR ''k'' # fold_name u
                           else lower_char a # fold_name s
                | [] \<Rightarrow> lower_char a # fold_name s)
      | [] \<Rightarrow> [lower_char a])"

definition EqualFold :: "string \<Rightarrow> string \<Rightarrow> bool" where
  "EqualFold field name = (fold_name field = fold_name name)"

definition restricted_fields :: "string list" where
  "restricted_fields = [''persistent_keepalive'', ''content_padding_addition'', ''rekey_after_time'',
     ''rekey_timeout'', ''reject_after_time'', ''keepalive_timeout'', ''max_handshake_attempts'',
     ''random_trailers'', ''disable_cookies'']"

definition rejectExplicitNullAWGParams :: "(string, json) gmap \<Rightarrow> go_error option" where
  "rejectExplicitNullAWGParams flds =
     first_err (map (\<lambda>restricted.
       fail_if (list_ex (\<lambda>(field, value). EqualFold field restricted \<and> value = JNull) flds)
         (invalidParam restricted ''must not be null'')) restricted_fields)"

text \<open>Decoding an object into a map keeps the last value of a repeated key.\<close>

definition json_fields :: "json \<Rightarrow> (string, json) gmap res" where
  "json_fields data =
     (case data of
        JObj kvs \<Rightarrow> Inr (fold (\<lambda>(k, v). AList.update k v) kvs [])
      | JNull \<Rightarrow> Inr []
      | _ \<Rightarrow> Inl (Plain ''json: cannot unmarshal into Go value of type map''))"

definition params_UnmarshalJSON :: "(json \<Rightarrow> AWGParams res) \<Rightarrow> json \<Rightarrow> AWGParams res" where
  "params_UnmarshalJSON decode_plain data =
     res_bind (decode_plain data) (\<lambda>decoded.
     res_bind (json_fields data) (\<lambda>flds.
     check (rejectExplicitNullAWGParams flds)
       (Inr (fold (\<lambda>(field, _) params.
              if EqualFold field ''dns'' then params\<lparr>dnsSet := True\<rparr>
              else if EqualFold field ''dns_mode'' then params\<lparr>dnsModeSet := True\<rparr>
              else if EqualFold field ''dns_servers'' then params\<lparr>dnsServersSet := True\<rparr>
              else params) flds decoded))))"

definition canonical_dns :: "string \<Rightarrow> string" where
  "canonical_dns value =
     (case ParseAddr4 value of Some address \<Rightarrow> addr_String address | None \<Rightarrow> ''invalid IP'')"

text \<open>The loop over the custom servers; \<open>servers\<close> is the list built so far and holds what is seen.\<close>

fun dedupe_servers :: "string list \<Rightarrow> string list \<Rightarrow> string list" where
  "dedupe_servers servers [] = servers"
| "dedupe_servers servers (value # rest) =
     (let canonical = canonical_dns value in
      if canonical \<in> set servers then dedupe_servers servers rest
      else dedupe_servers (servers @ [canonical]) rest)"

definition canonicalizeUnsignedRanges :: "AWGParams \<Rightarrow> AWGParams" where
  "canonicalizeUnsignedRanges p =
     p\<lparr>PersistentKeepalive := map_option Canonical (PersistentKeepalive p),
       ContentPaddingAddition := map_option Canonical (ContentPaddingAddition p),
       RekeyAfterTime := map_option Canonical (RekeyAfterTime p),
       RekeyTimeout := map_option Canonical (RekeyTimeout p),
       RejectAfterTime := map_option Canonical (RejectAfterTime p),
       KeepaliveTimeout := map_option Canonical (KeepaliveTimeout p),
       MaxHandshakeAttempts := map_option Canonical (MaxHandshakeAttempts p)\<rparr>"

definition NormalizeOverridesForVersion ::
  "ProtocolVersion \<Rightarrow> AWGParams option \<Rightarrow> AWGParams option res" where
  "NormalizeOverridesForVersion version params =
     (case params of
        None \<Rightarrow> Inr None
      | Some normalized \<Rightarrow>
          check (validateDNSSettings normalized)
            (let normalized =
               (if DNSMode normalized = DNSModeCustom
                then normalized\<lparr>DNSServers := Some (dedupe_servers [] (slice (DNSServers normalized)))\<rparr>
                else normalized) in
             check (ValidateOverridesForVersion version (Some normalized))
               (let normalized = (canonicalizeUnsignedRanges normalized)
                      \<lparr>dnsSet := False, dnsModeSet := False, dnsServersSet := False\<rparr> in
                if normalized = zeroParams then Inr None else Inr (Some normalized))))"

definition NormalizeOverrides :: "AWGParams option \<Rightarrow> AWGParams option res" where
  "NormalizeOverrides params = NormalizeOverridesForVersion ProtocolVersion2 params"

definition ResolveDNS :: "AWGParams option \<Rightarrow> string \<Rightarrow> string \<times> bool" where
  "ResolveDNS params defaultDNS =
     (case params of
        None \<Rightarrow> (defaultDNS, True)
      | Some p \<Rightarrow>
          if DNSMode p = DNSModeDefault then (defaultDNS, True)
          else if DNSMode p = DNSModeCustom then (join_str '', '' (slice (DNSServers p)), True)
          else if DNSMode p = DNSModeSystem then ([], False)
          else if DNS p \<noteq> [] then (DNS p, True)
          else (defaultDNS, True))"

section \<open>Lemmas\<close>

lemma canonical_dns_fix: "ParseAddr4 s \<noteq> None \<Longrightarrow> canonical_dns s = s"
  by (auto simp: canonical_dns_def dest: addr_String_ParseAddr4)

lemma dedupe_servers_props:
  assumes "\<forall>s \<in> set xs. ParseAddr4 s \<noteq> None" "distinct acc"
  shows "set (dedupe_servers acc xs) = set acc \<union> set xs" "distinct (dedupe_servers acc xs)"
  using assms by (induction acc xs rule: dedupe_servers.induct) (auto simp: canonical_dns_fix Let_def)

lemma dedupe_servers_distinct:
  assumes "\<forall>s \<in> set xs. ParseAddr4 s \<noteq> None" "distinct (acc @ xs)"
  shows "dedupe_servers acc xs = acc @ xs"
  using assms by (induction acc xs rule: dedupe_servers.induct) (auto simp: canonical_dns_fix Let_def)

lemma dedupe_servers_not_Nil: "acc \<noteq> [] \<Longrightarrow> dedupe_servers acc xs \<noteq> []"
  by (induction acc xs rule: dedupe_servers.induct) (auto simp: Let_def)

lemma dedupe_servers_Nil_iff [simp]: "dedupe_servers [] xs = [] \<longleftrightarrow> xs = []"
  by (cases xs) (simp_all add: Let_def dedupe_servers_not_Nil)

lemma slice_simps [simp]: "slice None = []" "slice (Some xs) = xs"
  by (simp_all add: slice_def)

text \<open>The normal form, without the error branches.\<close>

definition normal_form :: "AWGParams \<Rightarrow> AWGParams" where
  "normal_form p = (canonicalizeUnsignedRanges
       (if DNSMode p = DNSModeCustom
        then p\<lparr>DNSServers := Some (dedupe_servers [] (slice (DNSServers p)))\<rparr> else p))
     \<lparr>dnsSet := False, dnsModeSet := False, dnsServersSet := False\<rparr>"

lemma normal_form_fields [simp]:
  "Port (normal_form p) = Port p" "ClientListenPort (normal_form p) = ClientListenPort p" "MTU (normal_form p) = MTU p"
  "DNS (normal_form p) = DNS p" "DNSMode (normal_form p) = DNSMode p" "RandomTrailers (normal_form p) = RandomTrailers p"
  "DisableCookies (normal_form p) = DisableCookies p" "Jc (normal_form p) = Jc p" "Jmin (normal_form p) = Jmin p"
  "Jmax (normal_form p) = Jmax p" "S1 (normal_form p) = S1 p" "S2 (normal_form p) = S2 p"
  "S3 (normal_form p) = S3 p" "S4 (normal_form p) = S4 p" "H1 (normal_form p) = H1 p"
  "H2 (normal_form p) = H2 p" "H3 (normal_form p) = H3 p" "H4 (normal_form p) = H4 p"
  "I1 (normal_form p) = I1 p" "I2 (normal_form p) = I2 p" "I3 (normal_form p) = I3 p"
  "I4 (normal_form p) = I4 p" "I5 (normal_form p) = I5 p"
  "PersistentKeepalive (normal_form p) = map_option Canonical (PersistentKeepalive p)"
  "ContentPaddingAddition (normal_form p) = map_option Canonical (ContentPaddingAddition p)"
  "RekeyAfterTime (normal_form p) = map_option Canonical (RekeyAfterTime p)"
  "RekeyTimeout (normal_form p) = map_option Canonical (RekeyTimeout p)"
  "RejectAfterTime (normal_form p) = map_option Canonical (RejectAfterTime p)"
  "KeepaliveTimeout (normal_form p) = map_option Canonical (KeepaliveTimeout p)"
  "MaxHandshakeAttempts (normal_form p) = map_option Canonical (MaxHandshakeAttempts p)"
  "\<not> dnsSet (normal_form p)" "\<not> dnsModeSet (normal_form p)" "\<not> dnsServersSet (normal_form p)"
  "DNSServers (normal_form p) = (if DNSMode p = DNSModeCustom
     then Some (dedupe_servers [] (slice (DNSServers p))) else DNSServers p)"
  by (simp_all add: normal_form_def canonicalizeUnsignedRanges_def)

lemma normal_form_ok:
  assumes "overrides_ok v p"
  shows "overrides_ok v (normal_form p)"
proof -
  have "dns_ok p" using assms by (rule overrides_dns)
  then have "dns_ok (normal_form p)"
    using dedupe_servers_props [of "slice (DNSServers p)" "[]"]
    by (auto simp: dns_ok_def dns_consts)
  have v2: "v = ''2.0'' \<longrightarrow>
      (\<forall>r. map_option Canonical (PersistentKeepalive p) = Some r \<longrightarrow> kind r = uint16RangeScalar)
      \<and> ContentPaddingAddition p = None \<and> RekeyAfterTime p = None \<and> RekeyTimeout p = None
      \<and> RejectAfterTime p = None \<and> KeepaliveTimeout p = None \<and> MaxHandshakeAttempts p = None
      \<and> RandomTrailers p = [] \<and> DisableCookies p = []"
  proof
    assume "v = ''2.0''"
    with assms have "(\<forall>r. PersistentKeepalive p = Some r \<longrightarrow> kind r = uint16RangeScalar)
      \<and> ContentPaddingAddition p = None \<and> RekeyAfterTime p = None \<and> RekeyTimeout p = None
      \<and> RejectAfterTime p = None \<and> KeepaliveTimeout p = None \<and> MaxHandshakeAttempts p = None
      \<and> RandomTrailers p = [] \<and> DisableCookies p = []" unfolding overrides_ok_def by (elim conjE) (rule mp)
    then show "(\<forall>r. map_option Canonical (PersistentKeepalive p) = Some r \<longrightarrow> kind r = uint16RangeScalar)
      \<and> ContentPaddingAddition p = None \<and> RekeyAfterTime p = None \<and> RekeyTimeout p = None
      \<and> RejectAfterTime p = None \<and> KeepaliveTimeout p = None \<and> MaxHandshakeAttempts p = None
      \<and> RandomTrailers p = [] \<and> DisableCookies p = []" by (auto simp: Canonical_def)
  qed
  show ?thesis
    using assms \<open>dns_ok (normal_form p)\<close> v2 unfolding overrides_ok_def normal_form_fields option.map_disc_iff
    by (elim conjE) (intro conjI; assumption)
qed

lemma normal_form_idem:
  assumes "dns_ok p"
  shows "normal_form (normal_form p) = normal_form p"
  using assms dedupe_servers_props [of "slice (DNSServers p)" "[]"]
    dedupe_servers_distinct [of "dedupe_servers [] (slice (DNSServers p))" "[]"]
  by (cases "PersistentKeepalive p") (auto simp: normal_form_def canonicalizeUnsignedRanges_def
      dns_ok_def dns_consts option.map_comp comp_def)

lemma dedupe_overrides_ok:
  assumes "dns_ok p" "DNSMode p = DNSModeCustom"
  shows "overrides_ok v (p\<lparr>DNSServers := Some (dedupe_servers [] (slice (DNSServers p)))\<rparr>) \<longleftrightarrow> overrides_ok v p"
proof -
  have "dns_ok (p\<lparr>DNSServers := Some (dedupe_servers [] (slice (DNSServers p)))\<rparr>)"
    using assms dedupe_servers_props [of "slice (DNSServers p)" "[]"]
    by (auto simp: dns_ok_def dns_consts)
  then show ?thesis using assms(1) by (simp add: overrides_ok_def)
qed

lemma NormalizeOverrides_cases:
  "NormalizeOverridesForVersion v (Some p) = Inr q \<longleftrightarrow>
     overrides_ok v p \<and> q = (if normal_form p = zeroParams then None else Some (normal_form p))"
proof (cases "dns_ok p")
  case False
  then show ?thesis
    by (simp add: NormalizeOverridesForVersion_def check_eq_Inr validateDNSSettings_None overrides_ok_def)
next
  case True
  then show ?thesis
    using dedupe_overrides_ok [OF True, of v]
    by (cases "DNSMode p = DNSModeCustom")
       (auto simp: NormalizeOverridesForVersion_def Let_def check_eq_Inr validateDNSSettings_None
          ValidateOverrides_None normal_form_def)
qed

lemma dedupe_servers_first:
  "\<forall>s \<in> set xs. ParseAddr4 s \<noteq> None \<Longrightarrow>
   dedupe_servers acc xs = acc @ rev (remdups (rev (filter (\<lambda>s. s \<notin> set acc) xs)))"
proof (induction acc xs rule: dedupe_servers.induct)
  case (2 acc s rest)
  have f: "filter (\<lambda>x. x \<noteq> s \<and> x \<notin> set acc) rest = filter (\<lambda>x. x \<noteq> s) (filter (\<lambda>x. x \<notin> set acc) rest)"
    by (simp add: conj_commute)
  have r: "remdups (xs @ [s]) = remdups (filter (\<lambda>x. x \<noteq> s) xs) @ [s]" for xs :: "string list"
    by (induction xs) auto
  show ?case using 2 by (auto simp: Let_def canonical_dns_fix f r rev_filter)
qed simp

section \<open>Properties\<close>

text \<open>C29. NormalizeOverridesForVersion accepts exactly what the validator accepts, its result is valid
  again and is a fixpoint: normalising a stored set of overrides twice changes nothing.\<close>

theorem NormalizeOverrides_fixpoint:
  "((\<exists>q. NormalizeOverridesForVersion v (Some p) = Inr q) \<longleftrightarrow> overrides_ok v p)
   \<and> (\<forall>q. NormalizeOverridesForVersion v (Some p) = Inr (Some q) \<longrightarrow>
        overrides_ok v q \<and> NormalizeOverridesForVersion v (Some q) = Inr (Some q))"
proof (intro conjI allI impI)
  fix q
  assume "NormalizeOverridesForVersion v (Some p) = Inr (Some q)"
  then have q: "overrides_ok v p" "q = normal_form p" "q \<noteq> zeroParams"
    by (auto simp: NormalizeOverrides_cases split: if_splits)
  then show ok: "overrides_ok v q" by (simp add: normal_form_ok)
  have "normal_form q = q" using q by (simp add: normal_form_idem overrides_dns)
  with ok q show "NormalizeOverridesForVersion v (Some q) = Inr (Some q)"
    by (simp add: NormalizeOverrides_cases)
qed (auto simp: NormalizeOverrides_cases)

lemma zero_mtu_normal: "normal_form (zeroParams\<lparr>MTU := 1400\<rparr>) = zeroParams\<lparr>MTU := 1400\<rparr>"
  by (simp add: normal_form_def canonicalizeUnsignedRanges_def zeroParams_def dns_consts)

lemma zero_mtu_ok: "overrides_ok ''2.0'' (zeroParams\<lparr>MTU := 1400\<rparr>)"
  by (simp add: overrides_ok_def zeroParams_def dns_ok_def slice_def)

theorem NormalizeOverrides_fixpoint_witness:
  "NormalizeOverridesForVersion ''2.0'' (Some (zeroParams\<lparr>MTU := 1400\<rparr>)) = Inr (Some (zeroParams\<lparr>MTU := 1400\<rparr>))"
proof -
  have ne: "zeroParams\<lparr>MTU := 1400\<rparr> \<noteq> zeroParams" by (simp add: zeroParams_def)
  have "NormalizeOverridesForVersion ''2.0'' (Some (zeroParams\<lparr>MTU := 1400\<rparr>)) = Inr (Some (zeroParams\<lparr>MTU := 1400\<rparr>))"
    using ne by (simp only: NormalizeOverrides_cases zero_mtu_ok zero_mtu_normal if_False simp_thms)
  then show ?thesis
    using NormalizeOverrides_fixpoint [of "''2.0''" "zeroParams\<lparr>MTU := 1400\<rparr>"] by blast
qed

text \<open>Normalising does not change the DNS line of the client configuration: outside custom mode the
  resolved value is the same, and in custom mode it is the list of distinct servers in the order
  of their first occurrence.\<close>

lemma NormalizeOverrides_resolves:
  assumes "NormalizeOverridesForVersion v (Some p) = Inr q"
  shows "ResolveDNS q d =
    (if DNSMode p = DNSModeCustom
     then (join_str '', '' (rev (remdups (rev (slice (DNSServers p))))), True)
     else ResolveDNS (Some p) d)"
proof -
  have ok: "overrides_ok v p" and q: "q = (if normal_form p = zeroParams then None else Some (normal_form p))"
    using assms by (auto simp: NormalizeOverrides_cases)
  have "ResolveDNS (Some zeroParams) d = ResolveDNS None d"
    by (simp add: ResolveDNS_def zeroParams_def dns_consts)
  then have "ResolveDNS q d = ResolveDNS (Some (normal_form p)) d" using q by simp
  moreover have "\<forall>s \<in> set (slice (DNSServers p)). ParseAddr4 s \<noteq> None"
    using overrides_dns [OF ok] by (auto simp: dns_ok_def)
  then have "dedupe_servers [] (slice (DNSServers p)) = rev (remdups (rev (slice (DNSServers p))))"
    by (simp add: dedupe_servers_first)
  ultimately show ?thesis by (simp add: ResolveDNS_def dns_consts)
qed

lemma flag_fold_only_flags:
  "fold (\<lambda>(field, _) params.
              if EqualFold field ''dns'' then params\<lparr>dnsSet := True\<rparr>
              else if EqualFold field ''dns_mode'' then params\<lparr>dnsModeSet := True\<rparr>
              else if EqualFold field ''dns_servers'' then params\<lparr>dnsServersSet := True\<rparr>
              else params) flds p
   = p\<lparr>dnsSet := (dnsSet p \<or> (\<exists>f \<in> fst ` set flds. EqualFold f ''dns'')),
       dnsModeSet := (dnsModeSet p \<or> (\<exists>f \<in> fst ` set flds. EqualFold f ''dns_mode'')),
       dnsServersSet := (dnsServersSet p \<or> (\<exists>f \<in> fst ` set flds. EqualFold f ''dns_servers''))\<rparr>"
proof (induction flds arbitrary: p)
  case (Cons kv flds)
  have d: "\<not> (EqualFold f ''dns'' \<and> EqualFold f ''dns_mode'')" "\<not> (EqualFold f ''dns'' \<and> EqualFold f ''dns_servers'')"
    "\<not> (EqualFold f ''dns_mode'' \<and> EqualFold f ''dns_servers'')" for f
    by (auto simp: EqualFold_def lower_char_def)
  show ?case using d [of "fst kv"] by (cases kv) (auto simp: Cons.IH)
qed simp

lemma json_fields_fold:
  "map_of (fold (\<lambda>(k, v). AList.update k v) kvs m) = map_of (rev kvs @ m)"
  by (induction kvs arbitrary: m) (auto simp: AList.update_conv')

lemma json_fields_wf: "gm_wf m \<Longrightarrow> gm_wf (fold (\<lambda>(k, v). AList.update k v) kvs m)"
  by (induction kvs arbitrary: m) auto

text \<open>Decoding a JSON object, when it succeeds, changes nothing but the three presence flags of the
  plain decoding, sets each exactly when its key occurs (in any letter case), and has seen no
  restricted key whose value is null.\<close>

lemma params_UnmarshalJSON_flags:
  assumes "params_UnmarshalJSON decode_plain (JObj kvs) = Inr p"
  shows "\<exists>decoded. decode_plain (JObj kvs) = Inr decoded
    \<and> p = decoded\<lparr>dnsSet := (dnsSet decoded \<or> (\<exists>f \<in> fst ` set kvs. EqualFold f ''dns'')),
       dnsModeSet := (dnsModeSet decoded \<or> (\<exists>f \<in> fst ` set kvs. EqualFold f ''dns_mode'')),
       dnsServersSet := (dnsServersSet decoded \<or> (\<exists>f \<in> fst ` set kvs. EqualFold f ''dns_servers''))\<rparr>
    \<and> (\<forall>k r. map_of (rev kvs) k = Some JNull \<longrightarrow> r \<in> set restricted_fields \<longrightarrow> \<not> EqualFold k r)"
proof -
  define flds where "flds = fold (\<lambda>(k, v). AList.update k v) kvs []"
  have m: "map_of flds = map_of (rev kvs)" and wf: "gm_wf flds"
    using json_fields_fold [of kvs "[]"] json_fields_wf [of "[]" kvs] by (simp_all add: flds_def)
  have "dom (map_of flds) = dom (map_of (rev kvs))" using m by simp
  then have keys: "fst ` set flds = fst ` set kvs" by (simp add: dom_map_of_conv_image_fst)
  obtain decoded where d: "decode_plain (JObj kvs) = Inr decoded"
    and rej: "rejectExplicitNullAWGParams flds = None"
    and p: "p = fold (\<lambda>(field, _) params.
              if EqualFold field ''dns'' then params\<lparr>dnsSet := True\<rparr>
              else if EqualFold field ''dns_mode'' then params\<lparr>dnsModeSet := True\<rparr>
              else if EqualFold field ''dns_servers'' then params\<lparr>dnsServersSet := True\<rparr>
              else params) flds decoded"
    using assms by (auto simp: params_UnmarshalJSON_def json_fields_def res_simps flds_def)
  have "\<not> EqualFold k r" if "map_of (rev kvs) k = Some JNull" "r \<in> set restricted_fields" for k r
  proof -
    have "(k, JNull) \<in> set flds" using that(1) m gm_mem_iff [OF wf] by simp
    with rej that(2) show ?thesis
      unfolding rejectExplicitNullAWGParams_def first_err_None_iff by (auto simp: fail_if_eq list_ex_iff)
  qed
  with d p show ?thesis unfolding flag_fold_only_flags keys by blast
qed

lemma char_of_table: "char_of (115::nat) = CHR ''s''" "char_of (110::nat) = CHR ''n''"
  "char_of (100::nat) = CHR ''d''" "char_of (109::nat) = CHR ''m''"
  by code_simp+

lemma Unmarshal_dns_mode:
  "params_UnmarshalJSON (\<lambda>_. Inr (zeroParams\<lparr>DNSMode := ''system''\<rparr>)) (JObj [(''DNS_Mode'', JStr ''system'')])
   = Inr (zeroParams\<lparr>DNSMode := ''system'', dnsModeSet := True\<rparr>)"
  by (simp add: params_UnmarshalJSON_def json_fields_def rejectExplicitNullAWGParams_def
      restricted_fields_def fail_if_def EqualFold_def lower_char_def go_eval zeroParams_def char_of_table)

end
