(* ===== verification/Base64.thy ===== *)
theory Base64
  imports Go_Prelude
begin

text \<open>
  \<open>encoding/base64.StdEncoding\<close> as the key code uses it: the encoder with padding and the decoder,
  plain and \<open>Strict()\<close>. Go's decoder skips carriage returns and newlines in both modes, and
  \<open>Strict()\<close> requires the unused bits before the padding to be zero. The lemma is the round trip,
  stated through the interface \<open>codec\<close>.
\<close>

type_synonym byte = "8 word"

definition b64_alphabet :: string where
  "b64_alphabet = ''ABCDEFGHIJKLMNOPQRSTUVWXYZabcdefghijklmnopqrstuvwxyz0123456789+/''"

definition b64_char :: "nat \<Rightarrow> char" where
  "b64_char n = b64_alphabet ! n"

definition b64_val :: "char \<Rightarrow> nat option" where
  "b64_val c = map_of (zip b64_alphabet [0..<64]) c"

text \<open>The four sextets of three bytes, and the three bytes of four sextets.\<close>

definition sext1 :: "byte \<Rightarrow> nat" where "sext1 a = unat a div 4"
definition sext2 :: "byte \<Rightarrow> byte \<Rightarrow> nat" where "sext2 a b = unat a mod 4 * 16 + unat b div 16"
definition sext3 :: "byte \<Rightarrow> byte \<Rightarrow> nat" where "sext3 b c = unat b mod 16 * 4 + unat c div 64"
definition sext4 :: "byte \<Rightarrow> nat" where "sext4 c = unat c mod 64"

definition octet1 :: "nat \<Rightarrow> nat \<Rightarrow> byte" where "octet1 x y = of_nat (x * 4 + y div 16)"
definition octet2 :: "nat \<Rightarrow> nat \<Rightarrow> byte" where "octet2 y z = of_nat (y mod 16 * 16 + z div 4)"
definition octet3 :: "nat \<Rightarrow> nat \<Rightarrow> byte" where "octet3 z w = of_nat (z mod 4 * 64 + w)"

fun b64_encode :: "byte list \<Rightarrow> string" where
  "b64_encode [] = []"
| "b64_encode [a] = [b64_char (sext1 a), b64_char (sext2 a 0), CHR ''='', CHR ''='']"
| "b64_encode [a, b] = [b64_char (sext1 a), b64_char (sext2 a b), b64_char (sext3 b 0), CHR ''='']"
| "b64_encode (a # b # c # rest) =
     [b64_char (sext1 a), b64_char (sext2 a b), b64_char (sext3 b c), b64_char (sext4 c)] @ b64_encode rest"

fun b64_groups :: "bool \<Rightarrow> string \<Rightarrow> byte list option" where
  "b64_groups strict (a # b # c # d # rest) =
     (case b64_val a of None \<Rightarrow> None | Some x \<Rightarrow>
      (case b64_val b of None \<Rightarrow> None | Some y \<Rightarrow>
        if c = CHR ''='' then
          (if d = CHR ''='' \<and> rest = [] \<and> (strict \<longrightarrow> y mod 16 = 0) then Some [octet1 x y] else None)
        else (case b64_val c of None \<Rightarrow> None | Some z \<Rightarrow>
          if d = CHR ''='' then
            (if rest = [] \<and> (strict \<longrightarrow> z mod 4 = 0) then Some [octet1 x y, octet2 y z] else None)
          else (case b64_val d of None \<Rightarrow> None | Some w \<Rightarrow>
            map_option (\<lambda>r. [octet1 x y, octet2 y z, octet3 z w] @ r) (b64_groups strict rest)))))"
| "b64_groups strict s = (if s = [] then Some [] else None)"

definition b64_decode :: "bool \<Rightarrow> string \<Rightarrow> byte list option" where
  "b64_decode strict s = b64_groups strict (filter (\<lambda>c. c \<noteq> CHR 0x0A \<and> c \<noteq> CHR 0x0D) s)"

section \<open>Round trip\<close>

lemma b64_alphabet_props: "length b64_alphabet = 64" "distinct b64_alphabet"
  by code_simp+

lemma b64_val_char [simp]: "n < 64 \<Longrightarrow> b64_val (b64_char n) = Some n"
  using map_of_zip_nth [of b64_alphabet "[0..<64]" n] b64_alphabet_props
  by (simp add: b64_val_def b64_char_def)

lemma b64_char_mem: "n < 64 \<Longrightarrow> b64_char n \<in> set b64_alphabet"
  using b64_alphabet_props(1) by (simp add: b64_char_def)

lemma b64_alphabet_excludes:
  "CHR ''='' \<notin> set b64_alphabet" "CHR 0x0A \<notin> set b64_alphabet" "CHR 0x0D \<notin> set b64_alphabet"
  by code_simp+

lemma b64_char_neq [simp]:
  assumes "n < 64"
  shows "b64_char n \<noteq> CHR ''=''" "b64_char n \<noteq> CHR 0x0A" "b64_char n \<noteq> CHR 0x0D"
  using b64_char_mem [OF assms] b64_alphabet_excludes by auto

lemma unat_byte: "unat (a :: byte) < 256"
  using unsigned_less [of a, where ?'a = nat] by simp

lemma sextets_less [simp]: "sext1 a < 64" "sext2 a b < 64" "sext3 b c < 64" "sext4 c < 64"
proof -
  have q: "unat a div 4 < 64" "unat b div 16 < 16" "unat c div 64 < 4"
    using unat_byte [of a] unat_byte [of b] unat_byte [of c] by simp_all
  have m: "unat a mod 4 < 4" "unat b mod 16 < 16" "unat c mod 64 < 64" by simp_all
  show "sext1 a < 64" "sext2 a b < 64" "sext3 b c < 64" "sext4 c < 64"
    unfolding sext1_def sext2_def sext3_def sext4_def using q m by linarith+
qed

lemma sext2_split: "sext2 a b div 16 = unat a mod 4" "sext2 a b mod 16 = unat b div 16"
proof -
  have "unat b div 16 < 16" using unat_byte [of b] by simp
  then show "sext2 a b div 16 = unat a mod 4" "sext2 a b mod 16 = unat b div 16"
    by (simp_all add: sext2_def)
qed

lemma sext3_split: "sext3 b c div 4 = unat b mod 16" "sext3 b c mod 4 = unat c div 64"
proof -
  have "unat c div 64 < 4" using unat_byte [of c] by simp
  then show "sext3 b c div 4 = unat b mod 16" "sext3 b c mod 4 = unat c div 64"
    by (simp_all add: sext3_def)
qed

lemma unat_to_word: "of_nat (unat a) = (a :: byte)"
  by simp

lemma octets_sextets [simp]:
  "octet1 (sext1 a) (sext2 a b) = a" "octet2 (sext2 a b) (sext3 b c) = b"
  "octet3 (sext3 b c) (sext4 c) = c" "sext2 a 0 mod 16 = 0" "sext3 b 0 mod 4 = 0"
proof -
  show "octet1 (sext1 a) (sext2 a b) = a" "octet2 (sext2 a b) (sext3 b c) = b"
    "octet3 (sext3 b c) (sext4 c) = c"
    unfolding octet1_def octet2_def octet3_def sext2_split sext3_split sext1_def sext4_def
    by (simp_all only: div_mult_mod_eq unat_to_word)
qed (simp_all add: sext2_split sext3_split)

lemma b64_groups_encode: "b64_groups strict (b64_encode bs) = Some bs"
  by (induction bs rule: b64_encode.induct) simp_all

lemma b64_encode_plain: "c \<in> set (b64_encode bs) \<Longrightarrow> c \<noteq> CHR 0x0A \<and> c \<noteq> CHR 0x0D"
  by (induction bs rule: b64_encode.induct) auto

lemma b64_decode_encode [simp]: "b64_decode strict (b64_encode bs) = Some bs"
proof -
  have "filter (\<lambda>c. c \<noteq> CHR 0x0A \<and> c \<noteq> CHR 0x0D) (b64_encode bs) = b64_encode bs"
    using b64_encode_plain by (auto intro: filter_True)
  then show ?thesis by (simp add: b64_decode_def b64_groups_encode)
qed

interpretation base64: codec b64_encode "b64_decode strict" "\<lambda>_. True" for strict
  by unfold_locales simp

end
