(* ===== verification/Profile.thy ===== *)
theory Profile
  imports Dns Base64
begin

text \<open>
  Keys and server profiles, \<^verbatim>\<open>src/internal/awg/keygen.go\<close> and \<^verbatim>\<open>src/internal/awg/profile.go\<close>. A
  \<open>[32]byte\<close> is a byte list of length 32; \<open>crypto/rand\<close> is a source of byte blocks; SHA-256 and
  the Curve25519 base multiplication are code outside the repository and are parameters. The
  pool shares one interface between clients whose profile keys agree, so the lemmas show that
  the hashed encoding is injective on every setting the server applies: equal keys mean equal
  settings, or a SHA-256 collision.
\<close>

section \<open>Keys\<close>

type_synonym key32 = "byte list"

definition zero_key :: key32 where "zero_key = replicate 32 0"

type_synonym blocks = "key32 list"

definition read_block :: "string \<Rightarrow> blocks \<Rightarrow> (key32 \<times> blocks) res" where
  "read_block what src =
     (case src of [] \<Rightarrow> Inl (Wrap (''generate '' @ what @ '': '') (Plain ''rand.Read failed'') [])
      | b # src' \<Rightarrow> Inr (b, src'))"

unbundle bit_operations_syntax

definition clamp_key :: "key32 \<Rightarrow> key32" where
  "clamp_key key = (let key = key[0 := key ! 0 AND 248]; key = key[31 := key ! 31 AND 127]
                    in key[31 := key ! 31 OR 64])"

definition GeneratePrivateKey :: "blocks \<Rightarrow> (key32 \<times> blocks) res" where
  "GeneratePrivateKey src =
     res_bind (read_block ''private key'' src) (\<lambda>(key, src'). Inr (clamp_key key, src'))"

definition GeneratePresharedKey :: "blocks \<Rightarrow> (key32 \<times> blocks) res" where
  "GeneratePresharedKey src = read_block ''preshared key'' src"

definition PublicKeyFromPrivate :: "(key32 \<Rightarrow> key32) \<Rightarrow> key32 \<Rightarrow> key32" where
  "PublicKeyFromPrivate scalarBaseMult private = scalarBaseMult private"

definition KeyToBase64 :: "key32 \<Rightarrow> string" where
  "KeyToBase64 key = b64_encode key"

definition Base64ToKey :: "string \<Rightarrow> key32 res" where
  "Base64ToKey s =
     (case b64_decode False s of
        None \<Rightarrow> Inl (Wrap ''decode base64 key: '' (Plain ''illegal base64 data'') [])
      | Some b \<Rightarrow>
          if length b \<noteq> 32 then Inl (Plain (''invalid key length: '' @ dec_nat (length b)))
          else Inr b)"

text \<open>The rejection loop of \<open>GenerateHeaderProtectionKey\<close>, on the blocks that are left.\<close>

fun GenerateHeaderProtectionKey :: "blocks \<Rightarrow> (key32 \<times> blocks) res" where
  "GenerateHeaderProtectionKey [] = read_block ''header protection key'' []"
| "GenerateHeaderProtectionKey (b # src) =
     (if b \<noteq> zero_key then Inr (b, src) else GenerateHeaderProtectionKey src)"

definition HeaderProtectionKeyToBase64 :: "key32 \<Rightarrow> string" where
  "HeaderProtectionKeyToBase64 key = b64_encode key"

definition Base64ToHeaderProtectionKey :: "string \<Rightarrow> key32 res" where
  "Base64ToHeaderProtectionKey encoded =
     (case b64_decode True encoded of
        None \<Rightarrow> Inl (Wrap ''decode header protection key: '' (Plain ''illegal base64 data'') [])
      | Some decoded \<Rightarrow>
          if length decoded \<noteq> 32 then Inl (Plain ''invalid header protection key length'')
          else if b64_encode decoded \<noteq> encoded then Inl (Plain ''invalid header protection key encoding'')
          else if decoded = zero_key then Inl (Plain ''header protection key must not be all zero'')
          else Inr decoded)"

section \<open>Profiles\<close>

record Profile =
  version :: ProtocolVersion
  params :: AWGParams
  headerProtectionKey :: key32
  hasHeaderProtectionKey :: bool
  pkey :: key32
  validated :: bool

definition str_bytes :: "string \<Rightarrow> byte list" where
  "str_bytes s = map (\<lambda>c. of_nat (of_char c)) s"

text \<open>\<open>binary.BigEndian\<close>: the last \<open>n\<close> bytes of a number, most significant first.\<close>

fun be_bytes :: "nat \<Rightarrow> nat \<Rightarrow> byte list" where
  "be_bytes 0 v = []"
| "be_bytes (Suc n) v = be_bytes n (v div 256) @ [of_nat (v mod 256)]"

definition profileHashDomain :: string where "profileHashDomain = ''awg-server/profile/v1''"

definition writeProfileBytes :: "byte list \<Rightarrow> byte list" where
  "writeProfileBytes value = be_bytes 4 (length value mod 2 ^ 32) @ value"

definition writeProfileString :: "string \<Rightarrow> byte list" where
  "writeProfileString value = writeProfileBytes (str_bytes value)"

definition writeProfileInt :: "int \<Rightarrow> byte list" where
  "writeProfileInt value = be_bytes 8 (nat (value mod 2 ^ 64))"

definition headerRangeOrZero :: "string \<Rightarrow> headerRange" where
  "headerRangeOrZero value =
     (case parseHeaderRange ''header'' value of Inr r \<Rightarrow> r | Inl _ \<Rightarrow> \<lparr>hdr_start = 0, hdr_end = 0\<rparr>)"

definition writeProfileHeaderRange :: "string \<Rightarrow> byte list" where
  "writeProfileHeaderRange value =
     be_bytes 4 (unat (hdr_start (headerRangeOrZero value)))
     @ be_bytes 4 (unat (hdr_end (headerRangeOrZero value)))"

definition writeProfileOptionalRange :: "Uint16Range option \<Rightarrow> byte list" where
  "writeProfileOptionalRange value =
     (case value of None \<Rightarrow> writeProfileBytes [] | Some r \<Rightarrow> writeProfileString (range_String r))"

definition canonicalProfileBytes :: "Profile \<Rightarrow> byte list" where
  "canonicalProfileBytes p =
     (let ps = params p in
      writeProfileBytes (str_bytes profileHashDomain)
      @ writeProfileString (version p)
      @ writeProfileInt (Jc ps) @ writeProfileInt (Jmin ps) @ writeProfileInt (Jmax ps)
      @ writeProfileInt (S1 ps) @ writeProfileInt (S2 ps) @ writeProfileInt (S3 ps) @ writeProfileInt (S4 ps)
      @ writeProfileHeaderRange (H1 ps) @ writeProfileHeaderRange (H2 ps)
      @ writeProfileHeaderRange (H3 ps) @ writeProfileHeaderRange (H4 ps)
      @ writeProfileOptionalRange (ContentPaddingAddition ps)
      @ writeProfileOptionalRange (RekeyAfterTime ps)
      @ writeProfileOptionalRange (RekeyTimeout ps)
      @ writeProfileOptionalRange (RejectAfterTime ps)
      @ writeProfileOptionalRange (KeepaliveTimeout ps)
      @ writeProfileOptionalRange (MaxHandshakeAttempts ps)
      @ writeProfileString (RandomTrailers ps)
      @ writeProfileString (DisableCookies ps)
      @ (if hasHeaderProtectionKey p then writeProfileBytes (headerProtectionKey p)
         else writeProfileBytes []))"

definition canonicalProfileKey :: "(byte list \<Rightarrow> key32) \<Rightarrow> Profile \<Rightarrow> key32" where
  "canonicalProfileKey sha256 p = sha256 (canonicalProfileBytes p)"

definition newProfile ::
  "(byte list \<Rightarrow> key32) \<Rightarrow> ProtocolVersion \<Rightarrow> AWGParams \<Rightarrow> key32 \<Rightarrow> bool \<Rightarrow> Profile" where
  "newProfile sha256 v ps hpk has =
     (let profile = \<lparr>version = v, params = canonicalizeUnsignedRanges ps, headerProtectionKey = hpk,
                     hasHeaderProtectionKey = has, pkey = zero_key, validated = True\<rparr>
      in profile\<lparr>pkey := canonicalProfileKey sha256 profile\<rparr>)"

definition NewLegacyProfile :: "(byte list \<Rightarrow> key32) \<Rightarrow> AWGParams \<Rightarrow> Profile res" where
  "NewLegacyProfile sha256 ps =
     check (map_option (\<lambda>e. Wrap ''validate legacy profile: '' e []) (ValidateProfileForVersion ProtocolVersion2 ps))
       (Inr (newProfile sha256 ProtocolVersion2 ps zero_key False))"

definition NewAWG31Profile :: "(byte list \<Rightarrow> key32) \<Rightarrow> AWGParams \<Rightarrow> key32 \<Rightarrow> Profile res" where
  "NewAWG31Profile sha256 ps hpk =
     (if hpk = zero_key then Inl (Plain ''header protection key must not be all zero'')
      else check (map_option (\<lambda>e. Wrap ''validate AWG 3.1 profile: '' e [])
                    (ValidateProfileForVersion ProtocolVersion31 ps))
             (Inr (newProfile sha256 ProtocolVersion31 ps hpk True)))"

definition profile_valid :: "Profile \<Rightarrow> bool" where
  "profile_valid p = (validated p \<and> version_Valid (version p))"

definition ClientConfigLines :: "Profile \<Rightarrow> string" where
  "ClientConfigLines p =
     ConfigLines (params p)
     @ (if hasHeaderProtectionKey p
        then CHR 0x0A # ''HeaderProtectionKey = '' @ HeaderProtectionKeyToBase64 (headerProtectionKey p) else [])"

definition ServerConfig :: "Profile \<Rightarrow> key32 \<Rightarrow> int \<Rightarrow> string" where
  "ServerConfig p privateKey port =
     ''[Interface]'' @ CHR 0x0A # ''PrivateKey = '' @ KeyToBase64 privateKey
     @ CHR 0x0A # ''ListenPort = '' @ dec_int port
     @ serverConfigLines (params p)
     @ (if hasHeaderProtectionKey p
        then CHR 0x0A # ''HeaderProtectionKey = '' @ HeaderProtectionKeyToBase64 (headerProtectionKey p) else [])
     @ [CHR 0x0A]"

section \<open>Prefix-free encodings\<close>

text \<open>
  The contract of one field of the hashed encoding: on well-formed values, what follows the field
  can be cut off without knowing its length.
\<close>

locale prefix_code =
  fixes enc :: "'a \<Rightarrow> byte list" and wf_val :: "'a \<Rightarrow> bool"
  assumes cut: "wf_val x \<Longrightarrow> wf_val y \<Longrightarrow> enc x @ r = enc y @ s \<Longrightarrow> x = y \<and> r = s"
begin

lemma cut_iff: "wf_val x \<Longrightarrow> wf_val y \<Longrightarrow> enc x @ r = enc y @ s \<longleftrightarrow> x = y \<and> r = s"
  using cut by blast

lemma enc_inject: "wf_val x \<Longrightarrow> wf_val y \<Longrightarrow> enc x = enc y \<longleftrightarrow> x = y"
  using cut_iff [of x y "[]" "[]"] by simp

end

locale fixed_code =
  fixes enc :: "'a \<Rightarrow> byte list" and wf_val :: "'a \<Rightarrow> bool" and size :: nat
  assumes length_enc: "length (enc x) = size"
    and enc_inj: "wf_val x \<Longrightarrow> wf_val y \<Longrightarrow> enc x = enc y \<Longrightarrow> x = y"

sublocale fixed_code \<subseteq> prefix_code enc wf_val
  by unfold_locales (auto simp: length_enc enc_inj)

lemma be_bytes_length [simp]: "length (be_bytes n v) = n"
  by (induction n arbitrary: v) auto

lemma of_nat_byte_inj: "(of_nat (v mod 256) :: byte) = of_nat (w mod 256) \<longleftrightarrow> v mod 256 = w mod 256"
  by (simp add: word_unat_eq_iff unat_of_nat)

lemma be_bytes_inj: "v < 256 ^ n \<Longrightarrow> w < 256 ^ n \<Longrightarrow> be_bytes n v = be_bytes n w \<Longrightarrow> v = w"
proof (induction n arbitrary: v w)
  case (Suc n)
  then have "v div 256 < 256 ^ n" "w div 256 < 256 ^ n" by (simp_all add: less_mult_imp_div_less mult.commute)
  moreover have "be_bytes n (v div 256) = be_bytes n (w div 256)" "v mod 256 = w mod 256"
    using Suc.prems(3) by (simp_all add: of_nat_byte_inj del: word_of_nat_eq_iff)
  ultimately have "v div 256 = w div 256" "v mod 256 = w mod 256" using Suc.IH by blast+
  then show ?case by (metis div_mod_decomp)
qed simp

lemma str_bytes_inj: "str_bytes s = str_bytes t \<Longrightarrow> s = t"
proof -
  have "(of_nat (of_char c) :: byte) = of_nat (of_char d) \<Longrightarrow> c = d" for c d
    by (simp add: word_unat_eq_iff unat_of_nat)
  then have "inj (\<lambda>c. of_nat (of_char c) :: byte)" by (auto intro!: injI)
  then show "str_bytes s = str_bytes t \<Longrightarrow> s = t" by (simp add: str_bytes_def)
qed

lemma str_bytes_length [simp]: "length (str_bytes s) = length s"
  by (simp add: str_bytes_def)

interpretation bytes_code: prefix_code writeProfileBytes "\<lambda>b. length b < 2 ^ 32"
proof
  fix x y r s
  assume len: "length (x :: byte list) < 2 ^ 32" "length (y :: byte list) < 2 ^ 32"
    and eq: "writeProfileBytes x @ r = writeProfileBytes y @ s"
  have "be_bytes 4 (length x) = be_bytes 4 (length y)" "x @ r = y @ s"
    using eq len by (simp_all add: writeProfileBytes_def)
  moreover from this have "length x = length y" using be_bytes_inj [of "length x" 4 "length y"] len by simp
  ultimately show "x = y \<and> r = s" by simp
qed

interpretation string_code: prefix_code writeProfileString "\<lambda>s. length s < 2 ^ 32"
  using bytes_code.cut str_bytes_inj
  by unfold_locales (auto simp: writeProfileString_def, (metis str_bytes_length)+)

interpretation int_code: fixed_code writeProfileInt "\<lambda>v. - (2 ^ 63) \<le> v \<and> v < 2 ^ 63" 8
proof
  fix x y :: int
  assume b: "- (2 ^ 63) \<le> x \<and> x < 2 ^ 63" "- (2 ^ 63) \<le> y \<and> y < 2 ^ 63"
    and eq: "writeProfileInt x = writeProfileInt y"
  have "nat (z mod 2 ^ 64) < 256 ^ 8" for z :: int by (simp add: nat_less_iff)
  then have "nat (x mod 2 ^ 64) = nat (y mod 2 ^ 64)"
    using be_bytes_inj eq unfolding writeProfileInt_def by blast
  then have "x mod 2 ^ 64 = y mod 2 ^ 64" by (simp add: eq_nat_nat_iff)
  then have "(2 ^ 64 :: int) dvd x - y" by (simp add: mod_eq_dvd_iff)
  moreover have "\<bar>x - y\<bar> < 2 ^ 64" using b by (simp add: abs_less_iff)
  ultimately show "x = y" using zdvd_imp_le [of "2 ^ 64" "\<bar>x - y\<bar>"] by fastforce
qed (simp add: writeProfileInt_def)

definition header_bytes :: "headerRange \<Rightarrow> byte list" where
  "header_bytes r = be_bytes 4 (unat (hdr_start r)) @ be_bytes 4 (unat (hdr_end r))"

interpretation header_code: fixed_code header_bytes "\<lambda>_. True" 8
proof
  fix x y
  assume "header_bytes x = header_bytes y"
  then have eq: "be_bytes 4 (unat (hdr_start x)) = be_bytes 4 (unat (hdr_start y))"
    "be_bytes 4 (unat (hdr_end x)) = be_bytes 4 (unat (hdr_end y))"
    by (simp_all add: header_bytes_def)
  have "unat (w :: 32 word) < 256 ^ 4" for w using unat_addr_less [of w] by simp
  then have "hdr_start x = hdr_start y" "hdr_end x = hdr_end y"
    using be_bytes_inj [OF _ _ eq(1)] be_bytes_inj [OF _ _ eq(2)] by (simp_all add: word_unat_eq_iff)
  then show "x = y" by (cases x; cases y) simp
qed (simp add: header_bytes_def)

lemma dec_nat_length: "length (dec_nat n) \<le> Suc n"
proof (induction n rule: dec_nat.induct)
  case (1 n)
  then show ?case by (subst dec_nat.simps) (auto simp: Suc_le_eq intro: le_less_trans)
qed

lemma range_String_length: "length (range_String r) < 2 ^ 32" "range_String r \<noteq> []"
proof -
  have d: "length (dec_nat (unat w)) \<le> 65536" for w :: "16 word"
    using unsigned_less [of w, where ?'a = nat] dec_nat_length [of "unat w"] by simp
  show "length (range_String r) < 2 ^ 32"
    using d [of "range_start (Canonical r)"] d [of "range_end (Canonical r)"]
    by (cases "kind (Canonical r)") (simp_all add: range_String_def Let_def)
  show "range_String r \<noteq> []" by (simp add: range_String_def Let_def split: uint16RangeKind.splits)
qed

interpretation range_code: prefix_code writeProfileOptionalRange
  "\<lambda>v. case v of None \<Rightarrow> True | Some r \<Rightarrow> range_wf r \<and> IsCanonical r"
proof
  fix x y r s
  assume wf: "case x of None \<Rightarrow> True | Some r \<Rightarrow> range_wf r \<and> IsCanonical r"
      "case y of None \<Rightarrow> True | Some r \<Rightarrow> range_wf r \<and> IsCanonical r"
    and eq: "writeProfileOptionalRange x @ r = writeProfileOptionalRange y @ s"
  define form where "form = (\<lambda>v. case v of None \<Rightarrow> [] | Some r \<Rightarrow> range_String r)"
  have w: "writeProfileOptionalRange v = writeProfileString (form v)" for v
    by (simp add: writeProfileOptionalRange_def form_def writeProfileString_def str_bytes_def split: option.split)
  have "length (form v) < 2 ^ 32" for v by (simp add: form_def range_String_length(1) [simplified] split: option.split)
  then have t: "form x = form y" "r = s" using string_code.cut eq unfolding w by blast+
  moreover from t(1) have "x = y"
    using wf range_String_length(2) range_text.enc_inject
    by (cases x; cases y) (auto simp: form_def dest: sym)
  ultimately show "x = y \<and> r = s" by simp
qed

text \<open>Everything that the server applies to an interface, and nothing else.\<close>

definition ranges_of :: "AWGParams \<Rightarrow> Uint16Range option list" where
  "ranges_of ps = [ContentPaddingAddition ps, RekeyAfterTime ps, RekeyTimeout ps, RejectAfterTime ps,
     KeepaliveTimeout ps, MaxHandshakeAttempts ps]"

definition server_settings :: "Profile \<Rightarrow> ProtocolVersion \<times> int list \<times> headerRange list \<times>
    Uint16Range option list \<times> string list \<times> key32" where
  "server_settings p =
     (let ps = params p in
      (version p, [Jc ps, Jmin ps, Jmax ps, S1 ps, S2 ps, S3 ps, S4 ps],
       map headerRangeOrZero [H1 ps, H2 ps, H3 ps, H4 ps], ranges_of ps,
       [RandomTrailers ps, DisableCookies ps],
       if hasHeaderProtectionKey p then headerProtectionKey p else []))"

definition encodable :: "Profile \<Rightarrow> bool" where
  "encodable p \<longleftrightarrow>
     (let ps = params p in
      length (version p) < 2 ^ 32 \<and> length (RandomTrailers ps) < 2 ^ 32 \<and> length (DisableCookies ps) < 2 ^ 32
      \<and> length (headerProtectionKey p) < 2 ^ 32
      \<and> (\<forall>v \<in> {Jc ps, Jmin ps, Jmax ps, S1 ps, S2 ps, S3 ps, S4 ps}. - (2 ^ 63) \<le> v \<and> v < 2 ^ 63)
      \<and> (\<forall>v \<in> set (ranges_of ps). case v of None \<Rightarrow> True | Some r \<Rightarrow> range_wf r \<and> IsCanonical r))"

lemma writeProfileHeaderRange_header: "writeProfileHeaderRange v = header_bytes (headerRangeOrZero v)"
  by (simp add: writeProfileHeaderRange_def header_bytes_def)

lemma canonicalProfileBytes_inj:
  assumes "encodable p" "encodable q"
  shows "canonicalProfileBytes p = canonicalProfileBytes q \<longleftrightarrow> server_settings p = server_settings q"
proof -
  have key: "(if has then writeProfileBytes k else writeProfileBytes []) = writeProfileBytes (if has then k else [])"
    for has k by simp
  show ?thesis
    using assms
    unfolding canonicalProfileBytes_def server_settings_def encodable_def Let_def ranges_of_def
      writeProfileHeaderRange_header key
    by (simp add: string_code.cut_iff int_code.cut_iff header_code.cut_iff range_code.cut_iff
        bytes_code.cut_iff bytes_code.enc_inject)
qed

section \<open>Constructed profiles\<close>

text \<open>
  A profile as the rest of the server obtains it: through one of the two constructors, from
  parameters whose ranges came out of the range parser.
\<close>

definition ranges_parsed :: "AWGParams \<Rightarrow> bool" where
  "ranges_parsed ps \<longleftrightarrow> (\<forall>v \<in> set (ranges_of ps). case v of None \<Rightarrow> True | Some r \<Rightarrow> range_wf r)"

definition constructed :: "(byte list \<Rightarrow> key32) \<Rightarrow> Profile \<Rightarrow> bool" where
  "constructed sha256 p \<longleftrightarrow>
     (\<exists>ps. ranges_parsed ps \<and>
        (NewLegacyProfile sha256 ps = Inr p
         \<or> (\<exists>k. length k = 32 \<and> NewAWG31Profile sha256 ps k = Inr p)))"

lemma canonicalize_ranges:
  "ranges_parsed ps \<Longrightarrow> v \<in> set (ranges_of (canonicalizeUnsignedRanges ps)) \<Longrightarrow>
   case v of None \<Rightarrow> True | Some r \<Rightarrow> range_wf r \<and> IsCanonical r"
  by (auto simp: ranges_parsed_def ranges_of_def canonicalizeUnsignedRanges_def intro: Canonical_wf
      split: option.splits)

lemma canonicalize_fields [simp]:
  "Jc (canonicalizeUnsignedRanges ps) = Jc ps" "Jmin (canonicalizeUnsignedRanges ps) = Jmin ps"
  "Jmax (canonicalizeUnsignedRanges ps) = Jmax ps" "S1 (canonicalizeUnsignedRanges ps) = S1 ps"
  "S2 (canonicalizeUnsignedRanges ps) = S2 ps" "S3 (canonicalizeUnsignedRanges ps) = S3 ps"
  "S4 (canonicalizeUnsignedRanges ps) = S4 ps" "RandomTrailers (canonicalizeUnsignedRanges ps) = RandomTrailers ps"
  "DisableCookies (canonicalizeUnsignedRanges ps) = DisableCookies ps"
  by (simp_all add: canonicalizeUnsignedRanges_def)

lemma newProfile_encodable:
  assumes "ranges_parsed ps" "overrides_ok v ps" "length k = 32"
  shows "encodable (newProfile sha256 v ps k has)"
proof -
  have vals: "Jc ps \<in> {0..128} \<and> Jmin ps \<in> {0..1280} \<and> Jmax ps \<in> {0..1280}
     \<and> S1 ps \<in> {0..1132} \<and> S2 ps \<in> {0..1188} \<and> S3 ps \<in> {0..64} \<and> S4 ps \<in> {0..32}"
    using assms(2) unfolding overrides_ok_def by (elim conjE) (intro conjI; assumption)
  have v: "v = ''2.0'' \<or> v = ''3.1''"
    using assms(2) unfolding overrides_ok_def by (elim conjE) simp
  have "RandomTrailers ps \<in> {[], ''on'', ''off''} \<and> DisableCookies ps \<in> {[], ''on'', ''off''}"
    using assms(2) v unfolding overrides_ok_def by (elim conjE disjE) auto
  then have "length (RandomTrailers ps) \<le> 3" "length (DisableCookies ps) \<le> 3" by auto
  moreover have "length v = 3" using v by auto
  ultimately show ?thesis
    using vals canonicalize_ranges [OF assms(1)] assms(3)
    by (simp add: encodable_def newProfile_def Let_def)
qed

lemma constructed_encodable: "constructed sha256 p \<Longrightarrow> encodable p \<and> pkey p = sha256 (canonicalProfileBytes p)"
  by (auto simp: constructed_def NewLegacyProfile_def NewAWG31Profile_def check_eq_Inr ValidateProfile_None
      profile_ok_def zero_key_def newProfile_encodable split: if_splits)
     (simp_all add: newProfile_def Let_def canonicalProfileKey_def canonicalProfileBytes_def)

section \<open>Properties\<close>

text \<open>C14. Two profiles get the same key, and so share an interface, exactly when the server applies the
  same settings for both: version, paddings, header ranges, timing ranges, toggles and header
  protection key. The only other way is a SHA-256 collision, which the statement exhibits.\<close>

theorem profile_key_identifies_settings:
  assumes "constructed sha256 p" "constructed sha256 q"
  shows "pkey p = pkey q \<longleftrightarrow>
    server_settings p = server_settings q
    \<or> canonicalProfileBytes p \<noteq> canonicalProfileBytes q
      \<and> sha256 (canonicalProfileBytes p) = sha256 (canonicalProfileBytes q)"
  using constructed_encodable [OF assms(1)] constructed_encodable [OF assms(2)]
    canonicalProfileBytes_inj [of p q] by metis

definition sample_params :: "int \<Rightarrow> AWGParams" where
  "sample_params mtu = ApplyGeneratedParams (Some (zeroParams\<lparr>MTU := mtu\<rparr>))
     \<lparr>gH1 = ''100000-450000'', gH2 = ''1000000-4500000'', gH3 = ''10000000-45000000'',
      gH4 = ''100000000-450000000'', gS1 = 15, gS2 = 15\<rparr>"

lemma sample_params_ok: "mtu = 0 \<or> mtu \<in> {1280..1420} \<Longrightarrow> profile_ok ''2.0'' (sample_params mtu)"
  unfolding sample_params_def
  by (rule generated_profile_ok [OF GenerateParams_zeros])
     (simp_all add: overrides_ok_def zeroParams_def dns_ok_def slice_def)

lemma sample_params_ranges: "ranges_parsed (sample_params mtu)"
  by (simp add: ranges_parsed_def ranges_of_def sample_params_def ApplyGeneratedParams_def zeroParams_def)

lemma sample_constructed:
  assumes "mtu = 0 \<or> mtu \<in> {1280..1420}"
  shows "constructed sha256 (newProfile sha256 ''2.0'' (sample_params mtu) zero_key False)"
proof -
  have "NewLegacyProfile sha256 (sample_params mtu) = Inr (newProfile sha256 ''2.0'' (sample_params mtu) zero_key False)"
    using sample_params_ok [OF assms]
    by (simp add: NewLegacyProfile_def check_eq_Inr ValidateProfile_None version_consts)
  then show ?thesis unfolding constructed_def using sample_params_ranges by blast
qed

theorem profile_key_identifies_settings_witness:
  "pkey (newProfile (take 32) ''2.0'' (sample_params 0) zero_key False)
   = pkey (newProfile (take 32) ''2.0'' (sample_params 1400) zero_key False)"
proof -
  have "server_settings (newProfile (take 32) ''2.0'' (sample_params 0) zero_key False)
      = server_settings (newProfile (take 32) ''2.0'' (sample_params 1400) zero_key False)"
    by (simp add: server_settings_def newProfile_def Let_def sample_params_def ApplyGeneratedParams_def
        canonicalizeUnsignedRanges_def ranges_of_def zeroParams_def)
  then show ?thesis
    using profile_key_identifies_settings [OF sample_constructed [of 0] sample_constructed [of 1400]] by simp
qed

text \<open>The constructors accept exactly the valid profiles of their version (and a header
  protection key that is not zero), and what they return is usable by the pool.\<close>

lemma profile_constructors:
  "((\<exists>p. NewLegacyProfile sha256 ps = Inr p) \<longleftrightarrow> profile_ok ''2.0'' ps)
   \<and> ((\<exists>p. NewAWG31Profile sha256 ps k = Inr p) \<longleftrightarrow> profile_ok ''3.1'' ps \<and> k \<noteq> zero_key)
   \<and> (\<forall>p. NewLegacyProfile sha256 ps = Inr p \<or> NewAWG31Profile sha256 ps k = Inr p \<longrightarrow>
        profile_valid p \<and> params p = canonicalizeUnsignedRanges ps)"
  by (auto simp: NewLegacyProfile_def NewAWG31Profile_def check_eq_Inr ValidateProfile_None version_consts
      newProfile_def Let_def profile_valid_def version_Valid_def split: if_splits)

text \<open>Base64ToHeaderProtectionKey accepts one text per key: what it accepts is the encoder's own
  output for a 32-byte key that is not zero, and every such output is accepted.\<close>

lemma header_key_roundtrip:
  "Base64ToHeaderProtectionKey s = Inr k \<longleftrightarrow>
     s = HeaderProtectionKeyToBase64 k \<and> length k = 32 \<and> k \<noteq> zero_key"
  by (auto simp: Base64ToHeaderProtectionKey_def HeaderProtectionKeyToBase64_def split: option.splits if_splits)

text \<open>Keys survive the text form: decoding the encoding of a 32-byte key gives the key, and
  different keys have different texts.\<close>

lemma key_base64_roundtrip:
  assumes "length k = 32"
  shows "Base64ToKey (KeyToBase64 k) = Inr k \<and> (KeyToBase64 k = KeyToBase64 k' \<longleftrightarrow> k = k')"
  using assms base64.enc_inject [of k k'] by (simp add: Base64ToKey_def KeyToBase64_def)


lemma GenerateHeaderProtectionKey_nonzero:
  "GenerateHeaderProtectionKey src = Inr (k, src') \<Longrightarrow> k \<in> set src \<and> k \<noteq> zero_key"
  by (induction src rule: GenerateHeaderProtectionKey.induct) (auto simp: read_block_def split: if_splits)

text \<open>A generated header protection key is accepted by the 3.1 constructor and by the text parser,
  and a generated private key is clamped as Curve25519 requires: low three bits clear, top bit
  clear, next bit set.\<close>

lemma generated_keys_usable:
  assumes "\<forall>b \<in> set src. length b = 32"
  shows "(GenerateHeaderProtectionKey src = Inr (k, src') \<longrightarrow>
            Base64ToHeaderProtectionKey (HeaderProtectionKeyToBase64 k) = Inr k)
    \<and> (GeneratePrivateKey src = Inr (pk, src') \<longrightarrow>
         length pk = 32 \<and> pk ! 0 AND 7 = 0 \<and> pk ! 31 AND 192 = 64)"
proof (intro conjI impI)
  assume "GenerateHeaderProtectionKey src = Inr (k, src')"
  from GenerateHeaderProtectionKey_nonzero [OF this] assms
  show "Base64ToHeaderProtectionKey (HeaderProtectionKeyToBase64 k) = Inr k"
    by (auto simp: Base64ToHeaderProtectionKey_def HeaderProtectionKeyToBase64_def)
next
  assume "GeneratePrivateKey src = Inr (pk, src')"
  then obtain b where b: "b \<in> set src" "pk = clamp_key b"
    by (auto simp: GeneratePrivateKey_def read_block_def res_simps split: list.splits)
  then have "length b = 32" using assms by simp
  then have pk: "pk ! 0 = b ! 0 AND 248" "pk ! 31 = (b ! 31 AND 127) OR 64" "length pk = 32"
    using b(2) by (simp_all add: clamp_key_def Let_def)
  show "length pk = 32" by (rule pk)
  show "pk ! 0 AND 7 = 0" unfolding pk(1) by (simp add: and.assoc)
  show "pk ! 31 AND 192 = 64" unfolding pk(2) by (simp add: bit.conj_disj_distrib2 and.assoc)
qed

end
