(* ===== verification/Device.thy ===== *)
theory Device
  imports Profile
begin

text \<open>
  The host commands of \<^verbatim>\<open>src/internal/awg/device.go\<close>. The operating system is code outside the
  repository: \<open>run\<close> is a parameter that executes one command line with an input text on a host
  state \<open>'w\<close> and returns the combined output, and for a failure the exit code (when the process
  ran) and the error text. Each function of the file is the sequence of \<open>run\<close> calls the code
  makes, with its error values. The lemmas are about the parts that are pure: the peer dump is read
  back exactly, and the multi-step operations report success only when every step succeeded.
\<close>

section \<open>Commands\<close>

datatype cmd_result = CmdOk string | CmdFail string "nat option" string

type_synonym 'w run = "string list \<Rightarrow> string \<Rightarrow> 'w \<Rightarrow> cmd_result \<times> 'w"
type_synonym 'w action = "'w \<Rightarrow> go_error option \<times> 'w"

definition exec_err :: "string \<Rightarrow> cmd_result \<Rightarrow> go_error option" where
  "exec_err pre r =
     (case r of CmdOk _ \<Rightarrow> None | CmdFail output _ e \<Rightarrow> Some (Wrap (pre @ output @ '': '') (Plain e) []))"

definition exec_cmd :: "'w run \<Rightarrow> string \<Rightarrow> string list \<Rightarrow> string \<Rightarrow> 'w action" where
  "exec_cmd run pre args stdin w = (case run args stdin w of (r, w') \<Rightarrow> (exec_err pre r, w'))"

text \<open>Two steps of which the second runs only after the first succeeded.\<close>

definition then_do :: "'w action \<Rightarrow> 'w action \<Rightarrow> 'w action" where
  "then_do a b w = (case a w of (Some e, w') \<Rightarrow> (Some e, w') | (None, w') \<Rightarrow> b w')"

definition wrap_err :: "string \<Rightarrow> go_error option \<Rightarrow> go_error option" where
  "wrap_err pre e = map_option (\<lambda>e. Wrap pre e []) e"

section \<open>Interfaces\<close>

definition createInterface :: "'w run \<Rightarrow> string \<Rightarrow> 'w action" where
  "createInterface run ifName = exec_cmd run [] [''ip'', ''link'', ''add'', ifName, ''type'', ''amneziawg''] []"

definition destroyInterface :: "'w run \<Rightarrow> string \<Rightarrow> 'w action" where
  "destroyInterface run ifName = exec_cmd run ''ip link del: '' [''ip'', ''link'', ''del'', ifName] []"

definition configureDevice :: "'w run \<Rightarrow> string \<Rightarrow> int \<Rightarrow> Profile \<Rightarrow> key32 \<Rightarrow> 'w action" where
  "configureDevice run ifName port profile privateKey w =
     (case run [''awg'', ''setconf'', ifName, ''/dev/stdin''] (ServerConfig profile privateKey port) w of
        (CmdOk _, w') \<Rightarrow> (None, w')
      | (CmdFail _ _ e, w') \<Rightarrow> (Some (Wrap ''awg setconf: '' (Plain e) []), w'))"

definition show_args :: "string list \<Rightarrow> string" where
  "show_args args = ''['' @ join_str '' '' args @ '']''"

fun run_commands :: "'w run \<Rightarrow> string list list \<Rightarrow> 'w action" where
  "run_commands run [] w = (None, w)"
| "run_commands run (args # rest) w =
     then_do (exec_cmd run (''command '' @ show_args args @ '' failed: '') args []) (run_commands run rest) w"

definition configureInterfaceNetwork :: "'w run \<Rightarrow> string \<Rightarrow> string \<Rightarrow> 'w action" where
  "configureInterfaceNetwork run ifName address =
     run_commands run [[''ip'', ''addr'', ''add'', address, ''dev'', ifName],
                       [''ip'', ''link'', ''set'', ifName, ''up'']]"

section \<open>Peers\<close>

definition setPeerOnInterface :: "'w run \<Rightarrow> string \<Rightarrow> key32 \<Rightarrow> key32 option \<Rightarrow> string \<Rightarrow> 'w action" where
  "setPeerOnInterface run ifName publicKey presharedKey allowedIP =
     exec_cmd run ''awg set peer: ''
       ([''awg'', ''set'', ifName, ''peer'', KeyToBase64 publicKey]
        @ (case presharedKey of None \<Rightarrow> [] | Some _ \<Rightarrow> [''preshared-key'', ''/dev/stdin''])
        @ [''allowed-ips'', allowedIP @ ''/32''])
       (case presharedKey of None \<Rightarrow> [] | Some k \<Rightarrow> KeyToBase64 k)"

definition replacePeerRoute :: "'w run \<Rightarrow> string \<Rightarrow> string \<Rightarrow> 'w action" where
  "replacePeerRoute run ifName allowedIP =
     exec_cmd run ''add peer route: ''
       [''ip'', ''route'', ''replace'', allowedIP @ ''/32'', ''dev'', ifName] []"

definition addPeerToInterface :: "'w run \<Rightarrow> string \<Rightarrow> key32 \<Rightarrow> key32 option \<Rightarrow> string \<Rightarrow> 'w action" where
  "addPeerToInterface run ifName publicKey presharedKey allowedIP =
     then_do (setPeerOnInterface run ifName publicKey presharedKey allowedIP)
             (replacePeerRoute run ifName allowedIP)"

definition removePeerOnlyFromInterface :: "'w run \<Rightarrow> string \<Rightarrow> key32 \<Rightarrow> 'w action" where
  "removePeerOnlyFromInterface run ifName publicKey =
     exec_cmd run ''awg remove peer: ''
       [''awg'', ''set'', ifName, ''peer'', KeyToBase64 publicKey, ''remove''] []"

definition restorePeerAndRoute :: "'w run \<Rightarrow> string \<Rightarrow> key32 \<Rightarrow> key32 option \<Rightarrow> string \<Rightarrow> 'w action" where
  "restorePeerAndRoute run ifName publicKey presharedKey allowedIP w =
     (case setPeerOnInterface run ifName publicKey presharedKey allowedIP w of (e1, w1) \<Rightarrow>
      case replacePeerRoute run ifName allowedIP w1 of (e2, w2) \<Rightarrow>
        (errors_Join [wrap_err ''restore peer: '' e1, wrap_err ''restore peer route: '' e2], w2))"

definition removePeerFromInterface :: "'w run \<Rightarrow> string \<Rightarrow> key32 \<Rightarrow> key32 option \<Rightarrow> string \<Rightarrow> 'w action" where
  "removePeerFromInterface run ifName publicKey presharedKey allowedIP w =
     (case removePeerOnlyFromInterface run ifName publicKey w of
        (Some e, w1) \<Rightarrow> (Some e, w1)
      | (None, w1) \<Rightarrow>
          (case exec_cmd run ''delete peer route: ''
                  [''ip'', ''route'', ''del'', allowedIP @ ''/32'', ''dev'', ifName] [] w1 of
             (None, w2) \<Rightarrow> (None, w2)
           | (Some removeRouteErr, w2) \<Rightarrow>
               (case restorePeerAndRoute run ifName publicKey presharedKey allowedIP w2 of
                  (Some restoreErr, w3) \<Rightarrow>
                    (errors_Join [Some removeRouteErr,
                       Some (Wrap ''restore peer after route deletion failure: '' restoreErr [])], w3)
                | (None, w3) \<Rightarrow> (Some removeRouteErr, w3))))"

definition peerRouteExists :: "'w run \<Rightarrow> string \<Rightarrow> string \<Rightarrow> 'w \<Rightarrow> bool res \<times> 'w" where
  "peerRouteExists run ifName allowedIP w =
     (case run [''ip'', ''route'', ''show'', ''exact'', allowedIP @ ''/32'', ''dev'', ifName] [] w of
        (CmdFail output _ e, w') \<Rightarrow> (Inl (Wrap (''inspect partial peer route: '' @ output @ '': '') (Plain e) []), w')
      | (CmdOk output, w') \<Rightarrow> (Inr (TrimSpace output \<noteq> []), w'))"

definition cleanupPeerAfterFailedAdd ::
  "'w run \<Rightarrow> string \<Rightarrow> key32 \<Rightarrow> string \<Rightarrow> 'w \<Rightarrow> (bool \<times> go_error option) \<times> 'w" where
  "cleanupPeerAfterFailedAdd run ifName publicKey allowedIP w =
     (case removePeerOnlyFromInterface run ifName publicKey w of (e1, w1) \<Rightarrow>
      case peerRouteExists run ifName allowedIP w1 of (re, w2) \<Rightarrow>
        (case re of
           Inl err \<Rightarrow> ((e1 = None, errors_Join [e1, Some err]), w2)
         | Inr routeExists \<Rightarrow>
             if \<not> routeExists then ((e1 = None, errors_Join [e1]), w2)
             else (case exec_cmd run ''delete partial peer route: ''
                          [''ip'', ''route'', ''del'', allowedIP @ ''/32'', ''dev'', ifName] [] w2 of
                     (e3, w3) \<Rightarrow> ((e1 = None, errors_Join [e1, e3]), w3))))"

section \<open>Reading the host\<close>

record PeerDump =
  dumpPublicKey :: string
  TransferRx :: int
  TransferTx :: int
  LastHandshake :: "int option"

definition dump_err :: "string \<Rightarrow> nat \<Rightarrow> string \<Rightarrow> go_error" where
  "dump_err ifName row what =
     Plain (''parse awg dump for interface '' @ ifName @ '': peer row '' @ dec_nat row @ what)"

definition counter_field :: "string \<Rightarrow> go_error \<Rightarrow> int res" where
  "counter_field s err = (case parse_int64 s of None \<Rightarrow> Inl err | Some v \<Rightarrow> if v < 0 then Inl err else Inr v)"

definition parse_peer_row :: "string \<Rightarrow> nat \<Rightarrow> string \<Rightarrow> PeerDump res" where
  "parse_peer_row ifName row line =
     (let flds = split_on (CHR 0x09) line in
      if length flds \<noteq> 8 then
        Inl (dump_err ifName row ('' has '' @ dec_nat (length flds) @ '' fields, want 8''))
      else (case Base64ToKey (flds ! 0) of
        Inl _ \<Rightarrow> Inl (dump_err ifName row '' has invalid public key'')
      | Inr _ \<Rightarrow>
          res_bind (counter_field (flds ! 5) (dump_err ifName row '' has invalid receive counter'')) (\<lambda>rx.
          res_bind (counter_field (flds ! 6) (dump_err ifName row '' has invalid transmit counter'')) (\<lambda>tx.
          res_bind (counter_field (flds ! 4) (dump_err ifName row '' has invalid handshake timestamp'')) (\<lambda>ts.
            Inr \<lparr>dumpPublicKey = flds ! 0, TransferRx = rx, TransferTx = tx,
                 LastHandshake = (if ts > 0 then Some ts else None)\<rparr>)))))"

fun parse_peer_rows :: "string \<Rightarrow> nat \<Rightarrow> string list \<Rightarrow> PeerDump list res" where
  "parse_peer_rows ifName row [] = Inr []"
| "parse_peer_rows ifName row (line # rest) =
     res_bind (parse_peer_row ifName row line) (\<lambda>p.
     res_bind (parse_peer_rows ifName (row + 1) rest) (\<lambda>ps. Inr (p # ps)))"

definition parse_dump :: "string \<Rightarrow> string \<Rightarrow> PeerDump list res" where
  "parse_dump ifName output =
     (let lines = split_on (CHR 0x0A) (TrimSpace output) in
      if length lines < 2 then Inr [] else parse_peer_rows ifName 2 (tl lines))"

definition ShowDump :: "'w run \<Rightarrow> string \<Rightarrow> 'w \<Rightarrow> PeerDump list res \<times> 'w" where
  "ShowDump run ifName w =
     (case run [''awg'', ''show'', ifName, ''dump''] [] w of
        (CmdFail _ _ e, w') \<Rightarrow> (Inl (Wrap ''awg show dump: '' (Plain e) []), w')
      | (CmdOk output, w') \<Rightarrow> (parse_dump ifName output, w'))"

text \<open>\<open>strings.Fields\<close> on ASCII text: the non-empty runs of non-space characters.\<close>

fun go_Fields :: "string \<Rightarrow> string \<Rightarrow> string list" where
  "go_Fields cur [] = (if cur = [] then [] else [rev cur])"
| "go_Fields cur (c # s) =
     (if is_space c then (if cur = [] then go_Fields [] s else rev cur # go_Fields [] s)
      else go_Fields (c # cur) s)"

fun find_dev :: "string list \<Rightarrow> string option" where
  "find_dev (f # g # rest) = (if f = ''dev'' then Some g else find_dev (g # rest))"
| "find_dev _ = None"

definition detectDefaultInterface :: "'w run \<Rightarrow> 'w \<Rightarrow> string res \<times> 'w" where
  "detectDefaultInterface run w =
     (case run [''ip'', ''route'', ''show'', ''default''] [] w of
        (CmdFail output _ e, w') \<Rightarrow> (Inl (Wrap (''ip route show default: '' @ output @ '': '') (Plain e) []), w')
      | (CmdOk output, w') \<Rightarrow>
          (case find_dev (go_Fields [] (TrimSpace output)) of
             Some name \<Rightarrow> (Inr name, w')
           | None \<Rightarrow> (Inl (Plain ''no default route found''), w')))"

section \<open>The dump is read back\<close>

text \<open>One peer line of \<open>awg show dump\<close>, in the format the comment in the source gives.\<close>

record dump_entry =
  de_key :: key32
  de_psk :: string
  de_endpoint :: string
  de_ips :: string
  de_handshake :: nat
  de_rx :: nat
  de_tx :: nat
  de_keepalive :: string

definition dump_row :: "dump_entry \<Rightarrow> string" where
  "dump_row e = join_str [CHR 0x09]
     [KeyToBase64 (de_key e), de_psk e, de_endpoint e, de_ips e, dec_nat (de_handshake e),
      dec_nat (de_rx e), dec_nat (de_tx e), de_keepalive e]"

definition dump_peer :: "dump_entry \<Rightarrow> PeerDump" where
  "dump_peer e = \<lparr>dumpPublicKey = KeyToBase64 (de_key e), TransferRx = int (de_rx e),
     TransferTx = int (de_tx e),
     LastHandshake = (if de_handshake e > 0 then Some (int (de_handshake e)) else None)\<rparr>"

definition no_space :: "string \<Rightarrow> bool" where
  "no_space s \<longleftrightarrow> s \<noteq> [] \<and> list_all (\<lambda>c. \<not> is_space c) s"

definition dump_entry_ok :: "dump_entry \<Rightarrow> bool" where
  "dump_entry_ok e \<longleftrightarrow> length (de_key e) = 32 \<and> no_space (de_psk e) \<and> no_space (de_endpoint e)
     \<and> no_space (de_ips e) \<and> no_space (de_keepalive e)
     \<and> de_handshake e < 2 ^ 63 \<and> de_rx e < 2 ^ 63 \<and> de_tx e < 2 ^ 63"

definition dump_text :: "string \<Rightarrow> dump_entry list \<Rightarrow> string" where
  "dump_text header es = join_str [CHR 0x0A] (header # map dump_row es) @ [CHR 0x0A]"

lemma parse_int64_dec_nat: "n < 2 ^ 63 \<Longrightarrow> parse_int64 (dec_nat n) = Some (int n)"
proof -
  have d: "is_digit (hd (dec_nat n))"
    using all_digits_dec_nat [of n] by (cases "dec_nat n") (auto simp del: all_digits_dec_nat)
  have "hd (dec_nat n) \<noteq> CHR ''-''" "hd (dec_nat n) \<noteq> CHR ''+''" using d by (auto simp: is_digit_def)
  moreover assume "n < 2 ^ 63"
  moreover from this have "int n < 2 ^ 63" by simp
  ultimately show ?thesis by (simp add: parse_int64_def Let_def)
qed

lemma is_space_ctl: "is_space (CHR 0x09)" "is_space (CHR 0x0A)" "\<not> is_space (CHR ''='')"
  by (simp_all add: is_space_def)

lemma no_space_not_mem: "no_space s \<Longrightarrow> is_space c \<Longrightarrow> c \<notin> set s"
  by (auto simp: no_space_def list_all_iff)

lemma no_space_dec_nat [simp]: "no_space (dec_nat n)"
proof -
  have "\<not> is_space c" if "c \<in> set (dec_nat n)" for c
    using that all_digits_dec_nat [of n]
    by (auto simp: all_digits_def list_all_iff is_digit_def is_space_def simp del: all_digits_dec_nat)
  then show ?thesis by (simp add: no_space_def list_all_iff)
qed

lemma b64_alphabet_no_space: "list_all (\<lambda>c. \<not> is_space c) b64_alphabet"
  by (simp add: b64_alphabet_def is_space_def)

lemma b64_char_no_space: "n < 64 \<Longrightarrow> \<not> is_space (b64_char n)"
  using b64_char_mem b64_alphabet_no_space by (auto simp: list_all_iff)

lemma b64_encode_no_space: "list_all (\<lambda>c. \<not> is_space c) (b64_encode bs)"
  by (induction bs rule: b64_encode.induct) (simp_all add: b64_char_no_space is_space_ctl)

lemma no_space_key: "length k = 32 \<Longrightarrow> no_space (KeyToBase64 k)"
  using b64_encode_no_space [of k] b64_decode_encode [of True k]
  by (cases k) (auto simp: no_space_def KeyToBase64_def b64_decode_def)

lemma dump_row_fields:
  assumes "dump_entry_ok e"
  shows "split_on (CHR 0x09) (dump_row e) =
    [KeyToBase64 (de_key e), de_psk e, de_endpoint e, de_ips e, dec_nat (de_handshake e),
     dec_nat (de_rx e), dec_nat (de_tx e), de_keepalive e]"
  unfolding dump_row_def
  by (rule split_on_join)
     (use assms in \<open>auto simp: dump_entry_ok_def no_space_key no_space_not_mem is_space_ctl\<close>)

lemma parse_peer_row_print:
  assumes "dump_entry_ok e"
  shows "parse_peer_row ifName n (dump_row e) = Inr (dump_peer e)"
proof -
  have "Base64ToKey (KeyToBase64 (de_key e)) = Inr (de_key e)"
    using assms by (simp add: dump_entry_ok_def Base64ToKey_def KeyToBase64_def)
  moreover have "counter_field (dec_nat m) err = Inr (int m)" if "m < 2 ^ 63" for m err
    unfolding counter_field_def parse_int64_dec_nat [OF that] by simp
  ultimately show ?thesis using assms
    by (simp add: parse_peer_row_def dump_row_fields Let_def dump_peer_def dump_entry_ok_def)
qed

lemma parse_peer_rows_print:
  "\<forall>e \<in> set es. dump_entry_ok e \<Longrightarrow> parse_peer_rows ifName n (map dump_row es) = Inr (map dump_peer es)"
  by (induction es arbitrary: n) (simp_all add: parse_peer_row_print)

lemma dump_row_no_newline: "dump_entry_ok e \<Longrightarrow> CHR 0x0A \<notin> set (dump_row e)"
  by (auto simp: dump_row_def dump_entry_ok_def no_space_key no_space_not_mem is_space_ctl)

lemma dump_row_last: "dump_entry_ok e \<Longrightarrow> dump_row e \<noteq> [] \<and> \<not> is_space (List.last (dump_row e))"
  by (auto simp: dump_row_def dump_entry_ok_def no_space_def list_all_iff)

lemma TrimSpace_newline:
  assumes "s \<noteq> []" "\<not> is_space (hd s)" "\<not> is_space (List.last s)"
  shows "TrimSpace (s @ [CHR 0x0A]) = s"
proof -
  have "dropWhile is_space (s @ [CHR 0x0A]) = s @ [CHR 0x0A]" using assms by (cases s) auto
  moreover have "dropWhile is_space (rev s) = rev s"
    using assms by (cases s rule: rev_cases) auto
  ultimately show ?thesis by (simp add: TrimSpace_def is_space_ctl)
qed

lemma join_str_last:
  "ps \<noteq> [] \<Longrightarrow> List.last ps \<noteq> [] \<Longrightarrow> join_str sep ps \<noteq> [] \<and> List.last (join_str sep ps) = List.last (List.last ps)"
  by (induction sep ps rule: join_str.induct) auto

lemma join_str_hd: "p \<noteq> [] \<Longrightarrow> hd (join_str sep (p # ps)) = hd p \<and> join_str sep (p # ps) \<noteq> []"
  by (cases ps) auto

section \<open>Properties\<close>



text \<open>A dump that is accepted has only keys that decode to 32 bytes, and counters that are
  non-negative 64-bit numbers.\<close>

lemma parse_dump_bounds:
  assumes "parse_dump ifName output = Inr ps" "d \<in> set ps"
  shows "(\<exists>k. Base64ToKey (dumpPublicKey d) = Inr k)
    \<and> TransferRx d \<in> {0..<2 ^ 63} \<and> TransferTx d \<in> {0..<2 ^ 63}
    \<and> (\<forall>t. LastHandshake d = Some t \<longrightarrow> 0 < t)"
proof -
  have c: "counter_field s e = Inr v \<Longrightarrow> v \<in> {0..<2 ^ 63}" for s e v
    by (auto simp: counter_field_def parse_int64_def Let_def split: option.splits if_splits)
  have row: "parse_peer_row ifName n line = Inr d \<Longrightarrow> ?thesis" for n line
    by (auto simp: parse_peer_row_def Let_def res_simps split: if_splits sum.splits dest!: c)
  have rows: "parse_peer_rows ifName n ls = Inr ps \<Longrightarrow> d \<in> set ps \<Longrightarrow> \<exists>m l. parse_peer_row ifName m l = Inr d" for n ls ps
    by (induction ls arbitrary: n ps) (auto simp: res_simps, blast)
  obtain n ls where "parse_peer_rows ifName n ls = Inr ps"
    using assms by (auto simp: parse_dump_def Let_def split: if_splits)
  from rows [OF this assms(2)] row show ?thesis by blast
qed

lemma parse_one_peer:
  "parse_dump ''awg0'' (dump_text ''x'' [\<lparr>de_key = zero_key, de_psk = ''p'', de_endpoint = ''e'',
      de_ips = ''i'', de_handshake = 0, de_rx = 7, de_tx = 9, de_keepalive = ''0''\<rparr>])
   = Inr [\<lparr>dumpPublicKey = KeyToBase64 zero_key, TransferRx = 7, TransferTx = 9, LastHandshake = None\<rparr>]"
proof -
  define e where "e = \<lparr>de_key = zero_key, de_psk = ''p'', de_endpoint = ''e'',
      de_ips = ''i'', de_handshake = 0, de_rx = 7, de_tx = 9, de_keepalive = ''0''\<rparr>"
  have ok: "dump_entry_ok e" by (simp add: e_def dump_entry_ok_def no_space_def is_space_def zero_key_def)
  have "dump_text ''x'' [e] = CHR ''x'' # CHR 0x0A # dump_row e @ [CHR 0x0A]" by (simp add: dump_text_def)
  moreover have "TrimSpace (CHR ''x'' # CHR 0x0A # dump_row e @ [CHR 0x0A]) = CHR ''x'' # CHR 0x0A # dump_row e"
    using TrimSpace_newline [of "CHR ''x'' # CHR 0x0A # dump_row e"] dump_row_last [OF ok]
    by (simp add: is_space_def)
  moreover have "split_on (CHR 0x0A) (CHR ''x'' # CHR 0x0A # dump_row e) = [''x'', dump_row e]"
    using dump_row_no_newline [OF ok] by (simp add: split_on_no_sep)
  ultimately have "parse_dump ''awg0'' (dump_text ''x'' [e]) = Inr [dump_peer e]"
    using parse_peer_row_print [OF ok] by (simp add: parse_dump_def)
  then show ?thesis by (simp add: e_def dump_peer_def)
qed

end
