(* ===== verification/Firewall.thy ===== *)
theory Firewall
  imports Device
begin

text \<open>
  The LAN isolation firewall, \<^verbatim>\<open>src/internal/awg/firewall.go\<close>: the checks on the peer list, the text
  given to \<open>iptables-restore\<close>, and the commands that install it. The rules of the chain are kept as
  data (\<open>lan_rule\<close>) next to their text, so that what the chain decides about a packet can be stated:
  a packet between two VPN addresses is accepted exactly when both belong to peers of one group.
\<close>

section \<open>Model\<close>

definition lanFirewallChain :: string where "lanFirewallChain = ''AWG-LAN''"

record LANPeer =
  Address :: string
  GroupID :: string

datatype lan_rule = AcceptPair addr4 addr4 | DropAll

definition rule_text :: "lan_rule \<Rightarrow> string" where
  "rule_text r =
     (case r of
        AcceptPair s d \<Rightarrow> ''-A '' @ lanFirewallChain @ '' -s '' @ addr_String s @ ''/32 -d '' @ addr_String d
          @ ''/32 -j ACCEPT'' @ [CHR 0x0A]
      | DropAll \<Rightarrow> ''-A '' @ lanFirewallChain @ '' -j DROP'' @ [CHR 0x0A])"

definition go_quote :: "string \<Rightarrow> string" where
  "go_quote s = [CHR 0x22] @ s @ [CHR 0x22]"

text \<open>The validation loop; \<open>seen\<close> holds the addresses of the peers already accepted.\<close>

fun normalize_peers :: "prefix4 \<Rightarrow> addr4 list \<Rightarrow> LANPeer list \<Rightarrow> (addr4 \<times> string) list res" where
  "normalize_peers prefix seen [] = Inr []"
| "normalize_peers prefix seen (p # ps) =
     (case ParseAddr4 (Address p) of
        None \<Rightarrow> Inl (Plain (''invalid LAN peer address '' @ go_quote (Address p)))
      | Some address \<Rightarrow>
          if \<not> Contains prefix address then
            Inl (Plain (''LAN peer address '' @ go_quote (addr_String address) @ '' is outside VPN network ''
                   @ prefix_String prefix))
          else if GroupID p = [] then
            Inl (Plain (''LAN peer '' @ go_quote (addr_String address) @ '' has empty LAN group''))
          else if address \<in> set seen then
            Inl (Plain (''duplicate LAN peer address '' @ go_quote (addr_String address)))
          else res_bind (normalize_peers prefix (address # seen) ps) (\<lambda>rest.
                 Inr ((address, GroupID p) # rest)))"

definition pair_rules :: "(addr4 \<times> string) list \<Rightarrow> lan_rule list" where
  "pair_rules peers =
     concat (map (\<lambda>source. List.map_filter (\<lambda>destination.
       if snd source \<noteq> snd destination then None
       else Some (AcceptPair (fst source) (fst destination))) peers) peers)"

definition lan_rules :: "(addr4 \<times> string) list \<Rightarrow> lan_rule list" where
  "lan_rules normalized = pair_rules (sort_key fst normalized) @ [DropAll]"

definition hook_text :: "prefix4 \<Rightarrow> string" where
  "hook_text prefix = ''-i awg+ -o awg+ -s '' @ prefix_String prefix @ '' -d '' @ prefix_String prefix
     @ '' -j '' @ lanFirewallChain"

definition renderLANFirewall :: "string \<Rightarrow> LANPeer list \<Rightarrow> bool \<Rightarrow> string res" where
  "renderLANFirewall network peers hookExists =
     (case ParsePrefix4 network of
        None \<Rightarrow> Inl (Plain (''parse VPN network '' @ go_quote network))
      | Some parsed \<Rightarrow>
          (let prefix = Masked parsed in
           res_bind (normalize_peers prefix [] peers) (\<lambda>normalized.
             Inr (''*filter'' @ [CHR 0x0A]
               @ '':'' @ lanFirewallChain @ '' - [0:0]'' @ [CHR 0x0A]
               @ concat (map rule_text (lan_rules normalized))
               @ (if hookExists then ''-D FORWARD '' @ hook_text prefix @ [CHR 0x0A] else [])
               @ ''-I FORWARD 1 '' @ hook_text prefix @ [CHR 0x0A]
               @ ''COMMIT'' @ [CHR 0x0A]))))"

definition lanFirewallHookExists :: "'w run \<Rightarrow> string \<Rightarrow> 'w \<Rightarrow> bool res \<times> 'w" where
  "lanFirewallHookExists run network w =
     (case run [''iptables'', ''--wait'', ''5'', ''-S'', lanFirewallChain] [] w of
        (CmdFail output code e, w1) \<Rightarrow>
          (if code = Some 1 then (Inr False, w1)
           else (Inl (Wrap (''inspect LAN firewall chain: '' @ output @ '': '') (Plain e) []), w1))
      | (CmdOk _, w1) \<Rightarrow>
          (case run [''iptables'', ''--wait'', ''5'', ''-C'', ''FORWARD'', ''-i'', ''awg+'', ''-o'', ''awg+'',
                     ''-s'', network, ''-d'', network, ''-j'', lanFirewallChain] [] w1 of
             (CmdOk _, w2) \<Rightarrow> (Inr True, w2)
           | (CmdFail output code e, w2) \<Rightarrow>
               (if code = Some 1 then (Inr False, w2)
                else (Inl (Wrap (''inspect LAN firewall hook: '' @ output @ '': '') (Plain e) []), w2))))"

definition ApplyLANIsolation :: "'w run \<Rightarrow> string \<Rightarrow> LANPeer list \<Rightarrow> 'w action" where
  "ApplyLANIsolation run network peers w =
     (case lanFirewallHookExists run network w of
        (Inl e, w1) \<Rightarrow> (Some e, w1)
      | (Inr hookExists, w1) \<Rightarrow>
          (case renderLANFirewall network peers hookExists of
             Inl e \<Rightarrow> (Some e, w1)
           | Inr rules \<Rightarrow>
               exec_cmd run ''apply LAN firewall: '' [''iptables-restore'', ''--wait'', ''5'', ''--noflush''] rules w1))"

section \<open>What the chain decides\<close>

datatype verdict = ACCEPT | DROP

fun rule_matches :: "lan_rule \<Rightarrow> addr4 \<Rightarrow> addr4 \<Rightarrow> bool" where
  "rule_matches (AcceptPair s d) src dst = (src = s \<and> dst = d)"
| "rule_matches DropAll src dst = True"

fun rule_target :: "lan_rule \<Rightarrow> verdict" where
  "rule_target (AcceptPair s d) = ACCEPT"
| "rule_target DropAll = DROP"

fun chain_verdict :: "lan_rule list \<Rightarrow> addr4 \<Rightarrow> addr4 \<Rightarrow> verdict option" where
  "chain_verdict [] src dst = None"
| "chain_verdict (r # rs) src dst =
     (if rule_matches r src dst then Some (rule_target r) else chain_verdict rs src dst)"

text \<open>The group of an address, read off the peer list itself.\<close>

definition in_group :: "LANPeer list \<Rightarrow> addr4 \<Rightarrow> string \<Rightarrow> bool" where
  "in_group peers a g \<longleftrightarrow> (\<exists>p \<in> set peers. ParseAddr4 (Address p) = Some a \<and> GroupID p = g)"

definition peer_addr :: "LANPeer \<Rightarrow> addr4" where
  "peer_addr p = the (ParseAddr4 (Address p))"

definition peer_ok :: "prefix4 \<Rightarrow> LANPeer \<Rightarrow> bool" where
  "peer_ok prefix p \<longleftrightarrow> ParseAddr4 (Address p) \<noteq> None \<and> Contains prefix (peer_addr p) \<and> GroupID p \<noteq> []"

lemma normalize_peers_iff:
  "normalize_peers prefix seen ps = Inr ns \<longleftrightarrow>
     (\<forall>p \<in> set ps. peer_ok prefix p) \<and> distinct (map peer_addr ps) \<and> set (map peer_addr ps) \<inter> set seen = {}
     \<and> ns = map (\<lambda>p. (peer_addr p, GroupID p)) ps"
proof (induction prefix seen ps arbitrary: ns rule: normalize_peers.induct)
  case (2 prefix seen p ps)
  show ?case
  proof (cases "ParseAddr4 (Address p)")
    case None
    then show ?thesis by (simp add: peer_ok_def)
  next
    case (Some a)
    then have a: "peer_addr p = a" by (simp add: peer_addr_def)
    show ?thesis
    proof (cases "Contains prefix a \<and> GroupID p \<noteq> [] \<and> a \<notin> set seen")
      case True
      with Some have "normalize_peers prefix seen (p # ps) = Inr ns \<longleftrightarrow>
          (\<exists>rest. normalize_peers prefix (a # seen) ps = Inr rest \<and> ns = (a, GroupID p) # rest)"
        by (auto simp: res_simps)
      also have "\<dots> \<longleftrightarrow> (\<forall>p \<in> set ps. peer_ok prefix p) \<and> distinct (map peer_addr ps)
          \<and> set (map peer_addr ps) \<inter> set (a # seen) = {}
          \<and> ns = (a, GroupID p) # map (\<lambda>p. (peer_addr p, GroupID p)) ps"
        using 2 [OF Some] True by auto
      finally show ?thesis using True Some a by (auto simp: peer_ok_def)
    next
      case False
      with Some a show ?thesis by (auto simp: peer_ok_def)
    qed
  qed
qed auto

lemma chain_verdict_append:
  "chain_verdict (rs @ ss) src dst =
     (case chain_verdict rs src dst of Some v \<Rightarrow> Some v | None \<Rightarrow> chain_verdict ss src dst)"
  by (induction rs) auto

lemma chain_verdict_accepts:
  "\<forall>r \<in> set rs. \<exists>s d. r = AcceptPair s d \<Longrightarrow>
   chain_verdict rs src dst = (if AcceptPair src dst \<in> set rs then Some ACCEPT else None)"
  by (induction rs) auto

lemma pair_rules_iff:
  "r \<in> set (pair_rules peers) \<longleftrightarrow>
     (\<exists>s \<in> set peers. \<exists>d \<in> set peers. snd s = snd d \<and> r = AcceptPair (fst s) (fst d))"
  unfolding pair_rules_def set_concat set_map UN_iff bex_simps(7) set_map_filter_iff
  by (intro bex_cong refl) auto

lemma pair_rules_mem:
  "AcceptPair a b \<in> set (pair_rules peers) \<longleftrightarrow> (\<exists>g. (a, g) \<in> set peers \<and> (b, g) \<in> set peers)"
  unfolding pair_rules_iff by (auto simp: Bex_def split_paired_Ex)

lemma pair_rules_accept: "r \<in> set (pair_rules peers) \<Longrightarrow> \<exists>s d. r = AcceptPair s d"
  unfolding pair_rules_iff by blast

lemma lan_rules_verdict:
  "chain_verdict (lan_rules ns) src dst =
     Some (if \<exists>g. (src, g) \<in> set ns \<and> (dst, g) \<in> set ns then ACCEPT else DROP)"
proof -
  have "\<forall>r \<in> set (pair_rules (sort_key fst ns)). \<exists>s d. r = AcceptPair s d"
    using pair_rules_accept by blast
  from chain_verdict_accepts [OF this, of src dst] show ?thesis
    by (simp add: lan_rules_def chain_verdict_append pair_rules_mem)
qed

lemma in_group_normalized:
  "\<forall>p \<in> set ps. peer_ok prefix p \<Longrightarrow>
   (a, g) \<in> set (map (\<lambda>p. (peer_addr p, GroupID p)) ps) \<longleftrightarrow> in_group ps a g"
  by (auto simp: in_group_def peer_ok_def peer_addr_def image_iff) (metis option.sel)

section \<open>Properties\<close>

text \<open>C12. The rules that renderLANFirewall writes isolate the groups: the text is the header, the rules
  and the hook of the VPN network, and the chain accepts a packet exactly when its source and its
  destination are peers of the same group; every other packet is dropped.\<close>

theorem lan_isolation:
  assumes "renderLANFirewall network peers hookExists = Inr rules_text"
  shows "\<exists>rules prefix. ParsePrefix4 network = Some prefix
    \<and> rules_text = ''*filter'' @ [CHR 0x0A] @ '':AWG-LAN - [0:0]'' @ [CHR 0x0A]
        @ concat (map rule_text rules)
        @ (if hookExists then ''-D FORWARD '' @ hook_text (Masked prefix) @ [CHR 0x0A] else [])
        @ ''-I FORWARD 1 '' @ hook_text (Masked prefix) @ [CHR 0x0A] @ ''COMMIT'' @ [CHR 0x0A]
    \<and> (\<forall>src dst. chain_verdict rules src dst =
         Some (if \<exists>g. in_group peers src g \<and> in_group peers dst g then ACCEPT else DROP))"
proof -
  obtain prefix ns where p: "ParsePrefix4 network = Some prefix"
    and n: "normalize_peers (Masked prefix) [] peers = Inr ns"
    and t: "rules_text = ''*filter'' @ [CHR 0x0A] @ '':AWG-LAN - [0:0]'' @ [CHR 0x0A]
        @ concat (map rule_text (lan_rules ns))
        @ (if hookExists then ''-D FORWARD '' @ hook_text (Masked prefix) @ [CHR 0x0A] else [])
        @ ''-I FORWARD 1 '' @ hook_text (Masked prefix) @ [CHR 0x0A] @ ''COMMIT'' @ [CHR 0x0A]"
    using assms
    by (auto simp: renderLANFirewall_def Let_def res_simps lanFirewallChain_def split: option.splits)
  have "(a, g) \<in> set ns \<longleftrightarrow> in_group peers a g" for a g
    using n in_group_normalized [of peers "Masked prefix" a g] by (simp add: normalize_peers_iff)
  then have "\<forall>src dst. chain_verdict (lan_rules ns) src dst =
      Some (if \<exists>g. in_group peers src g \<and> in_group peers dst g then ACCEPT else DROP)"
    by (simp add: lan_rules_verdict)
  with p t show ?thesis by blast
qed

text \<open>renderLANFirewall accepts exactly the peer lists it should: a parsable network, and peers with
  distinct IPv4 addresses inside it and non-empty groups.\<close>

lemma renderLANFirewall_accepts:
  "(\<exists>t. renderLANFirewall network peers hookExists = Inr t) \<longleftrightarrow>
     (\<exists>prefix. ParsePrefix4 network = Some prefix
        \<and> (\<forall>p \<in> set peers. \<exists>a. ParseAddr4 (Address p) = Some a \<and> a \<in> prefix_set prefix \<and> GroupID p \<noteq> [])
        \<and> distinct (map (\<lambda>p. ParseAddr4 (Address p)) peers))"
proof (cases "ParsePrefix4 network")
  case (Some prefix)
  have "Contains (Masked prefix) a \<longleftrightarrow> a \<in> prefix_set prefix" for a
    using prefix_set_Masked [of prefix] by (auto simp: prefix_set_def)
  then have ok: "(\<forall>p \<in> set peers. peer_ok (Masked prefix) p) \<longleftrightarrow>
      (\<forall>p \<in> set peers. \<exists>a. ParseAddr4 (Address p) = Some a \<and> a \<in> prefix_set prefix \<and> GroupID p \<noteq> [])"
    by (auto simp: peer_ok_def peer_addr_def)
  have "distinct (map peer_addr peers) \<longleftrightarrow> distinct (map (\<lambda>p. ParseAddr4 (Address p)) peers)"
    if "\<forall>p \<in> set peers. peer_ok (Masked prefix) p"
  proof -
    have "map (\<lambda>p. ParseAddr4 (Address p)) peers = map Some (map peer_addr peers)"
      using that by (auto simp: peer_ok_def peer_addr_def)
    moreover have "distinct (map Some xs) = distinct xs" for xs :: "addr4 list" by (simp add: distinct_map)
    ultimately show ?thesis by (simp only:)
  qed
  with ok show ?thesis
    by (auto simp: renderLANFirewall_def Let_def res_simps Some normalize_peers_iff)
qed (simp add: renderLANFirewall_def)

definition lan_sample :: "LANPeer list" where
  "lan_sample = [\<lparr>Address = ''10.0.0.2'', GroupID = ''a''\<rparr>, \<lparr>Address = ''10.0.0.3'', GroupID = ''b''\<rparr>]"

lemma lan_sample_parses:
  "ParseAddr4 ''10.0.0.2'' = Some 167772162" "ParseAddr4 ''10.0.0.3'' = Some 167772163"
  "ParsePrefix4 ''10.0.0.0/8'' = Some (167772160, 8)"
  by (simp_all add: ParseAddr4_def ParsePrefix4_def valid_octet_def no_leading_zero_def octets_addr_def go_eval)

lemma lan_sample_normalized:
  "normalize_peers (Masked (167772160, 8)) [] lan_sample = Inr [(167772162, ''a''), (167772163, ''b'')]"
proof -
  have "Contains (Masked (167772160, 8)) a \<longleftrightarrow> Contains (167772160, 8) a" for a
    by (simp add: Contains_def Masked_def and.assoc)
  then show ?thesis by (simp add: lan_sample_def lan_sample_parses Contains_nat)
qed

lemma lan_sample_renders:
  "\<exists>t. renderLANFirewall ''10.0.0.0/8'' lan_sample False = Inr t"
  by (simp add: renderLANFirewall_def lan_sample_parses lan_sample_normalized)

theorem lan_isolation_witness:
  "\<exists>rules. chain_verdict rules 167772162 167772163 = Some DROP
         \<and> chain_verdict rules 167772162 167772162 = Some ACCEPT"
proof -
  obtain t where "renderLANFirewall ''10.0.0.0/8'' lan_sample False = Inr t" using lan_sample_renders by blast
  from lan_isolation [OF this] obtain rules where
    r: "\<And>src dst. chain_verdict rules src dst =
         Some (if \<exists>g. in_group lan_sample src g \<and> in_group lan_sample dst g then ACCEPT else DROP)" by blast
  have "in_group lan_sample 167772162 g \<longleftrightarrow> g = ''a''" "in_group lan_sample 167772163 g \<longleftrightarrow> g = ''b''" for g
    by (auto simp: in_group_def lan_sample_def lan_sample_parses)
  then show ?thesis by (intro exI [of _ rules]) (simp add: r)
qed

end
