(* ===== verification/Pool.thy ===== *)
theory Pool
  imports Firewall
begin

text \<open>
  The interface pool, \<^verbatim>\<open>src/internal/awg/pool.go\<close>. \<open>poolOperations\<close> is the Go interface of the same
  name as a record of functions on a host state \<open>'w\<close>; \<open>hostPoolOperations\<close> is the instance the
  server runs with. \<open>Pool\<close> is the state under the mutex, and every method is a function from pool
  and host to its results, the new pool and the new host: one call is one step.

  An \<open>*iface\<close> is always the one stored in \<open>ifaces\<close> under its profile key, so a pointer is modelled
  by its key and the value at the time of the call, written back on every change. Logging is left
  out. A map iteration visits the entries in the order of the association list.
\<close>

section \<open>The operations of the host\<close>

record 'w poolOperations =
  op_createInterface :: "string \<Rightarrow> 'w action"
  op_destroyInterface :: "string \<Rightarrow> 'w action"
  op_configureDevice :: "string \<Rightarrow> int \<Rightarrow> Profile \<Rightarrow> key32 \<Rightarrow> 'w action"
  op_configureInterfaceNetwork :: "string \<Rightarrow> string \<Rightarrow> 'w action"
  op_addPeerToInterface :: "string \<Rightarrow> key32 \<Rightarrow> key32 option \<Rightarrow> string \<Rightarrow> 'w action"
  op_removePeerFromInterface :: "string \<Rightarrow> key32 \<Rightarrow> key32 option \<Rightarrow> string \<Rightarrow> 'w action"
  op_removePeerOnlyFromInterface :: "string \<Rightarrow> key32 \<Rightarrow> 'w action"
  op_cleanupPeerAfterFailedAdd :: "string \<Rightarrow> key32 \<Rightarrow> string \<Rightarrow> 'w \<Rightarrow> (bool \<times> go_error option) \<times> 'w"
  op_restorePeerAndRoute :: "string \<Rightarrow> key32 \<Rightarrow> key32 option \<Rightarrow> string \<Rightarrow> 'w action"
  op_replacePeerRoute :: "string \<Rightarrow> string \<Rightarrow> 'w action"
  op_addMasquerade :: "string \<Rightarrow> string \<Rightarrow> 'w action"
  op_removeMasquerade :: "string \<Rightarrow> string \<Rightarrow> 'w action"

definition host_addMasquerade :: "'w run \<Rightarrow> string \<Rightarrow> string \<Rightarrow> 'w action" where
  "host_addMasquerade run network outIface =
     exec_cmd run ''add masquerade rule: '' [''iptables'', ''-t'', ''nat'', ''-A'', ''POSTROUTING'',
       ''-s'', network, ''-o'', outIface, ''-j'', ''MASQUERADE''] []"

definition host_removeMasquerade :: "'w run \<Rightarrow> string \<Rightarrow> string \<Rightarrow> 'w action" where
  "host_removeMasquerade run network outIface w =
     (case run [''iptables'', ''-t'', ''nat'', ''-D'', ''POSTROUTING'',
                ''-s'', network, ''-o'', outIface, ''-j'', ''MASQUERADE''] [] w of
        (CmdOk _, w') \<Rightarrow> (None, w')
      | (CmdFail _ _ e, w') \<Rightarrow> (Some (Wrap ''remove masquerade rule: '' (Plain e) []), w'))"

definition hostPoolOperations :: "'w run \<Rightarrow> 'w poolOperations" where
  "hostPoolOperations run =
     \<lparr>op_createInterface = createInterface run, op_destroyInterface = destroyInterface run,
      op_configureDevice = configureDevice run, op_configureInterfaceNetwork = configureInterfaceNetwork run,
      op_addPeerToInterface = addPeerToInterface run, op_removePeerFromInterface = removePeerFromInterface run,
      op_removePeerOnlyFromInterface = removePeerOnlyFromInterface run,
      op_cleanupPeerAfterFailedAdd = cleanupPeerAfterFailedAdd run,
      op_restorePeerAndRoute = restorePeerAndRoute run, op_replacePeerRoute = replacePeerRoute run,
      op_addMasquerade = host_addMasquerade run, op_removeMasquerade = host_removeMasquerade run\<rparr>"

section \<open>State\<close>

record iface =
  ifName :: string
  ifPort :: int
  ifProfile :: Profile
  peerCount :: int
  peerPSKs :: "(key32, key32 option) gmap"

text \<open>The three values that the pool reads from the configuration.\<close>

record pool_cfg =
  cfgAddress :: string
  cfgNetwork :: string
  cfgListenPort :: int

record Pool =
  pool_config :: pool_cfg
  privKey :: key32
  pubKey :: key32
  outIface :: string
  ifaces :: "(key32, iface) gmap"
  orphans :: "(string, int) gmap"
  usedPorts :: "int set"
  nextIndex :: nat
  maxIfaces :: int
  masqAdded :: bool

type_synonym 'w pool_step = "Pool \<Rightarrow> 'w \<Rightarrow> go_error option \<times> Pool \<times> 'w"

definition rollbackFailure :: "go_error \<Rightarrow> go_error \<Rightarrow> go_error" where
  "rollbackFailure operationErr rollbackErr = RollbackError operationErr rollbackErr"

definition NewPool ::
  "'w run \<Rightarrow> (key32 \<Rightarrow> key32) \<Rightarrow> pool_cfg \<Rightarrow> string \<Rightarrow> key32 \<Rightarrow> int \<Rightarrow> 'w \<Rightarrow> Pool res \<times> 'w" where
  "NewPool run scalarBaseMult cfg cfgInterface privateKey mx w =
     (case detectDefaultInterface run w of
        (Inl e, w1) \<Rightarrow> (Inl (Wrap ''detect default interface: '' e []), w1)
      | (Inr detected, w1) \<Rightarrow>
          (let pool = \<lparr>pool_config = cfg, privKey = privateKey,
                       pubKey = PublicKeyFromPrivate scalarBaseMult privateKey,
                       outIface = (if cfgInterface \<noteq> [] then cfgInterface else detected),
                       ifaces = [], orphans = [], usedPorts = {}, nextIndex = 0, maxIfaces = mx,
                       masqAdded = False\<rparr> in
           case ApplyLANIsolation run (cfgNetwork cfg) [] w1 of
             (Some e, w2) \<Rightarrow> (Inl (Wrap ''initialize LAN firewall: '' e []), w2)
           | (None, w2) \<Rightarrow> (Inr pool, w2)))"

section \<open>Peers of one interface\<close>

definition set_iface :: "key32 \<Rightarrow> iface \<Rightarrow> Pool \<Rightarrow> Pool" where
  "set_iface key ifc pool = pool\<lparr>ifaces := AList.update key ifc (ifaces pool)\<rparr>"

definition trackPeerLocked :: "iface \<Rightarrow> key32 \<Rightarrow> key32 option \<Rightarrow> iface" where
  "trackPeerLocked ifc publicKey presharedKey =
     ifc\<lparr>peerCount := (if map_of (peerPSKs ifc) publicKey = None then peerCount ifc + 1 else peerCount ifc),
         peerPSKs := AList.update publicKey presharedKey (peerPSKs ifc)\<rparr>"

definition untrackPeerLocked :: "iface \<Rightarrow> key32 \<Rightarrow> iface" where
  "untrackPeerLocked ifc publicKey =
     (if map_of (peerPSKs ifc) publicKey = None then ifc
      else ifc\<lparr>peerPSKs := AList.delete publicKey (peerPSKs ifc),
               peerCount := (if peerCount ifc > 0 then peerCount ifc - 1 else peerCount ifc)\<rparr>)"

definition destroyTrackedInterfaceLocked :: "'w poolOperations \<Rightarrow> key32 \<Rightarrow> iface \<Rightarrow> 'w pool_step" where
  "destroyTrackedInterfaceLocked ops key ifc pool w =
     (case op_destroyInterface ops (ifName ifc) w of
        (Some e, w') \<Rightarrow> (Some e, pool, w')
      | (None, w') \<Rightarrow>
          (None, pool\<lparr>usedPorts := usedPorts pool - {ifPort ifc}, ifaces := AList.delete key (ifaces pool)\<rparr>, w'))"

definition trackOrphanInterfaceLocked :: "string \<Rightarrow> int \<Rightarrow> Pool \<Rightarrow> Pool" where
  "trackOrphanInterfaceLocked name p pool =
     pool\<lparr>orphans := AList.update name p (orphans pool), usedPorts := insert p (usedPorts pool)\<rparr>"

definition addPeerLocked ::
  "'w poolOperations \<Rightarrow> key32 \<Rightarrow> iface \<Rightarrow> key32 \<Rightarrow> key32 option \<Rightarrow> string \<Rightarrow> 'w pool_step" where
  "addPeerLocked ops key ifc publicKey presharedKey allowedIP pool w =
     (case op_addPeerToInterface ops (ifName ifc) publicKey presharedKey allowedIP w of
        (Some err, w1) \<Rightarrow>
          (let wasEmpty = (peerCount ifc = 0) in
           case op_cleanupPeerAfterFailedAdd ops (ifName ifc) publicKey allowedIP w1 of
             ((peerRemoved, cleanupErr), w2) \<Rightarrow>
               (let tracked = (if peerRemoved then pool
                               else set_iface key (trackPeerLocked ifc publicKey presharedKey) pool) in
                if wasEmpty then
                  (case destroyTrackedInterfaceLocked ops key ifc pool w2 of
                     (None, pool', w3) \<Rightarrow> (Some err, pool', w3)
                   | (Some destroyErr, _, w3) \<Rightarrow>
                       (case errors_Join [cleanupErr, Some (Wrap ''destroy empty interface: '' destroyErr [])] of
                          Some joined \<Rightarrow> (Some (rollbackFailure err joined), tracked, w3)
                        | None \<Rightarrow> (Some err, tracked, w3)))
                else
                  (case cleanupErr of
                     Some ce \<Rightarrow> (Some (rollbackFailure err ce), tracked, w2)
                   | None \<Rightarrow> (Some err, tracked, w2))))
      | (None, w1) \<Rightarrow> (None, set_iface key (trackPeerLocked ifc publicKey presharedKey) pool, w1))"

section \<open>Creating interfaces\<close>

definition validateExistingInterfacePort :: "iface \<Rightarrow> int \<Rightarrow> go_error option" where
  "validateExistingInterfacePort ifc requestedPort =
     (if requestedPort \<noteq> 0 \<and> requestedPort \<noteq> ifPort ifc then Some (Sentinel ErrProfilePortConflict) else None)"

function next_free_port :: "int set \<Rightarrow> int \<Rightarrow> int" where
  "next_free_port used p = (if p \<in> used \<and> p \<le> MaxPort then next_free_port used (p + 1) else p)"
  by pat_completeness auto
termination by (relation "measure (\<lambda>(_, p). nat (MaxPort + 1 - p))") (auto simp: MaxPort_def)

declare next_free_port.simps [simp del]

definition resolvePort :: "Pool \<Rightarrow> int \<Rightarrow> int res" where
  "resolvePort pool requested =
     check (ValidatePort requested)
       (if requested > 0 then
          (if requested \<in> usedPorts pool
           then Inl (Wrap (''port '' @ dec_int requested @ '': '') (Sentinel ErrPortInUse) [])
           else Inr requested)
        else
          (let p = next_free_port (usedPorts pool) (cfgListenPort (pool_config pool)) in
           if p > MaxPort then Inl (Plain ''no available ports (exhausted range)'') else Inr p))"

definition cleanup_incomplete :: "'w poolOperations \<Rightarrow> string \<Rightarrow> int \<Rightarrow> go_error \<Rightarrow> Pool \<Rightarrow> 'w \<Rightarrow> go_error \<times> Pool \<times> 'w" where
  "cleanup_incomplete ops name p operationErr pool w =
     (case op_destroyInterface ops name w of
        (Some cleanupErr, w') \<Rightarrow>
          (rollbackFailure operationErr (Wrap ''destroy incomplete interface: '' cleanupErr []),
           trackOrphanInterfaceLocked name p pool, w')
      | (None, w') \<Rightarrow> (operationErr, pool, w'))"

text \<open>The part of \<open>getOrCreateInterface\<close> after the port and the limit are settled.\<close>

definition create_iface :: "'w poolOperations \<Rightarrow> Profile \<Rightarrow> int \<Rightarrow> Pool \<Rightarrow> 'w \<Rightarrow> iface res \<times> Pool \<times> 'w" where
  "create_iface ops profile p pool0 w =
     (let name = ''awg'' @ dec_nat (nextIndex pool0);
          pool = pool0\<lparr>nextIndex := nextIndex pool0 + 1\<rparr>;
          fail = (\<lambda>(e, pool', w'). (Inl e, pool', w')) in
      case op_createInterface ops name w of
        (Some e, w1) \<Rightarrow> (Inl (Wrap (''create interface '' @ name @ '': '') e []), pool, w1)
      | (None, w1) \<Rightarrow>
      (case op_configureDevice ops name p profile (privKey pool) w1 of
        (Some e, w2) \<Rightarrow>
          fail (cleanup_incomplete ops name p (Wrap (''configure device '' @ name @ '': '') e []) pool w2)
      | (None, w2) \<Rightarrow>
      (case op_configureInterfaceNetwork ops name (cfgAddress (pool_config pool)) w2 of
        (Some e, w3) \<Rightarrow>
          fail (cleanup_incomplete ops name p (Wrap (''configure network '' @ name @ '': '') e []) pool w3)
      | (None, w3) \<Rightarrow>
      (case (if masqAdded pool then (None, w3)
             else op_addMasquerade ops (cfgNetwork (pool_config pool)) (outIface pool) w3) of
        (Some e, w4) \<Rightarrow>
          fail (cleanup_incomplete ops name p (Wrap ''add masquerade rule: '' e []) pool w4)
      | (None, w4) \<Rightarrow>
          (let ifc = \<lparr>ifName = name, ifPort = p, ifProfile = profile, peerCount = 0, peerPSKs = []\<rparr> in
           (Inr ifc, pool\<lparr>masqAdded := True, ifaces := AList.update (pkey profile) ifc (ifaces pool),
                           usedPorts := insert p (usedPorts pool)\<rparr>, w4))))))"

definition getOrCreateInterface ::
  "'w poolOperations \<Rightarrow> Profile \<Rightarrow> int \<Rightarrow> Pool \<Rightarrow> 'w \<Rightarrow> iface res \<times> Pool \<times> 'w" where
  "getOrCreateInterface ops profile requestedPort pool w =
     (if \<not> profile_valid profile then (Inl (Plain ''invalid profile''), pool, w)
      else (case map_of (ifaces pool) (pkey profile) of
        Some ifc \<Rightarrow>
          (case validateExistingInterfacePort ifc requestedPort of
             Some e \<Rightarrow> (Inl e, pool, w) | None \<Rightarrow> (Inr ifc, pool, w))
      | None \<Rightarrow>
          (case (if requestedPort \<noteq> 0 then resolvePort pool requestedPort else Inr 0) of
             Inl e \<Rightarrow> (Inl e, pool, w)
           | Inr p0 \<Rightarrow>
               if maxIfaces pool > 0 \<and> int (length (ifaces pool)) + int (length (orphans pool)) \<ge> maxIfaces pool
               then (Inl (Sentinel ErrMaxInterfacesReached), pool, w)
               else (case (if p0 = 0 then resolvePort pool 0 else Inr p0) of
                       Inl e \<Rightarrow> (Inl e, pool, w)
                     | Inr p \<Rightarrow> create_iface ops profile p pool w))))"

section \<open>Methods\<close>

definition AddPeer ::
  "'w poolOperations \<Rightarrow> Profile \<Rightarrow> int \<Rightarrow> key32 \<Rightarrow> key32 option \<Rightarrow> string \<Rightarrow> 'w pool_step" where
  "AddPeer ops profile requestedPort publicKey presharedKey allowedIP pool w =
     (if \<not> profile_valid profile then (Some (Plain ''invalid profile''), pool, w)
      else (case getOrCreateInterface ops profile requestedPort pool w of
              (Inl e, pool1, w1) \<Rightarrow> (Some (Wrap ''get or create interface: '' e []), pool1, w1)
            | (Inr ifc, pool1, w1) \<Rightarrow>
                addPeerLocked ops (pkey profile) ifc publicKey presharedKey allowedIP pool1 w1))"

text \<open>
  What \<open>RemovePeer\<close> and \<open>MigratePeer\<close> do when the last peer of an interface is gone: destroy the
  interface, and on failure put the peer back on it. \<open>what\<close> and \<open>restore\<close> are the two messages.
\<close>

definition destroy_emptied ::
  "'w poolOperations \<Rightarrow> string \<Rightarrow> string \<Rightarrow> key32 \<Rightarrow> iface \<Rightarrow> key32 \<Rightarrow> key32 option \<Rightarrow> string \<Rightarrow> 'w pool_step" where
  "destroy_emptied ops what restore key ifc publicKey presharedKey allowedIP pool w =
     (case destroyTrackedInterfaceLocked ops key ifc pool w of
        (None, pool1, w1) \<Rightarrow> (None, pool1, w1)
      | (Some e, pool1, w1) \<Rightarrow>
          (let destroyErr = Wrap what e [] in
           case op_restorePeerAndRoute ops (ifName ifc) publicKey presharedKey allowedIP w1 of
             (restoreErr, w2) \<Rightarrow>
               (let pool2 = set_iface key (trackPeerLocked ifc publicKey presharedKey) pool1 in
                case restoreErr of
                  Some re \<Rightarrow> (Some (rollbackFailure destroyErr (Wrap restore re [])), pool2, w2)
                | None \<Rightarrow> (Some destroyErr, pool2, w2))))"

definition RemovePeer :: "'w poolOperations \<Rightarrow> Profile \<Rightarrow> key32 \<Rightarrow> string \<Rightarrow> 'w pool_step" where
  "RemovePeer ops profile publicKey allowedIP pool w =
     (if \<not> profile_valid profile then (Some (Plain ''invalid profile''), pool, w)
      else (case map_of (ifaces pool) (pkey profile) of
        None \<Rightarrow> (Some (Plain ''no interface for profile''), pool, w)
      | Some ifc \<Rightarrow>
          if peerCount ifc \<le> 0 then (Some (Plain ''invalid peer accounting for existing profile''), pool, w)
          else (case map_of (peerPSKs ifc) publicKey of
            None \<Rightarrow> (Some (Plain ''peer is not tracked on existing profile''), pool, w)
          | Some presharedKey \<Rightarrow>
              (case op_removePeerFromInterface ops (ifName ifc) publicKey presharedKey allowedIP w of
                 (Some e, w1) \<Rightarrow> (Some (Wrap ''remove peer from interface: '' e []), pool, w1)
               | (None, w1) \<Rightarrow>
                   (let ifc' = untrackPeerLocked ifc publicKey; pool1 = set_iface (pkey profile) ifc' pool in
                    if peerCount ifc' = 0
                    then destroy_emptied ops ''destroy empty interface: ''
                           ''restore peer after interface destroy failure: ''
                           (pkey profile) ifc' publicKey presharedKey allowedIP pool1 w1
                    else (None, pool1, w1))))))"

definition rollbackPeer ::
  "'w poolOperations \<Rightarrow> Profile \<Rightarrow> int \<Rightarrow> key32 \<Rightarrow> key32 option \<Rightarrow> string \<Rightarrow> 'w pool_step" where
  "rollbackPeer ops profile requestedPort publicKey presharedKey allowedIP pool w =
     (case getOrCreateInterface ops profile requestedPort pool w of
        (Inl e, pool1, w1) \<Rightarrow> (Some (Wrap ''recreate interface: '' e []), pool1, w1)
      | (Inr ifc, pool1, w1) \<Rightarrow>
          (case addPeerLocked ops (pkey profile) ifc publicKey presharedKey allowedIP pool1 w1 of
             (Some e, pool2, w2) \<Rightarrow> (Some (Wrap ''re-add peer: '' e []), pool2, w2)
           | (None, pool2, w2) \<Rightarrow> (None, pool2, w2)))"

definition rollbackNewPeerLocked :: "'w poolOperations \<Rightarrow> key32 \<Rightarrow> key32 \<Rightarrow> string \<Rightarrow> 'w pool_step" where
  "rollbackNewPeerLocked ops newKey publicKey allowedIP pool w =
     (case map_of (ifaces pool) newKey of
        None \<Rightarrow> (Some (Plain ''new peer is not tracked during rollback''), pool, w)
      | Some newIfc \<Rightarrow>
          (case map_of (peerPSKs newIfc) publicKey of
             None \<Rightarrow> (Some (Plain ''new peer is not tracked during rollback''), pool, w)
           | Some presharedKey \<Rightarrow>
               (case op_removePeerFromInterface ops (ifName newIfc) publicKey presharedKey allowedIP w of
                  (Some e, w1) \<Rightarrow> (Some e, pool, w1)
                | (None, w1) \<Rightarrow>
                    (let ifc' = untrackPeerLocked newIfc publicKey; pool1 = set_iface newKey ifc' pool in
                     if peerCount ifc' = 0 then
                       (case destroyTrackedInterfaceLocked ops newKey ifc' pool1 w1 of
                          (Some e, pool2, w2) \<Rightarrow> (Some (Wrap ''destroy new interface: '' e []), pool2, w2)
                        | (None, pool2, w2) \<Rightarrow> (None, pool2, w2))
                     else (None, pool1, w1)))))"

definition rollbackSharedMigration ::
  "'w poolOperations \<Rightarrow> iface \<Rightarrow> key32 \<Rightarrow> key32 \<Rightarrow> key32 option \<Rightarrow> string \<Rightarrow> 'w pool_step" where
  "rollbackSharedMigration ops oldIfc newKey publicKey oldPresharedKey allowedIP pool w =
     (case rollbackNewPeerLocked ops newKey publicKey allowedIP pool w of (e1, pool1, w1) \<Rightarrow>
      case op_restorePeerAndRoute ops (ifName oldIfc) publicKey oldPresharedKey allowedIP w1 of (e2, w2) \<Rightarrow>
        (errors_Join [wrap_err ''remove new peer: '' e1, wrap_err ''restore old peer: '' e2], pool1, w2))"

text \<open>
  \<open>with_rollback\<close> is the shape of the error exits of \<open>MigratePeer\<close>: run a rollback, report its
  failure together with the operation's, or the operation's alone.
\<close>

definition with_rollback :: "go_error \<Rightarrow> string \<Rightarrow> go_error option \<times> Pool \<times> 'w \<Rightarrow> go_error option \<times> Pool \<times> 'w" where
  "with_rollback operationErr what r =
     (case r of
        (Some rollbackErr, pool, w) \<Rightarrow> (Some (rollbackFailure operationErr (Wrap what rollbackErr [])), pool, w)
      | (None, pool, w) \<Rightarrow> (Some operationErr, pool, w))"

text \<open>The branch of \<open>MigratePeer\<close> for the last peer of the old interface.\<close>

definition migrate_single ::
  "'w poolOperations \<Rightarrow> Profile \<Rightarrow> Profile \<Rightarrow> int \<Rightarrow> key32 \<Rightarrow> key32 option \<Rightarrow> string \<Rightarrow> iface \<Rightarrow> key32 option
   \<Rightarrow> 'w pool_step" where
  "migrate_single ops oldProf newProf newRequestedPort publicKey presharedKey allowedIP oldIfc oldPSK pool w =
     (let oldPort = ifPort oldIfc in
      case op_removePeerFromInterface ops (ifName oldIfc) publicKey oldPSK allowedIP w of
        (Some e, w1) \<Rightarrow> (Some (Wrap ''remove peer from old interface: '' e []), pool, w1)
      | (None, w1) \<Rightarrow>
          (let ifc' = untrackPeerLocked oldIfc publicKey; pool1 = set_iface (pkey oldProf) ifc' pool in
           case destroy_emptied ops ''destroy old interface: ''
                  ''restore old peer after interface destroy failure: ''
                  (pkey oldProf) ifc' publicKey oldPSK allowedIP pool1 w1 of
             (Some e, pool2, w2) \<Rightarrow> (Some e, pool2, w2)
           | (None, pool2, w2) \<Rightarrow>
               (case getOrCreateInterface ops newProf newRequestedPort pool2 w2 of
                  (Inl e, pool3, w3) \<Rightarrow>
                    with_rollback (Wrap ''get or create interface: '' e []) ''restore old peer: ''
                      (rollbackPeer ops oldProf oldPort publicKey oldPSK allowedIP pool3 w3)
                | (Inr newIfc, pool3, w3) \<Rightarrow>
                    (case addPeerLocked ops (pkey newProf) newIfc publicKey presharedKey allowedIP pool3 w3 of
                       (Some e, pool4, w4) \<Rightarrow>
                         with_rollback (Wrap ''add peer to new interface: '' e []) ''restore old peer: ''
                           (rollbackPeer ops oldProf oldPort publicKey oldPSK allowedIP pool4 w4)
                     | (None, pool4, w4) \<Rightarrow> (None, pool4, w4)))))"

text \<open>The branch of \<open>MigratePeer\<close> for an old interface with other peers, from the new interface on.\<close>

definition migrate_shared ::
  "'w poolOperations \<Rightarrow> Profile \<Rightarrow> Profile \<Rightarrow> int \<Rightarrow> key32 \<Rightarrow> key32 option \<Rightarrow> string \<Rightarrow> iface \<Rightarrow> key32 option
   \<Rightarrow> 'w pool_step" where
  "migrate_shared ops oldProf newProf newRequestedPort publicKey presharedKey allowedIP oldIfc oldPSK pool w =
     (case getOrCreateInterface ops newProf newRequestedPort pool w of
        (Inl e, pool1, w1) \<Rightarrow> (Some (Wrap ''get or create interface: '' e []), pool1, w1)
      | (Inr newIfc, pool1, w1) \<Rightarrow>
      (case addPeerLocked ops (pkey newProf) newIfc publicKey presharedKey allowedIP pool1 w1 of
        (Some e, pool2, w2) \<Rightarrow>
          (case op_replacePeerRoute ops (ifName oldIfc) allowedIP w2 of
             (Some routeErr, w3) \<Rightarrow>
               (Some (rollbackFailure e (Wrap ''restore old route after failed peer add: '' routeErr [])), pool2, w3)
           | (None, w3) \<Rightarrow> (Some e, pool2, w3))
      | (None, pool2, w2) \<Rightarrow>
      (case op_removePeerOnlyFromInterface ops (ifName oldIfc) publicKey w2 of
        (Some e, w3) \<Rightarrow>
          with_rollback (Wrap ''remove peer from old interface: '' e []) ''rollback shared peer migration: ''
            (rollbackSharedMigration ops oldIfc (pkey newProf) publicKey oldPSK allowedIP pool2 w3)
      | (None, w3) \<Rightarrow>
          (let ifc' = untrackPeerLocked oldIfc publicKey; pool3 = set_iface (pkey oldProf) ifc' pool2 in
           if peerCount ifc' \<noteq> 0 then (None, pool3, w3)
           else
             (case destroyTrackedInterfaceLocked ops (pkey oldProf) ifc' pool3 w3 of
                (None, pool4, w4) \<Rightarrow> (None, pool4, w4)
              | (Some e, pool4, w4) \<Rightarrow>
                  (case rollbackNewPeerLocked ops (pkey newProf) publicKey allowedIP pool4 w4 of
                     (rollbackNewErr, pool5, w5) \<Rightarrow>
                   case op_restorePeerAndRoute ops (ifName ifc') publicKey oldPSK allowedIP w5 of
                     (restoreOldErr, w6) \<Rightarrow>
                       with_rollback (Wrap ''destroy old interface: '' e []) ''rollback shared peer migration: ''
                         (errors_Join [wrap_err ''remove new peer: '' rollbackNewErr,
                                       wrap_err ''restore old peer: '' restoreOldErr],
                          set_iface (pkey oldProf) (trackPeerLocked ifc' publicKey oldPSK) pool5, w6)))))))"

definition MigratePeer ::
  "'w poolOperations \<Rightarrow> Profile \<Rightarrow> Profile \<Rightarrow> int \<Rightarrow> key32 \<Rightarrow> key32 option \<Rightarrow> string \<Rightarrow> 'w pool_step" where
  "MigratePeer ops oldProf newProf newRequestedPort publicKey presharedKey allowedIP pool w =
     (if \<not> profile_valid oldProf \<or> \<not> profile_valid newProf
      then (Some (Plain ''invalid profile''), pool, w)
      else (case map_of (ifaces pool) (pkey oldProf) of
        None \<Rightarrow> (Some (Plain ''no interface for existing profile''), pool, w)
      | Some oldIfc \<Rightarrow>
          if peerCount oldIfc \<le> 0 then (Some (Plain ''invalid peer accounting for existing profile''), pool, w)
          else (case map_of (peerPSKs oldIfc) publicKey of
            None \<Rightarrow> (Some (Plain ''peer is not tracked on existing profile''), pool, w)
          | Some oldPSK \<Rightarrow>
              if pkey oldProf = pkey newProf \<and> Port (params oldProf) = newRequestedPort
              then (None, pool, w)
              else if pkey oldProf = pkey newProf \<and> peerCount oldIfc > 1
              then (Some (Sentinel ErrPortShared), pool, w)
              else
                (case (if pkey oldProf = pkey newProf then None
                       else (case map_of (ifaces pool) (pkey newProf) of
                               None \<Rightarrow> None
                             | Some newIfc \<Rightarrow> validateExistingInterfacePort newIfc newRequestedPort)) of
                   Some e \<Rightarrow> (Some e, pool, w)
                 | None \<Rightarrow>
                     if peerCount oldIfc = 1
                     then migrate_single ops oldProf newProf newRequestedPort publicKey presharedKey
                            allowedIP oldIfc oldPSK pool w
                     else migrate_shared ops oldProf newProf newRequestedPort publicKey presharedKey
                            allowedIP oldIfc oldPSK pool w))))"

definition PortForProfile :: "Pool \<Rightarrow> Profile \<Rightarrow> int res" where
  "PortForProfile pool profile =
     (if \<not> profile_valid profile then Inl (Plain ''invalid profile'')
      else (case map_of (ifaces pool) (pkey profile) of
              None \<Rightarrow> Inl (Plain ''no interface for profile'')
            | Some ifc \<Rightarrow> Inr (ifPort ifc)))"

definition PublicKey :: "Pool \<Rightarrow> key32" where
  "PublicKey pool = pubKey pool"

definition InterfaceNames :: "Pool \<Rightarrow> string list" where
  "InterfaceNames pool = map (\<lambda>(_, ifc). ifName ifc) (ifaces pool)"

fun close_ifaces :: "'w poolOperations \<Rightarrow> (key32, iface) gmap \<Rightarrow> Pool \<Rightarrow> 'w \<Rightarrow> Pool \<times> 'w" where
  "close_ifaces ops [] pool w = (pool, w)"
| "close_ifaces ops ((key, ifc) # rest) pool w =
     (case destroyTrackedInterfaceLocked ops key ifc pool w of (_, pool', w') \<Rightarrow> close_ifaces ops rest pool' w')"

fun close_orphans :: "'w poolOperations \<Rightarrow> (string, int) gmap \<Rightarrow> Pool \<Rightarrow> 'w \<Rightarrow> Pool \<times> 'w" where
  "close_orphans ops [] pool w = (pool, w)"
| "close_orphans ops ((name, p) # rest) pool w =
     (case op_destroyInterface ops name w of
        (Some _, w') \<Rightarrow> close_orphans ops rest pool w'
      | (None, w') \<Rightarrow>
          close_orphans ops rest
            (pool\<lparr>orphans := AList.delete name (orphans pool), usedPorts := usedPorts pool - {p}\<rparr>) w')"

definition Close :: "'w poolOperations \<Rightarrow> Pool \<Rightarrow> 'w \<Rightarrow> Pool \<times> 'w" where
  "Close ops pool w =
     (case close_ifaces ops (ifaces pool) pool w of (pool1, w1) \<Rightarrow>
      case close_orphans ops (orphans pool1) pool1 w1 of (pool2, w2) \<Rightarrow>
        if masqAdded pool2 \<and> length (ifaces pool2) = 0 \<and> length (orphans pool2) = 0 then
          (case op_removeMasquerade ops (cfgNetwork (pool_config pool2)) (outIface pool2) w2 of
             (Some _, w3) \<Rightarrow> (pool2, w3)
           | (None, w3) \<Rightarrow> (pool2\<lparr>masqAdded := False\<rparr>, w3))
        else (pool2, w2))"

end
