(* ===== verification/Pool_Invariant.thy ===== *)
theory Pool_Invariant
  imports Pool
begin

text \<open>
  Correctness of the interface pool of \<open>Pool\<close>. \<open>pool_inv\<close> is what the mutex protects: interfaces and
  orphans have distinct names and distinct ports, \<open>usedPorts\<close> is exactly the set of their ports, a
  peer count is the number of tracked peers, and the interface limit holds with orphans counted.
  Every method keeps it for an arbitrary host, whichever operations fail.

  \<open>tracked\<close> is the abstract view of the pool, a map from profile key and public key to preshared key; the
  methods are proved to change it as their contract says, and failures to leave it alone. The locale
  \<open>pool_host\<close> names the one law of the host that this needs.
\<close>

section \<open>Invariant\<close>

definition iface_ok :: "key32 \<Rightarrow> iface \<Rightarrow> bool" where
  "iface_ok key ifc \<longleftrightarrow> gm_wf (peerPSKs ifc) \<and> peerCount ifc = int (length (peerPSKs ifc))
     \<and> pkey (ifProfile ifc) = key \<and> profile_valid (ifProfile ifc)"

definition awg_name :: "nat \<Rightarrow> string" where
  "awg_name n = ''awg'' @ dec_nat n"

definition pool_size :: "Pool \<Rightarrow> int" where
  "pool_size pool = int (length (ifaces pool)) + int (length (orphans pool))"

definition pool_inv :: "Pool \<Rightarrow> bool" where
  "pool_inv pool \<longleftrightarrow>
     gm_wf (ifaces pool) \<and> gm_wf (orphans pool)
     \<and> (\<forall>k i. map_of (ifaces pool) k = Some i \<longrightarrow> iface_ok k i \<and> (\<exists>n < nextIndex pool. ifName i = awg_name n))
     \<and> (\<forall>name p. map_of (orphans pool) name = Some p \<longrightarrow> (\<exists>n < nextIndex pool. name = awg_name n))
     \<and> (\<forall>k i k' i'. map_of (ifaces pool) k = Some i \<longrightarrow> map_of (ifaces pool) k' = Some i' \<longrightarrow>
          ifPort i = ifPort i' \<or> ifName i = ifName i' \<longrightarrow> k = k')
     \<and> (\<forall>k i name p. map_of (ifaces pool) k = Some i \<longrightarrow> map_of (orphans pool) name = Some p \<longrightarrow>
          ifName i \<noteq> name \<and> ifPort i \<noteq> p)
     \<and> (\<forall>name p name' p'. map_of (orphans pool) name = Some p \<longrightarrow> map_of (orphans pool) name' = Some p' \<longrightarrow>
          p = p' \<longrightarrow> name = name')
     \<and> usedPorts pool = {p. (\<exists>k i. map_of (ifaces pool) k = Some i \<and> ifPort i = p)
                              \<or> (\<exists>name. map_of (orphans pool) name = Some p)}
     \<and> (maxIfaces pool > 0 \<longrightarrow> pool_size pool \<le> maxIfaces pool)"

lemma pool_invI:
  assumes "gm_wf (ifaces pool)" "gm_wf (orphans pool)"
    and "\<And>k i. map_of (ifaces pool) k = Some i \<Longrightarrow> iface_ok k i \<and> (\<exists>n < nextIndex pool. ifName i = awg_name n)"
    and "\<And>name p. map_of (orphans pool) name = Some p \<Longrightarrow> \<exists>n < nextIndex pool. name = awg_name n"
    and "\<And>k i k' i'. map_of (ifaces pool) k = Some i \<Longrightarrow> map_of (ifaces pool) k' = Some i' \<Longrightarrow>
          ifPort i = ifPort i' \<or> ifName i = ifName i' \<Longrightarrow> k = k'"
    and "\<And>k i name p. map_of (ifaces pool) k = Some i \<Longrightarrow> map_of (orphans pool) name = Some p \<Longrightarrow>
          ifName i \<noteq> name \<and> ifPort i \<noteq> p"
    and "\<And>name p name'. map_of (orphans pool) name = Some p \<Longrightarrow> map_of (orphans pool) name' = Some p \<Longrightarrow>
          name = name'"
    and "usedPorts pool = {p. (\<exists>k i. map_of (ifaces pool) k = Some i \<and> ifPort i = p)
                              \<or> (\<exists>name. map_of (orphans pool) name = Some p)}"
    and "maxIfaces pool > 0 \<Longrightarrow> pool_size pool \<le> maxIfaces pool"
  shows "pool_inv pool"
  unfolding pool_inv_def using assms by blast

lemma pool_invD:
  assumes "pool_inv pool"
  shows pool_inv_wf: "gm_wf (ifaces pool)" and pool_inv_orphans_wf: "gm_wf (orphans pool)"
    and pool_inv_iface: "map_of (ifaces pool) k = Some i \<Longrightarrow> iface_ok k i"
    and pool_inv_name: "map_of (ifaces pool) k = Some i \<Longrightarrow> \<exists>n < nextIndex pool. ifName i = awg_name n"
    and pool_inv_orphan_name: "map_of (orphans pool) name = Some p \<Longrightarrow> \<exists>n < nextIndex pool. name = awg_name n"
    and pool_inv_unique: "map_of (ifaces pool) k = Some i \<Longrightarrow> map_of (ifaces pool) k' = Some i' \<Longrightarrow>
          ifPort i = ifPort i' \<or> ifName i = ifName i' \<Longrightarrow> k = k'"
    and pool_inv_orphan: "map_of (ifaces pool) k = Some i \<Longrightarrow> map_of (orphans pool) name = Some p \<Longrightarrow>
          ifName i \<noteq> name \<and> ifPort i \<noteq> p"
    and pool_inv_orphan_port: "map_of (orphans pool) name = Some p \<Longrightarrow> map_of (orphans pool) name' = Some p \<Longrightarrow>
          name = name'"
    and pool_inv_used: "usedPorts pool = {p. (\<exists>k i. map_of (ifaces pool) k = Some i \<and> ifPort i = p)
                              \<or> (\<exists>name. map_of (orphans pool) name = Some p)}"
    and pool_inv_limit: "maxIfaces pool > 0 \<Longrightarrow> pool_size pool \<le> maxIfaces pool"
  using assms unfolding pool_inv_def by blast+

lemma awg_name_inject [simp]: "awg_name m = awg_name n \<longleftrightarrow> m = n"
  by (simp add: awg_name_def)

section \<open>Elementary changes\<close>

lemma set_iface_fields [simp]:
  "map_of (ifaces (set_iface key ifc pool)) k = (if k = key then Some ifc else map_of (ifaces pool) k)"
  "orphans (set_iface key ifc pool) = orphans pool" "usedPorts (set_iface key ifc pool) = usedPorts pool"
  "nextIndex (set_iface key ifc pool) = nextIndex pool" "maxIfaces (set_iface key ifc pool) = maxIfaces pool"
  "pool_config (set_iface key ifc pool) = pool_config pool"
  "gm_wf (ifaces pool) \<Longrightarrow> gm_wf (ifaces (set_iface key ifc pool))"
  by (simp_all add: set_iface_def)

lemma track_fields [simp]:
  "ifName (trackPeerLocked ifc pub psk) = ifName ifc" "ifPort (trackPeerLocked ifc pub psk) = ifPort ifc"
  "ifProfile (trackPeerLocked ifc pub psk) = ifProfile ifc"
  "map_of (peerPSKs (trackPeerLocked ifc pub psk)) k = (if k = pub then Some psk else map_of (peerPSKs ifc) k)"
  by (simp_all add: trackPeerLocked_def)

lemma untrack_fields [simp]:
  "ifName (untrackPeerLocked ifc pub) = ifName ifc" "ifPort (untrackPeerLocked ifc pub) = ifPort ifc"
  "ifProfile (untrackPeerLocked ifc pub) = ifProfile ifc"
  "gm_wf (peerPSKs ifc) \<Longrightarrow>
     map_of (peerPSKs (untrackPeerLocked ifc pub)) k = (if k = pub then None else map_of (peerPSKs ifc) k)"
  by (simp_all add: untrackPeerLocked_def map_of_gm_delete)

lemma track_ok: "iface_ok k ifc \<Longrightarrow> iface_ok k (trackPeerLocked ifc pub psk)"
  by (auto simp: iface_ok_def trackPeerLocked_def gm_length_update)

lemma untrack_ok: "iface_ok k ifc \<Longrightarrow> iface_ok k (untrackPeerLocked ifc pub)"
proof (cases "map_of (peerPSKs ifc) pub")
  case (Some psk)
  assume ok: "iface_ok k ifc"
  from Some have "length (peerPSKs ifc) > 0" by (cases "peerPSKs ifc") auto
  then have "int (length (peerPSKs ifc) - 1) = int (length (peerPSKs ifc)) - 1" by linarith
  with ok Some show ?thesis
    by (auto simp: iface_ok_def untrackPeerLocked_def gm_length_delete)
qed (simp add: untrackPeerLocked_def)

text \<open>Changing the peers of an interface that is already there.\<close>

lemma pool_inv_set_iface:
  assumes "pool_inv pool" "map_of (ifaces pool) key = Some ifc" "iface_ok key ifc'"
    and "ifName ifc' = ifName ifc" "ifPort ifc' = ifPort ifc"
  shows "pool_inv (set_iface key ifc' pool)"
proof (rule pool_invI)
  have "length (ifaces (set_iface key ifc' pool)) = length (ifaces pool)"
    using assms(2) by (simp add: set_iface_def gm_length_update)
  then show "pool_size (set_iface key ifc' pool) \<le> maxIfaces (set_iface key ifc' pool)"
    if "maxIfaces (set_iface key ifc' pool) > 0"
    using that pool_inv_limit [OF assms(1)] by (simp add: pool_size_def)
  have "(\<exists>k i. map_of (ifaces (set_iface key ifc' pool)) k = Some i \<and> ifPort i = p)
      \<longleftrightarrow> (\<exists>k i. map_of (ifaces pool) k = Some i \<and> ifPort i = p)" for p
    unfolding set_iface_fields(1) using assms(2,5) by (metis option.inject)
  then show "usedPorts (set_iface key ifc' pool) =
      {p. (\<exists>k i. map_of (ifaces (set_iface key ifc' pool)) k = Some i \<and> ifPort i = p)
        \<or> (\<exists>name. map_of (orphans (set_iface key ifc' pool)) name = Some p)}"
    using pool_inv_used [OF assms(1)] by (simp only: set_iface_fields(2,3))
qed (use assms pool_invD [OF assms(1)] in \<open>auto split: if_splits\<close>)

lemma pool_inv_remove_iface:
  assumes "pool_inv pool" "map_of (ifaces pool) key = Some ifc"
  shows "pool_inv (pool\<lparr>usedPorts := usedPorts pool - {ifPort ifc}, ifaces := AList.delete key (ifaces pool)\<rparr>)"
    (is "pool_inv ?pool")
proof (rule pool_invI)
  note wf = pool_inv_wf [OF assms(1)]
  have m: "map_of (ifaces ?pool) k = (if k = key then None else map_of (ifaces pool) k)" for k
    using wf by (simp add: map_of_gm_delete)
  have "length (ifaces ?pool) \<le> length (ifaces pool)" using wf by (simp add: gm_length_delete)
  then show "pool_size ?pool \<le> maxIfaces ?pool" if "maxIfaces ?pool > 0"
    using that pool_inv_limit [OF assms(1)] by (simp add: pool_size_def)
  have i: "(\<exists>k i. map_of (ifaces ?pool) k = Some i \<and> ifPort i = p)
      \<longleftrightarrow> (\<exists>k i. map_of (ifaces pool) k = Some i \<and> ifPort i = p) \<and> p \<noteq> ifPort ifc" for p
    unfolding m using pool_inv_unique [OF assms(1,2)] assms(2) by (metis option.distinct(1) option.inject)
  have o: "(\<exists>name. map_of (orphans pool) name = Some p) \<Longrightarrow> p \<noteq> ifPort ifc" for p
    using pool_inv_orphan [OF assms] by blast
  show "usedPorts ?pool = {p. (\<exists>k i. map_of (ifaces ?pool) k = Some i \<and> ifPort i = p)
        \<or> (\<exists>name. map_of (orphans ?pool) name = Some p)}"
    unfolding i using pool_inv_used [OF assms(1)] o by auto
qed (use assms pool_invD [OF assms(1)] in \<open>auto simp: map_of_gm_delete split: if_splits\<close>)

definition fresh_name :: "Pool \<Rightarrow> string \<Rightarrow> bool" where
  "fresh_name pool s \<longleftrightarrow> (\<exists>n < nextIndex pool. s = awg_name n) \<and> map_of (orphans pool) s = None
     \<and> (\<forall>k i. map_of (ifaces pool) k = Some i \<longrightarrow> ifName i \<noteq> s)"

definition has_room :: "Pool \<Rightarrow> bool" where
  "has_room pool \<longleftrightarrow> (maxIfaces pool > 0 \<longrightarrow> pool_size pool < maxIfaces pool)"

lemma unused_port:
  assumes "pool_inv pool" "p \<notin> usedPorts pool"
  shows "map_of (ifaces pool) k = Some i \<Longrightarrow> ifPort i \<noteq> p" "map_of (orphans pool) n = Some q \<Longrightarrow> q \<noteq> p"
  using assms(2) pool_inv_used [OF assms(1)] by auto

lemma pool_inv_bump:
  assumes "pool_inv pool"
  shows "pool_inv (pool\<lparr>nextIndex := nextIndex pool + 1\<rparr>)"
    and "fresh_name (pool\<lparr>nextIndex := nextIndex pool + 1\<rparr>) (awg_name (nextIndex pool))"
proof -
  let ?pool = "pool\<lparr>nextIndex := nextIndex pool + 1\<rparr>"
  show "pool_inv ?pool"
  proof (rule pool_invI)
    show "iface_ok k i \<and> (\<exists>n < nextIndex ?pool. ifName i = awg_name n)" if "map_of (ifaces ?pool) k = Some i" for k i
    proof -
      from that have "map_of (ifaces pool) k = Some i" by simp
      then show ?thesis
        using pool_inv_iface [OF assms] pool_inv_name [OF assms] by (fastforce intro: less_SucI)
    qed
    show "\<exists>n < nextIndex ?pool. m = awg_name n" if "map_of (orphans ?pool) m = Some q" for m q
    proof -
      from that have "map_of (orphans pool) m = Some q" by simp
      then show ?thesis using pool_inv_orphan_name [OF assms] by (fastforce intro: less_SucI)
    qed
  qed (use pool_invD [OF assms] in \<open>simp_all add: pool_size_def\<close>)
  have "map_of (orphans pool) (awg_name (nextIndex pool)) = None"
    using pool_inv_orphan_name [OF assms, of "awg_name (nextIndex pool)"]
    by (cases "map_of (orphans pool) (awg_name (nextIndex pool))") auto
  moreover have "ifName i \<noteq> awg_name (nextIndex pool)" if "map_of (ifaces pool) k = Some i" for k i
    using pool_inv_name [OF assms that] by auto
  ultimately show "fresh_name ?pool (awg_name (nextIndex pool))" by (auto simp: fresh_name_def)
qed

lemma pool_inv_add_orphan:
  assumes "pool_inv pool" "p \<notin> usedPorts pool" "has_room pool" "fresh_name pool s"
  shows "pool_inv (trackOrphanInterfaceLocked s p pool)" (is "pool_inv ?pool")
proof (rule pool_invI)
  have f [simp]: "ifaces ?pool = ifaces pool" "nextIndex ?pool = nextIndex pool" "maxIfaces ?pool = maxIfaces pool"
    "usedPorts ?pool = insert p (usedPorts pool)"
    "map_of (orphans ?pool) n = (if n = s then Some p else map_of (orphans pool) n)" for n
    by (simp_all add: trackOrphanInterfaceLocked_def)
  note fresh = assms(4) [unfolded fresh_name_def] and unused = unused_port [OF assms(1,2)]
  show "pool_size ?pool \<le> maxIfaces ?pool" if "maxIfaces ?pool > 0"
    using that assms(3) fresh by (simp add: has_room_def pool_size_def trackOrphanInterfaceLocked_def gm_length_update)
  show "gm_wf (orphans ?pool)" using pool_inv_orphans_wf [OF assms(1)] by (simp add: trackOrphanInterfaceLocked_def)
  show "\<exists>n < nextIndex ?pool. m = awg_name n" if "map_of (orphans ?pool) m = Some q" for m q
    using pool_inv_orphan_name [OF assms(1), of m q] fresh that by (auto split: if_splits)
  show "ifName i \<noteq> m \<and> ifPort i \<noteq> q" if "map_of (ifaces ?pool) k = Some i" "map_of (orphans ?pool) m = Some q" for k i m q
    using that fresh unused(1) pool_inv_orphan [OF assms(1)] by (auto split: if_splits)
  show "m = m'" if "map_of (orphans ?pool) m = Some q" "map_of (orphans ?pool) m' = Some q" for m q m'
    using that unused(2) pool_inv_orphan_port [OF assms(1)] by (auto split: if_splits)
  have "(\<exists>n. map_of (orphans ?pool) n = Some q) \<longleftrightarrow> q = p \<or> (\<exists>n. map_of (orphans pool) n = Some q)" for q
    unfolding f using fresh by (metis option.distinct(1) option.inject)
  then show "usedPorts ?pool = {p. (\<exists>k i. map_of (ifaces ?pool) k = Some i \<and> ifPort i = p)
        \<or> (\<exists>name. map_of (orphans ?pool) name = Some p)}"
    using pool_inv_used [OF assms(1)] by auto
qed (use pool_invD [OF assms(1)] in \<open>simp_all add: trackOrphanInterfaceLocked_def\<close>)

lemma pool_inv_add_iface:
  fixes s p profile
  defines "ifc \<equiv> \<lparr>ifName = s, ifPort = p, ifProfile = profile, peerCount = 0, peerPSKs = []\<rparr>"
  assumes "pool_inv pool" "p \<notin> usedPorts pool" "has_room pool" "fresh_name pool s"
    and "map_of (ifaces pool) (pkey profile) = None" "profile_valid profile"
  shows "pool_inv (pool\<lparr>masqAdded := b, ifaces := AList.update (pkey profile) ifc (ifaces pool),
      usedPorts := insert p (usedPorts pool)\<rparr>)" (is "pool_inv ?pool")
proof (rule pool_invI)
  have f [simp]: "orphans ?pool = orphans pool" "nextIndex ?pool = nextIndex pool" "maxIfaces ?pool = maxIfaces pool"
    "map_of (ifaces ?pool) k = (if k = pkey profile then Some ifc else map_of (ifaces pool) k)" for k
    by simp_all
  have i: "ifName ifc = s" "ifPort ifc = p" by (simp_all add: ifc_def)
  note fresh = assms(5) [unfolded fresh_name_def] and unused = unused_port [OF assms(2,3)]
  show "pool_size ?pool \<le> maxIfaces ?pool" if "maxIfaces ?pool > 0"
    using that assms(4,6) by (simp add: has_room_def pool_size_def gm_length_update)
  show "gm_wf (orphans ?pool)" "gm_wf (ifaces ?pool)"
    using pool_inv_orphans_wf [OF assms(2)] pool_inv_wf [OF assms(2)] by simp_all
  have new: "iface_ok (pkey profile) ifc \<and> (\<exists>n < nextIndex pool. ifName ifc = awg_name n)"
    using assms(7) fresh i(1) by (simp add: iface_ok_def ifc_def)
  show "iface_ok k i \<and> (\<exists>n < nextIndex ?pool. ifName i = awg_name n)" if "map_of (ifaces ?pool) k = Some i" for k i
  proof (cases "k = pkey profile")
    case True
    with that have "i = ifc" by simp
    with new True show ?thesis by simp
  next
    case False
    with that have "map_of (ifaces pool) k = Some i" by simp
    with pool_inv_iface [OF assms(2) this] pool_inv_name [OF assms(2) this] show ?thesis by simp
  qed
  have other: "ifPort j \<noteq> p" "ifName j \<noteq> s" if "map_of (ifaces pool) l = Some j" for l j
    using fresh unused(1) [OF that] that by blast+
  show "k = k'" if "map_of (ifaces ?pool) k = Some i" "map_of (ifaces ?pool) k' = Some i'"
    "ifPort i = ifPort i' \<or> ifName i = ifName i'" for k i k' i'
    using that pool_inv_unique [OF assms(2), of k i k' i'] other [of k i] other [of k' i'] i
    by (cases "k = pkey profile"; cases "k' = pkey profile") auto
  show "ifName i \<noteq> m \<and> ifPort i \<noteq> q" if "map_of (ifaces ?pool) k = Some i" "map_of (orphans ?pool) m = Some q" for k i m q
  proof (cases "k = pkey profile")
    case True
    with that i have "ifName i = s" "ifPort i = p" by auto
    with that fresh unused(2) [of m q] show ?thesis by auto
  next
    case False
    with that pool_inv_orphan [OF assms(2), of k i m q] show ?thesis by simp
  qed
  have "(\<exists>k i. map_of (ifaces ?pool) k = Some i \<and> ifPort i = q)
      \<longleftrightarrow> q = p \<or> (\<exists>k i. map_of (ifaces pool) k = Some i \<and> ifPort i = q)" for q
    unfolding f using assms(6) i by (metis option.distinct(1) option.inject)
  then show "usedPorts ?pool = {p. (\<exists>k i. map_of (ifaces ?pool) k = Some i \<and> ifPort i = p)
        \<or> (\<exists>name. map_of (orphans ?pool) name = Some p)}"
    using pool_inv_used [OF assms(2)] by auto
qed (use pool_invD [OF assms(2)] in simp_all)

lemma pool_inv_masq: "pool_inv (pool\<lparr>masqAdded := b\<rparr>) \<longleftrightarrow> pool_inv pool"
  by (simp add: pool_inv_def pool_size_def)

section \<open>Steps\<close>

lemma destroyTracked_spec:
  assumes "destroyTrackedInterfaceLocked ops key ifc pool w = (e, pool', w')"
    and "pool_inv pool" "map_of (ifaces pool) key = Some ifc"
  shows "pool_inv pool'"
    and "map_of (ifaces pool') k = (if k = key \<and> e = None then None else map_of (ifaces pool) k)"
  using assms pool_inv_remove_iface [OF assms(2,3)] pool_inv_wf [OF assms(2)]
  by (auto simp: destroyTrackedInterfaceLocked_def map_of_gm_delete split: prod.splits option.splits)

lemma next_free_port_props:
  "next_free_port used p \<notin> used \<or> next_free_port used p > MaxPort" "p \<le> next_free_port used p"
proof (induction used p rule: next_free_port.induct)
  case (1 used p)
  {
    case 1
    then show ?case using "1.IH"(1) by (subst (1 2) next_free_port.simps) auto
  next
    case 2
    then show ?case using "1.IH"(2) by (subst next_free_port.simps) auto
  }
qed

lemma resolvePort_unused:
  assumes "resolvePort pool requested = Inr p"
  shows "p \<notin> usedPorts pool" "p \<le> MaxPort" "requested > 0 \<Longrightarrow> p = requested"
  using assms next_free_port_props(1) [of "usedPorts pool" "cfgListenPort (pool_config pool)"]
  by (auto simp: resolvePort_def res_simps Let_def ValidatePort_def split: if_splits)

lemma resolvePort_requested:
  "resolvePort pool requested = Inr p \<Longrightarrow> requested \<noteq> 0 \<Longrightarrow> p = requested"
  by (auto simp: resolvePort_def check_eq_Inr ValidatePort_None split: if_splits)

lemma cleanup_incomplete_spec:
  assumes "cleanup_incomplete ops s p err pool w = (e, pool', w')"
    and "pool_inv pool" "p \<notin> usedPorts pool" "has_room pool" "fresh_name pool s"
  shows "pool_inv pool' \<and> ifaces pool' = ifaces pool"
  using assms pool_inv_add_orphan [OF assms(2-5)]
  by (auto simp: cleanup_incomplete_def trackOrphanInterfaceLocked_def split: prod.splits option.splits)

lemma create_iface_spec:
  assumes "create_iface ops profile p pool w = (r, pool', w')"
    and "pool_inv pool" "p \<notin> usedPorts pool" "has_room pool"
    and "map_of (ifaces pool) (pkey profile) = None" "profile_valid profile"
  shows "pool_inv pool' \<and> (case r of
      Inl e \<Rightarrow> ifaces pool' = ifaces pool
    | Inr ifc \<Rightarrow> peerPSKs ifc = [] \<and> peerCount ifc = 0 \<and> ifPort ifc = p
        \<and> ifaces pool' = AList.update (pkey profile) ifc (ifaces pool))"
proof -
  let ?pool = "pool\<lparr>nextIndex := nextIndex pool + 1\<rparr>"
  note bump = pool_inv_bump [OF assms(2)]
  have u: "p \<notin> usedPorts ?pool" "has_room ?pool" "map_of (ifaces ?pool) (pkey profile) = None"
    using assms(3-5) by (simp_all add: has_room_def pool_size_def)
  have clean: "cleanup_incomplete ops (awg_name (nextIndex pool)) p err ?pool w2 = (e, pool'', w3) \<Longrightarrow>
      pool_inv pool'' \<and> ifaces pool'' = ifaces pool" for err w2 e pool'' w3
    by (drule cleanup_incomplete_spec [OF _ bump(1) u(1,2) bump(2)]) simp
  have add: "pool_inv (?pool\<lparr>masqAdded := True, ifaces := AList.update (pkey profile)
        \<lparr>ifName = awg_name (nextIndex pool), ifPort = p, ifProfile = profile, peerCount = 0, peerPSKs = []\<rparr> (ifaces ?pool),
      usedPorts := insert p (usedPorts ?pool)\<rparr>)"
    by (rule pool_inv_add_iface [OF bump(1) u(1,2) bump(2) u(3) assms(6)])
  show ?thesis
    using assms(1) bump(1) clean add unfolding create_iface_def Let_def awg_name_def [symmetric]
    by (auto split: prod.splits option.splits if_splits simp: add_ac)
qed

text \<open>
  \<open>same_except K pool pool'\<close>: the two pools agree on every interface but those of the keys in \<open>K\<close>.
\<close>

definition same_except :: "key32 set \<Rightarrow> Pool \<Rightarrow> Pool \<Rightarrow> bool" where
  "same_except K pool pool' \<longleftrightarrow> (\<forall>k. k \<notin> K \<longrightarrow> map_of (ifaces pool') k = map_of (ifaces pool) k)"

lemma same_except_refl [simp]: "same_except K pool pool"
  by (simp add: same_except_def)

lemma same_except_trans: "same_except K p q \<Longrightarrow> same_except L q r \<Longrightarrow> same_except (K \<union> L) p r"
  by (simp add: same_except_def)

lemma same_exceptD: "same_except K pool pool' \<Longrightarrow> k \<notin> K \<Longrightarrow> map_of (ifaces pool') k = map_of (ifaces pool) k"
  by (simp add: same_except_def)

lemma same_except_set_iface [simp]: "same_except {key} pool (set_iface key ifc pool)"
  by (simp add: same_except_def)

lemma getOrCreate_spec:
  assumes "getOrCreateInterface ops profile requested pool w = (r, pool', w')" "pool_inv pool"
  shows "pool_inv pool' \<and> (case r of
      Inl e \<Rightarrow> ifaces pool' = ifaces pool
    | Inr ifc \<Rightarrow> map_of (ifaces pool') (pkey profile) = Some ifc \<and> same_except {pkey profile} pool pool'
        \<and> (map_of (ifaces pool) (pkey profile) = Some ifc
           \<or> map_of (ifaces pool) (pkey profile) = None \<and> peerPSKs ifc = [])
        \<and> (requested \<noteq> 0 \<longrightarrow> ifPort ifc = requested))"
proof (cases "map_of (ifaces pool) (pkey profile)")
  case (Some ifc)
  then show ?thesis
    using assms by (auto simp: getOrCreateInterface_def validateExistingInterfacePort_def split: if_splits)
next
  case None
  consider (fail) e where "r = Inl e" "pool' = pool"
    | (create) p where "create_iface ops profile p pool w = (r, pool', w')" "resolvePort pool requested = Inr p"
        "has_room pool" "profile_valid profile"
    using assms(1) None
    by (auto simp: getOrCreateInterface_def has_room_def pool_size_def split: if_splits sum.splits
        dest: resolvePort_requested)
  then show ?thesis
  proof cases
    case fail
    with assms(2) show ?thesis by simp
  next
    case create
    note spec = create_iface_spec [OF create(1) assms(2) resolvePort_unused(1) [OF create(2)] create(3) None create(4)]
    have "requested \<noteq> 0 \<Longrightarrow> p = requested" using resolvePort_requested [OF create(2)] by blast
    with spec None show ?thesis by (auto simp: same_except_def split: sum.splits)
  qed
qed

lemma addPeerLocked_spec:
  assumes "addPeerLocked ops key ifc pub psk ip pool w = (e, pool', w')"
    and "pool_inv pool" "map_of (ifaces pool) key = Some ifc"
  shows "pool_inv pool'" and "same_except {key} pool pool'"
    and "e = None \<Longrightarrow> map_of (ifaces pool') key = Some (trackPeerLocked ifc pub psk)"
    and "e \<noteq> None \<Longrightarrow> map_of (ifaces pool') key \<in> {Some ifc, Some (trackPeerLocked ifc pub psk)}
           \<or> map_of (ifaces pool') key = None \<and> peerCount ifc = 0"
proof -
  have ok: "iface_ok key ifc" by (rule pool_inv_iface [OF assms(2,3)])
  have tr: "pool_inv (set_iface key (trackPeerLocked ifc pub psk) pool)"
    by (rule pool_inv_set_iface [OF assms(2,3) track_ok [OF ok]]) simp_all
  have d: "pool_inv p2 \<and> same_except {key} pool p2 \<and> map_of (ifaces p2) key = (if de = None then None else Some ifc)"
    if "destroyTrackedInterfaceLocked ops key ifc pool w2 = (de, p2, w3)" for de p2 w2 w3
    using destroyTracked_spec [OF that assms(2,3)] assms(3) by (simp add: same_except_def)
  show "pool_inv pool'" using assms(1,2) tr
    by (auto simp: addPeerLocked_def Let_def split: prod.splits option.splits if_splits dest!: d)
  show "same_except {key} pool pool'" using assms(1)
    by (auto simp: addPeerLocked_def Let_def split: prod.splits option.splits if_splits dest!: d)
  show "e = None \<Longrightarrow> map_of (ifaces pool') key = Some (trackPeerLocked ifc pub psk)" using assms(1)
    by (auto simp: addPeerLocked_def Let_def split: prod.splits option.splits if_splits)
  show "e \<noteq> None \<Longrightarrow> map_of (ifaces pool') key \<in> {Some ifc, Some (trackPeerLocked ifc pub psk)}
           \<or> map_of (ifaces pool') key = None \<and> peerCount ifc = 0" using assms(1,3)
    by (auto simp: addPeerLocked_def Let_def split: prod.splits option.splits if_splits dest!: d)
qed

lemma destroy_emptied_spec:
  assumes "destroy_emptied ops what restore key ifc pub psk ip pool w = (e, pool', w')"
    and "pool_inv pool" "map_of (ifaces pool) key = Some ifc"
  shows "pool_inv pool'" and "same_except {key} pool pool'"
    and "map_of (ifaces pool') key = (if e = None then None else Some (trackPeerLocked ifc pub psk))"
proof -
  have ok: "iface_ok key ifc" by (rule pool_inv_iface [OF assms(2,3)])
  obtain de p1 w1 where d: "destroyTrackedInterfaceLocked ops key ifc pool w = (de, p1, w1)"
    by (metis prod_cases3)
  note spec = destroyTracked_spec [OF d assms(2,3)]
  have "pool_inv pool' \<and> same_except {key} pool pool'
      \<and> map_of (ifaces pool') key = (if e = None then None else Some (trackPeerLocked ifc pub psk))"
  proof (cases de)
    case None
    with assms(1) d have "e = None" "pool' = p1" by (auto simp: destroy_emptied_def)
    with spec None show ?thesis by (simp add: same_except_def)
  next
    case (Some x)
    with assms(1) d have e: "e \<noteq> None" "pool' = set_iface key (trackPeerLocked ifc pub psk) p1"
      by (auto simp: destroy_emptied_def Let_def split: prod.splits option.splits)
    have "map_of (ifaces p1) key = Some ifc" using spec(2) Some assms(3) by simp
    then have "pool_inv pool'"
      unfolding e(2) by (intro pool_inv_set_iface [OF spec(1) _ track_ok [OF ok]]) simp_all
    with spec(2) Some e show ?thesis by (simp add: same_except_def)
  qed
  then show "pool_inv pool'" "same_except {key} pool pool'"
    "map_of (ifaces pool') key = (if e = None then None else Some (trackPeerLocked ifc pub psk))" by blast+
qed

lemma set_untrack_inv:
  assumes "pool_inv pool" "map_of (ifaces pool) key = Some ifc"
  shows "pool_inv (set_iface key (untrackPeerLocked ifc pub) pool)"
  by (rule pool_inv_set_iface [OF assms untrack_ok [OF pool_inv_iface [OF assms]]]) simp_all

text \<open>A tracked peer of an interface is the only one exactly when the count is one.\<close>

lemma count_untrack:
  assumes "iface_ok k ifc" "map_of (peerPSKs ifc) pub \<noteq> None"
  shows "peerCount (untrackPeerLocked ifc pub) = peerCount ifc - 1" "peerCount ifc > 0"
proof -
  have "peerPSKs ifc \<noteq> []" using assms(2) by auto
  then show "peerCount ifc > 0" using assms(1) by (simp add: iface_ok_def)
  then show "peerCount (untrackPeerLocked ifc pub) = peerCount ifc - 1"
    using assms(2) by (auto simp: untrackPeerLocked_def)
qed

lemma count_zero_empty: "iface_ok k ifc \<Longrightarrow> peerCount ifc = 0 \<longleftrightarrow> peerPSKs ifc = []"
  by (simp add: iface_ok_def)

lemma RemovePeer_cases:
  assumes "RemovePeer ops profile pub ip pool w = (e, pool', w')" "pool_inv pool"
  obtains (unchanged) "pool' = pool" "e \<noteq> None"
  | (removed) ifc psk where "map_of (ifaces pool) (pkey profile) = Some ifc" "map_of (peerPSKs ifc) pub = Some psk"
      "e = None" "pool' = set_iface (pkey profile) (untrackPeerLocked ifc pub) pool"
      "peerPSKs (untrackPeerLocked ifc pub) \<noteq> []"
  | (emptied) ifc psk w1 where "map_of (ifaces pool) (pkey profile) = Some ifc" "map_of (peerPSKs ifc) pub = Some psk"
      "peerPSKs (untrackPeerLocked ifc pub) = []"
      "destroy_emptied ops ''destroy empty interface: '' ''restore peer after interface destroy failure: ''
         (pkey profile) (untrackPeerLocked ifc pub) pub psk ip
         (set_iface (pkey profile) (untrackPeerLocked ifc pub) pool) w1 = (e, pool', w')"
proof -
  have z: "peerCount (untrackPeerLocked ifc pub) = 0 \<longleftrightarrow> peerPSKs (untrackPeerLocked ifc pub) = []"
    if "map_of (ifaces pool) (pkey profile) = Some ifc" for ifc
    by (rule count_zero_empty [OF untrack_ok [OF pool_inv_iface [OF assms(2) that]]])
  show thesis
  proof (cases "map_of (ifaces pool) (pkey profile)")
    case None
    then show thesis
      using assms(1) by (intro unchanged) (auto simp: RemovePeer_def split: if_splits)
  next
    case (Some ifc)
    note ifc = Some
    show thesis
    proof (cases "map_of (peerPSKs ifc) pub")
      case None
      then show thesis
        using assms(1) ifc by (intro unchanged) (auto simp: RemovePeer_def split: if_splits)
    next
      case (Some psk)
      obtain oe w1 where op: "op_removePeerFromInterface ops (ifName ifc) pub psk ip w = (oe, w1)"
        by (metis prod.exhaust)
      show thesis
      proof (cases "profile_valid profile \<and> peerCount ifc > 0 \<and> oe = None")
        case False
        then show thesis
          using assms(1) ifc Some op by (intro unchanged) (auto simp: RemovePeer_def split: if_splits option.splits)
      next
        case True
        with assms(1) ifc Some op z [OF ifc] show thesis
          using emptied [OF ifc Some] removed [OF ifc Some]
          by (cases "peerPSKs (untrackPeerLocked ifc pub) = []") (simp_all add: RemovePeer_def Let_def)
      qed
    qed
  qed
qed

lemma RemovePeer_inv:
  assumes "RemovePeer ops profile pub ip pool w = (e, pool', w')" "pool_inv pool"
  shows "pool_inv pool'"
  using assms
proof (cases rule: RemovePeer_cases)
  case unchanged
  then show ?thesis using assms(2) by simp
next
  case removed
  then show ?thesis using set_untrack_inv [OF assms(2)] by simp
next
  case (emptied ifc psk w1)
  show ?thesis
    by (rule destroy_emptied_spec(1) [OF emptied(4) set_untrack_inv [OF assms(2) emptied(1)]]) simp
qed

lemma rollbackPeer_spec:
  assumes "rollbackPeer ops profile requested pub psk ip pool w = (e, pool', w')" "pool_inv pool"
  shows "pool_inv pool'" and "same_except {pkey profile} pool pool'"
    and "e = None \<Longrightarrow> \<exists>ifc. map_of (ifaces pool') (pkey profile) = Some (trackPeerLocked ifc pub psk)
           \<and> (map_of (ifaces pool) (pkey profile) = Some ifc
              \<or> map_of (ifaces pool) (pkey profile) = None \<and> peerPSKs ifc = [])"
proof -
  obtain r p1 w1 where g: "getOrCreateInterface ops profile requested pool w = (r, p1, w1)"
    by (metis prod_cases3)
  note spec = getOrCreate_spec [OF g assms(2)]
  have "pool_inv pool' \<and> same_except {pkey profile} pool pool'
    \<and> (e = None \<longrightarrow> (\<exists>ifc. map_of (ifaces pool') (pkey profile) = Some (trackPeerLocked ifc pub psk)
           \<and> (map_of (ifaces pool) (pkey profile) = Some ifc
              \<or> map_of (ifaces pool) (pkey profile) = None \<and> peerPSKs ifc = [])))"
  proof (cases r)
    case (Inl x)
    with assms(1) g have "pool' = p1" "e \<noteq> None" by (auto simp: rollbackPeer_def)
    with spec Inl show ?thesis by (auto simp: same_except_def)
  next
    case (Inr ifc)
    obtain e2 p2 w2 where a: "addPeerLocked ops (pkey profile) ifc pub psk ip p1 w1 = (e2, p2, w2)"
      by (metis prod_cases3)
    have p1: "pool_inv p1" "map_of (ifaces p1) (pkey profile) = Some ifc" using spec Inr by auto
    note aspec = addPeerLocked_spec [OF a p1]
    have "pool' = p2" "e = None \<longleftrightarrow> e2 = None"
      using assms(1) g a Inr by (auto simp: rollbackPeer_def split: option.splits)
    then show ?thesis
      using aspec spec Inr by (auto simp: same_except_def)
  qed
  then show "pool_inv pool'" "same_except {pkey profile} pool pool'"
    "e = None \<Longrightarrow> \<exists>ifc. map_of (ifaces pool') (pkey profile) = Some (trackPeerLocked ifc pub psk)
           \<and> (map_of (ifaces pool) (pkey profile) = Some ifc
              \<or> map_of (ifaces pool) (pkey profile) = None \<and> peerPSKs ifc = [])" by blast+
qed

lemma rollbackNew_spec:
  assumes "rollbackNewPeerLocked ops key pub ip pool w = (e, pool', w')" "pool_inv pool"
  shows "pool_inv pool'" and "same_except {key} pool pool'"
proof -
  have "pool_inv pool' \<and> same_except {key} pool pool'"
  proof (cases "map_of (ifaces pool) key")
    case None
    with assms show ?thesis by (simp add: rollbackNewPeerLocked_def)
  next
    case (Some ifc)
    let ?p1 = "set_iface key (untrackPeerLocked ifc pub) pool"
    have p1: "pool_inv ?p1" by (rule set_untrack_inv [OF assms(2) Some])
    have k: "map_of (ifaces ?p1) key = Some (untrackPeerLocked ifc pub)" by simp
    have d: "pool_inv p2 \<and> same_except {key} pool p2"
      if "destroyTrackedInterfaceLocked ops key (untrackPeerLocked ifc pub) ?p1 w2 = (de, p2, w3)" for de p2 w2 w3
      using destroyTracked_spec [OF that p1 k] by (simp add: same_except_def)
    show ?thesis
      using assms Some p1 d
      by (auto simp: rollbackNewPeerLocked_def Let_def split: option.splits prod.splits if_splits)
  qed
  then show "pool_inv pool'" "same_except {key} pool pool'" by blast+
qed

section \<open>The abstract view\<close>

type_synonym peer_view = "key32 \<Rightarrow> key32 \<rightharpoonup> key32 option"

definition psks_of :: "iface option \<Rightarrow> key32 \<rightharpoonup> key32 option" where
  "psks_of i = (case i of None \<Rightarrow> Map.empty | Some ifc \<Rightarrow> map_of (peerPSKs ifc))"

definition tracked :: "Pool \<Rightarrow> peer_view" where
  "tracked pool k = psks_of (map_of (ifaces pool) k)"

definition abs_add :: "key32 \<Rightarrow> key32 \<Rightarrow> key32 option \<Rightarrow> peer_view \<Rightarrow> peer_view" where
  "abs_add key pub psk v = v(key := (v key)(pub \<mapsto> psk))"

definition abs_remove :: "key32 \<Rightarrow> key32 \<Rightarrow> peer_view \<Rightarrow> peer_view" where
  "abs_remove key pub v = v(key := (v key)(pub := None))"

lemma psks_of_simps [simp]: "psks_of None = Map.empty" "psks_of (Some ifc) = map_of (peerPSKs ifc)"
  by (simp_all add: psks_of_def)

lemma psks_track: "map_of (peerPSKs (trackPeerLocked ifc pub psk)) = (map_of (peerPSKs ifc))(pub \<mapsto> psk)"
  by (rule ext) simp

lemma psks_untrack: "iface_ok k ifc \<Longrightarrow> map_of (peerPSKs (untrackPeerLocked ifc pub)) = (map_of (peerPSKs ifc))(pub := None)"
  by (rule ext) (simp add: iface_ok_def)

lemma tracked_same: "same_except K pool pool' \<Longrightarrow> k \<notin> K \<Longrightarrow> tracked pool' k = tracked pool k"
  by (simp add: tracked_def same_except_def)

lemma tracked_eqI:
  "same_except {key} pool pool' \<Longrightarrow> psks_of (map_of (ifaces pool') key) = v key \<Longrightarrow>
   (\<And>k. k \<noteq> key \<Longrightarrow> v k = tracked pool k) \<Longrightarrow> tracked pool' = v"
  by (rule ext) (metis singletonD tracked_def tracked_same)

lemma tracked_ifaces: "ifaces pool' = ifaces pool \<Longrightarrow> tracked pool' = tracked pool"
  by (simp add: tracked_def fun_eq_iff)

lemma getOrCreate_tracked:
  assumes "getOrCreateInterface ops profile requested pool w = (r, pool', w')" "pool_inv pool"
  shows "tracked pool' = tracked pool"
proof (cases r)
  case (Inl e)
  then show ?thesis using getOrCreate_spec [OF assms] by (intro tracked_ifaces) simp
next
  case (Inr ifc)
  with getOrCreate_spec [OF assms] show ?thesis
    by (intro tracked_eqI [of "pkey profile" pool pool']) (auto simp: tracked_def)
qed

lemma addPeerLocked_tracked:
  assumes "addPeerLocked ops key ifc pub psk ip pool w = (None, pool', w')"
    and "pool_inv pool" "map_of (ifaces pool) key = Some ifc"
  shows "tracked pool' = abs_add key pub psk (tracked pool)"
  using addPeerLocked_spec [OF assms] assms(3)
  by (intro tracked_eqI) (auto simp: abs_add_def psks_track tracked_def)

lemma AddPeer_cases:
  assumes "AddPeer ops profile requested pub psk ip pool w = (e, pool', w')" "pool_inv pool"
  obtains (early) "e \<noteq> None" "pool_inv pool'" "tracked pool' = tracked pool"
  | (add) ifc pool1 w1 where "getOrCreateInterface ops profile requested pool w = (Inr ifc, pool1, w1)"
      "pool_inv pool1" "map_of (ifaces pool1) (pkey profile) = Some ifc" "tracked pool1 = tracked pool"
      "addPeerLocked ops (pkey profile) ifc pub psk ip pool1 w1 = (e, pool', w')"
proof -
  obtain r p1 w1 where g: "getOrCreateInterface ops profile requested pool w = (r, p1, w1)" by (metis prod_cases3)
  note spec = getOrCreate_spec [OF g assms(2)] and tr = getOrCreate_tracked [OF g assms(2)]
  show thesis
  proof (cases "profile_valid profile")
    case False
    with assms show thesis by (intro early) (auto simp: AddPeer_def)
  next
    case True
    show thesis
    proof (cases r)
      case (Inl x)
      with True assms(1) g spec tr show thesis by (intro early) (auto simp: AddPeer_def)
    next
      case (Inr ifc)
      with True assms(1) g have a: "addPeerLocked ops (pkey profile) ifc pub psk ip p1 w1 = (e, pool', w')"
        by (simp add: AddPeer_def)
      show thesis by (rule add [OF _ _ _ tr a]) (use spec Inr g in auto)
    qed
  qed
qed

lemma AddPeer_inv:
  assumes "AddPeer ops profile requested pub psk ip pool w = (e, pool', w')" "pool_inv pool"
  shows "pool_inv pool'"
  using assms by (cases rule: AddPeer_cases) (auto dest: addPeerLocked_spec(1))

lemma AddPeer_tracked:
  assumes "AddPeer ops profile requested pub psk ip pool w = (None, pool', w')" "pool_inv pool"
  shows "tracked pool' = abs_add (pkey profile) pub psk (tracked pool)"
  using assms by (cases rule: AddPeer_cases) (auto dest: addPeerLocked_tracked)

lemma destroy_emptied_tracked:
  assumes "destroy_emptied ops what restore key (untrackPeerLocked ifc pub) pub psk ip
        (set_iface key (untrackPeerLocked ifc pub) pool) w = (e, pool', w')"
    and "pool_inv pool" "map_of (ifaces pool) key = Some ifc" "map_of (peerPSKs ifc) pub = Some psk"
    and "peerPSKs (untrackPeerLocked ifc pub) = []"
  shows "pool_inv pool'" "same_except {key} pool pool'"
    "tracked pool' = (if e = None then abs_remove key pub (tracked pool) else tracked pool)"
    "e = None \<Longrightarrow> map_of (ifaces pool') key = None"
proof -
  let ?p = "set_iface key (untrackPeerLocked ifc pub) pool"
  have ok: "iface_ok key ifc" by (rule pool_inv_iface [OF assms(2,3)])
  have k: "map_of (ifaces ?p) key = Some (untrackPeerLocked ifc pub)" by simp
  note spec = destroy_emptied_spec [OF assms(1) set_untrack_inv [OF assms(2,3)] k]
  show "pool_inv pool'" by (rule spec(1))
  show se: "same_except {key} pool pool'" using spec(2) by (simp add: same_except_def)
  have empty: "(map_of (peerPSKs ifc))(pub := None) = Map.empty"
    using psks_untrack [OF ok, of pub] assms(5) by simp
  then have restored: "[pub \<mapsto> psk] = map_of (peerPSKs ifc)"
    using assms(4) by (metis fun_upd_triv fun_upd_upd)
  show "tracked pool' = (if e = None then abs_remove key pub (tracked pool) else tracked pool)"
  proof (rule tracked_eqI [OF se])
    show "psks_of (map_of (ifaces pool') key) = (if e = None then abs_remove key pub (tracked pool) else tracked pool) key"
      using spec(3) empty restored assms(3)
      by (auto simp: abs_remove_def tracked_def psks_track psks_untrack [OF ok])
  qed (simp add: abs_remove_def)
  show "e = None \<Longrightarrow> map_of (ifaces pool') key = None" using spec(3) by simp
qed

lemma RemovePeer_tracked:
  assumes "RemovePeer ops profile pub ip pool w = (e, pool', w')" "pool_inv pool"
  shows "tracked pool' = (if e = None then abs_remove (pkey profile) pub (tracked pool) else tracked pool)"
  using assms
proof (cases rule: RemovePeer_cases)
  case unchanged
  then show ?thesis by auto
next
  case (removed ifc psk)
  have ok: "iface_ok (pkey profile) ifc" by (rule pool_inv_iface [OF assms(2) removed(1)])
  show ?thesis unfolding removed(3,4)
    by (rule tracked_eqI [where key = "pkey profile" and pool = pool])
       (simp_all add: abs_remove_def tracked_def removed(1) psks_untrack [OF ok])
next
  case (emptied ifc psk w1)
  show ?thesis by (rule destroy_emptied_tracked(3) [OF emptied(4) assms(2) emptied(1,2,3)])
qed

end
