(* ===== verification/Pool_Properties.thy ===== *)
theory Pool_Properties
  imports Pool_Invariant
begin

text \<open>
  Migration and shutdown of the interface pool, the histories of a running pool, and the properties of
  the pool as a whole. \<open>pool_host\<close> is the interface between the pool and the host operations: the law the
  rollback logic relies on, proved for \<open>hostPoolOperations\<close> over an arbitrary command runner.
\<close>

section \<open>Migration\<close>

lemma with_rollback_spec:
  "with_rollback err what r = (e, pool', w') \<Longrightarrow> fst (snd r) = pool' \<and> e \<noteq> None
     \<and> (fst r = None \<and> e = Some err \<or> (\<exists>x. e = Some (RollbackError err x)))"
  by (auto simp: with_rollback_def rollbackFailure_def split: prod.splits option.splits)

text \<open>The states a migration of the last peer passes through, with the result of each exit.\<close>

lemma migrate_single_cases:
  assumes "migrate_single ops oldProf newProf requested pub psk ip oldIfc oldPSK pool w = (e, pool', w')"
  obtains (remove_failed) "pool' = pool" "e \<noteq> None"
  | (destroy_failed) w1 where "e \<noteq> None"
      "destroy_emptied ops ''destroy old interface: '' ''restore old peer after interface destroy failure: ''
         (pkey oldProf) (untrackPeerLocked oldIfc pub) pub oldPSK ip
         (set_iface (pkey oldProf) (untrackPeerLocked oldIfc pub) pool) w1 = (e, pool', w')"
  | (create_failed) w1 pool2 w2 err pool3 w3 re w4 where
      "destroy_emptied ops ''destroy old interface: '' ''restore old peer after interface destroy failure: ''
         (pkey oldProf) (untrackPeerLocked oldIfc pub) pub oldPSK ip
         (set_iface (pkey oldProf) (untrackPeerLocked oldIfc pub) pool) w1 = (None, pool2, w2)"
      "getOrCreateInterface ops newProf requested pool2 w2 = (Inl err, pool3, w3)"
      "rollbackPeer ops oldProf (ifPort oldIfc) pub oldPSK ip pool3 w3 = (re, pool', w4)"
      "e \<noteq> None" "re \<noteq> None \<longrightarrow> (\<exists>a b. e = Some (RollbackError a b))"
  | (add_failed) w1 pool2 w2 newIfc pool3 w3 err pool4 w4 re w5 where
      "destroy_emptied ops ''destroy old interface: '' ''restore old peer after interface destroy failure: ''
         (pkey oldProf) (untrackPeerLocked oldIfc pub) pub oldPSK ip
         (set_iface (pkey oldProf) (untrackPeerLocked oldIfc pub) pool) w1 = (None, pool2, w2)"
      "getOrCreateInterface ops newProf requested pool2 w2 = (Inr newIfc, pool3, w3)"
      "addPeerLocked ops (pkey newProf) newIfc pub psk ip pool3 w3 = (Some err, pool4, w4)"
      "rollbackPeer ops oldProf (ifPort oldIfc) pub oldPSK ip pool4 w4 = (re, pool', w5)"
      "re = None \<and> e = Some (Wrap ''add peer to new interface: '' err []) \<or> (\<exists>a b. e = Some (RollbackError a b))"
  | (migrated) w1 pool2 w2 newIfc pool3 w3 where
      "destroy_emptied ops ''destroy old interface: '' ''restore old peer after interface destroy failure: ''
         (pkey oldProf) (untrackPeerLocked oldIfc pub) pub oldPSK ip
         (set_iface (pkey oldProf) (untrackPeerLocked oldIfc pub) pool) w1 = (None, pool2, w2)"
      "getOrCreateInterface ops newProf requested pool2 w2 = (Inr newIfc, pool3, w3)"
      "addPeerLocked ops (pkey newProf) newIfc pub psk ip pool3 w3 = (None, pool', w')" "e = None"
proof -
  obtain oe w1 where op: "op_removePeerFromInterface ops (ifName oldIfc) pub oldPSK ip w = (oe, w1)"
    by (metis prod.exhaust)
  obtain de pool2 w2 where de: "destroy_emptied ops ''destroy old interface: ''
      ''restore old peer after interface destroy failure: ''
         (pkey oldProf) (untrackPeerLocked oldIfc pub) pub oldPSK ip
         (set_iface (pkey oldProf) (untrackPeerLocked oldIfc pub) pool) w1 = (de, pool2, w2)"
    by (metis prod_cases3)
  obtain r pool3 w3 where g: "getOrCreateInterface ops newProf requested pool2 w2 = (r, pool3, w3)"
    by (metis prod_cases3)
  note unfold = assms [unfolded migrate_single_def Let_def op]
  show thesis
  proof (cases "oe = None \<and> de = None")
    case False
    then show thesis
      using unfold de by (cases oe; cases de) (auto intro: remove_failed destroy_failed)
  next
    case True
    show thesis
    proof (cases r)
      case (Inl err)
      obtain re p4 w4 where rb: "rollbackPeer ops oldProf (ifPort oldIfc) pub oldPSK ip pool3 w3 = (re, p4, w4)"
        by (metis prod_cases3)
      have "with_rollback (Wrap ''get or create interface: '' err []) ''restore old peer: '' (re, p4, w4) = (e, pool', w')"
        using unfold True de g Inl rb by simp
      from with_rollback_spec [OF this] show thesis
        using create_failed [of w1 pool2 w2 err pool3 w3 re w4] True de g Inl rb by auto
    next
      case (Inr newIfc)
      obtain ae pool4 w4 where a: "addPeerLocked ops (pkey newProf) newIfc pub psk ip pool3 w3 = (ae, pool4, w4)"
        by (metis prod_cases3)
      show thesis
      proof (cases ae)
        case None
        then show thesis using unfold True de g Inr a migrated by auto
      next
        case (Some err)
        obtain re p5 w5 where rb: "rollbackPeer ops oldProf (ifPort oldIfc) pub oldPSK ip pool4 w4 = (re, p5, w5)"
          by (metis prod_cases3)
        have "with_rollback (Wrap ''add peer to new interface: '' err []) ''restore old peer: '' (re, p5, w5) = (e, pool', w')"
          using unfold True de g Inr a Some rb by simp
        from with_rollback_spec [OF this] show thesis
          using add_failed [of w1 pool2 w2 newIfc pool3 w3 err pool4 w4 re w5] True de g Inr a Some rb by auto
      qed
    qed
  qed
qed

lemma rollbackPeer_tracked:
  assumes "rollbackPeer ops profile requested pub psk ip pool w = (None, pool', w')" "pool_inv pool"
  shows "tracked pool' = abs_add (pkey profile) pub psk (tracked pool)"
proof -
  obtain ifc where ifc: "map_of (ifaces pool') (pkey profile) = Some (trackPeerLocked ifc pub psk)"
    "map_of (ifaces pool) (pkey profile) = Some ifc
     \<or> map_of (ifaces pool) (pkey profile) = None \<and> peerPSKs ifc = []"
    using rollbackPeer_spec(3) [OF assms] by blast
  then have "psks_of (map_of (ifaces pool) (pkey profile)) = map_of (peerPSKs ifc)" by auto
  with ifc(1) show ?thesis
    by (intro tracked_eqI [OF rollbackPeer_spec(2) [OF assms]]) (simp_all add: abs_add_def psks_track tracked_def)
qed

lemma abs_add_remove: "v key pub = Some psk \<Longrightarrow> abs_add key pub psk (abs_remove key pub v) = v"
  by (auto simp: abs_add_def abs_remove_def fun_eq_iff)

lemma last_peer_emptied:
  assumes "pool_inv pool" "map_of (ifaces pool) key = Some ifc" "map_of (peerPSKs ifc) pub = Some psk"
    and "peerCount ifc = 1"
  shows "peerPSKs (untrackPeerLocked ifc pub) = []"
proof -
  have ok: "iface_ok key ifc" by (rule pool_inv_iface [OF assms(1,2)])
  have "peerCount (untrackPeerLocked ifc pub) = 0"
    using count_untrack(1) [OF ok, of pub] assms(3,4) by simp
  then show ?thesis using count_zero_empty [OF untrack_ok [OF ok]] by blast
qed

lemma migrate_single_inv:
  assumes "migrate_single ops oldProf newProf requested pub psk ip oldIfc oldPSK pool w = (e, pool', w')"
    and "pool_inv pool" "map_of (ifaces pool) (pkey oldProf) = Some oldIfc"
    and "map_of (peerPSKs oldIfc) pub = Some oldPSK" "peerCount oldIfc = 1"
  shows "pool_inv pool'"
    and "e = None \<Longrightarrow> tracked pool' = abs_add (pkey newProf) pub psk (abs_remove (pkey oldProf) pub (tracked pool))"
proof -
  note D = destroy_emptied_tracked [OF _ assms(2-4) last_peer_emptied [OF assms(2-5)]]
  have "pool_inv pool' \<and>
      (e = None \<longrightarrow> tracked pool' = abs_add (pkey newProf) pub psk (abs_remove (pkey oldProf) pub (tracked pool)))"
    using assms(1)
  proof (cases rule: migrate_single_cases)
    case remove_failed
    then show ?thesis using assms(2) by auto
  next
    case (destroy_failed w1)
    then show ?thesis using D(1) by auto
  next
    case (create_failed w1 pool2 w2 err pool3 w3 re w4)
    have "pool_inv pool3" using getOrCreate_spec [OF create_failed(2) D(1) [OF create_failed(1)]] by simp
    then show ?thesis using rollbackPeer_spec(1) [OF create_failed(3)] create_failed(4) by auto
  next
    case (add_failed w1 pool2 w2 newIfc pool3 w3 err pool4 w4 re w5)
    have "pool_inv pool3" "map_of (ifaces pool3) (pkey newProf) = Some newIfc"
      using getOrCreate_spec [OF add_failed(2) D(1) [OF add_failed(1)]] by simp_all
    then have "pool_inv pool4" using addPeerLocked_spec(1) [OF add_failed(3)] by blast
    then show ?thesis using rollbackPeer_spec(1) [OF add_failed(4)] add_failed(5) by auto
  next
    case (migrated w1 pool2 w2 newIfc pool3 w3)
    have p3: "pool_inv pool3" "map_of (ifaces pool3) (pkey newProf) = Some newIfc"
      using getOrCreate_spec [OF migrated(2) D(1) [OF migrated(1)]] by simp_all
    have "tracked pool3 = abs_remove (pkey oldProf) pub (tracked pool)"
      using getOrCreate_tracked [OF migrated(2) D(1) [OF migrated(1)]] D(3) [OF migrated(1)] by simp
    then show ?thesis
      using addPeerLocked_spec(1) [OF migrated(3) p3] addPeerLocked_tracked [OF migrated(3) p3] by simp
  qed
  then show "pool_inv pool'"
    "e = None \<Longrightarrow> tracked pool' = abs_add (pkey newProf) pub psk (abs_remove (pkey oldProf) pub (tracked pool))" by blast+
qed

text \<open>The exits of a migration away from an interface that keeps other peers.\<close>

lemma migrate_shared_cases:
  assumes "migrate_shared ops oldProf newProf requested pub psk ip oldIfc oldPSK pool w = (e, pool', w')"
    and "peerCount (untrackPeerLocked oldIfc pub) \<noteq> 0"
  obtains (create_failed) err w1 where "getOrCreateInterface ops newProf requested pool w = (Inl err, pool', w1)" "e \<noteq> None"
  | (add_failed) newIfc pool1 w1 err w2 where "getOrCreateInterface ops newProf requested pool w = (Inr newIfc, pool1, w1)"
      "addPeerLocked ops (pkey newProf) newIfc pub psk ip pool1 w1 = (Some err, pool', w2)"
      "e = Some err \<or> (\<exists>x. e = Some (RollbackError err x))"
  | (remove_failed) newIfc pool1 w1 pool2 w2 re w3 w4 where
      "getOrCreateInterface ops newProf requested pool w = (Inr newIfc, pool1, w1)"
      "addPeerLocked ops (pkey newProf) newIfc pub psk ip pool1 w1 = (None, pool2, w2)"
      "rollbackNewPeerLocked ops (pkey newProf) pub ip pool2 w3 = (re, pool', w4)" "e \<noteq> None"
      "re \<noteq> None \<longrightarrow> (\<exists>a b. e = Some (RollbackError a b))"
  | (migrated) newIfc pool1 w1 pool2 w2 where
      "getOrCreateInterface ops newProf requested pool w = (Inr newIfc, pool1, w1)"
      "addPeerLocked ops (pkey newProf) newIfc pub psk ip pool1 w1 = (None, pool2, w2)"
      "pool' = set_iface (pkey oldProf) (untrackPeerLocked oldIfc pub) pool2" "e = None"
proof -
  obtain r pool1 w1 where g: "getOrCreateInterface ops newProf requested pool w = (r, pool1, w1)"
    by (metis prod_cases3)
  show thesis
  proof (cases r)
    case (Inl err)
    then show thesis using assms(1) g create_failed by (auto simp: migrate_shared_def)
  next
    case (Inr newIfc)
    obtain ae pool2 w2 where a: "addPeerLocked ops (pkey newProf) newIfc pub psk ip pool1 w1 = (ae, pool2, w2)"
      by (metis prod_cases3)
    obtain oe w3 where op: "op_removePeerOnlyFromInterface ops (ifName oldIfc) pub w2 = (oe, w3)" by (metis prod.exhaust)
    obtain re pool3 w4 where rb: "rollbackNewPeerLocked ops (pkey newProf) pub ip pool2 w3 = (re, pool3, w4)"
      by (metis prod_cases3)
    show thesis
    proof (cases ae)
      case (Some err)
      have "pool' = pool2 \<and> (e = Some err \<or> (\<exists>x. e = Some (RollbackError err x)))"
        using assms(1) g Inr a Some
        by (auto simp: migrate_shared_def rollbackFailure_def split: prod.splits option.splits)
      then show thesis using add_failed [of newIfc pool1 w1 err w2] g Inr a Some by simp
    next
      case None
      show thesis
      proof (cases oe)
        case None
        then show thesis
          using assms g Inr a \<open>ae = None\<close> op migrated by (auto simp: migrate_shared_def Let_def)
      next
        case (Some err)
        obtain e2 w5 where e2: "op_restorePeerAndRoute ops (ifName oldIfc) pub oldPSK ip w4 = (e2, w5)" by (metis prod.exhaust)
        let ?j = "errors_Join [wrap_err ''remove new peer: '' re, wrap_err ''restore old peer: '' e2]"
        have wr: "with_rollback (Wrap ''remove peer from old interface: '' err []) ''rollback shared peer migration: ''
            (?j, pool3, w5) = (e, pool', w')"
          using assms(1) g Inr a None op Some rb e2 by (simp add: migrate_shared_def rollbackSharedMigration_def)
        have "re \<noteq> None \<Longrightarrow> ?j \<noteq> None" by (auto simp: errors_Join_None_iff wrap_err_def)
        then show thesis
          using with_rollback_spec [OF wr] remove_failed [of newIfc pool1 w1 pool2 w2 w3 re w4] g Inr a None rb
          by (cases re) auto
      qed
    qed
  qed
qed

lemma rollbackNew_tracked:
  assumes "rollbackNewPeerLocked ops key pub ip pool w = (None, pool', w')" "pool_inv pool"
  shows "tracked pool' = abs_remove key pub (tracked pool)"
proof -
  obtain ifc psk where ifc: "map_of (ifaces pool) key = Some ifc" "map_of (peerPSKs ifc) pub = Some psk"
    using assms(1) by (auto simp: rollbackNewPeerLocked_def split: option.splits)
  let ?p1 = "set_iface key (untrackPeerLocked ifc pub) pool"
  have ok: "iface_ok key ifc" by (rule pool_inv_iface [OF assms(2) ifc(1)])
  have k: "map_of (ifaces ?p1) key = Some (untrackPeerLocked ifc pub)" by simp
  consider "pool' = ?p1"
    | w1 where "destroyTrackedInterfaceLocked ops key (untrackPeerLocked ifc pub) ?p1 w1 = (None, pool', w')"
        "peerCount (untrackPeerLocked ifc pub) = 0"
    using assms(1) ifc by (auto simp: rollbackNewPeerLocked_def Let_def split: prod.splits option.splits if_splits)
  then have "psks_of (map_of (ifaces pool') key) = map_of (peerPSKs (untrackPeerLocked ifc pub))"
  proof cases
    case 2
    have "map_of (ifaces pool') key = None"
      using destroyTracked_spec(2) [OF 2(1) set_untrack_inv [OF assms(2) ifc(1)] k] by simp
    moreover have "peerPSKs (untrackPeerLocked ifc pub) = []" using 2(2) count_zero_empty [OF untrack_ok [OF ok]] by blast
    ultimately show ?thesis by simp
  qed simp
  then show ?thesis
    by (intro tracked_eqI [OF rollbackNew_spec(2) [OF assms]])
       (simp_all add: abs_remove_def tracked_def ifc(1) psks_untrack [OF ok])
qed

lemma migrate_shared_inv:
  assumes "migrate_shared ops oldProf newProf requested pub psk ip oldIfc oldPSK pool w = (e, pool', w')"
    and "pool_inv pool" "map_of (ifaces pool) (pkey oldProf) = Some oldIfc"
    and "map_of (peerPSKs oldIfc) pub = Some oldPSK" "peerCount oldIfc \<noteq> 1" "pkey oldProf \<noteq> pkey newProf"
  shows "pool_inv pool'"
    and "e = None \<Longrightarrow> tracked pool' = abs_add (pkey newProf) pub psk (abs_remove (pkey oldProf) pub (tracked pool))"
proof -
  have ok: "iface_ok (pkey oldProf) oldIfc" by (rule pool_inv_iface [OF assms(2,3)])
  have cnt: "peerCount (untrackPeerLocked oldIfc pub) \<noteq> 0"
    using count_untrack(1) [OF ok, of pub] assms(4,5) by simp
  have G: "pool_inv pool1 \<and> map_of (ifaces pool1) (pkey newProf) = Some newIfc \<and> same_except {pkey newProf} pool pool1"
    if "getOrCreateInterface ops newProf requested pool w = (Inr newIfc, pool1, w1)" for newIfc pool1 w1
    using getOrCreate_spec [OF that assms(2)] by simp
  from assms(1) cnt have "pool_inv pool' \<and>
      (e = None \<longrightarrow> tracked pool' = abs_add (pkey newProf) pub psk (abs_remove (pkey oldProf) pub (tracked pool)))"
  proof (cases rule: migrate_shared_cases)
    case create_failed
    then show ?thesis using getOrCreate_spec [OF create_failed(1) assms(2)] by auto
  next
    case (add_failed newIfc pool1 w1 err w2)
    then show ?thesis using G [OF add_failed(1)] addPeerLocked_spec(1) [OF add_failed(2)] by auto
  next
    case (remove_failed newIfc pool1 w1 pool2 w2 re w3 w4)
    have "pool_inv pool2" using G [OF remove_failed(1)] addPeerLocked_spec(1) [OF remove_failed(2)] by blast
    then show ?thesis using rollbackNew_spec(1) [OF remove_failed(3)] remove_failed(4) by auto
  next
    case (migrated newIfc pool1 w1 pool2 w2)
    have p1: "pool_inv pool1" "map_of (ifaces pool1) (pkey newProf) = Some newIfc" "same_except {pkey newProf} pool pool1"
      using G [OF migrated(1)] by simp_all
    note A = addPeerLocked_spec [OF migrated(2) p1(1,2)]
    have old: "map_of (ifaces pool2) (pkey oldProf) = Some oldIfc"
      using same_exceptD [OF A(2)] same_exceptD [OF p1(3)] assms(3,6) by simp
    have t2: "tracked pool2 = abs_add (pkey newProf) pub psk (tracked pool)"
      using addPeerLocked_tracked [OF migrated(2) p1(1,2)] getOrCreate_tracked [OF migrated(1) assms(2)] by simp
    have "tracked pool' = abs_remove (pkey oldProf) pub (tracked pool2)"
      unfolding migrated(3)
      by (rule tracked_eqI [where key = "pkey oldProf" and pool = pool2])
         (simp_all add: abs_remove_def tracked_def old psks_untrack [OF ok])
    moreover have "abs_remove (pkey oldProf) pub (abs_add (pkey newProf) pub psk v)
        = abs_add (pkey newProf) pub psk (abs_remove (pkey oldProf) pub v)" for v
      using assms(6) by (simp add: abs_remove_def abs_add_def fun_upd_twist)
    ultimately show ?thesis
      using t2 set_untrack_inv [OF A(1) old, of pub] migrated(3) by simp
  qed
  then show "pool_inv pool'"
    "e = None \<Longrightarrow> tracked pool' = abs_add (pkey newProf) pub psk (abs_remove (pkey oldProf) pub (tracked pool))" by blast+
qed

lemma MigratePeer_cases:
  assumes "MigratePeer ops oldProf newProf requested pub psk ip pool w = (e, pool', w')" "pool_inv pool"
  obtains (rejected) "e \<noteq> None" "pool' = pool"
  | (same) "e = None" "pool' = pool" "pkey oldProf = pkey newProf" "Port (params oldProf) = requested"
  | (single) oldIfc oldPSK where "map_of (ifaces pool) (pkey oldProf) = Some oldIfc"
      "map_of (peerPSKs oldIfc) pub = Some oldPSK" "peerCount oldIfc = 1"
      "migrate_single ops oldProf newProf requested pub psk ip oldIfc oldPSK pool w = (e, pool', w')"
  | (shared) oldIfc oldPSK where "map_of (ifaces pool) (pkey oldProf) = Some oldIfc"
      "map_of (peerPSKs oldIfc) pub = Some oldPSK" "peerCount oldIfc \<noteq> 1" "pkey oldProf \<noteq> pkey newProf"
      "migrate_shared ops oldProf newProf requested pub psk ip oldIfc oldPSK pool w = (e, pool', w')"
proof (cases "map_of (ifaces pool) (pkey oldProf)")
  case None
  with assms(1) show thesis by (intro rejected) (auto simp: MigratePeer_def split: if_splits)
next
  case (Some oldIfc)
  note old = Some
  show thesis
  proof (cases "map_of (peerPSKs oldIfc) pub")
    case None
    with assms(1) old show thesis by (intro rejected) (auto simp: MigratePeer_def split: if_splits)
  next
    case (Some oldPSK)
    have "iface_ok (pkey oldProf) oldIfc" by (rule pool_inv_iface [OF assms(2) old])
    then have "peerCount oldIfc > 0" using count_untrack(2) Some by force
    then have "e \<noteq> None \<and> pool' = pool
        \<or> e = None \<and> pool' = pool \<and> pkey oldProf = pkey newProf \<and> Port (params oldProf) = requested
        \<or> peerCount oldIfc = 1 \<and> migrate_single ops oldProf newProf requested pub psk ip oldIfc oldPSK pool w = (e, pool', w')
        \<or> peerCount oldIfc \<noteq> 1 \<and> pkey oldProf \<noteq> pkey newProf
           \<and> migrate_shared ops oldProf newProf requested pub psk ip oldIfc oldPSK pool w = (e, pool', w')"
      using assms(1) old Some by (simp add: MigratePeer_def split: if_splits option.splits) auto
    then show thesis using rejected same single [OF old Some] shared [OF old Some] by blast
  qed
qed

lemma MigratePeer_inv:
  assumes "MigratePeer ops oldProf newProf requested pub psk ip pool w = (e, pool', w')" "pool_inv pool"
  shows "pool_inv pool'"
  using assms
  by (cases rule: MigratePeer_cases)
     (use assms(2) in \<open>auto intro: migrate_single_inv(1) migrate_shared_inv(1)\<close>)

lemma MigratePeer_table:
  assumes "MigratePeer ops oldProf newProf requested pub psk ip pool w = (None, pool', w')" "pool_inv pool"
  shows "pool' = pool \<and> pkey oldProf = pkey newProf \<and> Port (params oldProf) = requested
    \<or> tracked pool' = abs_add (pkey newProf) pub psk (abs_remove (pkey oldProf) pub (tracked pool))"
  using assms
  by (cases rule: MigratePeer_cases)
     (use assms(2) in \<open>auto dest: migrate_single_inv(2) migrate_shared_inv(2)\<close>)

section \<open>Shutdown\<close>

lemma close_ifaces_spec:
  assumes "close_ifaces ops m pool w = (pool', w')" "pool_inv pool" "gm_wf m"
    and "\<forall>(k, i) \<in> set m. map_of (ifaces pool) k = Some i"
  shows "pool_inv pool' \<and> orphans pool' = orphans pool \<and> (\<forall>k. k \<notin> fst ` set m \<longrightarrow>
      map_of (ifaces pool') k = map_of (ifaces pool) k)
    \<and> ((\<forall>n w. fst (op_destroyInterface ops n w) = None) \<longrightarrow> (\<forall>k \<in> fst ` set m. map_of (ifaces pool') k = None))"
  using assms
proof (induction ops m pool w rule: close_ifaces.induct)
  case (2 ops key ifc rest pool w)
  obtain e p1 w1 where d: "destroyTrackedInterfaceLocked ops key ifc pool w = (e, p1, w1)" by (metis prod_cases3)
  have k: "map_of (ifaces pool) key = Some ifc" using 2(5) by simp
  note spec = destroyTracked_spec [OF d 2(3) k]
  have o: "orphans p1 = orphans pool"
    using d by (auto simp: destroyTrackedInterfaceLocked_def split: prod.splits option.splits)
  have rest: "\<forall>(k, i) \<in> set rest. map_of (ifaces p1) k = Some i"
  proof (intro ballI, clarify)
    fix a b
    assume "(a, b) \<in> set rest"
    moreover from this have "a \<noteq> key" using 2(4) by force
    ultimately show "map_of (ifaces p1) a = Some b" using 2(5) spec(2) by fastforce
  qed
  have "close_ifaces ops rest p1 w1 = (pool', w')" using 2(2) d by simp
  note IH = 2(1) [OF d [symmetric] refl this spec(1) _ rest]
  have ok: "(\<forall>n w. fst (op_destroyInterface ops n w) = None) \<Longrightarrow> e = None"
    using d by (auto simp: destroyTrackedInterfaceLocked_def split: prod.splits option.splits)
       (metis fst_conv option.distinct(1))
  show ?case using IH 2(4) o spec(2) ok by auto
qed simp

lemma pool_inv_remove_orphan:
  assumes "pool_inv pool" "map_of (orphans pool) s = Some p"
  shows "pool_inv (pool\<lparr>orphans := AList.delete s (orphans pool), usedPorts := usedPorts pool - {p}\<rparr>)"
    (is "pool_inv ?pool")
proof (rule pool_invI)
  note wf = pool_inv_orphans_wf [OF assms(1)]
  have m: "map_of (orphans ?pool) n = (if n = s then None else map_of (orphans pool) n)" for n
    using wf by (simp add: map_of_gm_delete)
  show "pool_size ?pool \<le> maxIfaces ?pool" if "maxIfaces ?pool > 0"
    using that pool_inv_limit [OF assms(1)] length_delete_le [of s "orphans pool"] by (simp add: pool_size_def)
  have o: "(\<exists>n. map_of (orphans ?pool) n = Some q) \<longleftrightarrow> (\<exists>n. map_of (orphans pool) n = Some q) \<and> q \<noteq> p" for q
    unfolding m using pool_inv_orphan_port [OF assms(1,2)] assms(2) by (metis option.distinct(1) option.inject)
  have i: "(\<exists>k i. map_of (ifaces pool) k = Some i \<and> ifPort i = q) \<Longrightarrow> q \<noteq> p" for q
    using pool_inv_orphan [OF assms(1) _ assms(2)] by blast
  show "usedPorts ?pool = {p. (\<exists>k i. map_of (ifaces ?pool) k = Some i \<and> ifPort i = p)
        \<or> (\<exists>name. map_of (orphans ?pool) name = Some p)}"
    unfolding o using pool_inv_used [OF assms(1)] i by auto
qed (use assms pool_invD [OF assms(1)] in \<open>auto simp: map_of_gm_delete split: if_splits\<close>)

lemma close_orphans_spec:
  assumes "close_orphans ops m pool w = (pool', w')" "pool_inv pool" "gm_wf m"
    and "\<forall>(n, p) \<in> set m. map_of (orphans pool) n = Some p"
  shows "pool_inv pool' \<and> ifaces pool' = ifaces pool \<and> (\<forall>n. n \<notin> fst ` set m \<longrightarrow>
      map_of (orphans pool') n = map_of (orphans pool) n)
    \<and> ((\<forall>n w. fst (op_destroyInterface ops n w) = None) \<longrightarrow> (\<forall>n \<in> fst ` set m. map_of (orphans pool') n = None))"
  using assms
proof (induction ops m pool w rule: close_orphans.induct)
  case (2 ops s p rest pool w)
  obtain e w1 where d: "op_destroyInterface ops s w = (e, w1)" by (metis prod.exhaust)
  have k: "map_of (orphans pool) s = Some p" using 2(6) by simp
  show ?case
  proof (cases e)
    case (Some err)
    have "close_orphans ops rest pool w1 = (pool', w')" using 2(3) d Some by simp
    note IH = 2(2) [OF d [symmetric] Some this 2(4)]
    have "\<not> (\<forall>n w. fst (op_destroyInterface ops n w) = None)"
      using d Some by (metis fst_conv option.distinct(1))
    then show ?thesis using IH 2(5,6) by auto
  next
    case None
    let ?p = "pool\<lparr>orphans := AList.delete s (orphans pool), usedPorts := usedPorts pool - {p}\<rparr>"
    have m: "map_of (orphans ?p) n = (if n = s then None else map_of (orphans pool) n)" for n
      using pool_inv_orphans_wf [OF 2(4)] by (simp add: map_of_gm_delete)
    have rest: "\<forall>(n, q) \<in> set rest. map_of (orphans ?p) n = Some q"
    proof (intro ballI, clarify)
      fix a b
      assume "(a, b) \<in> set rest"
      moreover from this have "a \<noteq> s" using 2(5) by force
      ultimately show "map_of (orphans ?p) a = Some b" using 2(6) m by fastforce
    qed
    have "close_orphans ops rest ?p w1 = (pool', w')" using 2(3) d None by simp
    note IH = 2(1) [OF d [symmetric] None this pool_inv_remove_orphan [OF 2(4) k] _ rest]
    show ?thesis using IH 2(5) unfolding m by auto
  qed
qed simp

lemma map_of_all_None: "\<forall>k. map_of m k = None \<Longrightarrow> m = []"
  by (cases m) (auto simp: fun_upd_def split: if_splits)

lemma Close_spec:
  assumes "Close ops pool w = (pool', w')" "pool_inv pool"
  shows "pool_inv pool'"
    and "(\<forall>n w. fst (op_destroyInterface ops n w) = None) \<Longrightarrow> ifaces pool' = [] \<and> orphans pool' = [] \<and> usedPorts pool' = {}"
proof -
  obtain p1 w1 where c1: "close_ifaces ops (ifaces pool) pool w = (p1, w1)" by (metis prod.exhaust)
  obtain p2 w2 where c2: "close_orphans ops (orphans p1) p1 w1 = (p2, w2)" by (metis prod.exhaust)
  have s1: "pool_inv p1 \<and> orphans p1 = orphans pool \<and> (\<forall>k. k \<notin> fst ` set (ifaces pool) \<longrightarrow>
      map_of (ifaces p1) k = map_of (ifaces pool) k)
    \<and> ((\<forall>n w. fst (op_destroyInterface ops n w) = None) \<longrightarrow> (\<forall>k \<in> fst ` set (ifaces pool). map_of (ifaces p1) k = None))"
    by (rule close_ifaces_spec [OF c1 assms(2) pool_inv_wf [OF assms(2)]])
       (auto simp: pool_inv_wf [OF assms(2)])
  then have inv1: "pool_inv p1" by blast
  have s2: "pool_inv p2 \<and> ifaces p2 = ifaces p1 \<and> (\<forall>n. n \<notin> fst ` set (orphans p1) \<longrightarrow>
      map_of (orphans p2) n = map_of (orphans p1) n)
    \<and> ((\<forall>n w. fst (op_destroyInterface ops n w) = None) \<longrightarrow> (\<forall>n \<in> fst ` set (orphans p1). map_of (orphans p2) n = None))"
    by (rule close_orphans_spec [OF c2 inv1 pool_inv_orphans_wf [OF inv1]])
       (auto simp: pool_inv_orphans_wf [OF inv1])
  have p': "ifaces pool' = ifaces p2" "orphans pool' = orphans p2" "usedPorts pool' = usedPorts p2"
    "\<exists>b. pool' = p2\<lparr>masqAdded := b\<rparr>"
    using assms(1) c1 c2 by (auto simp: Close_def split: if_splits prod.splits option.splits intro: exI [of _ "masqAdded p2"])
  show "pool_inv pool'" using p'(4) s2 pool_inv_masq by auto
  assume ok: "\<forall>n w. fst (op_destroyInterface ops n w) = None"
  have "\<forall>k. map_of (ifaces p2) k = None"
    using s1 s2 ok by (metis map_of_eq_None_iff)
  then have i: "ifaces p2 = []" by (rule map_of_all_None)
  have "\<forall>k. map_of (orphans p2) k = None"
    using s2 ok by (metis map_of_eq_None_iff)
  then have o: "orphans p2 = []" by (rule map_of_all_None)
  then show "ifaces pool' = [] \<and> orphans pool' = [] \<and> usedPorts pool' = {}"
    using i p' s2 pool_inv_used [of p2] by simp
qed

section \<open>The law of the host\<close>

text \<open>
  When a failed add could not be cleaned up, the cleanup says so. This is all that the pool needs to
  know about the host to report every failure that leaves a stray peer as a failed rollback.
\<close>

locale pool_host =
  fixes ops :: "'w poolOperations"
  assumes cleanup_reports:
    "op_cleanupPeerAfterFailedAdd ops name pub ip w = ((peerRemoved, err), w') \<Longrightarrow> \<not> peerRemoved \<Longrightarrow> err \<noteq> None"
begin

lemma addPeerLocked_failure:
  assumes "addPeerLocked ops key ifc pub psk ip pool w = (Some err, pool', w')"
    and "pool_inv pool" "map_of (ifaces pool) key = Some ifc" "\<not> errors_is err ErrRollbackFailed"
  shows "tracked pool' = tracked pool"
proof -
  note spec = addPeerLocked_spec [OF assms(1-3)]
  have nr: "\<nexists>a b. err = RollbackError a b" using assms(4) by auto
  have "map_of (ifaces pool') key = Some ifc \<or> map_of (ifaces pool') key = None \<and> peerCount ifc = 0"
  proof -
    obtain oe w1 where op: "op_addPeerToInterface ops (ifName ifc) pub psk ip w = (oe, w1)" by (metis prod.exhaust)
    obtain removed ce w2 where c: "op_cleanupPeerAfterFailedAdd ops (ifName ifc) pub ip w1 = ((removed, ce), w2)"
      by (metis prod.exhaust)
    obtain de p3 w3 where d: "destroyTrackedInterfaceLocked ops key ifc pool w2 = (de, p3, w3)" by (metis prod_cases3)
    have law: "\<not> removed \<Longrightarrow> ce \<noteq> None" by (rule cleanup_reports [OF c])
    have d2: "de = None \<Longrightarrow> map_of (ifaces p3) key = None"
      using destroyTracked_spec(2) [OF d assms(2,3)] by simp
    have j: "errors_Join [ce, Some x] \<noteq> None" for x by (simp add: errors_Join_None_iff)
    show ?thesis
      using assms(1,3) op c d d2 law nr j
      by (cases oe; cases ce; cases de; cases "peerCount ifc = 0"; cases removed)
         (auto simp: addPeerLocked_def Let_def rollbackFailure_def split: option.splits)
  qed
  then have "psks_of (map_of (ifaces pool') key) = tracked pool key"
    using assms(3) count_zero_empty [OF pool_inv_iface [OF assms(2,3)]] by (auto simp: tracked_def)
  then show ?thesis by (intro tracked_eqI [OF spec(2)]) simp_all
qed

lemma AddPeer_failure:
  assumes "AddPeer ops profile requested pub psk ip pool w = (Some err, pool', w')"
    and "pool_inv pool" "\<not> errors_is err ErrRollbackFailed"
  shows "tracked pool' = tracked pool"
  using assms(1,2)
proof (cases rule: AddPeer_cases)
  case early
  then show ?thesis by simp
next
  case (add ifc pool1 w1)
  then show ?thesis using addPeerLocked_failure [OF add(5,2,3) assms(3)] by simp
qed

lemma MigratePeer_failure:
  assumes "MigratePeer ops oldProf newProf requested pub psk ip pool w = (Some err, pool', w')"
    and "pool_inv pool" "\<not> errors_is err ErrRollbackFailed"
    and "pkey oldProf \<noteq> pkey newProf \<Longrightarrow> tracked pool (pkey newProf) pub = None"
  shows "tracked pool' = tracked pool"
  using assms(1,2)
proof (cases rule: MigratePeer_cases)
  case (single oldIfc oldPSK)
  note D = destroy_emptied_tracked [OF _ assms(2) single(1,2) last_peer_emptied [OF assms(2) single(1-3)]]
  have old: "tracked pool (pkey oldProf) pub = Some oldPSK" using single by (simp add: tracked_def)
  from single(4) show ?thesis
  proof (cases rule: migrate_single_cases)
    case (destroy_failed w1)
    then show ?thesis using D(3) [OF destroy_failed(2)] by simp
  next
    case (create_failed w1 pool2 w2 cerr pool3 w3 re w4)
    have p3: "pool_inv pool3" using getOrCreate_spec [OF create_failed(2) D(1) [OF create_failed(1)]] by simp
    have re: "re = None" using create_failed(5) assms(3) by auto
    have "tracked pool' = abs_add (pkey oldProf) pub oldPSK (tracked pool3)"
      by (rule rollbackPeer_tracked [OF create_failed(3) [unfolded re] p3])
    also have "tracked pool3 = abs_remove (pkey oldProf) pub (tracked pool)"
      using getOrCreate_tracked [OF create_failed(2) D(1) [OF create_failed(1)]] D(3) [OF create_failed(1)] by simp
    finally show ?thesis using abs_add_remove old by simp
  next
    case (add_failed w1 pool2 w2 newIfc pool3 w3 aerr pool4 w4 re w5)
    have p3: "pool_inv pool3" "map_of (ifaces pool3) (pkey newProf) = Some newIfc"
      using getOrCreate_spec [OF add_failed(2) D(1) [OF add_failed(1)]] by simp_all
    have re: "re = None" "\<not> errors_is aerr ErrRollbackFailed" using add_failed(5) assms(3) by auto
    have "tracked pool4 = tracked pool3" by (rule addPeerLocked_failure [OF add_failed(3) p3 re(2)])
    moreover have "tracked pool' = abs_add (pkey oldProf) pub oldPSK (tracked pool4)"
      by (rule rollbackPeer_tracked [OF add_failed(4) [unfolded re(1)] addPeerLocked_spec(1) [OF add_failed(3) p3]])
    moreover have "tracked pool3 = abs_remove (pkey oldProf) pub (tracked pool)"
      using getOrCreate_tracked [OF add_failed(2) D(1) [OF add_failed(1)]] D(3) [OF add_failed(1)] by simp
    ultimately show ?thesis using abs_add_remove old by simp
  qed auto
next
  case (shared oldIfc oldPSK)
  have ok: "iface_ok (pkey oldProf) oldIfc" by (rule pool_inv_iface [OF assms(2) shared(1)])
  have cnt: "peerCount (untrackPeerLocked oldIfc pub) \<noteq> 0"
    using count_untrack(1) [OF ok, of pub] shared(2,3) by simp
  from shared(5) cnt show ?thesis
  proof (cases rule: migrate_shared_cases)
    case create_failed
    then show ?thesis using getOrCreate_tracked [OF create_failed(1) assms(2)] by simp
  next
    case (add_failed newIfc pool1 w1 aerr w2)
    have p1: "pool_inv pool1" "map_of (ifaces pool1) (pkey newProf) = Some newIfc"
      using getOrCreate_spec [OF add_failed(1) assms(2)] by simp_all
    have "\<not> errors_is aerr ErrRollbackFailed" using add_failed(3) assms(3) by auto
    then show ?thesis
      using addPeerLocked_failure [OF add_failed(2) p1] getOrCreate_tracked [OF add_failed(1) assms(2)] by simp
  next
    case (remove_failed newIfc pool1 w1 pool2 w2 re w3 w4)
    have p1: "pool_inv pool1" "map_of (ifaces pool1) (pkey newProf) = Some newIfc"
      using getOrCreate_spec [OF remove_failed(1) assms(2)] by simp_all
    have re: "re = None" using remove_failed(5) assms(3) by auto
    have "tracked pool' = abs_remove (pkey newProf) pub (tracked pool2)"
      by (rule rollbackNew_tracked [OF remove_failed(3) [unfolded re] addPeerLocked_spec(1) [OF remove_failed(2) p1]])
    also have "tracked pool2 = abs_add (pkey newProf) pub psk (tracked pool)"
      using addPeerLocked_tracked [OF remove_failed(2) p1] getOrCreate_tracked [OF remove_failed(1) assms(2)] by simp
    finally show ?thesis
      using assms(4) [OF shared(4)] by (auto simp: abs_remove_def abs_add_def fun_eq_iff)
  qed auto
qed auto

end

interpretation host: pool_host "hostPoolOperations run" for run
proof
  fix name pub ip w peerRemoved err w'
  assume "op_cleanupPeerAfterFailedAdd (hostPoolOperations run) name pub ip w = ((peerRemoved, err), w')" "\<not> peerRemoved"
  then show "err \<noteq> None"
    by (auto simp: hostPoolOperations_def cleanupPeerAfterFailedAdd_def errors_Join_None_iff
        split: prod.splits sum.splits if_splits)
qed

section \<open>Histories of a pool\<close>

definition pool_fresh :: "Pool \<Rightarrow> bool" where
  "pool_fresh pool \<longleftrightarrow> ifaces pool = [] \<and> orphans pool = [] \<and> usedPorts pool = {}"

text \<open>
  The states a pool can be in: it starts as \<open>NewPool\<close> builds it, each step is one call of a method with
  arbitrary arguments, and the host may change in any way between two calls.
\<close>

inductive pool_reach :: "'w poolOperations \<Rightarrow> Pool \<Rightarrow> 'w \<Rightarrow> bool" for ops where
  start: "pool_fresh pool \<Longrightarrow> pool_reach ops pool w"
| environment: "pool_reach ops pool w \<Longrightarrow> pool_reach ops pool w'"
| add: "pool_reach ops pool w \<Longrightarrow> AddPeer ops profile requested pub psk ip pool w = (e, pool', w')
    \<Longrightarrow> pool_reach ops pool' w'"
| remove: "pool_reach ops pool w \<Longrightarrow> RemovePeer ops profile pub ip pool w = (e, pool', w')
    \<Longrightarrow> pool_reach ops pool' w'"
| migrate: "pool_reach ops pool w \<Longrightarrow>
    MigratePeer ops oldProf newProf requested pub psk ip pool w = (e, pool', w') \<Longrightarrow> pool_reach ops pool' w'"
| close: "pool_reach ops pool w \<Longrightarrow> Close ops pool w = (pool', w') \<Longrightarrow> pool_reach ops pool' w'"

lemma NewPool_fresh: "NewPool run mult cfg ifc key mx w = (Inr pool, w') \<Longrightarrow> pool_fresh pool"
  by (auto simp: NewPool_def pool_fresh_def Let_def split: prod.splits sum.splits option.splits)

lemma pool_fresh_inv: "pool_fresh pool \<Longrightarrow> pool_inv pool"
  by (simp add: pool_inv_def pool_fresh_def pool_size_def)

lemma pool_reach_inv: "pool_reach ops pool w \<Longrightarrow> pool_inv pool"
  by (induction rule: pool_reach.induct)
     (auto intro: pool_fresh_inv AddPeer_inv RemovePeer_inv MigratePeer_inv Close_spec(1))

lemma gm_distinct_map:
  assumes "gm_wf m" "\<And>k i k' i'. map_of m k = Some i \<Longrightarrow> map_of m k' = Some i' \<Longrightarrow> f i = f i' \<Longrightarrow> k = k'"
  shows "distinct (map (\<lambda>(_, i). f i) m)"
proof -
  have "inj_on (\<lambda>(_, i). f i) (set m)"
    using assms by (auto simp: inj_on_def) (metis map_of_eq_Some_iff option.inject)+
  moreover have "distinct m" using assms(1) by (simp add: distinct_map)
  ultimately show ?thesis by (simp add: distinct_map)
qed

section \<open>Properties\<close>

text \<open>C8. In every state a pool can reach, under any host and any failures: interfaces and orphaned
  interfaces have pairwise distinct names and listen ports, the table of used ports is exactly the
  set of their ports, each peer count is the number of tracked peers of an interface filed under its own
  profile key, and the configured limit on interfaces, orphans included, is respected.\<close>

theorem pool_accounting:
  assumes "pool_reach ops pool w"
  shows "distinct (InterfaceNames pool @ map fst (orphans pool))
    \<and> distinct (map (\<lambda>(_, i). ifPort i) (ifaces pool) @ map snd (orphans pool))
    \<and> usedPorts pool = set (map (\<lambda>(_, i). ifPort i) (ifaces pool) @ map snd (orphans pool))
    \<and> list_all (\<lambda>(k, i). peerCount i = int (length (peerPSKs i)) \<and> pkey (ifProfile i) = k) (ifaces pool)
    \<and> (maxIfaces pool > 0 \<longrightarrow> int (length (ifaces pool) + length (orphans pool)) \<le> maxIfaces pool)"
proof (intro conjI)
  note inv = pool_reach_inv [OF assms]
  note wf = pool_inv_wf [OF inv] and owf = pool_inv_orphans_wf [OF inv]
  have mem: "(k, i) \<in> set (ifaces pool) \<longleftrightarrow> map_of (ifaces pool) k = Some i"
    "(n, p) \<in> set (orphans pool) \<longleftrightarrow> map_of (orphans pool) n = Some p" for k i n p
    by (rule gm_mem_iff [OF wf], rule gm_mem_iff [OF owf])
  have "distinct (map (\<lambda>(_, i). ifName i) (ifaces pool))" "distinct (map (\<lambda>(_, i). ifPort i) (ifaces pool))"
    "distinct (map (\<lambda>(_, p). p) (orphans pool))"
    by (rule gm_distinct_map; use wf owf pool_inv_unique [OF inv] pool_inv_orphan_port [OF inv] in blast)+
  moreover have "ifName i \<noteq> n" "ifPort i \<noteq> p" if "(k, i) \<in> set (ifaces pool)" "(n, p) \<in> set (orphans pool)" for k i n p
    using pool_inv_orphan [OF inv that [unfolded mem]] by blast+
  then have "set (map (\<lambda>(_, i). ifName i) (ifaces pool)) \<inter> set (map fst (orphans pool)) = {}"
    "set (map (\<lambda>(_, i). ifPort i) (ifaces pool)) \<inter> set (map (\<lambda>(_, p). p) (orphans pool)) = {}"
    by fastforce+
  moreover have snd: "map snd (orphans pool) = map (\<lambda>(_, p). p) (orphans pool)" by (auto simp: snd_def)
  ultimately show "distinct (InterfaceNames pool @ map fst (orphans pool))"
    "distinct (map (\<lambda>(_, i). ifPort i) (ifaces pool) @ map snd (orphans pool))"
    unfolding InterfaceNames_def distinct_append snd using owf by blast+
  show "usedPorts pool = set (map (\<lambda>(_, i). ifPort i) (ifaces pool) @ map snd (orphans pool))"
    unfolding pool_inv_used [OF inv] by (auto simp: image_iff Bex_def split_paired_Ex mem, blast)
  show "list_all (\<lambda>(k, i). peerCount i = int (length (peerPSKs i)) \<and> pkey (ifProfile i) = k) (ifaces pool)"
    using pool_inv_iface [OF inv] by (auto simp: list_all_iff mem iface_ok_def)
  show "maxIfaces pool > 0 \<longrightarrow> int (length (ifaces pool) + length (orphans pool)) \<le> maxIfaces pool"
    using pool_inv_limit [OF inv] by (simp add: pool_size_def)
qed

text \<open>A host on which every command succeeds and one on which every command fails.\<close>

definition ok_run :: "unit run" where "ok_run args stdin w = (CmdOk [], w)"
definition bad_run :: "unit run" where "bad_run args stdin w = (CmdFail [] None ''exit status 2'', w)"

definition sample_profile :: Profile where
  "sample_profile = newProfile (take 32) ''2.0'' (sample_params 0) zero_key False"

definition sample_pool :: Pool where
  "sample_pool = \<lparr>pool_config = \<lparr>cfgAddress = ''10.0.0.1/24'', cfgNetwork = ''10.0.0.0/24'', cfgListenPort = 51820\<rparr>,
     privKey = zero_key, pubKey = zero_key, outIface = ''eth0'', ifaces = [], orphans = [], usedPorts = {},
     nextIndex = 0, maxIfaces = 2, masqAdded = False\<rparr>"

definition sample_iface :: iface where
  "sample_iface = \<lparr>ifName = ''awg0'', ifPort = 51820, ifProfile = sample_profile, peerCount = 1,
     peerPSKs = [(zero_key, None)]\<rparr>"

definition sample_pool1 :: Pool where
  "sample_pool1 = sample_pool\<lparr>ifaces := [(pkey sample_profile, sample_iface)], usedPorts := {51820},
     nextIndex := 1, masqAdded := True\<rparr>"

lemma sample_profile_valid: "profile_valid sample_profile"
  by (simp add: sample_profile_def profile_valid_def newProfile_def Let_def version_Valid_def version_consts)

lemma sample_pool_inv: "pool_inv sample_pool"
  by (rule pool_fresh_inv) (simp add: pool_fresh_def sample_pool_def)

lemmas host_eval = hostPoolOperations_def createInterface_def destroyInterface_def configureDevice_def
  configureInterfaceNetwork_def addPeerToInterface_def removePeerFromInterface_def
  removePeerOnlyFromInterface_def cleanupPeerAfterFailedAdd_def restorePeerAndRoute_def replacePeerRoute_def
  host_addMasquerade_def host_removeMasquerade_def setPeerOnInterface_def peerRouteExists_def
  exec_cmd_def exec_err_def then_do_def ok_run_def bad_run_def

lemma sample_add:
  "AddPeer (hostPoolOperations ok_run) sample_profile 0 zero_key None ''10.0.0.2'' sample_pool () = (None, sample_pool1, ())"
  by (simp add: AddPeer_def getOrCreateInterface_def create_iface_def addPeerLocked_def sample_profile_valid host_eval
      sample_pool_def sample_pool1_def sample_iface_def resolvePort_def ValidatePort_def next_free_port.simps param_consts
      trackPeerLocked_def set_iface_def Let_def go_eval)

lemma sample_pool1_inv: "pool_inv sample_pool1"
  by (rule AddPeer_inv [OF sample_add sample_pool_inv])

lemma sample_reach: "pool_reach (hostPoolOperations ok_run) sample_pool1 ()"
proof -
  have "pool_reach (hostPoolOperations ok_run) sample_pool ()"
    by (rule pool_reach.start) (simp add: pool_fresh_def sample_pool_def)
  then show ?thesis by (rule pool_reach.add [OF _ sample_add])
qed

theorem pool_accounting_witness:
  "usedPorts sample_pool1 = {51820} \<and> distinct (InterfaceNames sample_pool1 @ map fst (orphans sample_pool1))"
  using pool_accounting [OF sample_reach] by (simp add: sample_pool1_def sample_iface_def sample_pool_def)

text \<open>C16. AddPeer refines adding one entry to the peer table: when it succeeds, exactly this peer is
  tracked on exactly this profile with the given preshared key, and nothing else changes; the profile then
  has a port, the requested one if one was requested.\<close>

theorem AddPeer_refines:
  assumes "AddPeer ops profile requested pub psk ip pool w = (None, pool', w')" "pool_inv pool"
  shows "tracked pool' = abs_add (pkey profile) pub psk (tracked pool)
    \<and> (\<exists>p. PortForProfile pool' profile = Inr p \<and> (requested \<noteq> 0 \<longrightarrow> p = requested))"
  using assms
proof (cases rule: AddPeer_cases)
  case (add ifc pool1 w1)
  have "profile_valid profile" using assms(1) by (auto simp: AddPeer_def split: if_splits)
  moreover have "requested \<noteq> 0 \<longrightarrow> ifPort ifc = requested" using getOrCreate_spec [OF add(1) assms(2)] by simp
  moreover have "map_of (ifaces pool') (pkey profile) = Some (trackPeerLocked ifc pub psk)"
    using addPeerLocked_spec(3) [OF add(5,2,3)] by simp
  ultimately show ?thesis using AddPeer_tracked [OF assms] by (simp add: PortForProfile_def)
qed simp

theorem AddPeer_refines_witness:
  "tracked sample_pool1 (pkey sample_profile) zero_key = Some None \<and> PortForProfile sample_pool1 sample_profile = Inr 51820"
  using AddPeer_refines [OF sample_add sample_pool_inv]
  by (auto simp: abs_add_def PortForProfile_def sample_pool1_def sample_iface_def sample_profile_valid)

text \<open>RemovePeer refines removing one entry: on success exactly this peer is gone, and on every
  failure, a failed rollback included, the table is as before, so the caller can retry.\<close>

lemma RemovePeer_refines:
  assumes "RemovePeer ops profile pub ip pool w = (e, pool', w')" "pool_inv pool"
  shows "tracked pool' = (if e = None then abs_remove (pkey profile) pub (tracked pool) else tracked pool)"
  by (rule RemovePeer_tracked [OF assms])

lemma sample_remove:
  "RemovePeer (hostPoolOperations ok_run) sample_profile zero_key ''10.0.0.2'' sample_pool1 () =
     (None, sample_pool1\<lparr>ifaces := [], usedPorts := {}\<rparr>, ())"
  by (simp add: RemovePeer_def destroy_emptied_def destroyTrackedInterfaceLocked_def sample_profile_valid host_eval
      sample_pool_def sample_pool1_def sample_iface_def untrackPeerLocked_def set_iface_def Let_def)

text \<open>C17. MigratePeer refines moving one entry: on success the peer is tracked on the new profile and no
  longer on the old one, unless profile key and port are unchanged, when nothing happens.\<close>

theorem MigratePeer_refines:
  assumes "MigratePeer ops oldProf newProf requested pub psk ip pool w = (None, pool', w')" "pool_inv pool"
  shows "pool' = pool \<and> pkey oldProf = pkey newProf \<and> Port (params oldProf) = requested
    \<or> tracked pool' = abs_add (pkey newProf) pub psk (abs_remove (pkey oldProf) pub (tracked pool))"
  by (rule MigratePeer_table [OF assms])

lemma sample_migrate:
  "MigratePeer (hostPoolOperations ok_run) sample_profile sample_profile 40000 zero_key None ''10.0.0.2'' sample_pool1 () =
     (None, sample_pool1\<lparr>ifaces := [(pkey sample_profile, sample_iface\<lparr>ifName := ''awg1'', ifPort := 40000\<rparr>)],
                        usedPorts := {40000}, nextIndex := 2\<rparr>, ())"
  by (simp add: MigratePeer_def migrate_single_def destroy_emptied_def destroyTrackedInterfaceLocked_def sample_profile_valid
      host_eval sample_pool_def sample_pool1_def sample_iface_def untrackPeerLocked_def set_iface_def Let_def
      getOrCreateInterface_def create_iface_def addPeerLocked_def resolvePort_def ValidatePort_def param_consts
      trackPeerLocked_def go_eval)
     (simp add: sample_profile_def newProfile_def Let_def sample_params_def ApplyGeneratedParams_def zeroParams_def
       canonicalizeUnsignedRanges_def)

theorem MigratePeer_refines_witness:
  "tracked (sample_pool1\<lparr>ifaces := [(pkey sample_profile, sample_iface\<lparr>ifName := ''awg1'', ifPort := 40000\<rparr>)],
      usedPorts := {40000}, nextIndex := 2\<rparr>) =
   abs_add (pkey sample_profile) zero_key None (abs_remove (pkey sample_profile) zero_key (tracked sample_pool1))"
proof -
  have "Port (params sample_profile) \<noteq> 40000"
    by (simp add: sample_profile_def newProfile_def Let_def sample_params_def ApplyGeneratedParams_def zeroParams_def
        canonicalizeUnsignedRanges_def)
  then show ?thesis using MigratePeer_refines [OF sample_migrate sample_pool1_inv] by blast
qed

text \<open>AddPeer is atomic on a real host: however its commands fail, an error that does not report a
  failed rollback leaves the peer table exactly as it was.\<close>

lemma AddPeer_atomic:
  assumes "AddPeer (hostPoolOperations run) profile requested pub psk ip pool w = (Some err, pool', w')"
    and "pool_inv pool" "\<not> errors_is err ErrRollbackFailed"
  shows "tracked pool' = tracked pool"
  by (rule host.AddPeer_failure [OF assms])

lemma sample_add_failure:
  "\<exists>err pool'. AddPeer (hostPoolOperations bad_run) sample_profile 0 zero_key None ''10.0.0.2'' sample_pool () =
     (Some err, pool', ()) \<and> \<not> errors_is err ErrRollbackFailed"
  by (simp add: AddPeer_def getOrCreateInterface_def create_iface_def sample_profile_valid host_eval
      sample_pool_def resolvePort_def ValidatePort_def next_free_port.simps param_consts cleanup_incomplete_def Let_def go_eval)

text \<open>C9. MigratePeer is atomic on a real host, for a peer that is not already tracked on the new
  profile: an error that does not report a failed rollback leaves the peer on its old profile with its old
  preshared key, and every other peer where it was.\<close>

theorem MigratePeer_atomic:
  assumes "MigratePeer (hostPoolOperations run) oldProf newProf requested pub psk ip pool w = (Some err, pool', w')"
    and "pool_inv pool" "\<not> errors_is err ErrRollbackFailed"
    and "pkey oldProf \<noteq> pkey newProf \<Longrightarrow> tracked pool (pkey newProf) pub = None"
  shows "tracked pool' = tracked pool"
  using host.MigratePeer_failure [OF assms(1-3)] assms(4) by blast

lemma sample_migrate_failure:
  "\<exists>err pool'. MigratePeer (hostPoolOperations bad_run) sample_profile sample_profile 40000 zero_key None ''10.0.0.2''
     sample_pool1 () = (Some err, pool', ()) \<and> \<not> errors_is err ErrRollbackFailed"
  by (simp add: MigratePeer_def migrate_single_def destroy_emptied_def destroyTrackedInterfaceLocked_def sample_profile_valid
      host_eval sample_pool_def sample_pool1_def sample_iface_def untrackPeerLocked_def set_iface_def Let_def go_eval)
     (simp add: sample_profile_def newProfile_def Let_def sample_params_def ApplyGeneratedParams_def zeroParams_def
       canonicalizeUnsignedRanges_def)

theorem MigratePeer_atomic_witness:
  "\<exists>err pool'. MigratePeer (hostPoolOperations bad_run) sample_profile sample_profile 40000 zero_key None ''10.0.0.2''
     sample_pool1 () = (Some err, pool', ()) \<and> tracked pool' = tracked sample_pool1"
  using sample_migrate_failure MigratePeer_atomic [OF _ sample_pool1_inv] by metis



end
