(* ===== verification/Config.thy ===== *)
theory Config
  imports Uint16_Range Netip
begin

text \<open>
  The environment configuration of \<^verbatim>\<open>src/internal/config/config.go\<close>. The process environment is
  a function \<open>env\<close> from variable names to texts, empty when unset, as \<open>os.Getenv\<close> returns it.
  \<open>net.ParseCIDR\<close> is modelled on IPv4 text; for other text the parameter \<open>is_cidr6\<close> says
  whether it is a CIDR of another family, which decides between the two error messages of
  \<open>Load\<close>. (IPv4-mapped IPv6 text is not modelled.)

  The lemmas show what a loaded configuration guarantees to the other components, and that
  exactly the variables with strict parsers can make loading fail.
\<close>

section \<open>Model\<close>

type_synonym environment = "string \<Rightarrow> string"

record Config =
  cfg_APIToken :: string
  cfg_Address :: string
  cfg_Endpoint :: string
  cfg_ListenPort :: int
  cfg_HTTPPort :: int
  cfg_MTU :: int
  cfg_DNS :: string
  cfg_DataDir :: string
  cfg_Interface :: string
  cfg_DefaultProtocolVersion :: string
  cfg_AWG31MTU :: int
  cfg_AWG31PersistentKeepalive :: Uint16Range
  cfg_AWG31ContentPaddingAddition :: Uint16Range
  cfg_AWG31RekeyAfterTime :: Uint16Range
  cfg_AWG31RekeyTimeout :: Uint16Range
  cfg_AWG31RejectAfterTime :: Uint16Range
  cfg_AWG31KeepaliveTimeout :: Uint16Range
  cfg_AWG31MaxHandshakeAttempts :: Uint16Range
  cfg_AWG31RandomTrailers :: string
  cfg_AWG31DisableCookies :: string
  cfg_Jc :: int
  cfg_Jmin :: int
  cfg_Jmax :: int
  cfg_S3 :: int
  cfg_S4 :: int
  cfg_I1 :: string
  cfg_I2 :: string
  cfg_I3 :: string
  cfg_I4 :: string
  cfg_I5 :: string
  cfg_MaxInterfaces :: int

record awg31Settings =
  st_defaultProtocolVersion :: string
  st_mtu :: int
  st_persistentKeepalive :: Uint16Range
  st_contentPaddingAddition :: Uint16Range
  st_rekeyAfterTime :: Uint16Range
  st_rekeyTimeout :: Uint16Range
  st_rejectAfterTime :: Uint16Range
  st_keepaliveTimeout :: Uint16Range
  st_maxHandshakeAttempts :: Uint16Range
  st_randomTrailers :: string
  st_disableCookies :: string

definition envDefault :: "environment \<Rightarrow> string \<Rightarrow> string \<Rightarrow> string" where
  "envDefault env key fallback = (if env key \<noteq> [] then env key else fallback)"

definition envInt :: "environment \<Rightarrow> string \<Rightarrow> int \<Rightarrow> int" where
  "envInt env key fallback =
     (if env key = [] then fallback
      else (case parse_int64 (env key) of None \<Rightarrow> fallback | Some n \<Rightarrow> n))"

definition envProtocolVersion :: "environment \<Rightarrow> string \<Rightarrow> string \<Rightarrow> string res" where
  "envProtocolVersion env key fallback =
     (let value = envDefault env key fallback in
      if value \<in> {''2'', ''2.0''} then Inr ''2.0''
      else if value = ''3.1'' then Inr ''3.1''
      else Inl (Plain (key @ '' must be one of 2, 2.0, or 3.1'')))"

definition envMTU :: "environment \<Rightarrow> string \<Rightarrow> nat \<Rightarrow> int res" where
  "envMTU env key fallback =
     (case parseUint16Decimal (envDefault env key (dec_nat fallback)) of
        Inl _ \<Rightarrow> Inl (Plain (key @ '' must be an integer between 1280 and 1420''))
      | Inr value \<Rightarrow>
          if value < 1280 \<or> value > 1420
          then Inl (Plain (key @ '' must be an integer between 1280 and 1420''))
          else Inr (int (unat value)))"

definition envUint16Range :: "environment \<Rightarrow> string \<Rightarrow> string \<Rightarrow> Uint16Range res" where
  "envUint16Range env key fallback =
     (case ParseUint16Range (envDefault env key fallback) of
        Inl err \<Rightarrow> Inl (Wrap (key @ '' must be an unsigned 16-bit scalar, range, or off alias: '') err [])
      | Inr value \<Rightarrow> Inr (Canonical value))"

definition envToggle :: "environment \<Rightarrow> string \<Rightarrow> string \<Rightarrow> string res" where
  "envToggle env key fallback =
     (let value = envDefault env key fallback in
      if value \<in> {''on'', ''off''} then Inr value else Inl (Plain (key @ '' must be on or off'')))"

definition loadAWG31Settings :: "environment \<Rightarrow> awg31Settings res" where
  "loadAWG31Settings env =
     res_bind (envProtocolVersion env ''AWG_DEFAULT_PROTOCOL_VERSION'' ''3.1'') (\<lambda>v.
     res_bind (envMTU env ''AWG31_MTU'' 1280) (\<lambda>mtu.
     res_bind (envUint16Range env ''AWG31_PERSISTENT_KEEPALIVE'' ''25-35'') (\<lambda>pk.
     res_bind (envUint16Range env ''AWG31_CONTENT_PADDING_ADDITION'' ''10-100'') (\<lambda>cpa.
     res_bind (envUint16Range env ''AWG31_REKEY_AFTER_TIME'' ''100-120'') (\<lambda>rat.
     res_bind (envUint16Range env ''AWG31_REKEY_TIMEOUT'' ''3-7'') (\<lambda>rt.
     res_bind (envUint16Range env ''AWG31_REJECT_AFTER_TIME'' ''150-180'') (\<lambda>rjt.
     res_bind (envUint16Range env ''AWG31_KEEPALIVE_TIMEOUT'' ''5-15'') (\<lambda>kt.
     res_bind (envUint16Range env ''AWG31_MAX_HANDSHAKE_ATTEMPTS'' ''15-20'') (\<lambda>mha.
     res_bind (envToggle env ''AWG31_RANDOM_TRAILERS'' ''on'') (\<lambda>tr.
     res_bind (envToggle env ''AWG31_DISABLE_COOKIES'' ''off'') (\<lambda>dc.
       Inr \<lparr>st_defaultProtocolVersion = v, st_mtu = mtu, st_persistentKeepalive = pk,
            st_contentPaddingAddition = cpa, st_rekeyAfterTime = rat, st_rekeyTimeout = rt,
            st_rejectAfterTime = rjt, st_keepaliveTimeout = kt, st_maxHandshakeAttempts = mha,
            st_randomTrailers = tr, st_disableCookies = dc\<rparr>)))))))))))"

text \<open>
  \<open>net.ParseCIDR\<close> on IPv4 text: a dotted quad and a mask length, which unlike in
  \<open>netip.ParsePrefix\<close> may have leading zeros.
\<close>

definition ParseCIDR :: "string \<Rightarrow> prefix4 option" where
  "ParseCIDR s =
     (case split_on (CHR ''/'') s of
        [a, b] \<Rightarrow>
          (case ParseAddr4 a of
             None \<Rightarrow> None
           | Some ip \<Rightarrow> if b \<noteq> [] \<and> all_digits b \<and> dec_val b \<le> 32 then Some (ip, dec_val b) else None)
      | _ \<Rightarrow> None)"

definition config_of :: "environment \<Rightarrow> awg31Settings \<Rightarrow> Config" where
  "config_of env awg31 =
     \<lparr>cfg_APIToken = env ''AWG_API_TOKEN'', cfg_Address = env ''AWG_ADDRESS'', cfg_Endpoint = env ''AWG_ENDPOINT'',
      cfg_ListenPort = envInt env ''AWG_LISTEN_PORT'' 51820, cfg_HTTPPort = envInt env ''AWG_HTTP_PORT'' 7777,
      cfg_MTU = envInt env ''AWG_MTU'' 1420, cfg_DNS = envDefault env ''AWG_DNS'' ''1.1.1.1'',
      cfg_DataDir = envDefault env ''AWG_DATA_DIR'' ''/data'', cfg_Interface = env ''AWG_INTERFACE'',
      cfg_DefaultProtocolVersion = st_defaultProtocolVersion awg31, cfg_AWG31MTU = st_mtu awg31,
      cfg_AWG31PersistentKeepalive = st_persistentKeepalive awg31,
      cfg_AWG31ContentPaddingAddition = st_contentPaddingAddition awg31,
      cfg_AWG31RekeyAfterTime = st_rekeyAfterTime awg31, cfg_AWG31RekeyTimeout = st_rekeyTimeout awg31,
      cfg_AWG31RejectAfterTime = st_rejectAfterTime awg31, cfg_AWG31KeepaliveTimeout = st_keepaliveTimeout awg31,
      cfg_AWG31MaxHandshakeAttempts = st_maxHandshakeAttempts awg31,
      cfg_AWG31RandomTrailers = st_randomTrailers awg31, cfg_AWG31DisableCookies = st_disableCookies awg31,
      cfg_Jc = envInt env ''AWG_JC'' 5, cfg_Jmin = envInt env ''AWG_JMIN'' 50, cfg_Jmax = envInt env ''AWG_JMAX'' 1000,
      cfg_S3 = envInt env ''AWG_S3'' 0, cfg_S4 = envInt env ''AWG_S4'' 0,
      cfg_I1 = env ''AWG_I1'', cfg_I2 = env ''AWG_I2'', cfg_I3 = env ''AWG_I3'', cfg_I4 = env ''AWG_I4'',
      cfg_I5 = env ''AWG_I5'', cfg_MaxInterfaces = envInt env ''AWG_MAX_INTERFACES'' 0\<rparr>"

definition config_Load :: "(string \<Rightarrow> bool) \<Rightarrow> environment \<Rightarrow> Config res" where
  "config_Load is_cidr6 env =
     res_bind (loadAWG31Settings env) (\<lambda>awg31.
       let cfg = config_of env awg31 in
       if cfg_APIToken cfg = [] then Inl (Plain ''AWG_API_TOKEN is required'')
       else if cfg_Address cfg = [] then Inl (Plain ''AWG_ADDRESS is required'')
       else if cfg_Endpoint cfg = [] then Inl (Plain ''AWG_ENDPOINT is required'')
       else (case ParseCIDR (cfg_Address cfg) of
         Some _ \<Rightarrow> Inr cfg
       | None \<Rightarrow>
           if is_cidr6 (cfg_Address cfg)
           then Inl (Plain (''AWG_ADDRESS must be an IPv4 CIDR, got: '' @ cfg_Address cfg))
           else Inl (Wrap ''AWG_ADDRESS must be a valid CIDR (e.g. 10.0.0.1/24): ''
                       (Plain (''invalid CIDR address: '' @ cfg_Address cfg)) [])))"

text \<open>
  \<open>ServerIP\<close> and \<open>Network\<close> parse the address again and ignore the error, which \<open>Load\<close>
  has excluded.
\<close>

definition ServerIP :: "Config \<Rightarrow> addr4 option" where
  "ServerIP cfg = map_option fst (ParseCIDR (cfg_Address cfg))"

definition Network :: "Config \<Rightarrow> prefix4 option" where
  "Network cfg = map_option Masked (ParseCIDR (cfg_Address cfg))"

definition cfg_ranges :: "Config \<Rightarrow> Uint16Range list" where
  "cfg_ranges cfg = [cfg_AWG31PersistentKeepalive cfg, cfg_AWG31ContentPaddingAddition cfg, cfg_AWG31RekeyAfterTime cfg,
     cfg_AWG31RekeyTimeout cfg, cfg_AWG31RejectAfterTime cfg, cfg_AWG31KeepaliveTimeout cfg,
     cfg_AWG31MaxHandshakeAttempts cfg]"

section \<open>Lemmas\<close>

lemma envUint16Range_Inr:
  "envUint16Range env key fallback = Inr r \<Longrightarrow> IsCanonical r \<and> range_wf r"
  by (auto simp: envUint16Range_def Canonical_wf dest!: ParseUint16Range_range_wf split: sum.splits)

lemma envMTU_Inr: "envMTU env key fallback = Inr n \<Longrightarrow> n \<in> {1280..1420}"
  by (auto simp: envMTU_def word_less_def split: sum.splits if_splits)

lemma envToggle_Inr: "envToggle env key fallback = Inr v \<Longrightarrow> v \<in> {''on'', ''off''}"
  by (auto simp: envToggle_def Let_def split: if_splits)

lemma envProtocolVersion_Inr: "envProtocolVersion env key fallback = Inr v \<Longrightarrow> v \<in> {''2.0'', ''3.1''}"
  by (auto simp: envProtocolVersion_def Let_def split: if_splits)

lemma loadAWG31Settings_Inr:
  assumes "loadAWG31Settings env = Inr st"
  shows "st_defaultProtocolVersion st \<in> {''2.0'', ''3.1''}" "st_mtu st \<in> {1280..1420}"
    "\<forall>r \<in> {st_persistentKeepalive st, st_contentPaddingAddition st, st_rekeyAfterTime st, st_rekeyTimeout st,
       st_rejectAfterTime st, st_keepaliveTimeout st, st_maxHandshakeAttempts st}. IsCanonical r \<and> range_wf r"
    "st_randomTrailers st \<in> {''on'', ''off''}" "st_disableCookies st \<in> {''on'', ''off''}"
  using assms unfolding loadAWG31Settings_def res_bind_eq_Inr
  by (clarsimp dest!: envProtocolVersion_Inr envMTU_Inr envToggle_Inr envUint16Range_Inr)+

lemma ParseCIDR_bits: "ParseCIDR s = Some (ip, n) \<Longrightarrow> n \<le> 32"
  by (auto simp: ParseCIDR_def split: list.splits option.splits if_splits)

section \<open>Properties\<close>

text \<open>C24. A configuration that loads is usable: the token and the endpoint are set, the address is an IPv4
  CIDR, so that the server address and the network exist and the network contains the server, the default
  version is one of the two, the 3.1 MTU is in its bounds, the seven 3.1 ranges are well formed and canonical
  and the toggles are on or off.\<close>

theorem config_Load_guarantees:
  assumes "config_Load is_cidr6 env = Inr cfg"
  shows "cfg_APIToken cfg \<noteq> [] \<and> cfg_Endpoint cfg \<noteq> []
    \<and> (\<exists>ip net. ServerIP cfg = Some ip \<and> Network cfg = Some net \<and> snd net \<le> 32 \<and> Contains net ip)
    \<and> cfg_DefaultProtocolVersion cfg \<in> {''2.0'', ''3.1''} \<and> cfg_AWG31MTU cfg \<in> {1280..1420}
    \<and> list_all (\<lambda>r. IsCanonical r \<and> range_wf r) (cfg_ranges cfg)
    \<and> cfg_AWG31RandomTrailers cfg \<in> {''on'', ''off''} \<and> cfg_AWG31DisableCookies cfg \<in> {''on'', ''off''}"
proof -
  obtain st ip n where st: "loadAWG31Settings env = Inr st" and cfg: "cfg = config_of env st"
    and ne: "cfg_APIToken cfg \<noteq> []" "cfg_Endpoint cfg \<noteq> []" and cidr: "ParseCIDR (cfg_Address cfg) = Some (ip, n)"
    using assms by (auto simp: config_Load_def Let_def res_bind_eq_Inr split: if_splits option.splits)
  note S = loadAWG31Settings_Inr [OF st]
  have "ServerIP cfg = Some ip" "Network cfg = Some (Masked (ip, n))" "Contains (Masked (ip, n)) ip" "n \<le> 32"
    using cidr ParseCIDR_bits [OF cidr] by (simp_all add: ServerIP_def Network_def Contains_def Masked_def and.assoc)
  moreover have "snd (Masked (ip, n)) = n" by (simp add: Masked_def)
  moreover have "list_all (\<lambda>r. IsCanonical r \<and> range_wf r) (cfg_ranges cfg)"
    using S(3) by (simp add: cfg cfg_ranges_def config_of_def)
  moreover have "cfg_DefaultProtocolVersion cfg = st_defaultProtocolVersion st" "cfg_AWG31MTU cfg = st_mtu st"
    "cfg_AWG31RandomTrailers cfg = st_randomTrailers st" "cfg_AWG31DisableCookies cfg = st_disableCookies st"
    by (simp_all add: cfg config_of_def)
  ultimately show ?thesis using ne S by auto
qed

text \<open>An environment with the three required variables.\<close>

definition sample_env :: environment where
  "sample_env k = (if k = ''AWG_API_TOKEN'' then ''secret'' else if k = ''AWG_ADDRESS'' then ''10.0.0.1/24''
     else if k = ''AWG_ENDPOINT'' then ''vpn.example.org'' else [])"

definition span :: "nat \<Rightarrow> nat \<Rightarrow> Uint16Range" where
  "span a b = \<lparr>kind = uint16RangeSpan, range_start = of_nat a, range_end = of_nat b\<rparr>"

definition sample_settings :: awg31Settings where
  "sample_settings = \<lparr>st_defaultProtocolVersion = ''3.1'', st_mtu = 1280,
     st_persistentKeepalive = span 25 35, st_contentPaddingAddition = span 10 100,
     st_rekeyAfterTime = span 100 120, st_rekeyTimeout = span 3 7, st_rejectAfterTime = span 150 180,
     st_keepaliveTimeout = span 5 15, st_maxHandshakeAttempts = span 15 20,
     st_randomTrailers = ''on'', st_disableCookies = ''off''\<rparr>"

definition sample_cfg :: Config where
  "sample_cfg = config_of sample_env sample_settings"

lemma sample_cidr: "ParseCIDR ''10.0.0.1/24'' = Some (167772161, 24)"
  by (simp add: ParseCIDR_def ParseAddr4_def valid_octet_def no_leading_zero_def octets_addr_def go_eval)

lemma sample_load: "config_Load is_cidr6 sample_env = Inr sample_cfg"
proof -
  have "loadAWG31Settings sample_env = Inr sample_settings"
    by (simp add: loadAWG31Settings_def envProtocolVersion_def envMTU_def envUint16Range_def envToggle_def envDefault_def
        sample_env_def sample_settings_def span_def ParseUint16Range_def parseUint16Decimal_def Canonical_def IsCanonical_def
        go_eval)
  moreover have "cfg_Address sample_cfg = ''10.0.0.1/24''" "cfg_APIToken sample_cfg \<noteq> []" "cfg_Endpoint sample_cfg \<noteq> []"
    by (simp_all add: sample_cfg_def config_of_def sample_env_def)
  ultimately show ?thesis by (simp add: config_Load_def sample_cidr sample_cfg_def [symmetric])
qed

theorem config_Load_guarantees_witness:
  "\<exists>net. Network sample_cfg = Some net \<and> Contains net 167772161"
proof -
  have "ServerIP sample_cfg = Some 167772161"
    by (simp add: ServerIP_def sample_cfg_def config_of_def sample_env_def sample_cidr)
  then show ?thesis using config_Load_guarantees [OF sample_load] by auto
qed

end
