(* ===== verification/Hex.thy ===== *)
theory Hex
  imports Base64
begin

text \<open>
  \<open>encoding/hex\<close>: two lower-case digits per byte, as \<open>hex.EncodeToString\<close> writes them and
  \<open>hex.DecodeString\<close> reads them (in either case). Interpreted as a codec.
\<close>

definition hex_digit :: "nat \<Rightarrow> char" where
  "hex_digit n = (if n < 10 then char_of (48 + n) else char_of (87 + n))"

definition hex_val :: "char \<Rightarrow> nat option" where
  "hex_val c =
     (let v = (of_char c :: nat) in
      if 48 \<le> v \<and> v \<le> 57 then Some (v - 48)
      else if 97 \<le> v \<and> v \<le> 102 then Some (v - 87)
      else if 65 \<le> v \<and> v \<le> 70 then Some (v - 55)
      else None)"

definition hex_encode :: "byte list \<Rightarrow> string" where
  "hex_encode bs = concat (map (\<lambda>b. [hex_digit (unat b div 16), hex_digit (unat b mod 16)]) bs)"

fun hex_decode :: "string \<Rightarrow> byte list option" where
  "hex_decode [] = Some []"
| "hex_decode [c] = None"
| "hex_decode (c # d # s) =
     (case (hex_val c, hex_val d, hex_decode s) of
        (Some x, Some y, Some bs) \<Rightarrow> Some (of_nat (x * 16 + y) # bs)
      | _ \<Rightarrow> None)"

definition is_lower_hex :: "char \<Rightarrow> bool" where
  "is_lower_hex c = (let v = (of_char c :: nat) in 48 \<le> v \<and> v \<le> 57 \<or> 97 \<le> v \<and> v \<le> 102)"

lemma hex_digit_props:
  assumes "n < 16"
  shows "hex_val (hex_digit n) = Some n" "is_lower_hex (hex_digit n)"
  using assms by (auto simp: hex_val_def hex_digit_def is_lower_hex_def)

lemma unat_byte_less: "unat (b :: byte) < 256"
  using unsigned_less [of b, where ?'a = nat] by simp

lemma hex_decode_encode [simp]: "hex_decode (hex_encode bs) = Some bs"
proof (induction bs)
  case (Cons b bs)
  have "unat b div 16 < 16" "unat b mod 16 < 16" using unat_byte_less [of b] by auto
  moreover have "of_nat (unat b div 16 * 16 + unat b mod 16) = b" by simp
  ultimately show ?case using Cons by (simp add: hex_encode_def hex_digit_props)
qed (simp add: hex_encode_def)

lemma length_hex_encode [simp]: "length (hex_encode bs) = 2 * length bs"
  by (induction bs) (simp_all add: hex_encode_def)

lemma hex_encode_Nil_iff: "hex_encode bs = [] \<longleftrightarrow> bs = []"
  by (metis length_0_conv length_hex_encode mult_eq_0_iff zero_neq_numeral)

lemma hex_encode_lower: "list_all is_lower_hex (hex_encode bs)"
proof (induction bs)
  case (Cons b bs)
  have "unat b div 16 < 16" "unat b mod 16 < 16" using unat_byte_less [of b] by auto
  with Cons show ?case by (simp add: hex_encode_def hex_digit_props)
qed (simp add: hex_encode_def)

interpretation hex: codec hex_encode hex_decode "\<lambda>_. True"
  by unfold_locales simp

text \<open>A text of lower-case digits is the encoding of the bytes it decodes to.\<close>

lemma hex_val_lower: "is_lower_hex c \<Longrightarrow> \<exists>x < 16. hex_val c = Some x \<and> hex_digit x = c"
  by (auto simp: is_lower_hex_def hex_val_def hex_digit_def Let_def)

lemma hex_decode_lower:
  assumes "list_all is_lower_hex s" "even (length s)"
  shows "\<exists>bs. hex_decode s = Some bs \<and> hex_encode bs = s"
  using assms
proof (induction s rule: hex_decode.induct)
  case (3 c d s)
  from 3 obtain bs where bs: "hex_decode s = Some bs" "hex_encode bs = s" by auto
  obtain x y where xy: "x < 16" "hex_val c = Some x" "hex_digit x = c" "y < 16" "hex_val d = Some y" "hex_digit y = d"
    using "3.prems"(1) hex_val_lower [of c] hex_val_lower [of d] by auto
  have "unat (of_nat (x * 16 + y) :: byte) = x * 16 + y"
    using xy by (simp add: unat_of_nat del: of_nat_add of_nat_mult)
  with bs xy show ?case by (simp add: hex_encode_def del: of_nat_add of_nat_mult)
qed (simp_all add: hex_encode_def)

end
