(* ===== verification/Go_Path.thy ===== *)
theory Go_Path
  imports Go_Prelude
begin

text \<open>
  Lexical file paths as Go's \<^verbatim>\<open>path/filepath\<close> handles them on Unix: \<open>Clean\<close>, \<open>Join\<close> of a directory and a name, and
  \<open>Dir\<close>. A name joined to a directory keeps the directory as a prefix that does not depend on the name.
\<close>

text \<open>One element of a path: empty elements and dots go, two dots remove the element before them.\<close>

definition path_step :: "bool \<Rightarrow> string \<Rightarrow> string list \<Rightarrow> string list" where
  "path_step rooted e es =
     (if e = [] \<or> e = ''.'' then es
      else if e = ''..'' then
        (if es \<noteq> [] \<and> List.last es \<noteq> ''..'' then butlast es else if rooted then es else es @ [e])
      else es @ [e])"

definition path_rooted :: "string \<Rightarrow> bool" where
  "path_rooted p = has_prefix p ''/''"

definition path_elems :: "string \<Rightarrow> string list" where
  "path_elems p = fold (path_step (path_rooted p)) (split_on (CHR ''/'') p) []"

definition filepath_Clean :: "string \<Rightarrow> string" where
  "filepath_Clean p =
     (let s = (if path_rooted p then ''/'' else []) @ join_str ''/'' (path_elems p) in if s = [] then ''.'' else s)"

definition filepath_Join :: "string \<Rightarrow> string \<Rightarrow> string" where
  "filepath_Join dir name =
     (if dir \<noteq> [] then filepath_Clean (dir @ ''/'' @ name) else if name \<noteq> [] then filepath_Clean name else [])"

definition filepath_Dir :: "string \<Rightarrow> string" where
  "filepath_Dir p = filepath_Clean (rev (dropWhile (\<lambda>c. c \<noteq> CHR ''/'') (rev p)))"

section \<open>Names in a directory\<close>

text \<open>What stands before every name in a directory.\<close>

definition path_base :: "string \<Rightarrow> string" where
  "path_base dir = (if path_rooted dir then ''/'' else []) @ concat (map (\<lambda>e. e @ ''/'') (path_elems dir))"

definition file_name :: "string \<Rightarrow> bool" where
  "file_name n \<longleftrightarrow> n \<noteq> [] \<and> n \<noteq> ''.'' \<and> n \<noteq> ''..'' \<and> CHR ''/'' \<notin> set n"

lemma split_on_sep: "split_on c (s @ c # t) = split_on c s @ split_on c t"
proof (induction s)
  case (Cons x s)
  then show ?case by (cases "split_on c s") auto
qed simp

lemma join_str_concat: "join_str sep (es @ [n]) = concat (map (\<lambda>e. e @ sep) es) @ n"
proof (induction es)
  case (Cons e es)
  then show ?case by (cases es) simp_all
qed simp


lemma Clean_name:
  assumes "path_elems p = es @ [n]"
  shows "filepath_Clean p = (if path_rooted p then ''/'' else []) @ concat (map (\<lambda>e. e @ ''/'') es) @ n \<or> n = []"
  using join_str_concat [of "''/''" es n] by (auto simp: filepath_Clean_def assms Let_def)

lemma Join_name:
  assumes "file_name n"
  shows "filepath_Join dir n = path_base dir @ n"
proof -
  have n: "n \<noteq> []" "n \<noteq> ''.''" "n \<noteq> ''..''" "CHR ''/'' \<notin> set n" using assms unfolding file_name_def by blast+
  have step: "path_step r n es = es @ [n]" for r es unfolding path_step_def using n(1-3) by (simp only: if_False simp_thms)
  have split: "split_on (CHR ''/'') n = [n]" by (rule split_on_no_sep [OF n(4)])
  show ?thesis
  proof (cases "dir = []")
    case True
    have r: "\<not> path_rooted n" "\<not> path_rooted []"
      using n(4) by (auto simp: path_rooted_def has_prefix_iff)
    have "path_elems n = [] @ [n]" "path_elems [] = []"
      by (simp_all add: path_elems_def step split r, simp add: path_step_def)
    then show ?thesis using Clean_name [of n "[]" n] True n(1) r by (simp add: filepath_Join_def path_base_def)
  next
    case False
    have r: "path_rooted (dir @ ''/'' @ n) = path_rooted dir"
      using False by (cases dir) (simp_all add: path_rooted_def)
    have "path_elems (dir @ ''/'' @ n) = path_elems dir @ [n]"
      using split_on_sep [of "CHR ''/''" dir n] r by (simp add: path_elems_def step split)
    from Clean_name [OF this] show ?thesis using False n(1) r by (simp add: filepath_Join_def path_base_def)
  qed
qed

end
