(* ===== verification/Storage.thy ===== *)
theory Storage
  imports Dns Routing Profile Hex Go_Path
begin

text \<open>
  The persistent state of \<^verbatim>\<open>src/internal/clients/storage.go\<close>: its records, the file they are kept
  in, and the defaults of a fresh installation. A file holds a JSON document; how \<open>encoding/json\<close>
  renders a document as text is not modelled, how it maps documents to Go structures is: keys match a
  field in any letter case, later entries overwrite earlier ones, null leaves strings and numbers as
  they are and sets pointers to nil. The order in which the keys of a map are written is left open.

  The operating system is a parameter: \<open>os_ops\<close> creates directories, writes, renames and reads files
  on a host state. Random bytes are the lists that the generators consume.
\<close>

section \<open>Records\<close>

record ClientData =
  cd_ID :: string
  cd_ProtocolVersion :: ProtocolVersion
  cd_PrivateKey :: string
  cd_PublicKey :: string
  cd_PresharedKey :: string
  cd_Address :: string
  cd_LANGroupID :: string
  cd_CreatedAt :: string
  cd_AWGParams :: "AWGParams option"
  cd_Routing :: "Routing option"
  cd_headerKeyID :: string

record HeaderKeyData =
  hk_HeaderProtectionKey :: string

record AWG31Storage =
  as_DefaultHeaderKeyID :: string
  as_GeneratedParams :: "GeneratedParamsV31 option"
  as_HeaderKeys :: "(string, HeaderKeyData) gmap option"

record StorageData =
  sd_ServerPrivateKey :: string
  sd_GeneratedParams :: "GeneratedParams option"
  sd_Clients :: "ClientData list"
  sd_AWG31 :: "AWG31Storage option"
  sd_needsNormalization :: bool

definition zeroStorageData :: StorageData where
  "zeroStorageData = \<lparr>sd_ServerPrivateKey = [], sd_GeneratedParams = None, sd_Clients = [], sd_AWG31 = None,
     sd_needsNormalization = False\<rparr>"

section \<open>Copies\<close>

text \<open>
  The only value that a copy changes is an empty list of DNS servers that is not nil: the copy has a
  nil list.
\<close>

definition cloneStoredAWGParams :: "AWGParams \<Rightarrow> AWGParams" where
  "cloneStoredAWGParams p =
     p\<lparr>DNSServers := (if slice (DNSServers p) = [] then None else Some (slice (DNSServers p)))\<rparr>"

definition cloneClientData :: "ClientData \<Rightarrow> ClientData" where
  "cloneClientData c = c\<lparr>cd_AWGParams := map_option cloneStoredAWGParams (cd_AWGParams c)\<rparr>"

definition cloneStorageData :: "StorageData \<Rightarrow> StorageData" where
  "cloneStorageData d = d\<lparr>sd_Clients := map cloneClientData (sd_Clients d)\<rparr>"

section \<open>Documents\<close>

definition obj_fields :: "(string \<times> json option) list \<Rightarrow> (string \<times> json) list" where
  "obj_fields table = List.map_filter (\<lambda>(k, v). map_option (Pair k) v) table"

text \<open>The field encoders; the names with \<open>o\<close> have the tag \<open>omitempty\<close>.\<close>

definition jstr :: "string \<Rightarrow> json option" where "jstr s = Some (JStr s)"
definition jint :: "int \<Rightarrow> json option" where "jint n = Some (JNum (dec_int n))"
definition ojstr :: "string \<Rightarrow> json option" where "ojstr s = (if s = [] then None else Some (JStr s))"
definition ojint :: "int \<Rightarrow> json option" where "ojint n = (if n = 0 then None else Some (JNum (dec_int n)))"
definition ojstrs :: "string list \<Rightarrow> json option" where
  "ojstrs xs = (if xs = [] then None else Some (JArr (map JStr xs)))"

lemmas field_encoders = jstr_def jint_def ojstr_def ojint_def ojstrs_def

definition params_table :: "AWGParams \<Rightarrow> (string \<times> json option) list" where
  "params_table p =
     [(''port'', ojint (Port p)), (''client_listen_port'', ojint (ClientListenPort p)), (''mtu'', ojint (MTU p)),
      (''dns'', ojstr (DNS p)), (''dns_mode'', ojstr (DNSMode p)), (''dns_servers'', ojstrs (slice (DNSServers p))),
      (''persistent_keepalive'', map_option range_MarshalJSON (PersistentKeepalive p)),
      (''content_padding_addition'', map_option range_MarshalJSON (ContentPaddingAddition p)),
      (''rekey_after_time'', map_option range_MarshalJSON (RekeyAfterTime p)),
      (''rekey_timeout'', map_option range_MarshalJSON (RekeyTimeout p)),
      (''reject_after_time'', map_option range_MarshalJSON (RejectAfterTime p)),
      (''keepalive_timeout'', map_option range_MarshalJSON (KeepaliveTimeout p)),
      (''max_handshake_attempts'', map_option range_MarshalJSON (MaxHandshakeAttempts p)),
      (''random_trailers'', ojstr (RandomTrailers p)), (''disable_cookies'', ojstr (DisableCookies p)),
      (''jc'', ojint (Jc p)), (''jmin'', ojint (Jmin p)), (''jmax'', ojint (Jmax p)),
      (''s1'', ojint (S1 p)), (''s2'', ojint (S2 p)), (''s3'', ojint (S3 p)), (''s4'', ojint (S4 p)),
      (''h1'', ojstr (H1 p)), (''h2'', ojstr (H2 p)), (''h3'', ojstr (H3 p)), (''h4'', ojstr (H4 p)),
      (''i1'', ojstr (I1 p)), (''i2'', ojstr (I2 p)), (''i3'', ojstr (I3 p)), (''i4'', ojstr (I4 p)),
      (''i5'', ojstr (I5 p))]"

definition params_json :: "AWGParams \<Rightarrow> json" where
  "params_json p = JObj (obj_fields (params_table p))"

definition routing_table :: "Routing \<Rightarrow> (string \<times> json option) list" where
  "routing_table r = [(''mode'', jstr (Mode r)), (''allowed_ips'', ojstrs (AllowedIPs r)),
     (''excluded_ips'', ojstrs (ExcludedIPs r))]"

definition routing_json :: "Routing \<Rightarrow> json" where
  "routing_json r = JObj (obj_fields (routing_table r))"

definition generated_table :: "GeneratedParams \<Rightarrow> (string \<times> json option) list" where
  "generated_table g = [(''h1'', jstr (gH1 g)), (''h2'', jstr (gH2 g)), (''h3'', jstr (gH3 g)),
     (''h4'', jstr (gH4 g)), (''s1'', jint (gS1 g)), (''s2'', jint (gS2 g))]"

definition generated31_table :: "GeneratedParamsV31 \<Rightarrow> (string \<times> json option) list" where
  "generated31_table g = [(''h1'', jstr (gH1 g)), (''h2'', jstr (gH2 g)), (''h3'', jstr (gH3 g)),
     (''h4'', jstr (gH4 g)), (''s1'', jint (gS1 g)), (''s2'', jint (gS2 g)), (''s3'', jint (gS3 g)),
     (''s4'', jint (gS4 g))]"

definition header_key_json :: "HeaderKeyData \<Rightarrow> json" where
  "header_key_json k = JObj [(''header_protection_key'', JStr (hk_HeaderProtectionKey k))]"

definition awg31_table :: "AWG31Storage \<Rightarrow> (string \<times> json option) list" where
  "awg31_table s =
     [(''default_header_key_id'', jstr (as_DefaultHeaderKeyID s)),
      (''generated_params'', Some (case as_GeneratedParams s of None \<Rightarrow> JNull
         | Some g \<Rightarrow> JObj (obj_fields (generated31_table g)))),
      (''header_keys'', Some (case as_HeaderKeys s of None \<Rightarrow> JNull
         | Some m \<Rightarrow> JObj (map (\<lambda>(id, k). (id, header_key_json k)) m)))]"

definition client_table :: "ClientData \<Rightarrow> (string \<times> json option) list" where
  "client_table c =
     [(''id'', jstr (cd_ID c)), (''protocol_version'', ojstr (cd_ProtocolVersion c)),
      (''private_key'', jstr (cd_PrivateKey c)), (''public_key'', jstr (cd_PublicKey c)),
      (''preshared_key'', ojstr (cd_PresharedKey c)), (''address'', jstr (cd_Address c)),
      (''lan_group_id'', jstr (cd_LANGroupID c)), (''created_at'', jstr (cd_CreatedAt c)),
      (''awg_params'', map_option params_json (cd_AWGParams c)),
      (''routing'', map_option routing_json (cd_Routing c)), (''header_key_id'', ojstr (cd_headerKeyID c))]"

definition storage_table :: "StorageData \<Rightarrow> (string \<times> json option) list" where
  "storage_table d =
     [(''server_private_key'', jstr (sd_ServerPrivateKey d)),
      (''generated_params'', map_option (\<lambda>g. JObj (obj_fields (generated_table g))) (sd_GeneratedParams d)),
      (''clients'', Some (JArr (map (\<lambda>c. JObj (obj_fields (client_table c))) (sd_Clients d)))),
      (''awg_31'', map_option (\<lambda>s. JObj (obj_fields (awg31_table s))) (sd_AWG31 d))]"

definition storage_MarshalJSON :: "StorageData \<Rightarrow> json" where
  "storage_MarshalJSON d = JObj (obj_fields (storage_table d))"

text \<open>Two values have the same persisted form.\<close>

definition persistedValueChanged :: "('a \<Rightarrow> json) \<Rightarrow> 'a option \<Rightarrow> 'a option \<Rightarrow> bool" where
  "persistedValueChanged marshal before after =
     (case_option JNull marshal before \<noteq> case_option JNull marshal after)"

section \<open>Decoding\<close>

definition type_error :: go_error where
  "type_error = Plain ''json: cannot unmarshal into Go struct field''"

text \<open>\<open>dec_field step name kvs\<close> runs \<open>step\<close> for every entry that matches a field, in order.\<close>

fun dec_field :: "(json \<Rightarrow> 'a \<Rightarrow> 'a res) \<Rightarrow> string \<Rightarrow> (string \<times> json) list \<Rightarrow> 'a \<Rightarrow> 'a res" where
  "dec_field step name [] acc = Inr acc"
| "dec_field step name ((k, v) # kvs) acc =
     (if EqualFold k name then res_bind (step v acc) (dec_field step name kvs) else dec_field step name kvs acc)"

definition dec_str :: "json \<Rightarrow> string \<Rightarrow> string res" where
  "dec_str v acc = (case v of JStr s \<Rightarrow> Inr s | JNull \<Rightarrow> Inr acc | _ \<Rightarrow> Inl type_error)"

definition dec_num :: "json \<Rightarrow> int \<Rightarrow> int res" where
  "dec_num v acc =
     (case v of JNum s \<Rightarrow> (case parse_int64 s of None \<Rightarrow> Inl type_error | Some n \<Rightarrow> Inr n)
      | JNull \<Rightarrow> Inr acc | _ \<Rightarrow> Inl type_error)"

fun dec_elems :: "(json \<Rightarrow> 'a res) \<Rightarrow> json list \<Rightarrow> 'a list res" where
  "dec_elems f [] = Inr []"
| "dec_elems f (v # vs) = res_bind (f v) (\<lambda>x. res_bind (dec_elems f vs) (\<lambda>xs. Inr (x # xs)))"

definition dec_strs :: "json \<Rightarrow> string list option \<Rightarrow> string list option res" where
  "dec_strs v acc =
     (case v of JArr vs \<Rightarrow> map_sum id Some (dec_elems (\<lambda>v. dec_str v []) vs)
      | JNull \<Rightarrow> Inr None | _ \<Rightarrow> Inl type_error)"

definition dec_ptr :: "(json \<Rightarrow> 'a res) \<Rightarrow> json \<Rightarrow> 'a option \<Rightarrow> 'a option res" where
  "dec_ptr f v acc = (case v of JNull \<Rightarrow> Inr None | _ \<Rightarrow> map_sum id Some (f v))"

definition dec_struct :: "((string \<times> json) list \<Rightarrow> 'a res) \<Rightarrow> json \<Rightarrow> 'a res" where
  "dec_struct f v = (case v of JObj kvs \<Rightarrow> f kvs | JNull \<Rightarrow> f [] | _ \<Rightarrow> Inl type_error)"

definition decode_plain_fields :: "(string \<times> json) list \<Rightarrow> AWGParams res" where
  "decode_plain_fields kvs =
     (let num = (\<lambda>name. dec_field dec_num name kvs 0); str = (\<lambda>name. dec_field dec_str name kvs []);
          rng = (\<lambda>name. dec_field (dec_ptr range_UnmarshalJSON) name kvs None) in
      res_bind (num ''port'') (\<lambda>port. res_bind (num ''client_listen_port'') (\<lambda>clp. res_bind (num ''mtu'') (\<lambda>mtu.
      res_bind (str ''dns'') (\<lambda>dns. res_bind (str ''dns_mode'') (\<lambda>mode.
      res_bind (dec_field dec_strs ''dns_servers'' kvs None) (\<lambda>servers.
      res_bind (rng ''persistent_keepalive'') (\<lambda>pk. res_bind (rng ''content_padding_addition'') (\<lambda>cpa.
      res_bind (rng ''rekey_after_time'') (\<lambda>rat. res_bind (rng ''rekey_timeout'') (\<lambda>rt.
      res_bind (rng ''reject_after_time'') (\<lambda>rjt. res_bind (rng ''keepalive_timeout'') (\<lambda>kt.
      res_bind (rng ''max_handshake_attempts'') (\<lambda>mha.
      res_bind (str ''random_trailers'') (\<lambda>tr. res_bind (str ''disable_cookies'') (\<lambda>dc.
      res_bind (num ''jc'') (\<lambda>jc. res_bind (num ''jmin'') (\<lambda>jmin. res_bind (num ''jmax'') (\<lambda>jmax.
      res_bind (num ''s1'') (\<lambda>s1. res_bind (num ''s2'') (\<lambda>s2. res_bind (num ''s3'') (\<lambda>s3. res_bind (num ''s4'') (\<lambda>s4.
      res_bind (str ''h1'') (\<lambda>h1. res_bind (str ''h2'') (\<lambda>h2. res_bind (str ''h3'') (\<lambda>h3. res_bind (str ''h4'') (\<lambda>h4.
      res_bind (str ''i1'') (\<lambda>i1. res_bind (str ''i2'') (\<lambda>i2. res_bind (str ''i3'') (\<lambda>i3. res_bind (str ''i4'') (\<lambda>i4.
      res_bind (str ''i5'') (\<lambda>i5.
        Inr \<lparr>Port = port, ClientListenPort = clp, MTU = mtu, DNS = dns, DNSMode = mode, DNSServers = servers,
             dnsSet = False, dnsModeSet = False, dnsServersSet = False,
             PersistentKeepalive = pk, ContentPaddingAddition = cpa, RekeyAfterTime = rat,
             RekeyTimeout = rt, RejectAfterTime = rjt, KeepaliveTimeout = kt, MaxHandshakeAttempts = mha,
             RandomTrailers = tr, DisableCookies = dc, Jc = jc, Jmin = jmin, Jmax = jmax,
             S1 = s1, S2 = s2, S3 = s3, S4 = s4, H1 = h1, H2 = h2, H3 = h3, H4 = h4,
             I1 = i1, I2 = i2, I3 = i3, I4 = i4, I5 = i5\<rparr>))))))))))))))))))))))))))))))))"

definition decode_params :: "json \<Rightarrow> AWGParams res" where
  "decode_params = params_UnmarshalJSON (dec_struct decode_plain_fields)"

definition decode_routing :: "json \<Rightarrow> Routing res" where
  "decode_routing = dec_struct (\<lambda>kvs.
     res_bind (dec_field dec_str ''mode'' kvs []) (\<lambda>m.
     res_bind (dec_field dec_strs ''allowed_ips'' kvs None) (\<lambda>allowed.
     res_bind (dec_field dec_strs ''excluded_ips'' kvs None) (\<lambda>excluded.
       Inr \<lparr>Mode = m, AllowedIPs = slice allowed, ExcludedIPs = slice excluded\<rparr>))))"

definition decode_generated :: "json \<Rightarrow> GeneratedParams res" where
  "decode_generated = dec_struct (\<lambda>kvs.
     let num = (\<lambda>name. dec_field dec_num name kvs 0); str = (\<lambda>name. dec_field dec_str name kvs []) in
     res_bind (str ''h1'') (\<lambda>h1. res_bind (str ''h2'') (\<lambda>h2. res_bind (str ''h3'') (\<lambda>h3. res_bind (str ''h4'') (\<lambda>h4.
     res_bind (num ''s1'') (\<lambda>s1. res_bind (num ''s2'') (\<lambda>s2.
       Inr \<lparr>gH1 = h1, gH2 = h2, gH3 = h3, gH4 = h4, gS1 = s1, gS2 = s2\<rparr>)))))))"

definition decode_generated31 :: "json \<Rightarrow> GeneratedParamsV31 res" where
  "decode_generated31 = dec_struct (\<lambda>kvs.
     let num = (\<lambda>name. dec_field dec_num name kvs 0); str = (\<lambda>name. dec_field dec_str name kvs []) in
     res_bind (str ''h1'') (\<lambda>h1. res_bind (str ''h2'') (\<lambda>h2. res_bind (str ''h3'') (\<lambda>h3. res_bind (str ''h4'') (\<lambda>h4.
     res_bind (num ''s1'') (\<lambda>s1. res_bind (num ''s2'') (\<lambda>s2. res_bind (num ''s3'') (\<lambda>s3. res_bind (num ''s4'') (\<lambda>s4.
       Inr \<lparr>gH1 = h1, gH2 = h2, gH3 = h3, gH4 = h4, gS1 = s1, gS2 = s2, gS3 = s3, gS4 = s4\<rparr>)))))))))"

definition decode_header_key :: "json \<Rightarrow> HeaderKeyData res" where
  "decode_header_key = dec_struct (\<lambda>kvs.
     res_bind (dec_field dec_str ''header_protection_key'' kvs []) (\<lambda>k. Inr \<lparr>hk_HeaderProtectionKey = k\<rparr>))"

fun dec_entries :: "(json \<Rightarrow> 'a res) \<Rightarrow> (string \<times> json) list \<Rightarrow> (string, 'a) gmap \<Rightarrow> (string, 'a) gmap res" where
  "dec_entries f [] m = Inr m"
| "dec_entries f ((k, v) # kvs) m = res_bind (f v) (\<lambda>x. dec_entries f kvs (AList.update k x m))"

definition dec_map :: "(json \<Rightarrow> 'a res) \<Rightarrow> json \<Rightarrow> (string, 'a) gmap option \<Rightarrow> (string, 'a) gmap option res" where
  "dec_map f v acc =
     (case v of JObj kvs \<Rightarrow> map_sum id Some (dec_entries f kvs (case acc of None \<Rightarrow> [] | Some m \<Rightarrow> m))
      | JNull \<Rightarrow> Inr None | _ \<Rightarrow> Inl type_error)"

definition decode_awg31 :: "json \<Rightarrow> AWG31Storage res" where
  "decode_awg31 = dec_struct (\<lambda>kvs.
     res_bind (dec_field dec_str ''default_header_key_id'' kvs []) (\<lambda>dk.
     res_bind (dec_field (dec_ptr decode_generated31) ''generated_params'' kvs None) (\<lambda>g.
     res_bind (dec_field (dec_map decode_header_key) ''header_keys'' kvs None) (\<lambda>keys.
       Inr \<lparr>as_DefaultHeaderKeyID = dk, as_GeneratedParams = g, as_HeaderKeys = keys\<rparr>))))"

section \<open>Clients in the file\<close>

definition storedJSONField :: "(string, json) gmap \<Rightarrow> string \<Rightarrow> json option res" where
  "storedJSONField flds name =
     (if list_ex (\<lambda>(field, _). field \<noteq> name \<and> EqualFold field name) flds
      then Inl (Plain (name @ '' must use the exact lower-case JSON field name''))
      else Inr (map_of flds name))"

definition version_error :: go_error where
  "version_error = Plain ''protocol_version must be the canonical string 2.0 or 3.1''"

definition decodePersistedProtocolVersion :: "(string, json) gmap \<Rightarrow> ProtocolVersion res" where
  "decodePersistedProtocolVersion flds =
     res_bind (storedJSONField flds ''protocol_version'') (\<lambda>encoded.
       case encoded of
         None \<Rightarrow> Inr []
       | Some JNull \<Rightarrow> Inl version_error
       | Some v \<Rightarrow>
           (case dec_str v [] of
              Inl err \<Rightarrow> Inl (Wrap ''decode protocol_version: '' err [])
            | Inr s \<Rightarrow> if s \<in> {ProtocolVersion2, ProtocolVersion31} then Inr s else Inl version_error))"

definition decodeOptionalStoredString :: "(string, json) gmap \<Rightarrow> string \<Rightarrow> string res" where
  "decodeOptionalStoredString flds name =
     res_bind (storedJSONField flds name) (\<lambda>encoded.
       case encoded of
         None \<Rightarrow> Inr []
       | Some JNull \<Rightarrow> Inl (Plain (name @ '' must be a string''))
       | Some v \<Rightarrow> map_err (\<lambda>err. Wrap (''decode '' @ name @ '': '') err []) (dec_str v []))"

definition decodeStoredClient :: "json \<Rightarrow> ClientData res" where
  "decodeStoredClient v =
     res_bind (dec_struct (\<lambda>kvs.
       let str = (\<lambda>name. dec_field dec_str name kvs []) in
       res_bind (str ''id'') (\<lambda>id. res_bind (str ''protocol_version'') (\<lambda>_. res_bind (str ''private_key'') (\<lambda>priv.
       res_bind (str ''public_key'') (\<lambda>pub. res_bind (str ''preshared_key'') (\<lambda>psk. res_bind (str ''address'') (\<lambda>addr.
       res_bind (str ''lan_group_id'') (\<lambda>grp. res_bind (str ''created_at'') (\<lambda>created.
       res_bind (dec_field (dec_ptr decode_params) ''awg_params'' kvs None) (\<lambda>ps.
       res_bind (dec_field (dec_ptr decode_routing) ''routing'' kvs None) (\<lambda>rt.
       res_bind (str ''header_key_id'') (\<lambda>_.
         Inr \<lparr>cd_ID = id, cd_ProtocolVersion = [], cd_PrivateKey = priv, cd_PublicKey = pub, cd_PresharedKey = psk,
              cd_Address = addr, cd_LANGroupID = grp, cd_CreatedAt = created, cd_AWGParams = ps, cd_Routing = rt,
              cd_headerKeyID = []\<rparr>)))))))))))) v) (\<lambda>disk.
     res_bind (json_fields v) (\<lambda>flds.
     res_bind (decodePersistedProtocolVersion flds) (\<lambda>ver.
     res_bind (decodeOptionalStoredString flds ''header_key_id'') (\<lambda>hk.
       Inr (disk\<lparr>cd_ProtocolVersion := ver, cd_headerKeyID := hk\<rparr>)))))"

definition stored_ranges :: "AWGParams \<Rightarrow> Uint16Range option list" where
  "stored_ranges p = [PersistentKeepalive p, ContentPaddingAddition p, RekeyAfterTime p, RekeyTimeout p,
     RejectAfterTime p, KeepaliveTimeout p, MaxHandshakeAttempts p]"

definition storedRangesNeedNormalization :: "AWGParams option \<Rightarrow> bool" where
  "storedRangesNeedNormalization ps =
     (case ps of None \<Rightarrow> False
      | Some p \<Rightarrow> list_ex (\<lambda>v. case v of None \<Rightarrow> False | Some r \<Rightarrow> \<not> IsCanonical r) (stored_ranges p))"

fun decode_clients :: "nat \<Rightarrow> json list \<Rightarrow> ClientData list res" where
  "decode_clients index [] = Inr []"
| "decode_clients index (v # vs) =
     (case decodeStoredClient v of
        Inl err \<Rightarrow> Inl (Wrap (''decode client '' @ dec_nat index @ '': '') err [])
      | Inr c \<Rightarrow> res_bind (decode_clients (index + 1) vs) (\<lambda>cs. Inr (c # cs)))"

definition dec_raws :: "json \<Rightarrow> json list \<Rightarrow> json list res" where
  "dec_raws v acc = (case v of JArr vs \<Rightarrow> Inr vs | JNull \<Rightarrow> Inr [] | _ \<Rightarrow> Inl type_error)"

definition storage_UnmarshalJSON :: "json \<Rightarrow> StorageData res" where
  "storage_UnmarshalJSON = dec_struct (\<lambda>kvs.
     res_bind (dec_field dec_str ''server_private_key'' kvs []) (\<lambda>key.
     res_bind (dec_field (dec_ptr decode_generated) ''generated_params'' kvs None) (\<lambda>g.
     res_bind (dec_field dec_raws ''clients'' kvs []) (\<lambda>raws.
     res_bind (dec_field (dec_ptr decode_awg31) ''awg_31'' kvs None) (\<lambda>a.
     res_bind (decode_clients 0 raws) (\<lambda>cs.
       Inr \<lparr>sd_ServerPrivateKey = key, sd_GeneratedParams = g, sd_Clients = cs, sd_AWG31 = a,
            sd_needsNormalization = list_ex (\<lambda>c. storedRangesNeedNormalization (cd_AWGParams c)) cs\<rparr>))))))"

section \<open>The file\<close>

datatype read_result = FileMissing | FileFailed string | FileText "json option"

record 'w os_ops =
  os_MkdirAll :: "string \<Rightarrow> 'w \<Rightarrow> go_error option \<times> 'w"
  os_WriteFile :: "string \<Rightarrow> json \<Rightarrow> 'w \<Rightarrow> go_error option \<times> 'w"
  os_Rename :: "string \<Rightarrow> string \<Rightarrow> 'w \<Rightarrow> go_error option \<times> 'w"
  os_ReadFile :: "string \<Rightarrow> 'w \<Rightarrow> read_result"

text \<open>\<open>filePath\<close> with its directory, as \<open>filepath.Join\<close> and \<open>filepath.Dir\<close> give them.\<close>

record Storage =
  filePath :: string
  fileDir :: string

definition NewStorage :: "string \<Rightarrow> Storage" where
  "NewStorage dataDir = (let path = filepath_Join dataDir ''clients.json'' in \<lparr>filePath = path, fileDir = filepath_Dir path\<rparr>)"

definition storage_Load :: "'w os_ops \<Rightarrow> Storage \<Rightarrow> 'w \<Rightarrow> StorageData res" where
  "storage_Load os s w =
     (case os_ReadFile os (filePath s) w of
        FileMissing \<Rightarrow> Inr zeroStorageData
      | FileFailed e \<Rightarrow> Inl (Wrap ''read storage file: '' (Plain e) [])
      | FileText None \<Rightarrow> Inl (Wrap ''parse storage file: '' (Plain ''invalid JSON'') [])
      | FileText (Some v) \<Rightarrow> map_err (\<lambda>e. Wrap ''parse storage file: '' e []) (storage_UnmarshalJSON v))"

definition storage_Save :: "'w os_ops \<Rightarrow> Storage \<Rightarrow> StorageData \<Rightarrow> 'w \<Rightarrow> go_error option \<times> 'w" where
  "storage_Save os s d w =
     (case os_MkdirAll os (fileDir s) w of
        (Some e, w1) \<Rightarrow> (Some (Wrap ''create storage directory: '' e []), w1)
      | (None, w1) \<Rightarrow>
          (case os_WriteFile os (filePath s @ ''.tmp'') (storage_MarshalJSON d) w1 of
             (Some e, w2) \<Rightarrow> (Some (Wrap ''write temp file: '' e []), w2)
           | (None, w2) \<Rightarrow>
               (case os_Rename os (filePath s @ ''.tmp'') (filePath s) w2 of
                  (Some e, w3) \<Rightarrow> (Some (Wrap ''rename temp file: '' e []), w3)
                | (None, w3) \<Rightarrow> (None, w3))))"

section \<open>Fresh installations\<close>

text \<open>The random source of one operation: the words, blocks and identifiers it will be given.\<close>

record rand_source =
  rnd_words :: entropy
  rnd_blocks :: blocks
  rnd_ids :: "byte list list"

definition generateHeaderKeyID :: "byte list list \<Rightarrow> (string \<times> byte list list) res" where
  "generateHeaderKeyID ids =
     (case ids of [] \<Rightarrow> Inl (Wrap ''generate header key ID: '' (Plain ''rand.Read failed'') [])
      | b # ids' \<Rightarrow> Inr (hex_encode b, ids'))"

definition prepare_key :: "blocks \<Rightarrow> StorageData \<Rightarrow> StorageData res" where
  "prepare_key src d =
     (if sd_ServerPrivateKey d \<noteq> [] then Inr d
      else (case GeneratePrivateKey src of
              Inl err \<Rightarrow> Inl (Wrap ''generate server private key: '' err [])
            | Inr (key, _) \<Rightarrow> Inr (d\<lparr>sd_ServerPrivateKey := KeyToBase64 key, sd_needsNormalization := True\<rparr>)))"

definition prepare_params :: "entropy \<Rightarrow> StorageData \<Rightarrow> StorageData res" where
  "prepare_params ent d =
     (case sd_GeneratedParams d of
        Some _ \<Rightarrow> Inr d
      | None \<Rightarrow>
          (case GenerateParams ent of
             Inl err \<Rightarrow> Inl (Wrap ''generate AWG params: '' err [])
           | Inr (g, _) \<Rightarrow> Inr (d\<lparr>sd_GeneratedParams := Some g, sd_needsNormalization := True\<rparr>)))"

definition PrepareStorageDefaults :: "rand_source \<Rightarrow> StorageData option \<Rightarrow> StorageData res" where
  "PrepareStorageDefaults rnd d =
     (case d of
        None \<Rightarrow> Inl (Plain ''storage data is required'')
      | Some d \<Rightarrow>
          if sd_Clients d \<noteq> [] \<and> (sd_ServerPrivateKey d = [] \<or> sd_GeneratedParams d = None)
          then Inl (Plain ''persisted clients require server_private_key and generated_params'')
          else res_bind (prepare_key (rnd_blocks rnd) (cloneStorageData d)) (prepare_params (rnd_words rnd)))"

end
