(* ===== verification/Manager.thy ===== *)
theory Manager
  imports Storage Config Pool
begin

text \<open>
  The client manager of \<^verbatim>\<open>src/internal/clients/manager.go\<close>. An operation takes the manager and the
  host state \<open>'w\<close> and returns its result with both updated; the lock that serialises the
  operations is not modelled. The device pool is the interface the code declares, a record of
  functions on the host state, and the storage is the function that saves a document. SHA-256 and
  Curve25519 are parameters, and so is \<open>parseIP\<close>, the IPv4 value of \<open>net.ParseIP\<close>. Time and
  random bytes are arguments of the operations that use them.
\<close>

section \<open>Records\<close>

record ClientUpdate =
  up_ProtocolVersion :: ProtocolVersion
  up_ProtocolVersionSet :: bool
  up_AWGParams :: "AWGParams option"
  up_AWGParamsSet :: bool
  up_Routing :: "Routing option"
  up_RoutingSet :: bool

record ManagerDefaults =
  md_LegacyParams :: AWGParams
  md_AWG31Params :: AWGParams
  md_DefaultVersion :: ProtocolVersion
  md_DefaultHeaderKeyID :: string

record 'w devicePool =
  dp_AddPeer :: "Profile \<Rightarrow> int \<Rightarrow> key32 \<Rightarrow> key32 option \<Rightarrow> string \<Rightarrow> 'w action"
  dp_RemovePeer :: "Profile \<Rightarrow> key32 \<Rightarrow> string \<Rightarrow> 'w action"
  dp_MigratePeer :: "Profile \<Rightarrow> Profile \<Rightarrow> int \<Rightarrow> key32 \<Rightarrow> key32 option \<Rightarrow> string \<Rightarrow> 'w action"
  dp_PortForProfile :: "Profile \<Rightarrow> 'w \<Rightarrow> int res"
  dp_PublicKey :: "'w \<Rightarrow> key32"
  dp_ApplyLANIsolation :: "LANPeer list \<Rightarrow> 'w action"

record restoreEntry =
  re_client :: ClientData
  re_profile :: Profile
  re_publicKey :: key32
  re_presharedKey :: "key32 option"
  re_requestedPort :: int

record RestorePlan =
  rp_data :: StorageData
  rp_defaults :: ManagerDefaults
  rp_entries :: "restoreEntry list"
  rp_needsNormalization :: bool

record 'w Manager =
  m_pool :: "'w devicePool"
  m_save :: "StorageData \<Rightarrow> 'w action"
  m_config :: Config
  m_defaults :: ManagerDefaults
  m_clients :: "(string, ClientData) gmap"
  m_usedIPs :: "string set"
  m_data :: StorageData

type_synonym ('a, 'w) op_result = "'a res \<times> 'w Manager \<times> 'w"

text \<open>The functions of third-party packages that the manager relies on.\<close>

record crypto =
  cr_sha256 :: "byte list \<Rightarrow> key32"
  cr_mult :: "key32 \<Rightarrow> key32"

definition maxRegenerationAttempts :: nat where "maxRegenerationAttempts = 8"

section \<open>Profiles of clients\<close>

definition bad_version :: "string \<Rightarrow> go_error" where
  "bad_version what = Wrap [] (Sentinel ErrInvalidParams) ('': '' @ what @ '' must be 2.0 or 3.1'')"

definition over_int :: "int \<Rightarrow> int \<Rightarrow> int" where "over_int v base = (if v > 0 then v else base)"
definition over_str :: "string \<Rightarrow> string \<Rightarrow> string" where "over_str v base = (if v \<noteq> [] then v else base)"
definition over_ptr :: "'a option \<Rightarrow> 'a option \<Rightarrow> 'a option" where
  "over_ptr v base = (if v \<noteq> None then v else base)"

definition effectiveParamsForVersion :: "ManagerDefaults \<Rightarrow> ProtocolVersion \<Rightarrow> AWGParams option \<Rightarrow> AWGParams" where
  "effectiveParamsForVersion defaults ver overrides =
     (let base = (if ver = ProtocolVersion31 then md_AWG31Params defaults else md_LegacyParams defaults);
          result = cloneStoredAWGParams base in
      case overrides of
        None \<Rightarrow> result
      | Some p \<Rightarrow>
          (let result = result\<lparr>MTU := over_int (MTU p) (MTU result)\<rparr>;
               result = (if DNS p \<noteq> [] then result\<lparr>DNS := DNS p, DNSMode := [], DNSServers := None\<rparr> else result);
               result = (if DNSMode p \<noteq> []
                 then result\<lparr>DNS := [], DNSMode := DNSMode p,
                             DNSServers := (if slice (DNSServers p) = [] then None else Some (slice (DNSServers p)))\<rparr>
                 else result) in
           result\<lparr>
             PersistentKeepalive := over_ptr (PersistentKeepalive p) (PersistentKeepalive result),
             ContentPaddingAddition := over_ptr (ContentPaddingAddition p) (ContentPaddingAddition result),
             RekeyAfterTime := over_ptr (RekeyAfterTime p) (RekeyAfterTime result),
             RekeyTimeout := over_ptr (RekeyTimeout p) (RekeyTimeout result),
             RejectAfterTime := over_ptr (RejectAfterTime p) (RejectAfterTime result),
             KeepaliveTimeout := over_ptr (KeepaliveTimeout p) (KeepaliveTimeout result),
             MaxHandshakeAttempts := over_ptr (MaxHandshakeAttempts p) (MaxHandshakeAttempts result),
             RandomTrailers := over_str (RandomTrailers p) (RandomTrailers result),
             DisableCookies := over_str (DisableCookies p) (DisableCookies result),
             Port := over_int (Port p) (Port result),
             ClientListenPort := over_int (ClientListenPort p) (ClientListenPort result),
             Jc := over_int (Jc p) (Jc result), Jmin := over_int (Jmin p) (Jmin result),
             Jmax := over_int (Jmax p) (Jmax result),
             S1 := over_int (S1 p) (S1 result), S2 := over_int (S2 p) (S2 result),
             S3 := over_int (S3 p) (S3 result), S4 := over_int (S4 p) (S4 result),
             H1 := over_str (H1 p) (H1 result), H2 := over_str (H2 p) (H2 result),
             H3 := over_str (H3 p) (H3 result), H4 := over_str (H4 p) (H4 result),
             I1 := over_str (I1 p) (I1 result), I2 := over_str (I2 p) (I2 result),
             I3 := over_str (I3 p) (I3 result), I4 := over_str (I4 p) (I4 result),
             I5 := over_str (I5 p) (I5 result)\<rparr>))"

definition missing_key :: go_error where
  "missing_key = Plain ''missing AWG 3.1 header key reference''"

definition resolveHeaderProtectionKey :: "StorageData \<Rightarrow> string \<Rightarrow> key32 res" where
  "resolveHeaderProtectionKey data keyID =
     (case sd_AWG31 data of
        None \<Rightarrow> Inl missing_key
      | Some s \<Rightarrow>
          if keyID = [] then Inl missing_key
          else (case as_HeaderKeys s of
            None \<Rightarrow> Inl missing_key
          | Some keys \<Rightarrow>
              (case map_of keys keyID of
                 None \<Rightarrow> Inl missing_key
               | Some k \<Rightarrow>
                   (case Base64ToHeaderProtectionKey (hk_HeaderProtectionKey k) of
                      Inl _ \<Rightarrow> Inl (Plain ''invalid AWG 3.1 header key'')
                    | Inr key \<Rightarrow> Inr key))))"

definition effectiveProfileForData ::
  "crypto \<Rightarrow> ManagerDefaults \<Rightarrow> StorageData \<Rightarrow> ProtocolVersion \<Rightarrow> AWGParams option \<Rightarrow> string \<Rightarrow> Profile res" where
  "effectiveProfileForData cr defaults data ver overrides headerKeyID =
     (if \<not> version_Valid ver then Inl (bad_version ''protocol_version'')
      else check (ValidateOverridesForVersion ver overrides)
        (let effective = effectiveParamsForVersion defaults ver overrides in
         if ver = ProtocolVersion2 then NewLegacyProfile (cr_sha256 cr) effective
         else res_bind (resolveHeaderProtectionKey data headerKeyID) (NewAWG31Profile (cr_sha256 cr) effective)))"

definition validateAWG31Storage :: "AWG31Storage \<Rightarrow> go_error option" where
  "validateAWG31Storage s =
     (let keys = (case as_HeaderKeys s of None \<Rightarrow> [] | Some m \<Rightarrow> m) in
      first_err
       ([fail_if (as_DefaultHeaderKeyID s = []) (Plain ''AWG 3.1 default header key ID is required''),
         fail_if (as_GeneratedParams s = None) (Plain ''AWG 3.1 generated params are required''),
         fail_if (keys = []) (Plain ''AWG 3.1 header keys are required''),
         fail_if (map_of keys (as_DefaultHeaderKeyID s) = None) (Plain ''AWG 3.1 default header key is missing'')]
        @ concat (map (\<lambda>(id, k).
            [fail_if (id = []) (Plain ''AWG 3.1 header key ID is required''),
             (case Base64ToHeaderProtectionKey (hk_HeaderProtectionKey k) of
                Inl _ \<Rightarrow> Some (Plain ''invalid persisted AWG 3.1 header key'')
              | Inr _ \<Rightarrow> None)]) keys)))"

definition cloneManagerDefaults :: "ManagerDefaults \<Rightarrow> ManagerDefaults" where
  "cloneManagerDefaults d =
     d\<lparr>md_LegacyParams := cloneStoredAWGParams (md_LegacyParams d),
       md_AWG31Params := cloneStoredAWGParams (md_AWG31Params d)\<rparr>"

definition resolveManagerDefaults :: "crypto \<Rightarrow> ManagerDefaults \<Rightarrow> StorageData \<Rightarrow> ManagerDefaults res" where
  "resolveManagerDefaults cr defaults data =
     (case sd_AWG31 data of
        None \<Rightarrow> Inl (Plain ''AWG 3.1 storage state is required'')
      | Some s \<Rightarrow>
          if \<not> version_Valid (md_DefaultVersion defaults)
          then Inl (bad_version ''default protocol version'')
          else (case NewLegacyProfile (cr_sha256 cr) (md_LegacyParams defaults) of
            Inl err \<Rightarrow> Inl (Wrap ''validate default legacy profile: '' err [])
          | Inr _ \<Rightarrow>
              check (validateAWG31Storage s)
                (case as_GeneratedParams s of
                   None \<Rightarrow> Inl (Plain ''AWG 3.1 generated params are required'')
                 | Some g \<Rightarrow>
                     (let resolved = cloneManagerDefaults defaults;
                          resolved = resolved\<lparr>md_AWG31Params :=
                            ApplyGeneratedParamsV31 (Some (md_AWG31Params resolved)) g,
                            md_DefaultHeaderKeyID := as_DefaultHeaderKeyID s\<rparr> in
                      res_bind (resolveHeaderProtectionKey data (md_DefaultHeaderKeyID resolved)) (\<lambda>headerKey.
                        case NewAWG31Profile (cr_sha256 cr) (md_AWG31Params resolved) headerKey of
                          Inl err \<Rightarrow> Inl (Wrap ''validate default AWG 3.1 profile: '' err [])
                        | Inr _ \<Rightarrow> Inr resolved)))))"

section \<open>Addresses\<close>

text \<open>\<open>broadcast\<close> is \<open>networkAddress | uint32((1<<(bits-ones))-1)\<close>.\<close>

definition broadcast :: "prefix4 \<Rightarrow> addr4" where
  "broadcast p = fst p OR of_nat (2 ^ (32 - snd p) - 1)"

definition nil_panic :: go_error where
  "nil_panic = Plain ''runtime error: invalid memory address or nil pointer dereference''"

definition normalizeStoredAddress :: "(string \<Rightarrow> addr4 option) \<Rightarrow> Config \<Rightarrow> string \<Rightarrow> (string \<times> bool) res" where
  "normalizeStoredAddress parseIP cfg address =
     (case parseIP address of
        None \<Rightarrow> Inl (Plain ''must be an IPv4 address'')
      | Some parsed \<Rightarrow>
          (case (Network cfg, ServerIP cfg) of
             (Some network, Some serverIP) \<Rightarrow>
               if \<not> Contains network parsed then Inl (Plain ''must belong to the configured VPN network'')
               else if parsed = serverIP then Inl (Plain ''must not use the server address'')
               else if snd network = 32 then Inl (Plain ''configured VPN network has no client addresses'')
               else if parsed = fst network \<or> parsed = broadcast network
               then Inl (Plain ''must not use a network or broadcast address'')
               else (let canonical = addr_String parsed in Inr (canonical, canonical \<noteq> address))
           | _ \<Rightarrow> Inl nil_panic))"

text \<open>The loop of \<open>allocateIP\<close>, with the 32-bit increment of the code.\<close>

function find_ip :: "string set \<Rightarrow> string \<Rightarrow> addr4 \<Rightarrow> addr4 \<Rightarrow> string option" where
  "find_ip used serverIP broadcastAddress address =
     (if address < broadcastAddress then
        (let candidate = addr_String address in
         if candidate = serverIP then find_ip used serverIP broadcastAddress (address + 1)
         else if candidate \<notin> used then Some candidate
         else find_ip used serverIP broadcastAddress (address + 1))
      else None)"
  by auto

termination
  by (relation "measure (\<lambda>(_, _, b, a). unat b - unat a)") (auto simp: addr_step)

declare find_ip.simps [simp del]

definition allocateIP :: "'w Manager \<Rightarrow> string res" where
  "allocateIP m =
     (case (Network (m_config m), ServerIP (m_config m)) of
        (Some network, Some serverIP) \<Rightarrow>
          (case find_ip (m_usedIPs m) (addr_String serverIP) (broadcast network) (fst network + 2) of
             Some ip \<Rightarrow> Inr ip
           | None \<Rightarrow> Inl (Plain (''no available IPs in subnet '' @ prefix_String network)))
      | _ \<Rightarrow> Inl nil_panic)"

section \<open>Header keys\<close>

definition markAndSweepHeaderKeys :: "StorageData \<Rightarrow> StorageData" where
  "markAndSweepHeaderKeys data =
     (case sd_AWG31 data of
        None \<Rightarrow> data
      | Some s \<Rightarrow>
          (case as_HeaderKeys s of
             None \<Rightarrow> data
           | Some keys \<Rightarrow>
               (let referenced = map cd_headerKeyID (filter (\<lambda>c.
                      cd_ProtocolVersion c = ProtocolVersion31 \<and> cd_headerKeyID c \<noteq> []) (sd_Clients data)) in
                data\<lparr>sd_AWG31 := Some (s\<lparr>as_HeaderKeys := Some (filter (\<lambda>(cid, _).
                  cid = as_DefaultHeaderKeyID s \<or> cid \<in> set referenced) keys)\<rparr>)\<rparr>)))"

fun fresh_key_id :: "nat \<Rightarrow> (string, HeaderKeyData) gmap \<Rightarrow> byte list list \<Rightarrow> string res" where
  "fresh_key_id 0 keys ids = Inl (Plain ''failed to generate a unique AWG 3.1 header key ID'')"
| "fresh_key_id (Suc n) keys ids =
     res_bind (generateHeaderKeyID ids) (\<lambda>(keyID, ids').
       if map_of keys keyID = None then Inr keyID else fresh_key_id n keys ids')"

definition newHeaderKeyData :: "rand_source \<Rightarrow> 'w Manager \<Rightarrow> (string \<times> HeaderKeyData) res" where
  "newHeaderKeyData rnd m =
     (case Option.bind (sd_AWG31 (m_data m)) as_HeaderKeys of
        None \<Rightarrow> Inl (Plain ''AWG 3.1 header key state is unavailable'')
      | Some keys \<Rightarrow>
          (case GenerateHeaderProtectionKey (rnd_blocks rnd) of
             Inl err \<Rightarrow> Inl (Wrap ''generate AWG 3.1 header key: '' err [])
           | Inr (key, _) \<Rightarrow>
               res_bind (fresh_key_id maxRegenerationAttempts keys (rnd_ids rnd)) (\<lambda>keyID.
                 Inr (keyID, \<lparr>hk_HeaderProtectionKey = HeaderProtectionKeyToBase64 key\<rparr>))))"

section \<open>Small operations\<close>

definition validateClientID :: "string \<Rightarrow> go_error option" where
  "validateClientID cid =
     (if cid = [] then Some (Plain ''client ID is required'')
      else if rune_count cid > 256 then Some (Plain ''client ID is too long (max 256 chars)'')
      else None)"

definition defaultLANGroupID :: "string \<Rightarrow> string" where
  "defaultLANGroupID cid = ''peer:'' @ cid"

definition lanPeers :: "ClientData list \<Rightarrow> LANPeer list" where
  "lanPeers cs = map (\<lambda>c. \<lparr>Address = cd_Address c, GroupID = cd_LANGroupID c\<rparr>) cs"

definition decodePresharedKey :: "string \<Rightarrow> key32 option res" where
  "decodePresharedKey encoded =
     (if encoded = [] then Inr None
      else (case Base64ToKey encoded of
              Inl err \<Rightarrow> Inl (Wrap ''decode preshared key: '' err [])
            | Inr key \<Rightarrow> Inr (Some key)))"

definition blockLANLocked :: "'w Manager \<Rightarrow> 'w action" where
  "blockLANLocked m w =
     (case dp_ApplyLANIsolation (m_pool m) [] w of (e, w') \<Rightarrow> (wrap_err ''block inter-client traffic: '' e, w'))"

definition rebuildLANLocked :: "'w Manager \<Rightarrow> 'w action" where
  "rebuildLANLocked m w =
     (case dp_ApplyLANIsolation (m_pool m) (lanPeers (sd_Clients (m_data m))) w of
        (e, w') \<Rightarrow> (wrap_err ''rebuild LAN firewall: '' e, w'))"

definition commitClientLocked :: "ClientData \<Rightarrow> StorageData \<Rightarrow> 'w Manager \<Rightarrow> 'w Manager" where
  "commitClientLocked client data m =
     m\<lparr>m_clients := AList.update (cd_ID client) (cloneClientData client) (m_clients m),
       m_usedIPs := insert (cd_Address client) (m_usedIPs m), m_data := data\<rparr>"

definition persistenceFailure :: "string \<Rightarrow> go_error \<Rightarrow> go_error option \<Rightarrow> go_error" where
  "persistenceFailure operation saveErr rollbackErr = PersistenceError operation saveErr rollbackErr"

fun stored_index :: "string \<Rightarrow> ClientData list \<Rightarrow> nat option" where
  "stored_index cid [] = None"
| "stored_index cid (c # cs) = (if cd_ID c = cid then Some 0 else map_option Suc (stored_index cid cs))"

definition client_profile :: "crypto \<Rightarrow> 'w Manager \<Rightarrow> ClientData \<Rightarrow> Profile res" where
  "client_profile cr m c =
     effectiveProfileForData cr (m_defaults m) (m_data m) (cd_ProtocolVersion c) (cd_AWGParams c) (cd_headerKeyID c)"

definition effectiveProfile :: "crypto \<Rightarrow> AWGParams option \<Rightarrow> 'w Manager \<Rightarrow> Profile res" where
  "effectiveProfile cr ps m = effectiveProfileForData cr (m_defaults m) (m_data m) ProtocolVersion2 ps []"

definition effectiveParams :: "AWGParams option \<Rightarrow> 'w Manager \<Rightarrow> AWGParams" where
  "effectiveParams ps m = effectiveParamsForVersion (m_defaults m) ProtocolVersion2 ps"

section \<open>Creating a client\<close>

text \<open>Everything \<open>CreateClientWithVersion\<close> does before it touches the devices.\<close>

definition create_prepare ::
  "crypto \<Rightarrow> rand_source \<Rightarrow> string \<Rightarrow> string \<Rightarrow> ProtocolVersion \<Rightarrow> AWGParams option \<Rightarrow> Routing option \<Rightarrow> string
   \<Rightarrow> 'w Manager \<Rightarrow> (ClientData \<times> StorageData \<times> Profile \<times> key32 \<times> key32) res" where
  "create_prepare cr rnd now name ver ps routing lanGroupID m =
     check (validateClientID name)
     (if \<not> version_Valid ver then Inl (bad_version ''protocol_version'')
      else if map_of (m_clients m) name \<noteq> None then Inl (Sentinel ErrClientExists)
      else res_bind (NormalizeOverridesForVersion ver ps) (\<lambda>normalizedParams.
           res_bind (NormalizeRouting routing) (\<lambda>normalizedRouting.
           let lanGroup = (if lanGroupID = [] then defaultLANGroupID name else lanGroupID);
               prospective = cloneStorageData (m_data m);
               headerKeyID = (if ver = ProtocolVersion31 then md_DefaultHeaderKeyID (m_defaults m) else []) in
           res_bind (effectiveProfileForData cr (m_defaults m) prospective ver normalizedParams headerKeyID) (\<lambda>profile.
           res_bind (map_err (\<lambda>e. Wrap ''generate key pair: '' e []) (GeneratePrivateKey (rnd_blocks rnd)))
             (\<lambda>(privateKey, src).
           res_bind (map_err (\<lambda>e. Wrap ''generate preshared key: '' e []) (GeneratePresharedKey src))
             (\<lambda>(presharedKey, _).
           res_bind (map_err (\<lambda>e. Wrap ''allocate IP: '' e []) (allocateIP m)) (\<lambda>ip.
             let publicKey = PublicKeyFromPrivate (cr_mult cr) privateKey;
                 client = \<lparr>cd_ID = name, cd_ProtocolVersion = ver, cd_PrivateKey = KeyToBase64 privateKey,
                   cd_PublicKey = KeyToBase64 publicKey, cd_PresharedKey = KeyToBase64 presharedKey,
                   cd_Address = ip, cd_LANGroupID = lanGroup, cd_CreatedAt = now,
                   cd_AWGParams = normalizedParams, cd_Routing = normalizedRouting, cd_headerKeyID = headerKeyID\<rparr> in
             Inr (client,
                  markAndSweepHeaderKeys (prospective\<lparr>sd_Clients := sd_Clients prospective @ [cloneClientData client]\<rparr>),
                  profile, publicKey, presharedKey))))))))"

definition CreateClientWithVersion ::
  "crypto \<Rightarrow> rand_source \<Rightarrow> string \<Rightarrow> string \<Rightarrow> ProtocolVersion \<Rightarrow> AWGParams option \<Rightarrow> Routing option \<Rightarrow> string
   \<Rightarrow> 'w Manager \<Rightarrow> 'w \<Rightarrow> (ClientData, 'w) op_result" where
  "CreateClientWithVersion cr rnd now name ver ps routing lanGroupID m w =
     (case create_prepare cr rnd now name ver ps routing lanGroupID m of
        Inl err \<Rightarrow> (Inl err, m, w)
      | Inr (client, prospective, profile, publicKey, presharedKey) \<Rightarrow>
          (case blockLANLocked m w of
             (Some e, w1) \<Rightarrow> (Inl e, m, w1)
           | (None, w1) \<Rightarrow>
               (case dp_AddPeer (m_pool m) profile (Port (params profile)) publicKey (Some presharedKey)
                       (cd_Address client) w1 of
                  (Some e, w2) \<Rightarrow> (Inl (Wrap ''add peer to device: '' e []), m, w2)
                | (None, w2) \<Rightarrow>
                    (case m_save m prospective w2 of
                       (Some e, w3) \<Rightarrow>
                         (case dp_RemovePeer (m_pool m) profile publicKey (cd_Address client) w3 of
                            (rollbackErr, w4) \<Rightarrow>
                              (Inl (persistenceFailure ''save created client'' e rollbackErr), m, w4))
                     | (None, w3) \<Rightarrow>
                         (let m' = commitClientLocked client prospective m in
                          case rebuildLANLocked m' w3 of
                            (Some e, w4) \<Rightarrow> (Inl e, m', w4)
                          | (None, w4) \<Rightarrow> (Inr (cloneClientData client), m', w4))))))"

definition CreateClient ::
  "crypto \<Rightarrow> rand_source \<Rightarrow> string \<Rightarrow> string \<Rightarrow> AWGParams option \<Rightarrow> Routing option \<Rightarrow> string
   \<Rightarrow> 'w Manager \<Rightarrow> 'w \<Rightarrow> (ClientData, 'w) op_result" where
  "CreateClient cr rnd now name ps routing lanGroupID m w =
     CreateClientWithVersion cr rnd now name (md_DefaultVersion (m_defaults m)) ps routing lanGroupID m w"

section \<open>Updating a client\<close>

text \<open>A migration guard runs a transaction on the manager, or refuses to.\<close>

type_synonym 'w txn = "'w Manager \<Rightarrow> 'w \<Rightarrow> go_error option \<times> 'w Manager \<times> 'w"
type_synonym 'w MigrationGuard = "'w txn \<Rightarrow> 'w txn"

definition resolveClientUpdate ::
  "ClientData \<Rightarrow> ClientUpdate \<Rightarrow> (ProtocolVersion \<times> AWGParams option \<times> Routing option \<times> bool) res" where
  "resolveClientUpdate client update =
     (if \<not> up_ProtocolVersionSet update \<and> \<not> up_AWGParamsSet update \<and> \<not> up_RoutingSet update
      then Inl (Sentinel ErrEmptyClientUpdate)
      else
        (let targetVersion = (if up_ProtocolVersionSet update then up_ProtocolVersion update
                              else cd_ProtocolVersion client) in
         if \<not> version_Valid targetVersion then Inl (bad_version ''protocol_version'')
         else
           (let ps = (if up_AWGParamsSet update then up_AWGParams update
                      else map_option cloneStoredAWGParams (cd_AWGParams client));
                resetParams = (up_AWGParamsSet update \<and> up_AWGParams update = None) in
            res_bind (NormalizeOverridesForVersion targetVersion ps) (\<lambda>normalizedParams.
            res_bind (NormalizeRouting (if up_RoutingSet update then up_Routing update else cd_Routing client))
              (\<lambda>normalizedRouting. Inr (targetVersion, normalizedParams, normalizedRouting, resetParams))))))"

text \<open>The header key that a client refers to after an update.\<close>

definition next_header_key ::
  "ManagerDefaults \<Rightarrow> ClientData \<Rightarrow> ProtocolVersion \<Rightarrow> bool \<Rightarrow> (string \<times> HeaderKeyData) option \<Rightarrow> string" where
  "next_header_key defaults client targetVersion resetParams replacement =
     (let hk = (if targetVersion \<noteq> cd_ProtocolVersion client
                then (if targetVersion = ProtocolVersion31 then md_DefaultHeaderKeyID defaults else [])
                else if resetParams \<and> targetVersion = ProtocolVersion31 then md_DefaultHeaderKeyID defaults
                else cd_headerKeyID client);
          hk = (if targetVersion = ProtocolVersion2 then [] else hk) in
      case replacement of None \<Rightarrow> hk | Some (cid, _) \<Rightarrow> cid)"

definition add_header_key :: "(string \<times> HeaderKeyData) option \<Rightarrow> StorageData \<Rightarrow> StorageData res" where
  "add_header_key replacement data =
     (case replacement of
        None \<Rightarrow> Inr data
      | Some (cid, k) \<Rightarrow>
          (case sd_AWG31 data of
             None \<Rightarrow> Inl (Plain ''AWG 3.1 header key state is unavailable'')
           | Some s \<Rightarrow>
               (case as_HeaderKeys s of
                  None \<Rightarrow> Inl (Plain ''AWG 3.1 header key state is unavailable'')
                | Some keys \<Rightarrow>
                    Inr (data\<lparr>sd_AWG31 := Some (s\<lparr>as_HeaderKeys := Some (AList.update cid k keys)\<rparr>)\<rparr>))))"

definition update_prepare ::
  "crypto \<Rightarrow> ClientData \<Rightarrow> ProtocolVersion \<Rightarrow> AWGParams option \<Rightarrow> Routing option \<Rightarrow> bool
   \<Rightarrow> (string \<times> HeaderKeyData) option \<Rightarrow> 'w Manager \<Rightarrow> (Profile \<times> ClientData \<times> StorageData \<times> Profile) res" where
  "update_prepare cr client targetVersion ps routing resetParams replacement m =
     res_bind (client_profile cr m client) (\<lambda>oldProfile.
       let nextClient = (cloneClientData client)\<lparr>cd_ProtocolVersion := targetVersion,
             cd_AWGParams := map_option cloneStoredAWGParams ps, cd_Routing := routing,
             cd_headerKeyID := next_header_key (m_defaults m) client targetVersion resetParams replacement\<rparr>;
           prospective = cloneStorageData (m_data m) in
       case stored_index (cd_ID client) (sd_Clients prospective) of
         None \<Rightarrow> Inl (Plain (''prepare client update: client '' @ go_quote (cd_ID client) @ '' missing from storage''))
       | Some i \<Rightarrow>
           res_bind (add_header_key replacement prospective) (\<lambda>withKey.
             let prospective = markAndSweepHeaderKeys
                   (withKey\<lparr>sd_Clients := (sd_Clients withKey)[i := cloneClientData nextClient]\<rparr>) in
             res_bind (effectiveProfileForData cr (m_defaults m) prospective (cd_ProtocolVersion nextClient)
                         (cd_AWGParams nextClient) (cd_headerKeyID nextClient)) (\<lambda>newProfile.
               Inr (oldProfile, nextClient, prospective, newProfile))))"

definition migrate_transaction ::
  "ClientData \<Rightarrow> Profile \<Rightarrow> Profile \<Rightarrow> key32 \<Rightarrow> key32 option \<Rightarrow> ClientData \<Rightarrow> StorageData \<Rightarrow> 'w txn" where
  "migrate_transaction client oldProfile newProf publicKey presharedKey nextClient prospective m w =
     (case dp_PortForProfile (m_pool m) oldProfile w of
        Inl err \<Rightarrow> (Some (Wrap ''get current port before migration: '' err []), m, w)
      | Inr oldPort \<Rightarrow>
          (case dp_MigratePeer (m_pool m) oldProfile newProf (Port (params newProf)) publicKey presharedKey
                  (cd_Address client) w of
             (Some e, w1) \<Rightarrow> (Some (Wrap ''migrate peer: '' e []), m, w1)
           | (None, w1) \<Rightarrow>
               (case m_save m prospective w1 of
                  (Some e, w2) \<Rightarrow>
                    (case dp_MigratePeer (m_pool m) newProf oldProfile oldPort publicKey presharedKey
                            (cd_Address client) w2 of
                       (rollbackErr, w3) \<Rightarrow> (Some (persistenceFailure ''save client update'' e rollbackErr), m, w3))
                | (None, w2) \<Rightarrow> (None, commitClientLocked nextClient prospective m, w2))))"

definition applyClientUpdateLocked ::
  "crypto \<Rightarrow> ClientData \<Rightarrow> ProtocolVersion \<Rightarrow> AWGParams option \<Rightarrow> Routing option \<Rightarrow> bool
   \<Rightarrow> (string \<times> HeaderKeyData) option \<Rightarrow> 'w MigrationGuard option \<Rightarrow> 'w Manager \<Rightarrow> 'w \<Rightarrow> (ClientData, 'w) op_result" where
  "applyClientUpdateLocked cr client targetVersion ps routing resetParams replacement guard m w =
     (case update_prepare cr client targetVersion ps routing resetParams replacement m of
        Inl err \<Rightarrow> (Inl err, m, w)
      | Inr (oldProfile, nextClient, prospective, newProf) \<Rightarrow>
          if pkey oldProfile = pkey newProf \<and> Port (params oldProfile) = Port (params newProf) then
            (case m_save m prospective w of
               (Some e, w1) \<Rightarrow> (Inl (persistenceFailure ''save client update'' e None), m, w1)
             | (None, w1) \<Rightarrow> (Inr (cloneClientData nextClient), commitClientLocked nextClient prospective m, w1))
          else (case guard of
            None \<Rightarrow> (Inl (Plain ''migration guard is required''), m, w)
          | Some g \<Rightarrow>
              (case Base64ToKey (cd_PublicKey client) of
                 Inl err \<Rightarrow> (Inl (Wrap ''decode public key: '' err []), m, w)
               | Inr publicKey \<Rightarrow>
                   (case decodePresharedKey (cd_PresharedKey client) of
                      Inl err \<Rightarrow> (Inl err, m, w)
                    | Inr presharedKey \<Rightarrow>
                        (case g (migrate_transaction client oldProfile newProf publicKey presharedKey
                                   nextClient prospective) m w of
                           (Some e, m', w') \<Rightarrow> (Inl e, m', w')
                         | (None, m', w') \<Rightarrow> (Inr (cloneClientData nextClient), m', w'))))))"

definition UpdateClient ::
  "crypto \<Rightarrow> string \<Rightarrow> ClientUpdate \<Rightarrow> 'w MigrationGuard option \<Rightarrow> 'w Manager \<Rightarrow> 'w \<Rightarrow> (ClientData, 'w) op_result" where
  "UpdateClient cr cid update guard m w =
     (case map_of (m_clients m) cid of
        None \<Rightarrow> (Inl (Sentinel ErrClientNotFound), m, w)
      | Some client \<Rightarrow>
          (case resolveClientUpdate client update of
             Inl err \<Rightarrow> (Inl err, m, w)
           | Inr (targetVersion, ps, routing, resetParams) \<Rightarrow>
               applyClientUpdateLocked cr client targetVersion ps routing resetParams None guard m w))"

section \<open>Regenerating parameters\<close>

text \<open>The attempts for a client of version 2.0: draw until the profile key changes.\<close>

fun regenerate_v2 ::
  "crypto \<Rightarrow> 'w Manager \<Rightarrow> ClientData \<Rightarrow> Profile \<Rightarrow> nat \<Rightarrow> entropy \<Rightarrow> AWGParams option res" where
  "regenerate_v2 cr m client oldProfile 0 ent = Inl (Sentinel ErrGeneratedParamsUnchanged)"
| "regenerate_v2 cr m client oldProfile (Suc n) ent =
     (case GenerateParams ent of
        Inl err \<Rightarrow> Inl (Wrap ''generate awg params: '' err [])
      | Inr (generated, ent') \<Rightarrow>
          res_bind (NormalizeOverridesForVersion ProtocolVersion2
                      (Some (ApplyGeneratedParams (cd_AWGParams client) generated))) (\<lambda>ps.
          res_bind (effectiveProfileForData cr (m_defaults m) (m_data m) ProtocolVersion2 ps []) (\<lambda>profile.
            if pkey profile = pkey oldProfile then regenerate_v2 cr m client oldProfile n ent' else Inr ps)))"

definition regenerate_v31 :: "rand_source \<Rightarrow> 'w Manager \<Rightarrow> ClientData \<Rightarrow> (AWGParams option \<times> string \<times> HeaderKeyData) res" where
  "regenerate_v31 rnd m client =
     (case GenerateParamsV31 (rnd_words rnd) of
        Inl err \<Rightarrow> Inl (Wrap ''generate AWG 3.1 params: '' err [])
      | Inr (generated, _) \<Rightarrow>
          res_bind (NormalizeOverridesForVersion ProtocolVersion31
                      (Some (ApplyGeneratedParamsV31 (cd_AWGParams client) generated))) (\<lambda>ps.
          res_bind (newHeaderKeyData rnd m) (\<lambda>(keyID, keyData). Inr (ps, keyID, keyData))))"

definition RegenerateAWGParams ::
  "crypto \<Rightarrow> rand_source \<Rightarrow> string \<Rightarrow> 'w MigrationGuard option \<Rightarrow> 'w Manager \<Rightarrow> 'w \<Rightarrow> (ClientData, 'w) op_result" where
  "RegenerateAWGParams cr rnd cid guard m w =
     (case map_of (m_clients m) cid of
        None \<Rightarrow> (Inl (Sentinel ErrClientNotFound), m, w)
      | Some client \<Rightarrow>
          if Option.is_none guard then (Inl (Plain ''migration guard is required''), m, w)
          else if \<not> version_Valid (cd_ProtocolVersion client) then (Inl (bad_version ''protocol_version''), m, w)
          else (case client_profile cr m client of
            Inl err \<Rightarrow> (Inl err, m, w)
          | Inr oldProfile \<Rightarrow>
              if cd_ProtocolVersion client = ProtocolVersion2 then
                (case regenerate_v2 cr m client oldProfile maxRegenerationAttempts (rnd_words rnd) of
                   Inl err \<Rightarrow> (Inl err, m, w)
                 | Inr ps \<Rightarrow>
                     applyClientUpdateLocked cr client ProtocolVersion2 ps (cd_Routing client) False None guard m w)
              else
                (case regenerate_v31 rnd m client of
                   Inl err \<Rightarrow> (Inl err, m, w)
                 | Inr (ps, keyID, keyData) \<Rightarrow>
                     applyClientUpdateLocked cr client ProtocolVersion31 ps (cd_Routing client) False
                       (Some (keyID, keyData)) guard m w)))"

section \<open>LAN groups and deletion\<close>

text \<open>The index map of \<open>UpdateLANGroup\<close>; a later client would overwrite an earlier one with its ID.\<close>

definition stored_indexes :: "ClientData list \<Rightarrow> (string \<times> nat) list" where
  "stored_indexes cs = rev (zip (map cd_ID cs) [0..<length cs])"

definition lan_checks :: "'w Manager \<Rightarrow> string \<Rightarrow> go_error option list" where
  "lan_checks m cid =
     [fail_if (map_of (m_clients m) cid = None) (Wrap [] (Sentinel ErrClientNotFound) ('': '' @ cid)),
      fail_if (map_of (stored_indexes (sd_Clients (m_data m))) cid = None)
        (Plain (''prepare LAN group update: client '' @ go_quote cid @ '' missing from storage''))]"

definition set_group :: "(string \<times> nat) list \<Rightarrow> string \<Rightarrow> string \<Rightarrow> ClientData list \<Rightarrow> ClientData list" where
  "set_group indexes lanGroupID cid cs =
     (case map_of indexes cid of None \<Rightarrow> cs | Some i \<Rightarrow> cs[i := (cs ! i)\<lparr>cd_LANGroupID := lanGroupID\<rparr>])"

definition UpdateLANGroup ::
  "string list \<Rightarrow> string \<Rightarrow> 'w Manager \<Rightarrow> 'w \<Rightarrow> (ClientData list, 'w) op_result" where
  "UpdateLANGroup clientIDs lanGroupID m w =
     (if clientIDs = [] then (Inl (Sentinel ErrEmptyClientIDs), m, w)
      else if lanGroupID = [] then (Inl (Sentinel ErrEmptyLANGroupID), m, w)
      else if \<not> distinct clientIDs then (Inl (Sentinel ErrDuplicateClientID), m, w)
      else (case first_err (concat (map (lan_checks m) clientIDs)) of
        Some e \<Rightarrow> (Inl e, m, w)
      | None \<Rightarrow>
          (let indexes = stored_indexes (sd_Clients (m_data m));
               cloned = cloneStorageData (m_data m);
               prospective = cloned\<lparr>sd_Clients := fold (set_group indexes lanGroupID) clientIDs (sd_Clients cloned)\<rparr> in
           case blockLANLocked m w of
             (Some e, w1) \<Rightarrow> (Inl e, m, w1)
           | (None, w1) \<Rightarrow>
               (case m_save m prospective w1 of
                  (Some e, w2) \<Rightarrow> (Inl (persistenceFailure ''save LAN group update'' e None), m, w2)
                | (None, w2) \<Rightarrow>
                    (let nexts = map (\<lambda>cid. cloneClientData (sd_Clients prospective ! the (map_of indexes cid))) clientIDs;
                         m' = m\<lparr>m_data := prospective,
                                m_clients := fold (\<lambda>(cid, c). AList.update cid c) (zip clientIDs nexts) (m_clients m)\<rparr> in
                     case rebuildLANLocked m' w2 of
                       (Some e, w3) \<Rightarrow> (Inl e, m', w3)
                     | (None, w3) \<Rightarrow> (Inr nexts, m', w3))))))"

text \<open>Everything \<open>DeleteClient\<close> does before it touches the devices.\<close>

definition delete_prepare ::
  "crypto \<Rightarrow> string \<Rightarrow> 'w Manager \<Rightarrow> 'w
   \<Rightarrow> (ClientData \<times> key32 \<times> key32 option \<times> Profile \<times> int \<times> StorageData) res" where
  "delete_prepare cr cid m w =
     (case map_of (m_clients m) cid of
        None \<Rightarrow> Inl (Sentinel ErrClientNotFound)
      | Some client \<Rightarrow>
          res_bind (map_err (\<lambda>e. Wrap ''decode public key: '' e []) (Base64ToKey (cd_PublicKey client))) (\<lambda>publicKey.
          res_bind (decodePresharedKey (cd_PresharedKey client)) (\<lambda>presharedKey.
          res_bind (client_profile cr m client) (\<lambda>profile.
          res_bind (map_err (\<lambda>e. Wrap ''get current port before deletion: '' e [])
                      (dp_PortForProfile (m_pool m) profile w)) (\<lambda>currentPort.
            let prospective = cloneStorageData (m_data m) in
            case stored_index cid (sd_Clients prospective) of
              None \<Rightarrow> Inl (Plain (''prepare client deletion: client '' @ go_quote cid @ '' missing from storage''))
            | Some i \<Rightarrow>
                Inr (client, publicKey, presharedKey, profile, currentPort,
                     markAndSweepHeaderKeys (prospective\<lparr>sd_Clients :=
                       take i (sd_Clients prospective) @ drop (i + 1) (sd_Clients prospective)\<rparr>)))))))"

definition DeleteClient :: "crypto \<Rightarrow> string \<Rightarrow> 'w Manager \<Rightarrow> 'w \<Rightarrow> go_error option \<times> 'w Manager \<times> 'w" where
  "DeleteClient cr cid m w =
     (case delete_prepare cr cid m w of
        Inl err \<Rightarrow> (Some err, m, w)
      | Inr (client, publicKey, presharedKey, profile, currentPort, prospective) \<Rightarrow>
          (case blockLANLocked m w of
             (Some e, w1) \<Rightarrow> (Some e, m, w1)
           | (None, w1) \<Rightarrow>
               (case dp_RemovePeer (m_pool m) profile publicKey (cd_Address client) w1 of
                  (Some e, w2) \<Rightarrow> (Some (Wrap ''remove peer from device: '' e []), m, w2)
                | (None, w2) \<Rightarrow>
                    (case m_save m prospective w2 of
                       (Some e, w3) \<Rightarrow>
                         (case dp_AddPeer (m_pool m) profile currentPort publicKey presharedKey (cd_Address client) w3 of
                            (rollbackErr, w4) \<Rightarrow>
                              (Some (persistenceFailure ''save deleted client'' e rollbackErr), m, w4))
                     | (None, w3) \<Rightarrow>
                         (let m' = m\<lparr>m_usedIPs := m_usedIPs m - {cd_Address client},
                                     m_clients := AList.delete cid (m_clients m), m_data := prospective\<rparr> in
                          case rebuildLANLocked m' w3 of
                            (Some e, w4) \<Rightarrow> (Some e, m', w4)
                          | (None, w4) \<Rightarrow> (None, m', w4))))))"

section \<open>Reading\<close>

definition ListClients :: "'w Manager \<Rightarrow> ClientData list" where
  "ListClients m = map (\<lambda>(_, c). cloneClientData c) (m_clients m)"

definition GetClient :: "'w Manager \<Rightarrow> string \<Rightarrow> ClientData res" where
  "GetClient m cid =
     (case map_of (m_clients m) cid of
        None \<Rightarrow> Inl (Sentinel ErrClientNotFound) | Some c \<Rightarrow> Inr (cloneClientData c))"

definition renderClientConfigValues ::
  "ClientData \<Rightarrow> AWGParams \<Rightarrow> ProtocolVersion \<Rightarrow> string \<Rightarrow> string \<Rightarrow> key32 \<Rightarrow> string \<Rightarrow> string \<Rightarrow> int \<Rightarrow> string res" where
  "renderClientConfigValues client ps ver profileLines defaultDNS serverPubKey network endpoint port =
     (case routingAllowedIPs (cd_Routing client) of
        Inl err \<Rightarrow> Inl (Wrap ''render routing allowed IPs: '' err [])
      | Inr allowedIPs \<Rightarrow>
          Inr (''[Interface]'' @ CHR 0x0A # ''PrivateKey = '' @ cd_PrivateKey client
               @ (if ClientListenPort ps > 0 then CHR 0x0A # ''ListenPort = '' @ dec_int (ClientListenPort ps) else [])
               @ CHR 0x0A # ''Address = '' @ cd_Address client @ ''/32''
               @ (case ResolveDNS (cd_AWGParams client) defaultDNS of
                    (dns, True) \<Rightarrow> CHR 0x0A # ''DNS = '' @ dns | (_, False) \<Rightarrow> [])
               @ CHR 0x0A # ''MTU = '' @ dec_int (MTU ps)
               @ profileLines
               @ CHR 0x0A # CHR 0x0A # ''[Peer]'' @ CHR 0x0A # ''PublicKey = '' @ KeyToBase64 serverPubKey
               @ (if cd_PresharedKey client \<noteq> [] then CHR 0x0A # ''PresharedKey = '' @ cd_PresharedKey client else [])
               @ CHR 0x0A # ''Endpoint = '' @ endpoint @ '':'' @ dec_int port
               @ CHR 0x0A # ''AllowedIPs = '' @ network @ '', '' @ allowedIPs
               @ CHR 0x0A # ''PersistentKeepalive = '' @ PersistentKeepaliveConfigValue ps ver))"

definition renderClientConfigForProfile ::
  "ClientData \<Rightarrow> Profile \<Rightarrow> string \<Rightarrow> key32 \<Rightarrow> string \<Rightarrow> string \<Rightarrow> int \<Rightarrow> string res" where
  "renderClientConfigForProfile client profile defaultDNS serverPubKey network endpoint port =
     renderClientConfigValues client (params profile) (version profile) (ClientConfigLines profile) defaultDNS
       serverPubKey network endpoint port"

definition renderClientConfig :: "ClientData \<Rightarrow> AWGParams \<Rightarrow> key32 \<Rightarrow> string \<Rightarrow> string \<Rightarrow> int \<Rightarrow> string res" where
  "renderClientConfig client ps serverPubKey network endpoint port =
     renderClientConfigValues client ps ProtocolVersion2 (ConfigLines ps) (DNS ps) serverPubKey network endpoint port"

definition GetClientConfig :: "crypto \<Rightarrow> string \<Rightarrow> 'w Manager \<Rightarrow> 'w \<Rightarrow> string res" where
  "GetClientConfig cr cid m w =
     (case map_of (m_clients m) cid of
        None \<Rightarrow> Inl (Sentinel ErrClientNotFound)
      | Some client \<Rightarrow>
          res_bind (client_profile cr m client) (\<lambda>profile.
          res_bind (map_err (\<lambda>e. Wrap ''get port for params: '' e []) (dp_PortForProfile (m_pool m) profile w)) (\<lambda>port.
            case Network (m_config m) of
              None \<Rightarrow> Inl nil_panic
            | Some network \<Rightarrow>
                renderClientConfigForProfile client profile (cfg_DNS (m_config m)) (dp_PublicKey (m_pool m) w)
                  (prefix_String network) (cfg_Endpoint (m_config m)) port)))"

definition ServerPrivateKey :: "'w Manager \<Rightarrow> string" where
  "ServerPrivateKey m = sd_ServerPrivateKey (m_data m)"

definition SetServerPrivateKey :: "string \<Rightarrow> 'w Manager \<Rightarrow> 'w \<Rightarrow> go_error option \<times> 'w Manager \<times> 'w" where
  "SetServerPrivateKey key m w =
     (let prospective = (cloneStorageData (m_data m))\<lparr>sd_ServerPrivateKey := key\<rparr> in
      case m_save m prospective w of
        (Some e, w1) \<Rightarrow> (Some e, m, w1)
      | (None, w1) \<Rightarrow> (None, m\<lparr>m_data := prospective\<rparr>, w1))"

section \<open>Restoring\<close>

definition resolveRestorePort :: "int \<Rightarrow> int \<Rightarrow> int set \<Rightarrow> int res" where
  "resolveRestorePort requestedPort nextPort used =
     check (ValidatePort requestedPort)
       (if requestedPort \<noteq> 0 then
          (if requestedPort \<in> used
           then Inl (Wrap (''port '' @ dec_int requestedPort @ '': '') (Sentinel ErrPortInUse) [])
           else Inr requestedPort)
        else (let p = next_free_port used nextPort in
              if p \<le> MaxPort then Inr p else Inl (Plain ''no available ports (exhausted range)'')))"

fun restore_ports ::
  "int \<Rightarrow> (key32, int) gmap \<Rightarrow> int set \<Rightarrow> int \<Rightarrow> restoreEntry list \<Rightarrow> go_error option" where
  "restore_ports maxInterfaces profilePorts used nextPort [] = None"
| "restore_ports maxInterfaces profilePorts used nextPort (e # es) =
     (case map_of profilePorts (pkey (re_profile e)) of
        Some actualPort \<Rightarrow>
          if re_requestedPort e \<noteq> 0 \<and> re_requestedPort e \<noteq> actualPort then Some (Sentinel ErrProfilePortConflict)
          else restore_ports maxInterfaces profilePorts used nextPort es
      | None \<Rightarrow>
          if maxInterfaces > 0 \<and> int (length profilePorts) \<ge> maxInterfaces then Some (Sentinel ErrMaxInterfacesReached)
          else (case resolveRestorePort (re_requestedPort e) nextPort used of
            Inl err \<Rightarrow> Some err
          | Inr port \<Rightarrow>
              restore_ports maxInterfaces (AList.update (pkey (re_profile e)) port profilePorts) (insert port used)
                (next_free_port (insert port used) nextPort) es))"

definition validateRestoreInterfaces :: "Config \<Rightarrow> restoreEntry list \<Rightarrow> go_error option" where
  "validateRestoreInterfaces cfg entries =
     (case ValidatePort (cfg_ListenPort cfg) of
        Some e \<Rightarrow> Some (Wrap ''validate default listen port: '' e [])
      | None \<Rightarrow> restore_ports (cfg_MaxInterfaces cfg) [] {} (cfg_ListenPort cfg) entries)"

definition restore_error :: "string \<Rightarrow> string \<Rightarrow> go_error \<Rightarrow> go_error" where
  "restore_error cid what err = Wrap (''restore client '' @ go_quote cid @ '': '' @ what) err []"

definition restore_fail :: "string \<Rightarrow> string \<Rightarrow> go_error" where
  "restore_fail cid what = Plain (''restore client '' @ go_quote cid @ '': '' @ what)"

text \<open>
  One turn of the loop over the persisted clients: \<open>seen\<close> are the identifiers, addresses and keys of the
  clients before it; the result is the normalised client, its entry, and whether something changed.
\<close>

definition restore_client ::
  "crypto \<Rightarrow> (string \<Rightarrow> addr4 option) \<Rightarrow> Config \<Rightarrow> ManagerDefaults \<Rightarrow> StorageData
   \<Rightarrow> string list \<times> string list \<times> key32 list \<Rightarrow> ClientData \<Rightarrow> (ClientData \<times> restoreEntry \<times> bool) res" where
  "restore_client cr parseIP cfg defaults prospective seen client =
     (case seen of (seenIDs, seenAddresses, seenKeys) \<Rightarrow>
      check (wrap_err ''restore client: '' (validateClientID (cd_ID client)))
      (let cid = cd_ID client in
       if cid \<in> set seenIDs then Inl (restore_fail cid ''duplicate client ID'') else
       (let c = client\<lparr>cd_ProtocolVersion := (if cd_ProtocolVersion client = [] then ProtocolVersion2
                                              else cd_ProtocolVersion client),
                       cd_LANGroupID := (if cd_LANGroupID client = [] then defaultLANGroupID cid
                                         else cd_LANGroupID client)\<rparr>;
            changed1 = (cd_ProtocolVersion client = [] \<or> cd_LANGroupID client = []) in
        res_bind (map_err (restore_error cid ''validate address: '') (normalizeStoredAddress parseIP cfg (cd_Address c)))
          (\<lambda>(address, changed2).
        if address \<in> set seenAddresses then Inl (restore_fail cid ''duplicate address'') else
        res_bind (map_err (restore_error cid ''decode private key: '') (Base64ToKey (cd_PrivateKey c))) (\<lambda>privateKey.
        res_bind (map_err (restore_error cid ''decode public key: '') (Base64ToKey (cd_PublicKey c))) (\<lambda>publicKey.
        if PublicKeyFromPrivate (cr_mult cr) privateKey \<noteq> publicKey
        then Inl (restore_fail cid ''private and public keys do not match'') else
        if publicKey \<in> set seenKeys then Inl (restore_fail cid ''duplicate peer key'') else
        res_bind (map_err (restore_error cid []) (decodePresharedKey (cd_PresharedKey c))) (\<lambda>presharedKey.
        res_bind (map_err (restore_error cid ''validate awg params: '')
                    (NormalizeOverridesForVersion (cd_ProtocolVersion c) (cd_AWGParams c))) (\<lambda>normalizedParams.
        res_bind (map_err (restore_error cid ''validate routing: '') (NormalizeRouting (cd_Routing c)))
          (\<lambda>normalizedRouting.
        let changed3 = persistedValueChanged params_json (cd_AWGParams c) normalizedParams;
            changed4 = persistedValueChanged routing_json (cd_Routing c) normalizedRouting;
            c = c\<lparr>cd_Address := address, cd_AWGParams := normalizedParams, cd_Routing := normalizedRouting\<rparr> in
        if cd_ProtocolVersion c = ProtocolVersion2 \<and> cd_headerKeyID c \<noteq> []
        then Inl (restore_fail cid ''legacy profile must not reference a header protection key'') else
        res_bind (map_err (restore_error cid ''validate profile: '')
                    (effectiveProfileForData cr defaults prospective (cd_ProtocolVersion c) (cd_AWGParams c)
                       (cd_headerKeyID c))) (\<lambda>profile.
          Inr (c, \<lparr>re_client = cloneClientData c, re_profile = profile, re_publicKey = publicKey,
                   re_presharedKey = presharedKey, re_requestedPort = Port (params profile)\<rparr>,
               changed1 \<or> changed2 \<or> changed3 \<or> changed4)))))))))))"

fun restore_clients ::
  "crypto \<Rightarrow> (string \<Rightarrow> addr4 option) \<Rightarrow> Config \<Rightarrow> ManagerDefaults \<Rightarrow> StorageData
   \<Rightarrow> string list \<times> string list \<times> key32 list \<Rightarrow> ClientData list \<Rightarrow> (ClientData list \<times> restoreEntry list \<times> bool) res" where
  "restore_clients cr parseIP cfg defaults prospective seen [] = Inr ([], [], False)"
| "restore_clients cr parseIP cfg defaults prospective (ids, addrs, keys) (client # rest) =
     res_bind (restore_client cr parseIP cfg defaults prospective (ids, addrs, keys) client) (\<lambda>(c, entry, changed).
     res_bind (restore_clients cr parseIP cfg defaults prospective
                 (cd_ID c # ids, cd_Address c # addrs, re_publicKey entry # keys) rest) (\<lambda>(cs, entries, changed').
       Inr (c # cs, entry # entries, changed \<or> changed')))"

text \<open>The generated 3.1 state of an installation that has none.\<close>

definition pending_awg31 :: "rand_source \<Rightarrow> AWG31Storage res" where
  "pending_awg31 rnd =
     res_bind (map_err (\<lambda>e. Wrap ''generate pending AWG 3.1 params: '' e []) (GenerateParamsV31 (rnd_words rnd)))
       (\<lambda>(generated, _).
     res_bind (map_err (\<lambda>e. Wrap ''generate pending AWG 3.1 header key: '' e [])
                 (GenerateHeaderProtectionKey (rnd_blocks rnd))) (\<lambda>(key, _).
     res_bind (generateHeaderKeyID (rnd_ids rnd)) (\<lambda>(keyID, _).
       Inr \<lparr>as_DefaultHeaderKeyID = keyID, as_GeneratedParams = Some generated,
            as_HeaderKeys = Some [(keyID, \<lparr>hk_HeaderProtectionKey = HeaderProtectionKeyToBase64 key\<rparr>)]\<rparr>)))"

definition restore_awg31 :: "rand_source \<Rightarrow> StorageData \<Rightarrow> (StorageData \<times> bool) res" where
  "restore_awg31 rnd prospective =
     (case sd_AWG31 prospective of
        Some _ \<Rightarrow> Inr (prospective, False)
      | None \<Rightarrow>
          if list_ex (\<lambda>c. cd_ProtocolVersion c = ProtocolVersion31) (sd_Clients prospective)
          then Inl (Plain ''persisted AWG 3.1 client requires AWG 3.1 storage state'')
          else res_bind (pending_awg31 rnd) (\<lambda>s. Inr (prospective\<lparr>sd_AWG31 := Some s\<rparr>, True)))"

definition PrepareRestorePlan ::
  "crypto \<Rightarrow> (string \<Rightarrow> addr4 option) \<Rightarrow> rand_source \<Rightarrow> Config option \<Rightarrow> ManagerDefaults \<Rightarrow> StorageData option
   \<Rightarrow> RestorePlan res" where
  "PrepareRestorePlan cr parseIP rnd cfg defaults data =
     (case cfg of
        None \<Rightarrow> Inl (Plain ''config is required'')
      | Some cfg \<Rightarrow>
          (case data of
             None \<Rightarrow> Inl (Plain ''storage data is required'')
           | Some data \<Rightarrow>
               (let prospective = cloneStorageData data in
                if \<not> list_all (\<lambda>c. cd_ProtocolVersion c \<in> {[], ProtocolVersion2, ProtocolVersion31}) (sd_Clients prospective)
                then Inl (Plain ''validate persisted protocol version: must be 2.0 or 3.1'')
                else
                  res_bind (restore_awg31 rnd prospective) (\<lambda>(prospective, generated).
                  res_bind (resolveManagerDefaults cr defaults prospective) (\<lambda>resolved.
                  res_bind (restore_clients cr parseIP cfg resolved prospective ([], [], []) (sd_Clients prospective))
                    (\<lambda>(cs, entries, changed).
                  check (validateRestoreInterfaces cfg entries)
                    (Inr \<lparr>rp_data = prospective\<lparr>sd_Clients := cs\<rparr>, rp_defaults = resolved, rp_entries = entries,
                          rp_needsNormalization = (sd_needsNormalization data \<or> generated \<or> changed)\<rparr>)))))))"

fun restore_peers :: "'w devicePool \<Rightarrow> restoreEntry list \<Rightarrow> 'w action" where
  "restore_peers pool [] w = (None, w)"
| "restore_peers pool (e # es) w =
     (case dp_AddPeer pool (re_profile e) (re_requestedPort e) (re_publicKey e) (re_presharedKey e)
             (cd_Address (re_client e)) w of
        (Some err, w') \<Rightarrow> (Some (restore_error (cd_ID (re_client e)) ''add peer: '' err), w')
      | (None, w') \<Rightarrow> restore_peers pool es w')"

text \<open>The pool, the storage, the configuration and the plan are there: the checks for nil pointers at the
  start of the function have no counterpart.\<close>

definition NewManagerFromRestorePlan ::
  "'w devicePool \<Rightarrow> (StorageData \<Rightarrow> 'w action) \<Rightarrow> Config \<Rightarrow> RestorePlan \<Rightarrow> 'w \<Rightarrow> 'w Manager res \<times> 'w" where
  "NewManagerFromRestorePlan pool save cfg plan w =
     (let data = cloneStorageData (rp_data plan) in
      case restore_peers pool (rp_entries plan) w of
        (Some e, w1) \<Rightarrow> (Inl e, w1)
      | (None, w1) \<Rightarrow>
          (case dp_ApplyLANIsolation pool (lanPeers (sd_Clients data)) w1 of
             (Some e, w2) \<Rightarrow> (Inl (Wrap ''restore LAN firewall: '' e []), w2)
           | (None, w2) \<Rightarrow>
               (case (if rp_needsNormalization plan then save data w2 else (None, w2)) of
                  (Some e, w3) \<Rightarrow> (Inl (Wrap ''persist storage normalization: '' e []), w3)
                | (None, w3) \<Rightarrow>
                    (Inr \<lparr>m_pool = pool, m_save = save, m_config = cfg,
                          m_defaults = cloneManagerDefaults (rp_defaults plan),
                          m_clients = fold (\<lambda>c. AList.update (cd_ID c) (cloneClientData c)) (sd_Clients data) [],
                          m_usedIPs = set (map cd_Address (sd_Clients data)),
                          m_data = (if rp_needsNormalization plan
                                    then data\<lparr>sd_needsNormalization := False\<rparr> else data)\<rparr>, w3))))"

end
