(* ===== verification/Manager_Invariant.thy ===== *)
theory Manager_Invariant
  imports Manager
begin

text \<open>
  The invariant of the client manager and the lemmas that every operation rests on: copies, the list
  of persisted clients as a map, header keys under mark and sweep, and address allocation. The
  invariant says that the clients in memory are those of the saved document, that every client has a
  usable profile, that addresses and identifiers are unique and recorded, and that every record would
  pass the checks of a restart unchanged.
\<close>

section \<open>Copies\<close>

lemma clone_params_idem [simp]: "cloneStoredAWGParams (cloneStoredAWGParams p) = cloneStoredAWGParams p"
  by (simp add: cloneStoredAWGParams_def)

lemma clone_params_fields [simp]:
  "Port (cloneStoredAWGParams p) = Port p" "DNSMode (cloneStoredAWGParams p) = DNSMode p"
  "slice (DNSServers (cloneStoredAWGParams p)) = slice (DNSServers p)"
  by (simp_all add: cloneStoredAWGParams_def)

lemma clone_client_fields [simp]:
  "cd_ID (cloneClientData c) = cd_ID c" "cd_ProtocolVersion (cloneClientData c) = cd_ProtocolVersion c"
  "cd_PrivateKey (cloneClientData c) = cd_PrivateKey c" "cd_PublicKey (cloneClientData c) = cd_PublicKey c"
  "cd_PresharedKey (cloneClientData c) = cd_PresharedKey c" "cd_Address (cloneClientData c) = cd_Address c"
  "cd_LANGroupID (cloneClientData c) = cd_LANGroupID c" "cd_CreatedAt (cloneClientData c) = cd_CreatedAt c"
  "cd_Routing (cloneClientData c) = cd_Routing c" "cd_headerKeyID (cloneClientData c) = cd_headerKeyID c"
  "cd_AWGParams (cloneClientData c) = map_option cloneStoredAWGParams (cd_AWGParams c)"
  by (simp_all add: cloneClientData_def)

lemma clone_client_idem [simp]: "cloneClientData (cloneClientData c) = cloneClientData c"
  by (simp add: cloneClientData_def option.map_comp comp_def)

lemma clone_storage_fields [simp]:
  "sd_ServerPrivateKey (cloneStorageData d) = sd_ServerPrivateKey d"
  "sd_GeneratedParams (cloneStorageData d) = sd_GeneratedParams d"
  "sd_AWG31 (cloneStorageData d) = sd_AWG31 d" "sd_needsNormalization (cloneStorageData d) = sd_needsNormalization d"
  "sd_Clients (cloneStorageData d) = map cloneClientData (sd_Clients d)"
  by (simp_all add: cloneStorageData_def)

lemma clone_storage_id:
  assumes "list_all (\<lambda>c. cloneClientData c = c) (sd_Clients d)"
  shows "cloneStorageData d = d"
proof -
  have "map cloneClientData (sd_Clients d) = sd_Clients d"
    using assms by (induction "sd_Clients d") (auto simp: list_all_iff map_idI)
  then show ?thesis by (simp add: cloneStorageData_def)
qed

lemma clone_overrides_ok:
  assumes "overrides_ok v p"
  shows "overrides_ok v (cloneStoredAWGParams p)"
proof -
  have "dns_ok (cloneStoredAWGParams p)"
    using overrides_dns [OF assms] by (auto simp: dns_ok_def cloneStoredAWGParams_def dns_consts)
  then show ?thesis using assms by (simp add: overrides_ok_def cloneStoredAWGParams_def)
qed

lemma clone_normal:
  assumes "NormalizeOverridesForVersion v ps = Inr (Some p)"
  shows "NormalizeOverridesForVersion v (Some (cloneStoredAWGParams p)) = Inr (Some (cloneStoredAWGParams p))"
proof -
  obtain p0 where p0: "ps = Some p0" using assms by (cases ps) (auto simp: NormalizeOverridesForVersion_def)
  with assms have p: "overrides_ok v p0" "p = normal_form p0" "normal_form p0 \<noteq> zeroParams"
    by (auto simp: NormalizeOverrides_cases split: if_splits)
  have ok: "overrides_ok v (cloneStoredAWGParams p)" using p by (simp add: clone_overrides_ok normal_form_ok)
  have nf: "normal_form p = p" using p by (simp add: normal_form_idem overrides_dns)
  have "slice (DNSServers p) \<noteq> []" if "DNSMode p = DNSModeCustom"
    using that overrides_dns [OF ok] by (auto simp: dns_ok_def dns_consts)
  then have "normal_form (cloneStoredAWGParams p) = cloneStoredAWGParams (normal_form p)"
    by (auto simp: normal_form_def cloneStoredAWGParams_def canonicalizeUnsignedRanges_def)
  moreover have "cloneStoredAWGParams p \<noteq> zeroParams"
  proof
    assume z: "cloneStoredAWGParams p = zeroParams"
    have d: "dns_ok p0" using p by (simp add: overrides_dns)
    have "DNSServers p = None \<or> DNSServers p = Some []" "DNSMode p = []" "\<not> dnsServersSet p"
      using z p by (auto simp: cloneStoredAWGParams_def zeroParams_def slice_empty split: if_splits
          dest: arg_cong [where f = DNSServers] arg_cong [where f = DNSMode])
    then have "DNSServers p = None"
      using d p by (auto simp: dns_ok_def dns_consts)
    then have "cloneStoredAWGParams p = p" by (cases p) (simp add: cloneStoredAWGParams_def)
    then show False using z p nf by simp
  qed
  ultimately show ?thesis using ok nf by (simp add: NormalizeOverrides_cases)
qed

section \<open>Persisted clients as a map\<close>

lemma option_eqI: "(\<And>v. x = Some v \<longleftrightarrow> y = Some v) \<Longrightarrow> x = y"
  by (cases x; cases y) auto

abbreviation client_map :: "ClientData list \<Rightarrow> string \<Rightarrow> ClientData option" where
  "client_map cs \<equiv> map_of (map (\<lambda>c. (cd_ID c, c)) cs)"

lemma client_map_Some:
  assumes "distinct (map cd_ID cs)"
  shows "client_map cs cid = Some c \<longleftrightarrow> c \<in> set cs \<and> cd_ID c = cid"
proof -
  have "distinct (map fst (map (\<lambda>c. (cd_ID c, c)) cs))" using assms by (simp add: comp_def)
  from map_of_eq_Some_iff [OF this] show ?thesis by auto
qed

lemma client_map_None: "client_map cs cid = None \<longleftrightarrow> cid \<notin> cd_ID ` set cs"
  by (auto simp: map_of_eq_None_iff image_image)

lemma stored_index_Some:
  "stored_index cid cs = Some i \<Longrightarrow> i < length cs \<and> cd_ID (cs ! i) = cid"
  by (induction cs arbitrary: i) (auto split: if_splits)

lemma stored_index_None: "stored_index cid cs = None \<longleftrightarrow> cid \<notin> cd_ID ` set cs"
  by (induction cs) auto

lemma client_map_append:
  "cd_ID c \<notin> cd_ID ` set cs \<Longrightarrow> client_map (cs @ [c]) = (client_map cs)(cd_ID c \<mapsto> c)"
  by (auto simp: map_add_def fun_eq_iff client_map_None [symmetric] split: option.splits)

lemma ids_update: "i < length cs \<Longrightarrow> cd_ID c = cd_ID (cs ! i) \<Longrightarrow> map cd_ID (cs[i := c]) = map cd_ID cs"
  by (metis list_update_id map_update nth_map)

lemma nth_ids_unique:
  "distinct (map f cs) \<Longrightarrow> i < length cs \<Longrightarrow> j < length cs \<Longrightarrow> f (cs ! i) = f (cs ! j) \<Longrightarrow> i = j"
  using nth_eq_iff_index_eq [of "map f cs" i j] by simp

lemma client_map_update:
  assumes "distinct (map cd_ID cs)" "i < length cs" "cd_ID c = cd_ID (cs ! i)"
  shows "client_map (cs[i := c]) = (client_map cs)(cd_ID c \<mapsto> c)"
proof (rule ext)
  fix k
  have d: "distinct (map cd_ID (cs[i := c]))" using assms by (simp add: ids_update)
  have m: "x \<in> set (cs[i := c]) \<longleftrightarrow> x = c \<or> x \<in> set cs \<and> cd_ID x \<noteq> cd_ID c" for x
    using assms nth_ids_unique [OF assms(1)]
    by (auto simp: in_set_conv_nth nth_list_update) metis+
  show "client_map (cs[i := c]) k = ((client_map cs)(cd_ID c \<mapsto> c)) k"
    by (rule option_eqI) (auto simp: client_map_Some [OF d] client_map_Some [OF assms(1)] m)
qed

abbreviation drop_at :: "nat \<Rightarrow> 'a list \<Rightarrow> 'a list" where
  "drop_at i xs \<equiv> take i xs @ drop (Suc i) xs"

lemma drop_at_map: "map f (drop_at i xs) = drop_at i (map f xs)"
  by (simp add: take_map drop_map)

lemma drop_at_distinct: "i < length xs \<Longrightarrow> distinct xs \<Longrightarrow> distinct (drop_at i xs) \<and> set (drop_at i xs) = set xs - {xs ! i}"
proof -
  assume "i < length xs" "distinct xs"
  moreover define a b x where "a = take i xs" "b = drop (Suc i) xs" "x = xs ! i"
  ultimately have "xs = a @ x # b" "distinct (a @ x # b)" by (metis id_take_nth_drop)+
  then show ?thesis unfolding a_b_x_def [symmetric] by auto
qed

lemma client_map_drop:
  assumes "distinct (map cd_ID cs)" "i < length cs"
  shows "client_map (drop_at i cs) = (client_map cs)(cd_ID (cs ! i) := None)"
    and "set (drop_at i cs) = {c \<in> set cs. cd_ID c \<noteq> cd_ID (cs ! i)}"
proof -
  have "distinct (drop_at i (map cd_ID cs))" using assms drop_at_distinct [of i "map cd_ID cs"] by simp
  then have d: "distinct cs" "distinct (map cd_ID (drop_at i cs))"
    using assms(1) by (simp_all only: drop_at_map distinct_map)
  show s: "set (drop_at i cs) = {c \<in> set cs. cd_ID c \<noteq> cd_ID (cs ! i)}"
    using drop_at_distinct [OF assms(2) d(1)] assms by (auto simp: distinct_map inj_on_def)
  show "client_map (drop_at i cs) = (client_map cs)(cd_ID (cs ! i) := None)"
  proof (rule ext)
    fix k
    show "client_map (drop_at i cs) k = ((client_map cs)(cd_ID (cs ! i) := None)) k"
      by (rule option_eqI)
         (simp only: client_map_Some [OF d(2)] s fun_upd_apply, auto simp: client_map_Some [OF assms(1)])
  qed
qed

section \<open>Header keys\<close>

lemma map_of_filter_key: "map_of (filter (\<lambda>(k, _). P k) m) k = (if P k then map_of m k else None)"
  by (induction m) auto

lemma sweep_fields [simp]:
  "sd_Clients (markAndSweepHeaderKeys d) = sd_Clients d"
  "sd_ServerPrivateKey (markAndSweepHeaderKeys d) = sd_ServerPrivateKey d"
  "sd_GeneratedParams (markAndSweepHeaderKeys d) = sd_GeneratedParams d"
  by (simp_all add: markAndSweepHeaderKeys_def Let_def split: option.splits)

definition referenced :: "StorageData \<Rightarrow> string \<Rightarrow> bool" where
  "referenced d k \<longleftrightarrow>
     (\<exists>s. sd_AWG31 d = Some s \<and> k = as_DefaultHeaderKeyID s)
     \<or> (\<exists>c \<in> set (sd_Clients d). cd_ProtocolVersion c = ProtocolVersion31 \<and> cd_headerKeyID c = k \<and> k \<noteq> [])"

lemma sweep_awg31:
  assumes "sd_AWG31 d = Some s" "as_HeaderKeys s = Some keys"
  shows "sd_AWG31 (markAndSweepHeaderKeys d)
     = Some (s\<lparr>as_HeaderKeys := Some (filter (\<lambda>(k, _). referenced d k) keys)\<rparr>)"
proof -
  have "(k = as_DefaultHeaderKeyID s \<or> k \<in> set (map cd_headerKeyID (filter (\<lambda>c.
        cd_ProtocolVersion c = ProtocolVersion31 \<and> cd_headerKeyID c \<noteq> []) (sd_Clients d)))) \<longleftrightarrow> referenced d k" for k
    using assms by (auto simp: referenced_def)
  then show ?thesis using assms by (simp add: markAndSweepHeaderKeys_def Let_def)
qed

lemma sweep_none [simp]:
  "sd_AWG31 d = None \<Longrightarrow> markAndSweepHeaderKeys d = d"
  "sd_AWG31 d = Some s \<Longrightarrow> as_HeaderKeys s = None \<Longrightarrow> markAndSweepHeaderKeys d = d"
  by (simp_all add: markAndSweepHeaderKeys_def)

lemma resolve_sweep:
  assumes "referenced d k"
  shows "resolveHeaderProtectionKey (markAndSweepHeaderKeys d) k = resolveHeaderProtectionKey d k"
proof (cases "sd_AWG31 d")
  case (Some s)
  show ?thesis
  proof (cases "as_HeaderKeys s")
    case keys: (Some keys)
    show ?thesis
      using assms Some keys sweep_awg31 [OF Some keys]
      by (simp add: resolveHeaderProtectionKey_def map_of_filter_key)
  qed (use Some in simp)
qed simp

lemma effective_cong:
  assumes "v = ProtocolVersion2 \<or> resolveHeaderProtectionKey d k = resolveHeaderProtectionKey d' k"
  shows "effectiveProfileForData cr df d v ps k = effectiveProfileForData cr df d' v ps k"
  using assms by (auto simp: effectiveProfileForData_def Let_def)

lemma effective_Inr:
  assumes "effectiveProfileForData cr df d v ps k = Inr p"
  shows "version_Valid v" "ValidateOverridesForVersion v ps = None" "profile_valid p"
    "v = ProtocolVersion31 \<Longrightarrow> k \<noteq> []" "Port (params p) = Port (effectiveParamsForVersion df v ps)"
  using assms
  by (auto simp: effectiveProfileForData_def Let_def check_eq_Inr res_bind_eq_Inr NewLegacyProfile_def
      NewAWG31Profile_def profile_valid_def newProfile_def version_Valid_def version_consts
      resolveHeaderProtectionKey_def canonicalizeUnsignedRanges_def split: if_splits option.splits)

section \<open>Addresses\<close>

lemma masked_low_bits:
  assumes "a = b AND prefix_mask n"
  shows "a AND mask (32 - n) = 0"
  unfolding assms prefix_mask_def by (rule bit_word_eqI) (auto simp: bit_simps)

lemma block_fits:
  assumes "x < 2 ^ 32" "2 ^ k dvd x" "k \<le> 32"
  shows "x + 2 ^ k \<le> (2 ^ 32 :: nat)"
proof -
  obtain q where q: "x = 2 ^ k * q" using assms(2) by blast
  have r: "(2::nat) ^ 32 = 2 ^ k * 2 ^ (32 - k)" using assms(3) by (simp flip: power_add)
  have "q < 2 ^ (32 - k)" using assms(1) unfolding q r by simp
  then have "2 ^ k * Suc q \<le> 2 ^ k * (2::nat) ^ (32 - k)" by (intro mult_le_mono2) simp
  then show ?thesis unfolding r by (simp add: q)
qed

lemma broadcast_nat:
  assumes "net = Masked p"
  shows "unat (broadcast net) = unat (fst net) + 2 ^ (32 - snd net) - 1"
proof -
  have m: "(of_nat (2 ^ (32 - snd net) - 1) :: addr4) = mask (32 - snd net)"
    by (simp add: mask_eq_exp_minus_1 of_nat_diff)
  have z: "fst net AND mask (32 - snd net) = 0"
    using assms by (intro masked_low_bits [of _ "fst p"]) (simp add: Masked_def)
  have "(2::nat) ^ (32 - snd net) \<le> 2 ^ 32" by (rule power_increasing) auto
  then have b: "unat (mask (32 - snd net) :: addr4) = 2 ^ (32 - snd net) - 1"
    unfolding m [symmetric] by (intro unat_of_nat_addr) auto
  have "2 ^ (32 - snd net) dvd unat (fst net)"
    using assms unat_masked [of "fst p" "snd p"] by (simp add: Masked_def)
  then have "unat (fst net) + 2 ^ (32 - snd net) \<le> 4294967296"
    using block_fits [of "unat (fst net)" "32 - snd net"] unat_addr_less [of "fst net"] by simp
  then have "unat (fst net + mask (32 - snd net)) = unat (fst net) + (2 ^ (32 - snd net) - 1)"
    using b by (subst unat_plus_if') auto
  then show ?thesis using z unfolding broadcast_def m by (simp add: disjunctive_add_eq_or)
qed

text \<open>An address that a client may have: inside the network, and neither reserved nor the server's.\<close>

definition client_addr :: "Config \<Rightarrow> addr4 \<Rightarrow> bool" where
  "client_addr cfg a \<longleftrightarrow> (\<exists>net srv. Network cfg = Some net \<and> ServerIP cfg = Some srv
     \<and> Contains net a \<and> a \<noteq> srv \<and> snd net \<noteq> 32 \<and> a \<noteq> fst net \<and> a \<noteq> broadcast net)"

lemma find_ip_Some:
  "find_ip used srv b a = Some s \<Longrightarrow>
     \<exists>x. s = addr_String x \<and> a \<le> x \<and> x < b \<and> s \<noteq> srv \<and> s \<notin> used"
proof (induction used srv b a rule: find_ip.induct)
  case (1 used srv b a)
  have step: "a < b \<Longrightarrow> a \<le> a + 1" by (simp add: word_le_nat_alt unat_Suc_addr)
  show ?case
  proof (cases "a < b \<and> addr_String a \<noteq> srv \<and> addr_String a \<notin> used")
    case True
    then show ?thesis using "1.prems" by (subst (asm) find_ip.simps) (auto simp: Let_def)
  next
    case False
    then have ab: "a < b" and rec: "find_ip used srv b (a + 1) = Some s"
      using "1.prems" by (subst (asm) find_ip.simps, auto simp: Let_def split: if_splits)+
    have "\<exists>x. s = addr_String x \<and> a + 1 \<le> x \<and> x < b \<and> s \<noteq> srv \<and> s \<notin> used"
      using "1.IH"(1) [OF ab refl _ rec] "1.IH"(2) [OF ab refl _ _ rec] False ab by blast
    then show ?thesis using step [OF ab] order_trans by blast
  qed
qed

lemma find_ip_None:
  "find_ip used srv b a = None \<Longrightarrow> a \<le> x \<Longrightarrow> x < b \<Longrightarrow> addr_String x = srv \<or> addr_String x \<in> used"
proof (induction used srv b a rule: find_ip.induct)
  case (1 used srv b a)
  have ab: "a < b" using "1.prems"(2,3) by simp
  have none: "addr_String a = srv \<or> addr_String a \<in> used" and rec: "find_ip used srv b (a + 1) = None"
    using "1.prems"(1) ab by (subst (asm) find_ip.simps, auto simp: Let_def split: if_splits)+
  show ?case
  proof (cases "x = a")
    case False
    then have "a + 1 \<le> x" using "1.prems"(2) unat_Suc_addr [OF ab] by (auto simp: word_le_nat_alt word_unat_eq_iff)
    then show ?thesis
      using "1.IH"(1) [OF ab refl _ rec _ "1.prems"(3)] "1.IH"(2) [OF ab refl _ _ rec _ "1.prems"(3)] none by blast
  qed (use none in simp)
qed

lemma addr_String_inject [simp]: "addr_String a = addr_String b \<longleftrightarrow> a = b"
  by (metis ParseAddr4_String option.inject)

lemma network_range:
  assumes "Network cfg = Some net" "snd net \<le> 30"
  shows "fst net + 2 \<le> a \<Longrightarrow> a < broadcast net \<Longrightarrow> Contains net a \<and> a \<noteq> fst net \<and> a \<noteq> broadcast net"
    and "Contains net a \<Longrightarrow> a \<noteq> fst net \<Longrightarrow> a \<noteq> fst net + 1 \<Longrightarrow> a \<noteq> broadcast net
       \<Longrightarrow> fst net + 2 \<le> a \<and> a < broadcast net"
proof -
  obtain p where p: "net = Masked p" using assms(1) by (auto simp: Network_def)
  note b = broadcast_nat [OF p]
  have four: "4 \<le> (2::nat) ^ (32 - snd net)"
    using power_increasing [of 2 "32 - snd net" "2::nat"] assms(2) by simp
  have "unat (fst net) + 2 < 4294967296" using b four unat_addr_less [of "broadcast net"] by linarith
  then have two: "unat (fst net + 2) = unat (fst net) + 2" "unat (fst net + 1) = unat (fst net) + 1"
    using unat_of_nat_addr [of "unat (fst net) + 2"] unat_of_nat_addr [of "unat (fst net) + 1"]
    by (simp_all add: add.commute)
  have c: "Contains net a \<longleftrightarrow> unat (fst net) \<le> unat a \<and> unat a < unat (fst net) + 2 ^ (32 - snd net)"
    using Contains_interval [of "fst net" "snd net" a] by (simp add: p)
  show "fst net + 2 \<le> a \<Longrightarrow> a < broadcast net \<Longrightarrow> Contains net a \<and> a \<noteq> fst net \<and> a \<noteq> broadcast net"
    using b two c by (auto simp: word_le_nat_alt word_less_nat_alt word_unat_eq_iff)
  show "Contains net a \<Longrightarrow> a \<noteq> fst net \<Longrightarrow> a \<noteq> fst net + 1 \<Longrightarrow> a \<noteq> broadcast net
      \<Longrightarrow> fst net + 2 \<le> a \<and> a < broadcast net"
    using b two c by (auto simp: word_le_nat_alt word_less_nat_alt word_unat_eq_iff)
qed

lemma allocateIP_Inr:
  assumes "allocateIP m = Inr ip" "Network (m_config m) = Some net" "snd net \<le> 30"
  shows "\<exists>a. ip = addr_String a \<and> client_addr (m_config m) a \<and> ip \<notin> m_usedIPs m"
proof -
  obtain srv where srv: "ServerIP (m_config m) = Some srv"
    using assms(2) by (auto simp: Network_def ServerIP_def)
  with assms have "find_ip (m_usedIPs m) (addr_String srv) (broadcast net) (fst net + 2) = Some ip"
    by (auto simp: allocateIP_def split: option.splits)
  from find_ip_Some [OF this] obtain a where a: "ip = addr_String a" "fst net + 2 \<le> a" "a < broadcast net"
    "ip \<noteq> addr_String srv" "ip \<notin> m_usedIPs m" by blast
  moreover have "snd net \<noteq> 32" using assms(3) by simp
  ultimately show ?thesis
    using network_range(1) [OF assms(2,3) a(2,3)] assms(2) srv by (auto simp: client_addr_def)
qed

lemma allocateIP_Inl:
  assumes "allocateIP m = Inl e" "Network (m_config m) = Some net" "snd net \<le> 30"
    and "client_addr (m_config m) a" "a \<noteq> fst net + 1"
  shows "addr_String a \<in> m_usedIPs m"
proof -
  obtain srv where srv: "ServerIP (m_config m) = Some srv"
    using assms(2) by (auto simp: Network_def ServerIP_def)
  with assms have "find_ip (m_usedIPs m) (addr_String srv) (broadcast net) (fst net + 2) = None"
    by (auto simp: allocateIP_def split: option.splits)
  from find_ip_None [OF this] network_range(2) [OF assms(2,3)] assms(2,4,5) srv show ?thesis
    by (auto simp: client_addr_def)
qed

section \<open>The invariant\<close>

text \<open>A peer as the devices know it.\<close>

definition peer_key :: "ClientData \<Rightarrow> key32" where
  "peer_key c = (case Base64ToKey (cd_PublicKey c) of Inr k \<Rightarrow> k | Inl _ \<Rightarrow> [])"

definition peer_psk :: "ClientData \<Rightarrow> key32 option" where
  "peer_psk c = (case decodePresharedKey (cd_PresharedKey c) of Inr k \<Rightarrow> k | Inl _ \<Rightarrow> None)"

definition client_keys_ok :: "crypto \<Rightarrow> ClientData \<Rightarrow> bool" where
  "client_keys_ok cr c \<longleftrightarrow>
     (\<exists>priv pub psk. Base64ToKey (cd_PrivateKey c) = Inr priv \<and> Base64ToKey (cd_PublicKey c) = Inr pub
        \<and> cr_mult cr priv = pub \<and> decodePresharedKey (cd_PresharedKey c) = Inr psk)"

definition client_ok :: "crypto \<Rightarrow> Config \<Rightarrow> ManagerDefaults \<Rightarrow> StorageData \<Rightarrow> ClientData \<Rightarrow> bool" where
  "client_ok cr cfg df d c \<longleftrightarrow>
     cloneClientData c = c
     \<and> validateClientID (cd_ID c) = None
     \<and> cd_LANGroupID c \<noteq> []
     \<and> (\<exists>a. cd_Address c = addr_String a \<and> client_addr cfg a)
     \<and> client_keys_ok cr c
     \<and> NormalizeOverridesForVersion (cd_ProtocolVersion c) (cd_AWGParams c) = Inr (cd_AWGParams c)
     \<and> NormalizeRouting (cd_Routing c) = Inr (cd_Routing c)
     \<and> (cd_ProtocolVersion c = ProtocolVersion2 \<longrightarrow> cd_headerKeyID c = [])
     \<and> (\<exists>p. effectiveProfileForData cr df d (cd_ProtocolVersion c) (cd_AWGParams c) (cd_headerKeyID c) = Inr p)"

definition header_state_ok :: "ManagerDefaults \<Rightarrow> StorageData \<Rightarrow> bool" where
  "header_state_ok df d \<longleftrightarrow>
     (\<exists>s keys. sd_AWG31 d = Some s \<and> as_HeaderKeys s = Some keys \<and> gm_wf keys
        \<and> validateAWG31Storage s = None \<and> as_DefaultHeaderKeyID s = md_DefaultHeaderKeyID df)"

definition data_ok :: "crypto \<Rightarrow> Config \<Rightarrow> ManagerDefaults \<Rightarrow> StorageData \<Rightarrow> bool" where
  "data_ok cr cfg df d \<longleftrightarrow>
     distinct (map cd_ID (sd_Clients d)) \<and> distinct (map cd_Address (sd_Clients d))
     \<and> distinct (map peer_key (sd_Clients d)) \<and> header_state_ok df d
     \<and> (\<forall>c \<in> set (sd_Clients d). client_ok cr cfg df d c)"

text \<open>The configured network has room for clients.\<close>

definition config_ok :: "Config \<Rightarrow> bool" where
  "config_ok cfg \<longleftrightarrow> (\<exists>net. Network cfg = Some net \<and> snd net \<le> 30)"

definition manager_inv :: "crypto \<Rightarrow> 'w Manager \<Rightarrow> bool" where
  "manager_inv cr m \<longleftrightarrow>
     config_ok (m_config m) \<and> data_ok cr (m_config m) (m_defaults m) (m_data m)
     \<and> gm_wf (m_clients m) \<and> map_of (m_clients m) = client_map (sd_Clients (m_data m))
     \<and> m_usedIPs m = cd_Address ` set (sd_Clients (m_data m))"

lemma data_ok_clone: "data_ok cr cfg df d \<Longrightarrow> cloneStorageData d = d"
  by (rule clone_storage_id) (auto simp: data_ok_def list_all_iff client_ok_def)

lemma manager_inv_clone [simp]: "manager_inv cr m \<Longrightarrow> cloneStorageData (m_data m) = m_data m"
  by (auto simp: manager_inv_def intro: data_ok_clone)

lemma manager_inv_client:
  assumes "manager_inv cr m" "map_of (m_clients m) cid = Some c"
  shows "c \<in> set (sd_Clients (m_data m))" "cd_ID c = cid" "client_ok cr (m_config m) (m_defaults m) (m_data m) c"
proof -
  show c: "c \<in> set (sd_Clients (m_data m))" "cd_ID c = cid"
    using assms client_map_Some [of "sd_Clients (m_data m)" cid c] by (auto simp: manager_inv_def data_ok_def)
  then show "client_ok cr (m_config m) (m_defaults m) (m_data m) c"
    using assms(1) by (auto simp: manager_inv_def data_ok_def)
qed

lemma manager_inv_absent:
  assumes "manager_inv cr m" "map_of (m_clients m) cid = None"
  shows "cid \<notin> cd_ID ` set (sd_Clients (m_data m))"
  using assms client_map_None [of "sd_Clients (m_data m)" cid] by (simp add: manager_inv_def)

text \<open>A client stays well formed when the document changes elsewhere, as long as its header key resolves
  as before.\<close>

lemma client_ok_cong:
  assumes "client_ok cr cfg df d c"
    and "cd_ProtocolVersion c = ProtocolVersion31 \<Longrightarrow> cd_headerKeyID c \<noteq> [] \<Longrightarrow>
      resolveHeaderProtectionKey d' (cd_headerKeyID c) = resolveHeaderProtectionKey d (cd_headerKeyID c)"
  shows "client_ok cr cfg df d' c"
proof -
  obtain p where p: "effectiveProfileForData cr df d (cd_ProtocolVersion c) (cd_AWGParams c) (cd_headerKeyID c) = Inr p"
    using assms(1) by (auto simp: client_ok_def)
  have "cd_ProtocolVersion c = ProtocolVersion2 \<or> cd_ProtocolVersion c = ProtocolVersion31"
    using effective_Inr(1) [OF p] by (auto simp: version_Valid_def)
  then have "cd_ProtocolVersion c = ProtocolVersion2 \<or>
      resolveHeaderProtectionKey d' (cd_headerKeyID c) = resolveHeaderProtectionKey d (cd_headerKeyID c)"
    using assms(2) effective_Inr(4) [OF p] by blast
  from effective_cong [OF this] p assms(1) show ?thesis by (auto simp: client_ok_def)
qed

lemma validateAWG31_None:
  assumes "as_HeaderKeys s = Some keys"
  shows "validateAWG31Storage s = None \<longleftrightarrow>
    as_DefaultHeaderKeyID s \<noteq> [] \<and> as_GeneratedParams s \<noteq> None \<and> keys \<noteq> []
    \<and> map_of keys (as_DefaultHeaderKeyID s) \<noteq> None
    \<and> (\<forall>(cid, k) \<in> set keys. cid \<noteq> [] \<and> (\<exists>b. Base64ToHeaderProtectionKey (hk_HeaderProtectionKey k) = Inr b))"
proof -
  have e: "(case r of Inl _ \<Rightarrow> Some e | Inr _ \<Rightarrow> None) = None \<longleftrightarrow> (\<exists>b. r = Inr b)" for r :: "'a res" and e :: go_error
    by (cases r) auto
  show ?thesis
    unfolding validateAWG31Storage_def first_err_None_iff Let_def assms
    by (simp add: fail_if_eq e conj_assoc case_prod_unfold ball_conj_distrib)
qed

lemma header_state_sweep:
  assumes "header_state_ok df d"
  shows "header_state_ok df (markAndSweepHeaderKeys d)"
proof -
  obtain s keys where s: "sd_AWG31 d = Some s" "as_HeaderKeys s = Some keys" "gm_wf keys"
    "validateAWG31Storage s = None" "as_DefaultHeaderKeyID s = md_DefaultHeaderKeyID df"
    using assms by (auto simp: header_state_ok_def)
  define keys' where "keys' = filter (\<lambda>(k, _). referenced d k) keys"
  have "referenced d (as_DefaultHeaderKeyID s)" using s by (auto simp: referenced_def)
  then have m: "map_of keys' (as_DefaultHeaderKeyID s) = map_of keys (as_DefaultHeaderKeyID s)"
    by (simp add: keys'_def map_of_filter_key)
  have "set keys' \<subseteq> set keys" by (auto simp: keys'_def)
  then have "validateAWG31Storage (s\<lparr>as_HeaderKeys := Some keys'\<rparr>) = None"
    using s(4) m validateAWG31_None [OF s(2)] validateAWG31_None [of "s\<lparr>as_HeaderKeys := Some keys'\<rparr>" keys']
    by auto
  moreover have "gm_wf keys'" using s(3) by (simp add: keys'_def distinct_map inj_on_def)
  ultimately show ?thesis
    using s sweep_awg31 [OF s(1,2)] by (auto simp: header_state_ok_def keys'_def)
qed

text \<open>Replacing the list of clients, and sweeping.\<close>

lemma data_ok_sweep:
  assumes "header_state_ok df d" "distinct (map cd_ID (sd_Clients d))" "distinct (map cd_Address (sd_Clients d))"
    and "distinct (map peer_key (sd_Clients d))" "\<forall>c \<in> set (sd_Clients d). client_ok cr cfg df d c"
  shows "data_ok cr cfg df (markAndSweepHeaderKeys d)"
proof -
  have "client_ok cr cfg df (markAndSweepHeaderKeys d) c" if c: "c \<in> set (sd_Clients d)" for c
  proof (rule client_ok_cong)
    show "client_ok cr cfg df d c" using assms(5) c by blast
    assume "cd_ProtocolVersion c = ProtocolVersion31" "cd_headerKeyID c \<noteq> []"
    with c have "referenced d (cd_headerKeyID c)" by (auto simp: referenced_def)
    then show "resolveHeaderProtectionKey (markAndSweepHeaderKeys d) (cd_headerKeyID c) =
      resolveHeaderProtectionKey d (cd_headerKeyID c)" by (rule resolve_sweep)
  qed
  then show ?thesis using assms header_state_sweep by (auto simp: data_ok_def)
qed

lemma resolve_clients [simp]:
  "resolveHeaderProtectionKey (d\<lparr>sd_Clients := cs\<rparr>) = resolveHeaderProtectionKey d"
  "resolveHeaderProtectionKey (d\<lparr>sd_ServerPrivateKey := k\<rparr>) = resolveHeaderProtectionKey d"
  by (simp_all add: resolveHeaderProtectionKey_def fun_eq_iff)

lemma header_state_clients [simp]:
  "header_state_ok df (d\<lparr>sd_Clients := cs\<rparr>) = header_state_ok df d"
  "header_state_ok df (d\<lparr>sd_ServerPrivateKey := k\<rparr>) = header_state_ok df d"
  by (simp_all add: header_state_ok_def)

lemma effective_clients [simp]:
  "effectiveProfileForData cr df (d\<lparr>sd_Clients := cs\<rparr>) v ps k = effectiveProfileForData cr df d v ps k"
  "effectiveProfileForData cr df (d\<lparr>sd_ServerPrivateKey := key\<rparr>) v ps k = effectiveProfileForData cr df d v ps k"
  by (rule effective_cong, simp)+

lemma client_ok_clients [simp]:
  "client_ok cr cfg df (d\<lparr>sd_Clients := cs\<rparr>) c = client_ok cr cfg df d c"
  "client_ok cr cfg df (d\<lparr>sd_ServerPrivateKey := k\<rparr>) c = client_ok cr cfg df d c"
  by (simp_all add: client_ok_def)

end
