(* ===== verification/Manager_Steps.thy ===== *)
theory Manager_Steps
  imports Manager_Invariant
begin

text \<open>
  Every operation of the client manager keeps the invariant, whatever the devices, the storage and the
  random source do: a failed operation leaves the manager as it was, except that a failure of the last
  step, rebuilding the firewall, reports an error after the change is committed.
\<close>

section \<open>What the environment provides\<close>

text \<open>Keys have 32 bytes and identifiers 16, as the generators read them.\<close>

definition rand_ok :: "rand_source \<Rightarrow> bool" where
  "rand_ok rnd \<longleftrightarrow> list_all (\<lambda>b. length b = 32) (rnd_blocks rnd) \<and> list_all (\<lambda>b. length b = 16) (rnd_ids rnd)"

definition crypto_ok :: "crypto \<Rightarrow> bool" where
  "crypto_ok cr \<longleftrightarrow> (\<forall>k. length k = 32 \<longrightarrow> length (cr_mult cr k) = 32)"

text \<open>The next key pair is not one that a client already has.\<close>

definition fresh_peer :: "crypto \<Rightarrow> rand_source \<Rightarrow> 'w Manager \<Rightarrow> bool" where
  "fresh_peer cr rnd m \<longleftrightarrow>
     (\<forall>b bs. rnd_blocks rnd = b # bs \<longrightarrow> cr_mult cr (clamp_key b) \<notin> peer_key ` set (sd_Clients (m_data m)))"

lemma Base64ToKey_KeyToBase64 [simp]: "length k = 32 \<Longrightarrow> Base64ToKey (KeyToBase64 k) = Inr k"
  by (simp add: Base64ToKey_def KeyToBase64_def)

lemma b64_encode_Nil_iff [simp]: "b64_encode k = [] \<longleftrightarrow> k = []"
  by (cases k rule: b64_encode.cases) simp_all

lemma KeyToBase64_Nil_iff: "KeyToBase64 k = [] \<longleftrightarrow> k = []"
  by (simp add: KeyToBase64_def)

lemma length_clamp_key [simp]: "length (clamp_key k) = length k"
  by (simp add: clamp_key_def Let_def)

lemma effective_params_clone [simp]:
  "effectiveParamsForVersion df v (map_option cloneStoredAWGParams ps) = effectiveParamsForVersion df v ps"
  by (cases ps) (simp_all add: effectiveParamsForVersion_def cloneStoredAWGParams_def Let_def)

lemma validate_clone:
  "ValidateOverridesForVersion v ps = None \<Longrightarrow> ValidateOverridesForVersion v (map_option cloneStoredAWGParams ps) = None"
  by (cases ps) (simp_all add: ValidateOverrides_None clone_overrides_ok)

lemma effective_clone:
  assumes "effectiveProfileForData cr df d v ps k = Inr p"
  shows "effectiveProfileForData cr df d v (map_option cloneStoredAWGParams ps) k = Inr p"
proof -
  have "ValidateOverridesForVersion v (map_option cloneStoredAWGParams ps) = None"
    by (rule validate_clone [OF effective_Inr(2) [OF assms]])
  then show ?thesis using assms effective_Inr(1,2) [OF assms] by (simp add: effectiveProfileForData_def)
qed

lemma normalize_clone:
  assumes "NormalizeOverridesForVersion v ps = Inr q"
  shows "NormalizeOverridesForVersion v (map_option cloneStoredAWGParams q) = Inr (map_option cloneStoredAWGParams q)"
proof (cases q)
  case (Some p)
  with clone_normal [of v ps p] assms show ?thesis by simp
qed (simp add: NormalizeOverridesForVersion_def)

section \<open>Creating\<close>

lemma create_prepare_spec:
  assumes prep: "create_prepare cr rnd now name ver ps routing grp m = Inr (client, d', profile, pub, psk)"
    and inv: "manager_inv cr m" and rnd: "rand_ok rnd" and cr: "crypto_ok cr" and fresh: "fresh_peer cr rnd m"
  shows "name \<notin> cd_ID ` set (sd_Clients (m_data m))" "cd_ID client = name"
    and "d' = markAndSweepHeaderKeys ((m_data m)\<lparr>sd_Clients := sd_Clients (m_data m) @ [cloneClientData client]\<rparr>)"
    and "client_ok cr (m_config m) (m_defaults m) (m_data m) (cloneClientData client)"
    and "cd_Address client \<notin> m_usedIPs m"
    and "peer_key client = pub" "peer_psk client = Some psk" "pub \<notin> peer_key ` set (sd_Clients (m_data m))"
    and "effectiveProfileForData cr (m_defaults m) (m_data m) ver (cd_AWGParams client) (cd_headerKeyID client) = Inr profile"
    and "cd_ProtocolVersion client = ver"
proof -
  define hk where "hk = (if ver = ProtocolVersion31 then md_DefaultHeaderKeyID (m_defaults m) else [])"
  have clone: "cloneStorageData (m_data m) = m_data m" using inv by simp
  obtain nps nrt priv src src' ip where
    n: "validateClientID name = None" "version_Valid ver" "map_of (m_clients m) name = None"
    and nps: "NormalizeOverridesForVersion ver ps = Inr nps" and nrt: "NormalizeRouting routing = Inr nrt"
    and prof: "effectiveProfileForData cr (m_defaults m) (m_data m) ver nps hk = Inr profile"
    and keys: "GeneratePrivateKey (rnd_blocks rnd) = Inr (priv, src)" "GeneratePresharedKey src = Inr (psk, src')"
    and ip: "allocateIP m = Inr ip"
    and client: "client = \<lparr>cd_ID = name, cd_ProtocolVersion = ver, cd_PrivateKey = KeyToBase64 priv,
       cd_PublicKey = KeyToBase64 pub, cd_PresharedKey = KeyToBase64 psk, cd_Address = ip,
       cd_LANGroupID = (if grp = [] then defaultLANGroupID name else grp), cd_CreatedAt = now,
       cd_AWGParams = nps, cd_Routing = nrt, cd_headerKeyID = hk\<rparr>"
    and pub: "pub = cr_mult cr priv"
    and d': "d' = markAndSweepHeaderKeys ((m_data m)\<lparr>sd_Clients := sd_Clients (m_data m) @ [cloneClientData client]\<rparr>)"
    using prep unfolding create_prepare_def clone hk_def Let_def
    by (auto simp: check_eq_Inr res_bind_eq_Inr map_err_eq_Inr PublicKeyFromPrivate_def split: if_splits)
  obtain b where b: "rnd_blocks rnd = b # src" "priv = clamp_key b" "src = psk # src'"
    using keys by (auto simp: GeneratePrivateKey_def GeneratePresharedKey_def read_block_def res_bind_eq_Inr split: list.splits)
  have len: "length priv = 32" "length psk = 32" "length pub = 32"
    using rnd cr b pub by (simp_all add: rand_ok_def crypto_ok_def)
  have psk: "decodePresharedKey (KeyToBase64 psk) = Inr (Some psk)"
    using len by (auto simp: decodePresharedKey_def KeyToBase64_Nil_iff)
  show "name \<notin> cd_ID ` set (sd_Clients (m_data m))" by (rule manager_inv_absent [OF inv n(3)])
  show "cd_ID client = name" "cd_ProtocolVersion client = ver" by (simp_all add: client)
  show "d' = markAndSweepHeaderKeys ((m_data m)\<lparr>sd_Clients := sd_Clients (m_data m) @ [cloneClientData client]\<rparr>)"
    by (rule d')
  show "peer_key client = pub" "peer_psk client = Some psk"
    using len psk by (simp_all add: client peer_key_def peer_psk_def)
  show "pub \<notin> peer_key ` set (sd_Clients (m_data m))" using fresh b pub by (simp add: fresh_peer_def)
  show "effectiveProfileForData cr (m_defaults m) (m_data m) ver (cd_AWGParams client) (cd_headerKeyID client) = Inr profile"
    using prof by (simp add: client)
  obtain net where net: "Network (m_config m) = Some net" "snd net \<le> 30"
    using inv by (auto simp: manager_inv_def config_ok_def)
  obtain a where a: "ip = addr_String a" "client_addr (m_config m) a" "ip \<notin> m_usedIPs m"
    using allocateIP_Inr [OF ip net] by blast
  then show "cd_Address client \<notin> m_usedIPs m" by (simp add: client)
  have lan: "cd_LANGroupID client \<noteq> []" by (simp add: client defaultLANGroupID_def)
  have "client_keys_ok cr client"
    using len psk pub by (simp add: client client_keys_ok_def)
  then show "client_ok cr (m_config m) (m_defaults m) (m_data m) (cloneClientData client)"
    using n a lan normalize_clone [OF nps] NormalizeRouting_idem [OF nrt] effective_clone [OF prof]
    by (auto simp: client_ok_def client_keys_ok_def client hk_def version_consts)
qed

lemma commit_create_inv:
  assumes inv: "manager_inv cr m" and new: "cd_ID client \<notin> cd_ID ` set (sd_Clients (m_data m))"
    and d': "d' = markAndSweepHeaderKeys ((m_data m)\<lparr>sd_Clients := sd_Clients (m_data m) @ [cloneClientData client]\<rparr>)"
    and ok: "client_ok cr (m_config m) (m_defaults m) (m_data m) (cloneClientData client)"
    and addr: "cd_Address client \<notin> m_usedIPs m"
    and key: "peer_key client \<notin> peer_key ` set (sd_Clients (m_data m))"
  shows "manager_inv cr (commitClientLocked client d' m)"
proof -
  have pk: "peer_key (cloneClientData client) = peer_key client" by (simp add: peer_key_def)
  have "data_ok cr (m_config m) (m_defaults m) d'"
    unfolding d' using inv new ok addr key
    by (intro data_ok_sweep) (auto simp: manager_inv_def data_ok_def pk)
  then show ?thesis
    using inv new client_map_append [of "cloneClientData client" "sd_Clients (m_data m)"]
    by (auto simp: manager_inv_def commitClientLocked_def d' update_conv')
qed

lemma CreateClientWithVersion_cases:
  assumes "CreateClientWithVersion cr rnd now name ver ps routing grp m w = (r, m', w')"
  obtains (failed) e where "r = Inl e" "m' = m"
  | (committed) client d' profile pub psk w1 w2 w3 where
      "create_prepare cr rnd now name ver ps routing grp m = Inr (client, d', profile, pub, psk)"
      "dp_AddPeer (m_pool m) profile (Port (params profile)) pub (Some psk) (cd_Address client) w1 = (None, w2)"
      "m_save m d' w2 = (None, w3)" "m' = commitClientLocked client d' m"
      "r = (case fst (rebuildLANLocked m' w3) of None \<Rightarrow> Inr (cloneClientData client) | Some e \<Rightarrow> Inl e)"
      "snd (rebuildLANLocked m' w3) = w'"
proof (cases "create_prepare cr rnd now name ver ps routing grp m")
  case (Inl e)
  with assms show ?thesis by (intro failed [of e]) (simp_all add: CreateClientWithVersion_def)
next
  case (Inr t)
  then obtain client d' profile pub psk where
    prep: "create_prepare cr rnd now name ver ps routing grp m = Inr (client, d', profile, pub, psk)"
    by (cases t) auto
  obtain e1 w1 where block: "blockLANLocked m w = (e1, w1)" by fastforce
  obtain e2 w2 where add:
    "dp_AddPeer (m_pool m) profile (Port (params profile)) pub (Some psk) (cd_Address client) w1 = (e2, w2)" by fastforce
  obtain e3 w3 where save: "m_save m d' w2 = (e3, w3)" by fastforce
  obtain e4 w4 where rm: "dp_RemovePeer (m_pool m) profile pub (cd_Address client) w3 = (e4, w4)" by fastforce
  obtain e5 w5 where lan: "rebuildLANLocked (commitClientLocked client d' m) w3 = (e5, w5)" by fastforce
  note run = assms [unfolded CreateClientWithVersion_def Let_def, simplified prep block add save rm lan, simplified]
  show ?thesis
  proof (cases "e1 = None \<and> e2 = None \<and> e3 = None")
    case True
    with run have m': "m' = commitClientLocked client d' m"
      and r: "r = (case e5 of None \<Rightarrow> Inr (cloneClientData client) | Some e \<Rightarrow> Inl e)" and w: "w' = w5"
      by (auto simp: block add save lan split: option.splits)
    have fin: "fst (rebuildLANLocked m' w3) = e5" "snd (rebuildLANLocked m' w3) = w'" by (simp_all add: m' lan w)
    with r have "r = (case fst (rebuildLANLocked m' w3) of None \<Rightarrow> Inr (cloneClientData client) | Some e \<Rightarrow> Inl e)"
      by simp
    with True prep add save m' fin show ?thesis by (intro committed) auto
  next
    case False
    with run have "m' = m" "\<exists>e. r = Inl e"
      by (auto simp: block add save rm split: option.splits)
    with failed show ?thesis by blast
  qed
qed

lemma CreateClient_inv:
  assumes "CreateClientWithVersion cr rnd now name ver ps routing grp m w = (r, m', w')"
    and "manager_inv cr m" "rand_ok rnd" "crypto_ok cr" "fresh_peer cr rnd m"
  shows "manager_inv cr m'"
  using assms(1)
proof (cases rule: CreateClientWithVersion_cases)
  case (committed client d' profile pub psk w1 w2 w3)
  note spec = create_prepare_spec [OF committed(1) assms(2-5)]
  show ?thesis
    unfolding committed(4) by (rule commit_create_inv [OF assms(2) _ spec(3-5)]) (use spec in auto)
qed (use assms in simp)

section \<open>Updating\<close>

lemma header_state_add_key:
  assumes "header_state_ok df d" "add_header_key (Some (kid, k)) d = Inr d'" "kid \<noteq> []"
    and "Base64ToHeaderProtectionKey (hk_HeaderProtectionKey k) = Inr b"
  shows "header_state_ok df d'"
proof -
  obtain s keys where s: "sd_AWG31 d = Some s" "as_HeaderKeys s = Some keys" "gm_wf keys"
    "validateAWG31Storage s = None" "as_DefaultHeaderKeyID s = md_DefaultHeaderKeyID df"
    using assms(1) by (auto simp: header_state_ok_def)
  let ?s = "s\<lparr>as_HeaderKeys := Some (AList.update kid k keys)\<rparr>"
  have "AList.update kid k keys \<noteq> []" by (cases keys) auto
  then have "validateAWG31Storage ?s = None"
    using s(3,4) assms(3,4) validateAWG31_None [OF s(2)] validateAWG31_None [of ?s "AList.update kid k keys"]
    by (auto simp: gm_set_update)
  then show ?thesis using s assms(2) by (auto simp: header_state_ok_def add_header_key_def)
qed

lemma add_header_key_resolve:
  assumes "add_header_key rep d = Inr d'" "cid \<noteq> fst (the rep) \<or> rep = None"
  shows "resolveHeaderProtectionKey d' cid = resolveHeaderProtectionKey d cid"
  using assms by (auto simp: add_header_key_def resolveHeaderProtectionKey_def split: option.splits)

lemma add_header_key_fields:
  assumes "add_header_key rep d = Inr d'"
  shows "sd_Clients d' = sd_Clients d" "sd_ServerPrivateKey d' = sd_ServerPrivateKey d"
  using assms by (auto simp: add_header_key_def split: option.splits)

text \<open>A replacement key that the manager makes: a fresh, non-empty identifier and a valid key.\<close>

definition replacement_ok :: "StorageData \<Rightarrow> (string \<times> HeaderKeyData) option \<Rightarrow> bool" where
  "replacement_ok d rep \<longleftrightarrow>
     (case rep of None \<Rightarrow> True
      | Some (kid, k) \<Rightarrow> kid \<noteq> [] \<and> (\<exists>b. Base64ToHeaderProtectionKey (hk_HeaderProtectionKey k) = Inr b)
          \<and> (\<forall>b. resolveHeaderProtectionKey d kid \<noteq> Inr b))"

lemma client_ok_resolves:
  assumes "client_ok cr cfg df d c" "cd_ProtocolVersion c = ProtocolVersion31"
  shows "\<exists>b. resolveHeaderProtectionKey d (cd_headerKeyID c) = Inr b"
  using assms by (auto simp: client_ok_def effectiveProfileForData_def check_eq_Inr res_bind_eq_Inr version_consts
      version_Valid_def Let_def split: if_splits)

text \<open>The document with the replacement key added: still well formed, and nothing else resolves differently.\<close>

lemma with_key_ok:
  assumes data: "data_ok cr cfg df d" and rep: "replacement_ok d rep" and wk: "add_header_key rep d = Inr withKey"
  shows "header_state_ok df withKey"
    and "\<forall>c \<in> set (sd_Clients d). cd_ProtocolVersion c = ProtocolVersion31 \<longrightarrow>
      resolveHeaderProtectionKey withKey (cd_headerKeyID c) = resolveHeaderProtectionKey d (cd_headerKeyID c)"
proof -
  show "header_state_ok df withKey"
  proof (cases rep)
    case None
    with wk data show ?thesis by (simp add: add_header_key_def data_ok_def)
  next
    case (Some r)
    obtain kid k where r: "rep = Some (kid, k)" using Some by (cases r) auto
    with rep obtain b where "kid \<noteq> []" "Base64ToHeaderProtectionKey (hk_HeaderProtectionKey k) = Inr b"
      by (auto simp: replacement_ok_def)
    with wk [unfolded r] data show ?thesis by (auto simp: data_ok_def intro: header_state_add_key)
  qed
  show "\<forall>c \<in> set (sd_Clients d). cd_ProtocolVersion c = ProtocolVersion31 \<longrightarrow>
      resolveHeaderProtectionKey withKey (cd_headerKeyID c) = resolveHeaderProtectionKey d (cd_headerKeyID c)"
  proof (intro ballI impI, rule add_header_key_resolve [OF wk])
    fix c
    assume c: "c \<in> set (sd_Clients d)" "cd_ProtocolVersion c = ProtocolVersion31"
    have "client_ok cr cfg df d c" using data c by (auto simp: data_ok_def)
    from client_ok_resolves [OF this c(2)] rep
    show "cd_headerKeyID c \<noteq> fst (the rep) \<or> rep = None"
      by (cases rep) (auto simp: replacement_ok_def split: prod.splits)
  qed
qed

lemma client_effective_cong:
  assumes "client_ok cr cfg df d c"
    and "cd_ProtocolVersion c = ProtocolVersion31 \<Longrightarrow> cd_headerKeyID c \<noteq> [] \<Longrightarrow>
      resolveHeaderProtectionKey d' (cd_headerKeyID c) = resolveHeaderProtectionKey d (cd_headerKeyID c)"
  shows "effectiveProfileForData cr df d' (cd_ProtocolVersion c) (cd_AWGParams c) (cd_headerKeyID c)
       = effectiveProfileForData cr df d (cd_ProtocolVersion c) (cd_AWGParams c) (cd_headerKeyID c)"
proof -
  obtain p where p: "effectiveProfileForData cr df d (cd_ProtocolVersion c) (cd_AWGParams c) (cd_headerKeyID c) = Inr p"
    using assms(1) by (auto simp: client_ok_def)
  show ?thesis
    using assms(2) effective_Inr(1,4) [OF p] by (intro effective_cong) (auto simp: version_Valid_def)
qed

text \<open>Replacing one client of a well-formed document, before and after the sweep.\<close>

lemma replace_client_ok:
  assumes data: "data_ok cr cfg df d" and hs: "header_state_ok df wk" and wkf: "sd_Clients wk = sd_Clients d"
    and res: "\<forall>c \<in> set (sd_Clients d). cd_ProtocolVersion c = ProtocolVersion31 \<longrightarrow>
      resolveHeaderProtectionKey wk (cd_headerKeyID c) = resolveHeaderProtectionKey d (cd_headerKeyID c)"
    and idx: "i < length (sd_Clients d)" "sd_Clients d ! i = client"
    and same: "cd_ID c' = cd_ID client" "cd_Address c' = cd_Address client" "peer_key c' = peer_key client"
    and ok: "client_ok cr cfg df wk c'"
    and d': "d' = markAndSweepHeaderKeys (wk\<lparr>sd_Clients := (sd_Clients d)[i := c']\<rparr>)"
  shows "data_ok cr cfg df d'"
    and "\<And>c. c \<in> set (sd_Clients d) \<Longrightarrow> c \<noteq> client \<Longrightarrow>
      effectiveProfileForData cr df d' (cd_ProtocolVersion c) (cd_AWGParams c) (cd_headerKeyID c)
      = effectiveProfileForData cr df d (cd_ProtocolVersion c) (cd_AWGParams c) (cd_headerKeyID c)"
proof -
  define d1 where "d1 = wk\<lparr>sd_Clients := (sd_Clients d)[i := c']\<rparr>"
  have oks: "client_ok cr cfg df d c" if "c \<in> set (sd_Clients d)" for c using data that by (auto simp: data_ok_def)
  have "client_ok cr cfg df d1 c" if "c \<in> set (sd_Clients d)" for c
    using oks [OF that] res that by (auto simp: d1_def intro: client_ok_cong)
  moreover have "c \<in> set (sd_Clients d1) \<Longrightarrow> c = c' \<or> c \<in> set (sd_Clients d)" for c
    using set_update_subset_insert [of "sd_Clients d" i c'] by (auto simp: d1_def)
  moreover have "client_ok cr cfg df d1 c'" using ok by (simp add: d1_def)
  ultimately have all: "\<forall>c \<in> set (sd_Clients d1). client_ok cr cfg df d1 c" by blast
  have ids: "map cd_ID (sd_Clients d1) = map cd_ID (sd_Clients d)" "map cd_Address (sd_Clients d1) = map cd_Address (sd_Clients d)"
    "map peer_key (sd_Clients d1) = map peer_key (sd_Clients d)"
    using idx same by (simp_all add: d1_def map_update list_update_same_conv)
  show "data_ok cr cfg df d'"
    unfolding d' d1_def [symmetric] using data hs all ids by (intro data_ok_sweep) (simp_all add: data_ok_def d1_def)
  fix c
  assume c: "c \<in> set (sd_Clients d)" "c \<noteq> client"
  then have "c \<in> set (sd_Clients d1)" using idx by (auto simp: d1_def in_set_conv_nth nth_list_update)
  then have "resolveHeaderProtectionKey d' (cd_headerKeyID c) = resolveHeaderProtectionKey d (cd_headerKeyID c)"
    if "cd_ProtocolVersion c = ProtocolVersion31" "cd_headerKeyID c \<noteq> []"
    using that res c(1) resolve_sweep [of d1 "cd_headerKeyID c"] by (auto simp: d' d1_def referenced_def)
  then show "effectiveProfileForData cr df d' (cd_ProtocolVersion c) (cd_AWGParams c) (cd_headerKeyID c)
      = effectiveProfileForData cr df d (cd_ProtocolVersion c) (cd_AWGParams c) (cd_headerKeyID c)"
    by (rule client_effective_cong [OF oks [OF c(1)]])
qed

lemma stored_index_client:
  assumes "manager_inv cr m" "map_of (m_clients m) (cd_ID client) = Some client"
    and "stored_index (cd_ID client) (sd_Clients (m_data m)) = Some i"
  shows "i < length (sd_Clients (m_data m))" "sd_Clients (m_data m) ! i = client"
proof -
  show l: "i < length (sd_Clients (m_data m))" using stored_index_Some [OF assms(3)] by simp
  have "cd_ID (sd_Clients (m_data m) ! i) = cd_ID client" using stored_index_Some [OF assms(3)] by simp
  with l manager_inv_client(1) [OF assms(1,2)] assms(1) show "sd_Clients (m_data m) ! i = client"
    by (auto simp: manager_inv_def data_ok_def distinct_map inj_on_def)
qed

lemma update_prepare_Inr:
  assumes prep: "update_prepare cr client ver ps routing reset rep m = Inr (oldProfile, nextClient, d', newProf)"
    and inv: "manager_inv cr m"
  obtains i wk where "client_profile cr m client = Inr oldProfile"
    "nextClient = (cloneClientData client)\<lparr>cd_ProtocolVersion := ver,
       cd_AWGParams := map_option cloneStoredAWGParams ps, cd_Routing := routing,
       cd_headerKeyID := next_header_key (m_defaults m) client ver reset rep\<rparr>"
    "cloneClientData nextClient = nextClient"
    "stored_index (cd_ID client) (sd_Clients (m_data m)) = Some i"
    "add_header_key rep (m_data m) = Inr wk" "sd_Clients wk = sd_Clients (m_data m)"
    "d' = markAndSweepHeaderKeys (wk\<lparr>sd_Clients := (sd_Clients (m_data m))[i := nextClient]\<rparr>)"
    "effectiveProfileForData cr (m_defaults m) d' (cd_ProtocolVersion nextClient) (cd_AWGParams nextClient)
       (cd_headerKeyID nextClient) = Inr newProf"
proof -
  have clone: "cloneStorageData (m_data m) = m_data m" using inv by simp
  let ?next = "(cloneClientData client)\<lparr>cd_ProtocolVersion := ver,
       cd_AWGParams := map_option cloneStoredAWGParams ps, cd_Routing := routing,
       cd_headerKeyID := next_header_key (m_defaults m) client ver reset rep\<rparr>"
  obtain i wk where "client_profile cr m client = Inr oldProfile" and n: "nextClient = ?next"
    and "stored_index (cd_ID client) (sd_Clients (m_data m)) = Some i"
    and wk: "add_header_key rep (m_data m) = Inr wk"
    and d': "d' = markAndSweepHeaderKeys (wk\<lparr>sd_Clients := (sd_Clients wk)[i := cloneClientData nextClient]\<rparr>)"
    and "effectiveProfileForData cr (m_defaults m) d' (cd_ProtocolVersion nextClient) (cd_AWGParams nextClient)
           (cd_headerKeyID nextClient) = Inr newProf"
    using prep unfolding update_prepare_def clone Let_def by (auto simp: res_bind_eq_Inr split: option.splits)
  moreover have "sd_Clients wk = sd_Clients (m_data m)" by (rule add_header_key_fields [OF wk])
  moreover have "cloneClientData nextClient = nextClient"
    by (simp add: n cloneClientData_def option.map_comp comp_def)
  ultimately show ?thesis using that by simp
qed

lemma update_prepare_spec:
  assumes prep: "update_prepare cr client ver ps routing reset rep m = Inr (oldProfile, nextClient, d', newProf)"
    and inv: "manager_inv cr m" and mem: "map_of (m_clients m) (cd_ID client) = Some client"
    and rep: "replacement_ok (m_data m) rep" "rep \<noteq> None \<longrightarrow> ver = ProtocolVersion31"
    and nps: "NormalizeOverridesForVersion ver ps0 = Inr ps" and nrt: "NormalizeRouting rt0 = Inr routing"
  shows "data_ok cr (m_config m) (m_defaults m) d'"
    and "\<And>c. c \<in> set (sd_Clients (m_data m)) \<Longrightarrow> c \<noteq> client \<Longrightarrow>
           effectiveProfileForData cr (m_defaults m) d' (cd_ProtocolVersion c) (cd_AWGParams c) (cd_headerKeyID c)
           = client_profile cr m c"
    and "\<exists>i < length (sd_Clients (m_data m)). sd_Clients (m_data m) ! i = client
           \<and> sd_Clients d' = (sd_Clients (m_data m))[i := nextClient]"
proof -
  from prep inv obtain i wk where nextC: "nextClient = (cloneClientData client)\<lparr>cd_ProtocolVersion := ver,
       cd_AWGParams := map_option cloneStoredAWGParams ps, cd_Routing := routing,
       cd_headerKeyID := next_header_key (m_defaults m) client ver reset rep\<rparr>"
    and cn: "cloneClientData nextClient = nextClient"
    and i: "stored_index (cd_ID client) (sd_Clients (m_data m)) = Some i"
    and wk: "add_header_key rep (m_data m) = Inr wk" "sd_Clients wk = sd_Clients (m_data m)"
    and d': "d' = markAndSweepHeaderKeys (wk\<lparr>sd_Clients := (sd_Clients (m_data m))[i := nextClient]\<rparr>)"
    and new: "effectiveProfileForData cr (m_defaults m) d' (cd_ProtocolVersion nextClient) (cd_AWGParams nextClient)
           (cd_headerKeyID nextClient) = Inr newProf" by (rule update_prepare_Inr)
  have data: "data_ok cr (m_config m) (m_defaults m) (m_data m)" using inv by (simp add: manager_inv_def)
  note idx = stored_index_client [OF inv mem i]
  have "resolveHeaderProtectionKey wk (cd_headerKeyID nextClient) = resolveHeaderProtectionKey d' (cd_headerKeyID nextClient)"
    if "cd_ProtocolVersion nextClient = ProtocolVersion31"
  proof -
    have "referenced (wk\<lparr>sd_Clients := (sd_Clients (m_data m))[i := nextClient]\<rparr>) (cd_headerKeyID nextClient)"
      using that effective_Inr(4) [OF new] set_update_memI [OF idx(1), of nextClient] by (auto simp: referenced_def)
    from resolve_sweep [OF this] show ?thesis by (simp add: d')
  qed
  then have new1: "effectiveProfileForData cr (m_defaults m) wk (cd_ProtocolVersion nextClient) (cd_AWGParams nextClient)
      (cd_headerKeyID nextClient) = Inr newProf"
    using effective_Inr(1) [OF new] new effective_cong [of "cd_ProtocolVersion nextClient" wk "cd_headerKeyID nextClient" d']
    by (auto simp: version_Valid_def)
  have "ver = ProtocolVersion2 \<Longrightarrow> cd_headerKeyID nextClient = []"
    using rep(2) by (cases rep) (auto simp: nextC next_header_key_def Let_def version_consts)
  then have ok: "client_ok cr (m_config m) (m_defaults m) wk nextClient"
    using manager_inv_client(3) [OF inv mem] cn new1 normalize_clone [OF nps] NormalizeRouting_idem [OF nrt]
    unfolding client_ok_def by (simp add: nextC client_keys_ok_def)
  have same: "cd_ID nextClient = cd_ID client" "cd_Address nextClient = cd_Address client" "peer_key nextClient = peer_key client"
    by (simp_all add: nextC peer_key_def)
  note R = replace_client_ok [OF data with_key_ok(1) [OF data rep(1) wk(1)] wk(2) with_key_ok(2) [OF data rep(1) wk(1)] idx same ok d']
  show "data_ok cr (m_config m) (m_defaults m) d'" by (rule R(1))
  show "effectiveProfileForData cr (m_defaults m) d' (cd_ProtocolVersion c) (cd_AWGParams c) (cd_headerKeyID c)
      = client_profile cr m c" if "c \<in> set (sd_Clients (m_data m))" "c \<noteq> client" for c
    using R(2) [OF that] by (simp add: client_profile_def)
  show "\<exists>i < length (sd_Clients (m_data m)). sd_Clients (m_data m) ! i = client
      \<and> sd_Clients d' = (sd_Clients (m_data m))[i := nextClient]" using idx by (auto simp: d')
qed

lemma commit_update_inv:
  assumes inv: "manager_inv cr m" and data: "data_ok cr (m_config m) (m_defaults m) d'"
    and idx: "\<exists>i < length (sd_Clients (m_data m)). sd_Clients (m_data m) ! i = client
           \<and> sd_Clients d' = (sd_Clients (m_data m))[i := nextClient]"
    and same: "cd_ID nextClient = cd_ID client" "cd_Address nextClient = cd_Address client"
    and cn: "cloneClientData nextClient = nextClient"
  shows "manager_inv cr (commitClientLocked nextClient d' m)"
proof -
  obtain i where i: "i < length (sd_Clients (m_data m))" "sd_Clients (m_data m) ! i = client"
    "sd_Clients d' = (sd_Clients (m_data m))[i := nextClient]" using idx by blast
  have "map cd_Address (sd_Clients d') = map cd_Address (sd_Clients (m_data m))"
    using i same by (simp add: map_update list_update_same_conv)
  then have addrs: "cd_Address ` set (sd_Clients d') = cd_Address ` set (sd_Clients (m_data m))"
    by (metis list.set_map)
  have "cd_Address client \<in> cd_Address ` set (sd_Clients (m_data m))" using i nth_mem by blast
  moreover have "client_map (sd_Clients d') = (client_map (sd_Clients (m_data m)))(cd_ID nextClient \<mapsto> nextClient)"
    using inv i same client_map_update [of "sd_Clients (m_data m)" i nextClient]
    by (simp add: manager_inv_def data_ok_def)
  ultimately show ?thesis
    using inv data addrs same cn by (auto simp: manager_inv_def commitClientLocked_def update_conv')
qed

text \<open>
  The contract of a migration guard: it changes the host at most by a step of \<open>R\<close>, and then either runs
  the transaction once or refuses.
\<close>

definition guard_ok :: "('w \<Rightarrow> 'w \<Rightarrow> bool) \<Rightarrow> 'w MigrationGuard \<Rightarrow> bool" where
  "guard_ok R g \<longleftrightarrow> (\<forall>tx m w. \<exists>w1. R w w1 \<and> (g tx m w = tx m w1 \<or> (\<exists>e. g tx m w = (Some e, m, w1))))"

lemma migrate_transaction_cases:
  assumes "migrate_transaction client op np pub psk nextClient d' m w = (r, m', w')"
  obtains (failed) e where "r = Some e" "m' = m"
  | (committed) w1 where "dp_MigratePeer (m_pool m) op np (Port (params np)) pub psk (cd_Address client) w = (None, w1)"
      "m_save m d' w1 = (None, w')" "r = None" "m' = commitClientLocked nextClient d' m"
proof (cases "dp_PortForProfile (m_pool m) op w")
  case (Inl e)
  with assms have "\<exists>e. r = Some e" "m' = m" by (auto simp: migrate_transaction_def)
  with failed show ?thesis by blast
next
  case (Inr port)
  obtain e1 w1 where mig:
    "dp_MigratePeer (m_pool m) op np (Port (params np)) pub psk (cd_Address client) w = (e1, w1)" by fastforce
  obtain e2 w2 where save: "m_save m d' w1 = (e2, w2)" by fastforce
  obtain e3 w3 where undo:
    "dp_MigratePeer (m_pool m) np op port pub psk (cd_Address client) w2 = (e3, w3)" by fastforce
  note run = assms [unfolded migrate_transaction_def Inr sum.case mig prod.case]
  show ?thesis
  proof (cases "e1 = None \<and> e2 = None")
    case True
    with run mig save show ?thesis by (intro committed) auto
  next
    case False
    with run save undo have "m' = m" "\<exists>e. r = Some e" by (auto split: option.splits)
    with failed show ?thesis by blast
  qed
qed

lemma applyClientUpdate_cases:
  assumes "applyClientUpdateLocked cr client ver ps routing reset rep guard m w = (r, m', w')"
    and "\<forall>g. guard = Some g \<longrightarrow> guard_ok R g"
  obtains (failed) e where "r = Inl e" "m' = m"
  | (committed) op nextClient d' np where
      "update_prepare cr client ver ps routing reset rep m = Inr (op, nextClient, d', np)"
      "r = Inr (cloneClientData nextClient)" "m' = commitClientLocked nextClient d' m"
proof (cases "update_prepare cr client ver ps routing reset rep m")
  case (Inl e)
  with assms(1) show ?thesis by (intro failed [of e]) (simp_all add: applyClientUpdateLocked_def)
next
  case (Inr t)
  then obtain op nextClient d' np where
    prep: "update_prepare cr client ver ps routing reset rep m = Inr (op, nextClient, d', np)" by (cases t) auto
  note run = assms(1) [unfolded applyClientUpdateLocked_def prep sum.case prod.case]
  obtain e1 w1 where save: "m_save m d' w = (e1, w1)" by fastforce
  show ?thesis
  proof (cases "pkey op = pkey np \<and> Port (params op) = Port (params np)")
    case True
    with run save show ?thesis
      by (cases e1) (auto intro: failed committed [OF prep])
  next
    case False
    show ?thesis
    proof (cases guard)
      case None
      with False run show ?thesis by (auto intro: failed)
    next
      case (Some g)
      consider (early) e where "r = Inl e" "m' = m"
        | (tx) pub psk where "(case g (migrate_transaction client op np pub psk nextClient d') m w of
              (Some e, m', w') \<Rightarrow> (Inl e, m', w') | (None, m', w') \<Rightarrow> (Inr (cloneClientData nextClient), m', w')) = (r, m', w')"
        using False run Some by (auto split: sum.splits)
      then show ?thesis
      proof cases
        case (tx pub psk)
        obtain w1 where "g (migrate_transaction client op np pub psk nextClient d') m w
              = migrate_transaction client op np pub psk nextClient d' m w1
            \<or> (\<exists>e. g (migrate_transaction client op np pub psk nextClient d') m w = (Some e, m, w1))"
          using assms(2) [rule_format, OF Some, unfolded guard_ok_def] by blast
        then show ?thesis
        proof
          assume g: "g (migrate_transaction client op np pub psk nextClient d') m w
              = migrate_transaction client op np pub psk nextClient d' m w1"
          obtain r2 m2 w2 where t: "migrate_transaction client op np pub psk nextClient d' m w1 = (r2, m2, w2)"
            by (metis prod_cases3)
          from t show ?thesis
          proof (cases rule: migrate_transaction_cases)
            case (failed e)
            with tx g t show ?thesis by (intro that(1) [of e]) auto
          next
            case (committed w3)
            with tx g t prep show ?thesis by (intro that(2)) auto
          qed
        qed (use tx in \<open>auto intro: failed\<close>)
      qed (rule failed)
    qed
  qed
qed

lemma applyClientUpdate_inv:
  assumes run: "applyClientUpdateLocked cr client ver ps routing reset rep guard m w = (r, m', w')"
    and guard: "\<forall>g. guard = Some g \<longrightarrow> guard_ok R g"
    and inv: "manager_inv cr m" and mem: "map_of (m_clients m) (cd_ID client) = Some client"
    and rep: "replacement_ok (m_data m) rep" "rep \<noteq> None \<longrightarrow> ver = ProtocolVersion31"
    and nps: "NormalizeOverridesForVersion ver ps0 = Inr ps" and nrt: "NormalizeRouting rt0 = Inr routing"
  shows "manager_inv cr m'"
  using run guard
proof (cases rule: applyClientUpdate_cases)
  case (committed op nextClient d' np)
  note spec = update_prepare_spec [OF committed(1) inv mem rep nps nrt]
  from committed(1) inv have "cd_ID nextClient = cd_ID client" "cd_Address nextClient = cd_Address client"
    "cloneClientData nextClient = nextClient" by (auto elim!: update_prepare_Inr)
  with spec show ?thesis unfolding committed(3) by (intro commit_update_inv [OF inv])
qed (use inv in simp)

lemma newHeaderKeyData_ok:
  assumes "newHeaderKeyData rnd m = Inr (kid, k)" "rand_ok rnd"
  shows "replacement_ok (m_data m) (Some (kid, k))"
proof -
  obtain s keys where s: "sd_AWG31 (m_data m) = Some s" "as_HeaderKeys s = Some keys"
    using assms(1) by (auto simp: newHeaderKeyData_def bind_eq_Some_conv split: option.splits)
  obtain key src where key: "GenerateHeaderProtectionKey (rnd_blocks rnd) = Inr (key, src)"
    "k = \<lparr>hk_HeaderProtectionKey = HeaderProtectionKeyToBase64 key\<rparr>"
    and kid: "fresh_key_id maxRegenerationAttempts keys (rnd_ids rnd) = Inr kid"
    using assms(1) s by (auto simp: newHeaderKeyData_def res_bind_eq_Inr split: sum.splits)
  have f: "fresh_key_id n keys ids = Inr kid \<Longrightarrow> list_all (\<lambda>b. length b = 16) ids \<Longrightarrow> map_of keys kid = None \<and> kid \<noteq> []" for n ids
    by (induction n keys ids rule: fresh_key_id.induct)
       (auto simp: generateHeaderKeyID_def read_block_def res_bind_eq_Inr map_err_eq_Inr hex_encode_Nil_iff split: list.splits if_splits)
  have "map_of keys kid = None" "kid \<noteq> []" using f [OF kid] assms(2) by (simp_all add: rand_ok_def)
  moreover have "key \<noteq> zero_key" "key \<in> set (rnd_blocks rnd)"
    using GenerateHeaderProtectionKey_nonzero [OF key(1)] by simp_all
  then have "Base64ToHeaderProtectionKey (HeaderProtectionKeyToBase64 key) = Inr key"
    using assms(2) by (auto simp: Base64ToHeaderProtectionKey_def HeaderProtectionKeyToBase64_def rand_ok_def list_all_iff)
  ultimately show ?thesis using s key(2) by (simp add: replacement_ok_def resolveHeaderProtectionKey_def)
qed

lemma resolveClientUpdate_Inr:
  assumes "resolveClientUpdate client upd = Inr (ver, ps, routing, reset)"
  shows "\<exists>ps0. NormalizeOverridesForVersion ver ps0 = Inr ps" "\<exists>rt0. NormalizeRouting rt0 = Inr routing"
    "version_Valid ver"
  using assms by (auto simp: resolveClientUpdate_def Let_def res_bind_eq_Inr split: if_splits)

lemma UpdateClient_cases:
  assumes "UpdateClient cr cid upd guard m w = (r, m', w')"
  obtains (same) e where "r = Inl e" "m' = m" "w' = w"
  | (app) client ver ps0 ps rt0 routing reset where "map_of (m_clients m) cid = Some client"
      "NormalizeOverridesForVersion ver ps0 = Inr ps" "NormalizeRouting rt0 = Inr routing"
      "applyClientUpdateLocked cr client ver ps routing reset None guard m w = (r, m', w')"
proof (cases "map_of (m_clients m) cid")
  case None
  with assms same show ?thesis by (auto simp: UpdateClient_def)
next
  case (Some client)
  show ?thesis
  proof (cases "resolveClientUpdate client upd")
    case (Inl e)
    with assms Some same show ?thesis by (auto simp: UpdateClient_def)
  next
    case (Inr t)
    then obtain ver ps routing reset where t: "resolveClientUpdate client upd = Inr (ver, ps, routing, reset)"
      by (cases t) auto
    with assms Some have "applyClientUpdateLocked cr client ver ps routing reset None guard m w = (r, m', w')"
      by (simp add: UpdateClient_def)
    with resolveClientUpdate_Inr [OF t] Some app show ?thesis by blast
  qed
qed

lemma UpdateClient_inv:
  assumes run: "UpdateClient cr cid upd guard m w = (r, m', w')"
    and guard: "\<forall>g. guard = Some g \<longrightarrow> guard_ok R g" and inv: "manager_inv cr m"
  shows "manager_inv cr m'"
  using run
proof (cases rule: UpdateClient_cases)
  case (app client ver ps0 ps rt0 routing reset)
  have mem: "map_of (m_clients m) (cd_ID client) = Some client"
    using manager_inv_client(2) [OF inv app(1)] app(1) by simp
  show ?thesis
    by (rule applyClientUpdate_inv [OF app(4) guard inv mem _ _ app(2,3)]) (simp_all add: replacement_ok_def)
qed (use inv in simp)

section \<open>Regenerating\<close>

lemma regenerate_v2_Inr:
  "regenerate_v2 cr m client op n ent = Inr ps \<Longrightarrow> \<exists>ps0. NormalizeOverridesForVersion ProtocolVersion2 ps0 = Inr ps"
  by (induction cr m client op n ent rule: regenerate_v2.induct)
     (auto simp: res_bind_eq_Inr split: sum.splits prod.splits if_splits)

lemma regenerate_v31_Inr:
  assumes "regenerate_v31 rnd m client = Inr (ps, kid, k)"
  shows "(\<exists>ps0. NormalizeOverridesForVersion ProtocolVersion31 ps0 = Inr ps) \<and> newHeaderKeyData rnd m = Inr (kid, k)"
  using assms by (auto simp: regenerate_v31_def res_bind_eq_Inr split: sum.splits prod.splits)

lemma RegenerateAWGParams_cases:
  assumes "RegenerateAWGParams cr rnd cid guard m w = (r, m', w')" "rand_ok rnd"
  obtains (same) e where "r = Inl e" "m' = m" "w' = w"
  | (app) client ver ps0 ps rep where "map_of (m_clients m) cid = Some client"
      "NormalizeOverridesForVersion ver ps0 = Inr ps" "replacement_ok (m_data m) rep"
      "rep \<noteq> None \<longrightarrow> ver = ProtocolVersion31"
      "applyClientUpdateLocked cr client ver ps (cd_Routing client) False rep guard m w = (r, m', w')"
proof -
  have none: "replacement_ok (m_data m) None" by (simp add: replacement_ok_def)
  consider (refused) e where "r = Inl e" "m' = m" "w' = w"
    | (v2) client ps where "map_of (m_clients m) cid = Some client"
        "\<exists>ps0. NormalizeOverridesForVersion ProtocolVersion2 ps0 = Inr ps"
        "applyClientUpdateLocked cr client ProtocolVersion2 ps (cd_Routing client) False None guard m w = (r, m', w')"
    | (v31) client ps kid k where "map_of (m_clients m) cid = Some client" "regenerate_v31 rnd m client = Inr (ps, kid, k)"
        "applyClientUpdateLocked cr client ProtocolVersion31 ps (cd_Routing client) False (Some (kid, k)) guard m w = (r, m', w')"
    using assms(1) unfolding RegenerateAWGParams_def
    by (auto split: option.splits if_splits sum.splits prod.splits dest!: regenerate_v2_Inr)
  then show ?thesis
  proof cases
    case v2
    with none app show ?thesis by blast
  next
    case v31
    have "replacement_ok (m_data m) (Some (kid, k))"
      using newHeaderKeyData_ok [OF conjunct2 [OF regenerate_v31_Inr [OF v31(2)]] assms(2)] .
    with v31 regenerate_v31_Inr [OF v31(2)] app show ?thesis by blast
  qed (rule same)
qed

lemma RegenerateAWGParams_inv:
  assumes run: "RegenerateAWGParams cr rnd cid guard m w = (r, m', w')"
    and guard: "\<forall>g. guard = Some g \<longrightarrow> guard_ok R g" and inv: "manager_inv cr m" and rnd: "rand_ok rnd"
  shows "manager_inv cr m'"
  using run rnd
proof (cases rule: RegenerateAWGParams_cases)
  case (app client ver ps0 ps rep)
  note mem = manager_inv_client [OF inv app(1)]
  have rt: "NormalizeRouting (cd_Routing client) = Inr (cd_Routing client)" using mem by (simp add: client_ok_def)
  show ?thesis
    by (rule applyClientUpdate_inv [OF app(5) guard inv _ app(3,4,2) rt]) (use mem app in simp)
qed (use inv in simp)

section \<open>Deleting\<close>

lemma delete_prepare_Inr:
  assumes "delete_prepare cr cid m w = Inr (client, pub, psk, profile, port, d')" "manager_inv cr m"
  obtains i where "map_of (m_clients m) cid = Some client" "Base64ToKey (cd_PublicKey client) = Inr pub"
    "decodePresharedKey (cd_PresharedKey client) = Inr psk" "client_profile cr m client = Inr profile"
    "dp_PortForProfile (m_pool m) profile w = Inr port"
    "i < length (sd_Clients (m_data m))" "sd_Clients (m_data m) ! i = client" "cd_ID client = cid"
    "d' = markAndSweepHeaderKeys ((m_data m)\<lparr>sd_Clients := drop_at i (sd_Clients (m_data m))\<rparr>)"
proof -
  have clone: "cloneStorageData (m_data m) = m_data m" using assms(2) by simp
  obtain i where c: "map_of (m_clients m) cid = Some client" "Base64ToKey (cd_PublicKey client) = Inr pub"
    "decodePresharedKey (cd_PresharedKey client) = Inr psk" "client_profile cr m client = Inr profile"
    "dp_PortForProfile (m_pool m) profile w = Inr port"
    and i: "stored_index cid (sd_Clients (m_data m)) = Some i"
    and d: "d' = markAndSweepHeaderKeys ((m_data m)\<lparr>sd_Clients := drop_at i (sd_Clients (m_data m))\<rparr>)"
    using assms(1) unfolding delete_prepare_def clone Let_def
    by (auto simp: res_bind_eq_Inr map_err_eq_Inr split: option.splits)
  have cid: "cd_ID client = cid" by (rule manager_inv_client(2) [OF assms(2) c(1)])
  have "stored_index (cd_ID client) (sd_Clients (m_data m)) = Some i" using i cid by simp
  from stored_index_client [OF assms(2) _ this] c cid d show ?thesis by (intro that) auto
qed

lemma drop_at_distinct_map: "i < length xs \<Longrightarrow> distinct (map f xs) \<Longrightarrow> distinct (map f (drop_at i xs))"
  using drop_at_distinct [of i "map f xs"] by (simp only: drop_at_map length_map)

lemma delete_data_ok:
  assumes data: "data_ok cr cfg df d" and i: "i < length (sd_Clients d)"
    and d': "d' = markAndSweepHeaderKeys (d\<lparr>sd_Clients := drop_at i (sd_Clients d)\<rparr>)"
  shows "data_ok cr cfg df d'"
proof -
  have sub: "set (drop_at i (sd_Clients d)) \<subseteq> set (sd_Clients d)" using set_take_subset set_drop_subset by fastforce
  show ?thesis
    unfolding d' using data sub
    by (intro data_ok_sweep) (auto simp: data_ok_def drop_at_distinct_map i simp del: map_append distinct_append set_append)
qed

lemma DeleteClient_cases:
  assumes "DeleteClient cr cid m w = (r, m', w')"
  obtains (failed) e where "r = Some e" "m' = m"
  | (committed) client pub psk profile port d' w1 w2 w3 where
      "delete_prepare cr cid m w = Inr (client, pub, psk, profile, port, d')"
      "blockLANLocked m w = (None, w1)"
      "dp_RemovePeer (m_pool m) profile pub (cd_Address client) w1 = (None, w2)"
      "m_save m d' w2 = (None, w3)"
      "m' = m\<lparr>m_usedIPs := m_usedIPs m - {cd_Address client}, m_clients := AList.delete cid (m_clients m), m_data := d'\<rparr>"
      "rebuildLANLocked m' w3 = (r, w')"
proof (cases "delete_prepare cr cid m w")
  case (Inl e)
  with assms show ?thesis by (intro failed [of e]) (simp_all add: DeleteClient_def)
next
  case (Inr t)
  then obtain client pub psk profile port d' where
    prep: "delete_prepare cr cid m w = Inr (client, pub, psk, profile, port, d')" by (cases t) auto
  obtain e1 w1 where block: "blockLANLocked m w = (e1, w1)" by fastforce
  obtain e2 w2 where rm: "dp_RemovePeer (m_pool m) profile pub (cd_Address client) w1 = (e2, w2)" by fastforce
  obtain e3 w3 where save: "m_save m d' w2 = (e3, w3)" by fastforce
  obtain e4 w4 where add: "dp_AddPeer (m_pool m) profile port pub psk (cd_Address client) w3 = (e4, w4)" by fastforce
  let ?m = "m\<lparr>m_usedIPs := m_usedIPs m - {cd_Address client}, m_clients := AList.delete cid (m_clients m), m_data := d'\<rparr>"
  obtain e5 w5 where lan: "rebuildLANLocked ?m w3 = (e5, w5)" by fastforce
  note run = assms [unfolded DeleteClient_def Let_def, simplified prep block rm save add lan, simplified]
  show ?thesis
  proof (cases "e1 = None \<and> e2 = None \<and> e3 = None")
    case True
    with run have "m' = ?m" "r = e5" "w' = w5"
      by (auto simp: block rm save lan split: option.splits)
    with True prep block rm save lan show ?thesis by (intro committed) auto
  next
    case False
    with run have "m' = m" "\<exists>e. r = Some e"
      by (auto simp: block rm save add split: option.splits)
    with failed show ?thesis by blast
  qed
qed

lemma DeleteClient_inv:
  assumes run: "DeleteClient cr cid m w = (r, m', w')" and inv: "manager_inv cr m"
  shows "manager_inv cr m'"
  using run
proof (cases rule: DeleteClient_cases)
  case (committed client pub psk profile port d' w1 w2 w3)
  from committed(1) inv obtain i where i: "i < length (sd_Clients (m_data m))" "sd_Clients (m_data m) ! i = client"
    "cd_ID client = cid" "d' = markAndSweepHeaderKeys ((m_data m)\<lparr>sd_Clients := drop_at i (sd_Clients (m_data m))\<rparr>)"
    by (rule delete_prepare_Inr)
  have ids: "distinct (map cd_ID (sd_Clients (m_data m)))" and addrs: "distinct (map cd_Address (sd_Clients (m_data m)))"
    using inv by (simp_all add: manager_inv_def data_ok_def)
  have "cd_Address ` set (drop_at i (sd_Clients (m_data m))) = cd_Address ` set (sd_Clients (m_data m)) - {cd_Address client}"
    using drop_at_distinct [of i "map cd_Address (sd_Clients (m_data m))"] addrs i
    by (simp only: drop_at_map [symmetric] length_map set_map nth_map)
  moreover have "data_ok cr (m_config m) (m_defaults m) d'"
    using inv delete_data_ok [OF _ i(1) i(4)] by (simp add: manager_inv_def)
  ultimately show ?thesis
    using inv i client_map_drop(1) [OF ids i(1)] unfolding committed(5) manager_inv_def
    by (auto simp: delete_conv' distinct_delete simp del: map_append set_append)
qed (use inv in simp)

section \<open>LAN groups\<close>

definition regroup :: "string set \<Rightarrow> string \<Rightarrow> ClientData \<Rightarrow> ClientData" where
  "regroup ids g c = (if cd_ID c \<in> ids then c\<lparr>cd_LANGroupID := g\<rparr> else c)"

lemma regroup_fields [simp]:
  "cd_ID (regroup ids g c) = cd_ID c" "cd_Address (regroup ids g c) = cd_Address c"
  "peer_key (regroup ids g c) = peer_key c" "peer_psk (regroup ids g c) = peer_psk c"
  "cd_ProtocolVersion (regroup ids g c) = cd_ProtocolVersion c" "cd_AWGParams (regroup ids g c) = cd_AWGParams c"
  "cd_headerKeyID (regroup ids g c) = cd_headerKeyID c"
  by (simp_all add: regroup_def peer_key_def peer_psk_def)

lemma clone_group: "cloneClientData (c\<lparr>cd_LANGroupID := g\<rparr>) = (cloneClientData c)\<lparr>cd_LANGroupID := g\<rparr>"
  by (simp add: cloneClientData_def)

lemma regroup_ok: "client_ok cr cfg df d c \<Longrightarrow> g \<noteq> [] \<Longrightarrow> client_ok cr cfg df d (regroup ids g c)"
  by (auto simp: regroup_def client_ok_def client_keys_ok_def clone_group)

lemma stored_indexes_Some:
  assumes "distinct (map cd_ID cs)"
  shows "map_of (stored_indexes cs) cid = Some i \<longleftrightarrow> i < length cs \<and> cd_ID (cs ! i) = cid"
proof -
  have "distinct (map fst (rev (zip (map cd_ID cs) [0..<length cs])))" using assms by (simp flip: rev_map)
  then have "map_of (stored_indexes cs) cid = Some i \<longleftrightarrow> (cid, i) \<in> set (zip (map cd_ID cs) [0..<length cs])"
    by (simp add: stored_indexes_def map_of_eq_Some_iff)
  also have "\<dots> \<longleftrightarrow> i < length cs \<and> cd_ID (cs ! i) = cid" 
  proof
    assume "i < length cs \<and> cd_ID (cs ! i) = cid"
    then show "(cid, i) \<in> set (zip (map cd_ID cs) [0..<length cs])"
      unfolding in_set_zip by (intro exI [of _ i]) simp
  qed (auto simp: in_set_zip)
  finally show ?thesis .
qed

lemma stored_indexes_None: "map_of (stored_indexes cs) cid = None \<longleftrightarrow> cid \<notin> cd_ID ` set cs"
  by (auto simp: stored_indexes_def map_of_eq_None_iff image_image simp flip: set_map)

lemma set_group_regroup:
  assumes "distinct (map cd_ID cs)" "map cd_ID xs = map cd_ID cs"
  shows "set_group (stored_indexes cs) g cid xs = map (regroup {cid} g) xs"
proof (cases "map_of (stored_indexes cs) cid")
  case None
  then have "cid \<notin> cd_ID ` set cs" by (simp add: stored_indexes_None)
  then have "cid \<notin> cd_ID ` set xs" using assms(2) by (metis list.set_map)
  with None show ?thesis by (auto simp: set_group_def regroup_def intro!: map_idI [symmetric])
next
  case (Some i)
  then have i: "i < length cs" "cd_ID (cs ! i) = cid" by (simp_all add: stored_indexes_Some [OF assms(1)])
  have l: "length xs = length cs" using assms(2) by (metis length_map)
  have d: "distinct (map cd_ID xs)" using assms by simp
  have x: "cd_ID (xs ! i) = cid" using i l assms(2) by (metis nth_map)
  have "cd_ID (xs ! j) = cid \<longleftrightarrow> j = i" if "j < length xs" for j
    using nth_ids_unique [OF d, of j i] i l x that by auto
  with Some i l show ?thesis
    by (auto simp: set_group_def regroup_def nth_list_update intro!: nth_equalityI)
qed

lemma fold_set_group:
  assumes "distinct (map cd_ID cs)" "map cd_ID xs = map cd_ID cs"
  shows "fold (set_group (stored_indexes cs) g) ids xs = map (regroup (set ids) g) xs"
  using assms(2)
proof (induction ids arbitrary: xs)
  case Nil
  show ?case by (simp add: regroup_def)
next
  case (Cons a ids)
  have "map cd_ID (map (regroup {a} g) xs) = map cd_ID cs" using Cons.prems by (simp add: comp_def)
  from Cons.IH [OF this] show ?case
    by (simp add: set_group_regroup [OF assms(1) Cons.prems]) (simp add: regroup_def)
qed

lemma fold_update_clients:
  "map_of (fold (\<lambda>(k, c). AList.update k c) (zip ids (map f ids)) cs) k = (if k \<in> set ids then Some (f k) else map_of cs k)"
  "gm_wf cs \<Longrightarrow> gm_wf (fold (\<lambda>(k, c). AList.update k c) (zip ids (map f ids)) cs)"
  by (induction ids arbitrary: cs) (auto simp: update_conv' distinct_update)

lemma client_map_map:
  assumes "distinct (map cd_ID cs)" "\<forall>c. cd_ID (h c) = cd_ID c"
  shows "client_map (map h cs) k = map_option h (client_map cs k)"
  using assms(2) by (induction cs) auto

text \<open>The document that a change of groups saves, and the manager it leaves.\<close>

definition grouped :: "string list \<Rightarrow> string \<Rightarrow> StorageData \<Rightarrow> StorageData" where
  "grouped ids g d = d\<lparr>sd_Clients := map (regroup (set ids) g) (sd_Clients d)\<rparr>"

lemma grouped_data_ok:
  assumes "data_ok cr cfg df d" "g \<noteq> []"
  shows "data_ok cr cfg df (grouped ids g d)"
  using assms by (auto simp: data_ok_def grouped_def comp_def regroup_ok)

lemma UpdateLANGroup_cases:
  assumes "UpdateLANGroup ids g m w = (r, m', w')" "manager_inv cr m"
  obtains (failed) e w1 e2 where "r = Inl e" "m' = m"
      "w' = w \<or> (\<exists>x. blockLANLocked m w = (Some x, w'))
        \<or> blockLANLocked m w = (None, w1) \<and> m_save m (grouped ids g (m_data m)) w1 = (Some e2, w')"
  | (committed) w1 w2 where "ids \<noteq> []" "g \<noteq> []" "distinct ids" "set ids \<subseteq> cd_ID ` set (sd_Clients (m_data m))"
      "blockLANLocked m w = (None, w1)"
      "m_save m (grouped ids g (m_data m)) w1 = (None, w2)" "m_data m' = grouped ids g (m_data m)"
      "map_of (m_clients m') = client_map (sd_Clients (m_data m'))" "gm_wf (m_clients m')"
      "m_pool m' = m_pool m" "m_save m' = m_save m" "m_config m' = m_config m" "m_defaults m' = m_defaults m"
      "m_usedIPs m' = m_usedIPs m" "fst (rebuildLANLocked m' w2) = (case r of Inl e \<Rightarrow> Some e | Inr _ \<Rightarrow> None)"
      "snd (rebuildLANLocked m' w2) = w'"
proof -
  let ?ix = "stored_indexes (sd_Clients (m_data m))" and ?d = "grouped ids g (m_data m)"
  have clone: "cloneStorageData (m_data m) = m_data m" using assms(2) by simp
  have ids: "distinct (map cd_ID (sd_Clients (m_data m)))" using assms(2) by (simp add: manager_inv_def data_ok_def)
  have d: "(m_data m)\<lparr>sd_Clients := fold (set_group ?ix g) ids (sd_Clients (m_data m))\<rparr> = ?d"
    by (simp add: fold_set_group [OF ids] grouped_def)
  define f where "f cid = cloneClientData (sd_Clients ?d ! the (map_of ?ix cid))" for cid
  let ?m = "m\<lparr>m_data := ?d, m_clients := fold (\<lambda>(cid, c). AList.update cid c) (zip ids (map f ids)) (m_clients m)\<rparr>"
  obtain e1 w1 where block: "blockLANLocked m w = (e1, w1)" by fastforce
  obtain e2 w2 where save: "m_save m ?d w1 = (e2, w2)" by fastforce
  obtain e3 w3 where lan: "rebuildLANLocked ?m w2 = (e3, w3)" by fastforce
  note run = assms(1) [unfolded UpdateLANGroup_def clone Let_def d f_def [symmetric]]
  let ?checks = "first_err (concat (map (lan_checks m) ids))"
  show ?thesis
  proof (cases "ids \<noteq> [] \<and> g \<noteq> [] \<and> distinct ids \<and> ?checks = None \<and> e1 = None \<and> e2 = None")
    case False
    with run have "m' = m" "\<exists>e. r = Inl e"
      and w: "w' = w \<or> e1 \<noteq> None \<and> w' = w1 \<or> e1 = None \<and> e2 \<noteq> None \<and> w' = w2"
      by (auto simp: block save split: if_splits option.splits)
    with block save failed [of _ w1 "the e2"] show ?thesis by (cases e1; cases e2) auto
  next
    case True
    with run have m': "m' = ?m" and r: "r = (case e3 of None \<Rightarrow> Inr (map f ids) | Some e \<Rightarrow> Inl e)" and w: "w' = w3"
      by (auto simp: block save lan split: option.splits)
    have sub: "set ids \<subseteq> cd_ID ` set (sd_Clients (m_data m))"
    proof
      fix cid assume "cid \<in> set ids"
      moreover have "\<forall>e \<in> set (concat (map (lan_checks m) ids)). e = None"
        using True first_err_None_iff [of "concat (map (lan_checks m) ids)"] by blast
      ultimately have "\<forall>e \<in> set (lan_checks m cid). e = None" by simp
      then have "map_of ?ix cid \<noteq> None" by (simp add: lan_checks_def fail_if_eq)
      then show "cid \<in> cd_ID ` set (sd_Clients (m_data m))" by (simp only: stored_indexes_None not_not)
    qed
    have f: "client_map (sd_Clients ?d) cid = Some (f cid)" if cid: "cid \<in> set ids" for cid
    proof -
      obtain i where i: "map_of ?ix cid = Some i" using sub cid stored_indexes_None by (metis not_None_eq subsetD)
      then have l: "i < length (sd_Clients (m_data m))" "cd_ID (sd_Clients (m_data m) ! i) = cid"
        by (simp_all add: stored_indexes_Some [OF ids])
      have ids': "distinct (map cd_ID (sd_Clients ?d))" using ids by (simp add: grouped_def comp_def)
      have ok: "client_ok cr (m_config m) (m_defaults m) (m_data m) (sd_Clients (m_data m) ! i)"
        using assms(2) l by (auto simp: manager_inv_def data_ok_def)
      have "cloneClientData (sd_Clients ?d ! i) = sd_Clients ?d ! i"
        using regroup_ok [OF ok, of g "set ids"] True l by (simp add: grouped_def client_ok_def)
      then show ?thesis using i l client_map_Some [OF ids'] by (auto simp: f_def grouped_def)
    qed
    have "map_of (m_clients m') cid = client_map (sd_Clients (m_data m')) cid" for cid
    proof (cases "cid \<in> set ids")
      case in_ids: True
      then show ?thesis using f by (simp add: m' fold_update_clients)
    next
      case not_in: False
      then have "map_option (regroup (set ids) g) (client_map (sd_Clients (m_data m)) cid)
          = client_map (sd_Clients (m_data m)) cid"
        using client_map_Some [OF ids, THEN iffD1, of cid]
        by (cases "client_map (sd_Clients (m_data m)) cid") (auto simp: regroup_def)
      moreover have "client_map (sd_Clients ?d) cid = map_option (regroup (set ids) g) (client_map (sd_Clients (m_data m)) cid)"
        using client_map_map [OF ids, of "regroup (set ids) g" cid] by (simp add: grouped_def)
      moreover have "map_of (m_clients m') cid = client_map (sd_Clients (m_data m)) cid"
        using not_in assms(2) by (simp add: m' fold_update_clients manager_inv_def)
      moreover have "m_data m' = ?d" by (simp add: m')
      ultimately show ?thesis by simp
    qed
    then have "map_of (m_clients m') = client_map (sd_Clients (m_data m'))" by (rule ext)
    with True block save sub r w m' lan assms(2) show ?thesis
      by (intro committed) (auto simp: fold_update_clients manager_inv_def split: option.splits)
  qed
qed

lemma UpdateLANGroup_inv:
  assumes run: "UpdateLANGroup ids g m w = (r, m', w')" and inv: "manager_inv cr m"
  shows "manager_inv cr m'"
  using run inv
proof (cases rule: UpdateLANGroup_cases)
  case (committed w1 w2)
  with inv show ?thesis
    by (auto simp: manager_inv_def grouped_data_ok) (auto simp: grouped_def image_image)
qed (use inv in simp)

lemma SetServerPrivateKey_inv:
  assumes "SetServerPrivateKey key m w = (r, m', w')" "manager_inv cr m"
  shows "manager_inv cr m'"
  using assms(1) assms(2)
  by (auto simp: SetServerPrivateKey_def Let_def manager_inv_def data_ok_def split: prod.splits option.splits)

end
