(* ===== verification/Manager_Restore.thy ===== *)
theory Manager_Restore
  imports Manager_Steps
begin

text \<open>
  Restarting. A plan that \<open>PrepareRestorePlan\<close> accepts establishes the invariant of the manager, and a
  document that satisfies the invariant is restored without any change: every client, its profile and
  the resolved defaults come back as they were.
\<close>

section \<open>One persisted client\<close>

text \<open>An entry of a plan describes a client as the devices will see it.\<close>

definition entry_for :: "crypto \<Rightarrow> ManagerDefaults \<Rightarrow> StorageData \<Rightarrow> ClientData \<Rightarrow> restoreEntry \<Rightarrow> bool" where
  "entry_for cr df d c e \<longleftrightarrow>
     re_client e = cloneClientData c \<and> re_publicKey e = peer_key c \<and> re_presharedKey e = peer_psk c
     \<and> effectiveProfileForData cr df d (cd_ProtocolVersion c) (cd_AWGParams c) (cd_headerKeyID c) = Inr (re_profile e)
     \<and> re_requestedPort e = Port (params (re_profile e))"

lemma normalizeStoredAddress_Inr:
  assumes "normalizeStoredAddress parseIP cfg address = Inr (s, changed)"
  shows "\<exists>a. s = addr_String a \<and> client_addr cfg a"
  using assms by (auto simp: normalizeStoredAddress_def client_addr_def Let_def split: option.splits if_splits)

lemma if_Inl_eq_Inr: "(if P then Inl e else r) = Inr x \<longleftrightarrow> \<not> P \<and> r = Inr x"
  by simp

lemma case_sum_Inr: "(case r of Inl e \<Rightarrow> Inl (f e) | Inr x \<Rightarrow> g x) = Inr z \<longleftrightarrow> (\<exists>x. r = Inr x \<and> g x = Inr z)"
  by (cases r) auto

lemma restore_client_Inr:
  assumes "restore_client cr parseIP cfg df d (ids, addrs, keys) client = Inr (c, e, changed)"
  shows "client_ok cr cfg df d (cloneClientData c)" "entry_for cr df d c e"
    and "cd_ID c \<notin> set ids" "cd_Address c \<notin> set addrs" "peer_key c \<notin> set keys"
proof -
  let ?v = "if cd_ProtocolVersion client = [] then ProtocolVersion2 else cd_ProtocolVersion client"
    and ?g = "if cd_LANGroupID client = [] then defaultLANGroupID (cd_ID client) else cd_LANGroupID client"
  obtain address changed2 priv pub psk nps nrt profile where
    ok: "validateClientID (cd_ID client) = None" "cd_ID client \<notin> set ids"
    and addr: "normalizeStoredAddress parseIP cfg (cd_Address client) = Inr (address, changed2)" "address \<notin> set addrs"
    and keys: "Base64ToKey (cd_PrivateKey client) = Inr priv" "Base64ToKey (cd_PublicKey client) = Inr pub"
      "cr_mult cr priv = pub" "pub \<notin> set keys" "decodePresharedKey (cd_PresharedKey client) = Inr psk"
    and nps: "NormalizeOverridesForVersion ?v (cd_AWGParams client) = Inr nps"
    and nrt: "NormalizeRouting (cd_Routing client) = Inr nrt"
    and hk: "?v = ProtocolVersion2 \<longrightarrow> cd_headerKeyID client = []"
    and prof: "effectiveProfileForData cr df d ?v nps (cd_headerKeyID client) = Inr profile"
    and c: "c = client\<lparr>cd_ProtocolVersion := ?v, cd_LANGroupID := ?g, cd_Address := address, cd_AWGParams := nps,
        cd_Routing := nrt\<rparr>"
    and e: "e = \<lparr>re_client = cloneClientData c, re_profile = profile, re_publicKey = pub, re_presharedKey = psk,
        re_requestedPort = Port (params profile)\<rparr>"
    using assms unfolding restore_client_def Let_def prod.case PublicKeyFromPrivate_def
    by (clarsimp simp: check_eq_Inr res_bind_eq_Inr map_err_eq_Inr if_Inl_eq_Inr wrap_err_def)
  obtain a where a: "address = addr_String a" "client_addr cfg a" using normalizeStoredAddress_Inr [OF addr(1)] by blast
  have "client_keys_ok cr c" using keys by (simp add: c client_keys_ok_def)
  then show "client_ok cr cfg df d (cloneClientData c)"
    using ok a hk normalize_clone [OF nps] NormalizeRouting_idem [OF nrt] effective_clone [OF prof]
    by (auto simp: client_ok_def client_keys_ok_def c defaultLANGroupID_def)
  show "entry_for cr df d c e" using keys prof by (simp add: entry_for_def e c peer_key_def peer_psk_def)
  show "cd_ID c \<notin> set ids" "cd_Address c \<notin> set addrs" "peer_key c \<notin> set keys"
    using ok addr keys by (simp_all add: c peer_key_def)
qed

lemma restore_client_fixpoint:
  assumes ok: "client_ok cr cfg df d c" and fresh: "cd_ID c \<notin> set ids" "cd_Address c \<notin> set addrs" "peer_key c \<notin> set keys"
    and parse: "\<forall>a. parseIP (addr_String a) = Some a"
  shows "\<exists>e. restore_client cr parseIP cfg df d (ids, addrs, keys) c = Inr (c, e, False)"
proof -
  obtain a net srv where a: "cd_Address c = addr_String a" "Network cfg = Some net" "ServerIP cfg = Some srv"
    "Contains net a" "a \<noteq> srv" "snd net \<noteq> 32" "a \<noteq> fst net" "a \<noteq> broadcast net"
    using ok by (auto simp: client_ok_def client_addr_def)
  then have addr: "normalizeStoredAddress parseIP cfg (cd_Address c) = Inr (cd_Address c, False)"
    using parse by (simp add: normalizeStoredAddress_def)
  obtain priv pub psk where k: "Base64ToKey (cd_PrivateKey c) = Inr priv" "Base64ToKey (cd_PublicKey c) = Inr pub"
    "cr_mult cr priv = pub" "decodePresharedKey (cd_PresharedKey c) = Inr psk"
    using ok by (auto simp: client_ok_def client_keys_ok_def)
  have pub: "peer_key c = pub" using k by (simp add: peer_key_def)
  obtain p where p: "effectiveProfileForData cr df d (cd_ProtocolVersion c) (cd_AWGParams c) (cd_headerKeyID c) = Inr p"
    using ok by (auto simp: client_ok_def)
  have v: "cd_ProtocolVersion c \<noteq> []" using effective_Inr(1) [OF p] by (auto simp: version_Valid_def version_consts)
  have n: "validateClientID (cd_ID c) = None" "cd_LANGroupID c \<noteq> []"
    "NormalizeOverridesForVersion (cd_ProtocolVersion c) (cd_AWGParams c) = Inr (cd_AWGParams c)"
    "NormalizeRouting (cd_Routing c) = Inr (cd_Routing c)"
    "cd_ProtocolVersion c = ProtocolVersion2 \<Longrightarrow> cd_headerKeyID c = []"
    using ok by (auto simp: client_ok_def)
  have id: "c\<lparr>cd_ProtocolVersion := cd_ProtocolVersion c, cd_LANGroupID := cd_LANGroupID c\<rparr> = c"
    "c\<lparr>cd_Address := cd_Address c, cd_AWGParams := cd_AWGParams c, cd_Routing := cd_Routing c\<rparr> = c" by simp_all
  show ?thesis
    unfolding restore_client_def Let_def prod.case
    using fresh n v addr k pub p id by (simp add: wrap_err_def PublicKeyFromPrivate_def persistedValueChanged_def)
qed

section \<open>All of them\<close>

lemma restore_clients_Inr:
  "restore_clients cr parseIP cfg df d (ids, addrs, keys) clients = Inr (cs, es, changed) \<Longrightarrow>
     list_all2 (entry_for cr df d) cs es
     \<and> distinct (map cd_ID cs) \<and> cd_ID ` set cs \<inter> set ids = {}
     \<and> distinct (map cd_Address cs) \<and> cd_Address ` set cs \<inter> set addrs = {}
     \<and> distinct (map peer_key cs) \<and> peer_key ` set cs \<inter> set keys = {}
     \<and> (\<forall>c \<in> set cs. client_ok cr cfg df d (cloneClientData c))"
proof (induction clients arbitrary: ids addrs keys cs es changed)
  case (Cons client rest)
  from Cons.prems obtain c e ch cs' es' ch' where
    one: "restore_client cr parseIP cfg df d (ids, addrs, keys) client = Inr (c, e, ch)"
    and more: "restore_clients cr parseIP cfg df d (cd_ID c # ids, cd_Address c # addrs, re_publicKey e # keys) rest
      = Inr (cs', es', ch')"
    and cs: "cs = c # cs'" "es = e # es'" by (clarsimp simp: res_bind_eq_Inr)
  note R = restore_client_Inr [OF one]
  have "re_publicKey e = peer_key c" using R(2) by (simp add: entry_for_def)
  with Cons.IH [OF more] R show ?case by (auto simp: cs)
qed simp

lemma restore_clients_fixpoint:
  assumes "\<forall>a. parseIP (addr_String a) = Some a"
  shows "\<forall>c \<in> set cs. client_ok cr cfg df d c \<Longrightarrow>
     distinct (map cd_ID cs) \<Longrightarrow> cd_ID ` set cs \<inter> set ids = {} \<Longrightarrow>
     distinct (map cd_Address cs) \<Longrightarrow> cd_Address ` set cs \<inter> set addrs = {} \<Longrightarrow>
     distinct (map peer_key cs) \<Longrightarrow> peer_key ` set cs \<inter> set keys = {} \<Longrightarrow>
     \<exists>es. restore_clients cr parseIP cfg df d (ids, addrs, keys) cs = Inr (cs, es, False)"
proof (induction cs arbitrary: ids addrs keys)
  case (Cons c cs)
  have "client_ok cr cfg df d c" "cd_ID c \<notin> set ids" "cd_Address c \<notin> set addrs" "peer_key c \<notin> set keys"
    using Cons.prems by auto
  from restore_client_fixpoint [OF this assms] obtain e where
    e: "restore_client cr parseIP cfg df d (ids, addrs, keys) c = Inr (c, e, False)" by blast
  then have "re_publicKey e = peer_key c" using restore_client_Inr(2) [OF e] by (simp add: entry_for_def)
  moreover have "\<exists>es. restore_clients cr parseIP cfg df d (cd_ID c # ids, cd_Address c # addrs, peer_key c # keys) cs
      = Inr (cs, es, False)"
    using Cons.prems by (intro Cons.IH) auto
  ultimately show ?case using e by auto
qed simp

section \<open>Defaults\<close>

lemma resolveManagerDefaults_Inr:
  assumes "resolveManagerDefaults cr df d = Inr df'"
  obtains s keys where "sd_AWG31 d = Some s" "as_HeaderKeys s = Some keys" "validateAWG31Storage s = None"
    "md_DefaultHeaderKeyID df' = as_DefaultHeaderKeyID s" "md_DefaultVersion df' = md_DefaultVersion df"
    "version_Valid (md_DefaultVersion df)"
proof -
  obtain s where s: "sd_AWG31 d = Some s" "validateAWG31Storage s = None"
    "md_DefaultHeaderKeyID df' = as_DefaultHeaderKeyID s" "md_DefaultVersion df' = md_DefaultVersion df"
    "version_Valid (md_DefaultVersion df)"
    using assms by (auto simp: resolveManagerDefaults_def check_eq_Inr res_bind_eq_Inr Let_def cloneManagerDefaults_def
        case_sum_Inr split: option.splits if_splits)
  moreover have "as_HeaderKeys s \<noteq> None"
  proof
    assume "as_HeaderKeys s = None"
    with s(2) show False
      unfolding validateAWG31Storage_def first_err_None_iff Let_def by (simp add: fail_if_eq)
  qed
  ultimately show ?thesis using that by blast
qed

lemma resolveManagerDefaults_cong:
  assumes "resolveManagerDefaults cr df d = Inr df'" "header_state_ok df' d'"
    and "map_option as_GeneratedParams (sd_AWG31 d') = map_option as_GeneratedParams (sd_AWG31 d)"
    and "resolveHeaderProtectionKey d' (md_DefaultHeaderKeyID df') = resolveHeaderProtectionKey d (md_DefaultHeaderKeyID df')"
  shows "resolveManagerDefaults cr df d' = Inr df'"
proof -
  obtain s keys where s: "sd_AWG31 d = Some s" "validateAWG31Storage s = None"
    "md_DefaultHeaderKeyID df' = as_DefaultHeaderKeyID s"
    using assms(1) by (rule resolveManagerDefaults_Inr)
  obtain s' where s': "sd_AWG31 d' = Some s'" "validateAWG31Storage s' = None" "as_DefaultHeaderKeyID s' = md_DefaultHeaderKeyID df'"
    using assms(2) by (auto simp: header_state_ok_def)
  have "as_GeneratedParams s' = as_GeneratedParams s" using assms(3) s s' by simp
  with s s' assms(1,4) show ?thesis
    by (auto simp: resolveManagerDefaults_def check_eq_Inr res_bind_eq_Inr Let_def case_sum_Inr
        split: option.splits if_splits)
qed

lemma resolved_defaults_clone:
  assumes "resolveManagerDefaults cr df d = Inr df'"
  shows "cloneManagerDefaults df' = df'"
  using assms
  by (auto simp: resolveManagerDefaults_def check_eq_Inr res_bind_eq_Inr Let_def case_sum_Inr cloneManagerDefaults_def
      ApplyGeneratedParamsV31_def cloneStoredAWGParams_def split: option.splits if_splits)

section \<open>Plans\<close>

text \<open>Go maps have unique keys: the documents that reach the manager do.\<close>

definition stored_wf :: "StorageData \<Rightarrow> bool" where
  "stored_wf d \<longleftrightarrow> (\<forall>s keys. sd_AWG31 d = Some s \<longrightarrow> as_HeaderKeys s = Some keys \<longrightarrow> gm_wf keys)"

lemma resolve_needs [simp]:
  "resolveHeaderProtectionKey (d\<lparr>sd_needsNormalization := b\<rparr>) = resolveHeaderProtectionKey d"
  by (simp add: resolveHeaderProtectionKey_def fun_eq_iff)

lemma resolve_clone [simp]: "resolveHeaderProtectionKey (cloneStorageData d) = resolveHeaderProtectionKey d"
  by (simp add: resolveHeaderProtectionKey_def fun_eq_iff)

lemma data_ok_needs [simp]: "data_ok cr cfg df (d\<lparr>sd_needsNormalization := b\<rparr>) = data_ok cr cfg df d"
proof -
  have "effectiveProfileForData cr df (d\<lparr>sd_needsNormalization := b\<rparr>) v ps k = effectiveProfileForData cr df d v ps k" for v ps k
    by (rule effective_cong) simp
  then show ?thesis by (simp add: data_ok_def client_ok_def header_state_ok_def)
qed

lemma restore_awg31_Inr:
  assumes "restore_awg31 rnd d = Inr (d', generated)" "stored_wf d"
  shows "stored_wf d'" "sd_Clients d' = sd_Clients d" "sd_needsNormalization d' = sd_needsNormalization d"
    "sd_ServerPrivateKey d' = sd_ServerPrivateKey d"
  using assms by (auto simp: restore_awg31_def pending_awg31_def res_bind_eq_Inr map_err_eq_Inr stored_wf_def
      split: option.splits if_splits)

lemma PrepareRestorePlan_Inr:
  assumes run: "PrepareRestorePlan cr parseIP rnd (Some cfg) df0 (Some data) = Inr plan" and wf: "stored_wf data"
  shows "resolveManagerDefaults cr df0 (rp_data plan) = Inr (rp_defaults plan)"
    and "data_ok cr cfg (rp_defaults plan) (cloneStorageData (rp_data plan))"
    and "list_all2 (entry_for cr (rp_defaults plan) (rp_data plan)) (sd_Clients (rp_data plan)) (rp_entries plan)"
    and "validateRestoreInterfaces cfg (rp_entries plan) = None"
    and "\<not> rp_needsNormalization plan \<Longrightarrow> \<not> sd_needsNormalization (rp_data plan)"
proof -
  obtain d generated df cs es changed where
    d: "restore_awg31 rnd (cloneStorageData data) = Inr (d, generated)"
    and df: "resolveManagerDefaults cr df0 d = Inr df"
    and cs: "restore_clients cr parseIP cfg df d ([], [], []) (sd_Clients d) = Inr (cs, es, changed)"
    and v: "validateRestoreInterfaces cfg es = None"
    and plan: "plan = \<lparr>rp_data = d\<lparr>sd_Clients := cs\<rparr>, rp_defaults = df, rp_entries = es,
                          rp_needsNormalization = (sd_needsNormalization data \<or> generated \<or> changed)\<rparr>"
    using run unfolding PrepareRestorePlan_def Let_def option.case
    by (clarsimp simp: check_eq_Inr res_bind_eq_Inr if_Inl_eq_Inr)
  have wfc: "stored_wf (cloneStorageData data)" using wf by (simp add: stored_wf_def)
  note D = restore_awg31_Inr [OF d wfc]
  note C = restore_clients_Inr [OF cs]
  obtain s keys where s: "sd_AWG31 d = Some s" "as_HeaderKeys s = Some keys" "validateAWG31Storage s = None"
    "md_DefaultHeaderKeyID df = as_DefaultHeaderKeyID s" using df by (rule resolveManagerDefaults_Inr)
  then have hs: "header_state_ok df d" using D(1) by (simp add: header_state_ok_def stored_wf_def)
  have "resolveManagerDefaults cr df0 (d\<lparr>sd_Clients := cs\<rparr>) = Inr df"
    by (rule resolveManagerDefaults_cong [OF df]) (simp_all add: hs)
  then show "resolveManagerDefaults cr df0 (rp_data plan) = Inr (rp_defaults plan)" by (simp add: plan)
  have pk: "peer_key (cloneClientData c) = peer_key c" for c by (simp add: peer_key_def)
  have ok: "client_ok cr cfg df (cloneStorageData (d\<lparr>sd_Clients := cs\<rparr>)) c" if "client_ok cr cfg df d c" for c
    by (rule client_ok_cong [OF that]) simp
  have "header_state_ok df (cloneStorageData (d\<lparr>sd_Clients := cs\<rparr>))" using hs by (simp add: header_state_ok_def)
  then show "data_ok cr cfg (rp_defaults plan) (cloneStorageData (rp_data plan))"
    using C ok by (simp add: plan data_ok_def comp_def pk)
  have "entry_for cr df (d\<lparr>sd_Clients := cs\<rparr>) = entry_for cr df d" by (simp add: entry_for_def fun_eq_iff)
  then show "list_all2 (entry_for cr (rp_defaults plan) (rp_data plan)) (sd_Clients (rp_data plan)) (rp_entries plan)"
    using C by (simp add: plan)
  show "validateRestoreInterfaces cfg (rp_entries plan) = None" using v by (simp add: plan)
  show "\<not> rp_needsNormalization plan \<Longrightarrow> \<not> sd_needsNormalization (rp_data plan)" using D(3) by (simp add: plan)
qed

lemma fold_client_update:
  "map_of (fold (\<lambda>c. AList.update (cd_ID c) (cloneClientData c)) cs ms) cid
     = (case client_map (rev (map cloneClientData cs)) cid of None \<Rightarrow> map_of ms cid | Some c \<Rightarrow> Some c)"
  "gm_wf ms \<Longrightarrow> gm_wf (fold (\<lambda>c. AList.update (cd_ID c) (cloneClientData c)) cs ms)"
  by (induction cs arbitrary: ms) (auto simp: update_conv' distinct_update map_add_def split: option.splits)

lemma client_map_rev:
  assumes "distinct (map cd_ID cs)"
  shows "client_map (rev cs) = client_map cs"
proof (rule ext)
  fix k
  have d: "distinct (map cd_ID (rev cs))" using assms by (simp flip: rev_map)
  show "client_map (rev cs) k = client_map cs k"
    by (rule option_eqI) (simp only: client_map_Some [OF assms] client_map_Some [OF d] set_rev)
qed

lemma NewManager_cases:
  assumes "NewManagerFromRestorePlan pool save cfg plan w = (Inr m, w')"
  shows "\<exists>w1 w2. restore_peers pool (rp_entries plan) w = (None, w1)
      \<and> dp_ApplyLANIsolation pool (lanPeers (sd_Clients (cloneStorageData (rp_data plan)))) w1 = (None, w2)
      \<and> (if rp_needsNormalization plan then save (cloneStorageData (rp_data plan)) w2 = (None, w') else w' = w2)"
    and "m_pool m = pool" "m_save m = save" "m_config m = cfg" "m_defaults m = cloneManagerDefaults (rp_defaults plan)"
    and "m_data m = (if rp_needsNormalization plan then (cloneStorageData (rp_data plan))\<lparr>sd_needsNormalization := False\<rparr>
                     else cloneStorageData (rp_data plan))"
    and "m_usedIPs m = cd_Address ` set (sd_Clients (cloneStorageData (rp_data plan)))"
    and "m_clients m = fold (\<lambda>c. AList.update (cd_ID c) (cloneClientData c)) (sd_Clients (cloneStorageData (rp_data plan))) []"
  using assms unfolding NewManagerFromRestorePlan_def Let_def
  by (auto simp: image_image split: prod.splits option.splits if_splits)

lemma restore_inv:
  assumes plan: "PrepareRestorePlan cr parseIP rnd (Some cfg) df0 (Some data) = Inr plan"
    and wf: "stored_wf data" and cfg: "config_ok cfg"
    and new: "NewManagerFromRestorePlan pool save cfg plan w = (Inr m, w')"
  shows "manager_inv cr m" "resolveManagerDefaults cr df0 (m_data m) = Inr (m_defaults m)" "\<not> sd_needsNormalization (m_data m)"
proof -
  note P = PrepareRestorePlan_Inr [OF plan wf]
  note M = NewManager_cases [OF new]
  have df: "m_defaults m = rp_defaults plan" using resolved_defaults_clone [OF P(1)] M(5) by simp
  have data: "data_ok cr cfg (m_defaults m) (m_data m)" using P(2) df by (simp add: M(6))
  have ids: "distinct (map cd_ID (sd_Clients (m_data m)))" and oks: "\<forall>c \<in> set (sd_Clients (m_data m)). cloneClientData c = c"
    using data by (auto simp: data_ok_def client_ok_def)
  have "map cloneClientData (sd_Clients (m_data m)) = sd_Clients (m_data m)" using oks by (simp add: map_idI)
  moreover have mc: "m_clients m = fold (\<lambda>c. AList.update (cd_ID c) (cloneClientData c)) (sd_Clients (m_data m)) []"
    by (simp add: M(6) M(8))
  ultimately have "map_of (m_clients m) = client_map (sd_Clients (m_data m))"
    by (auto simp: fold_client_update(1) client_map_rev [OF ids] fun_eq_iff split: option.splits)
  moreover have "gm_wf (m_clients m)" unfolding mc by (rule fold_client_update(2)) simp
  moreover have "m_usedIPs m = cd_Address ` set (sd_Clients (m_data m))" by (simp add: M(6) M(7))
  ultimately show "manager_inv cr m" using data cfg by (simp add: manager_inv_def M(4))
  show "resolveManagerDefaults cr df0 (m_data m) = Inr (m_defaults m)"
    unfolding df by (rule resolveManagerDefaults_cong [OF P(1)]) (use data df in \<open>auto simp: data_ok_def M(6)\<close>)
  show "\<not> sd_needsNormalization (m_data m)" using P(5) by (simp add: M(6))
qed

text \<open>A restart on the document of a well-formed manager rebuilds that manager's clients and defaults.\<close>

lemma restart_plan:
  assumes inv: "manager_inv cr m" and df: "resolveManagerDefaults cr df0 (m_data m) = Inr (m_defaults m)"
    and parse: "\<forall>a. parseIP (addr_String a) = Some a" and n: "\<not> sd_needsNormalization (m_data m)"
  shows "\<exists>es. list_all2 (entry_for cr (m_defaults m) (m_data m)) (sd_Clients (m_data m)) es
    \<and> PrepareRestorePlan cr parseIP rnd (Some (m_config m)) df0 (Some (m_data m))
        = check (validateRestoreInterfaces (m_config m) es)
            (Inr \<lparr>rp_data = m_data m, rp_defaults = m_defaults m, rp_entries = es, rp_needsNormalization = False\<rparr>)"
proof -
  have data: "data_ok cr (m_config m) (m_defaults m) (m_data m)" using inv by (simp add: manager_inv_def)
  have clone: "cloneStorageData (m_data m) = m_data m" using inv by simp
  obtain es where es: "restore_clients cr parseIP (m_config m) (m_defaults m) (m_data m) ([], [], []) (sd_Clients (m_data m))
      = Inr (sd_Clients (m_data m), es, False)"
    using restore_clients_fixpoint [OF parse, of "sd_Clients (m_data m)" cr "m_config m" "m_defaults m" "m_data m" "[]" "[]" "[]"] data
    by (auto simp: data_ok_def)
  have "version_Valid (cd_ProtocolVersion c)" if "c \<in> set (sd_Clients (m_data m))" for c
    using data that effective_Inr(1) by (force simp: data_ok_def client_ok_def)
  then have v: "list_all (\<lambda>c. cd_ProtocolVersion c \<in> {[], ProtocolVersion2, ProtocolVersion31}) (sd_Clients (m_data m))"
    by (auto simp: list_all_iff version_Valid_def)
  have s: "restore_awg31 rnd (m_data m) = Inr (m_data m, False)"
    using data by (auto simp: restore_awg31_def data_ok_def header_state_ok_def)
  have "(m_data m)\<lparr>sd_Clients := sd_Clients (m_data m)\<rparr> = m_data m" by simp
  with restore_clients_Inr [OF es] v s df es n show ?thesis
    unfolding PrepareRestorePlan_def Let_def option.case clone by (intro exI [of _ es]) simp
qed

end
