(* ===== verification/Manager_Reach.thy ===== *)
theory Manager_Reach
  imports Manager_Restore
begin

text \<open>
  The manager as a state machine: it starts from a restore plan, and every call of its operations is a
  step. The invariant, and the defaults that the stored 3.1 state resolves to, hold in every state it
  can reach, whatever the devices and the storage answer.
\<close>

section \<open>Steps\<close>

definition fault :: "'a res \<Rightarrow> go_error option" where
  "fault r = (case r of Inl e \<Rightarrow> Some e | Inr _ \<Rightarrow> None)"

lemma fault_simps [simp]: "fault (Inl e) = Some e" "fault (Inr x) = None" "fault r = None \<longleftrightarrow> (\<exists>x. r = Inr x)"
  "fault r = Some e \<longleftrightarrow> r = Inl e"
  by (cases r; auto simp: fault_def)+

text \<open>A step is labelled with the error that the caller gets.\<close>

inductive manager_step ::
  "crypto \<Rightarrow> ('w \<Rightarrow> 'w \<Rightarrow> bool) \<Rightarrow> 'w Manager \<times> 'w \<Rightarrow> go_error option \<Rightarrow> 'w Manager \<times> 'w \<Rightarrow> bool" for cr R where
  step_create: "CreateClientWithVersion cr rnd now name ver ps routing grp m w = (r, m', w') \<Longrightarrow>
     rand_ok rnd \<Longrightarrow> fresh_peer cr rnd m \<Longrightarrow> manager_step cr R (m, w) (fault r) (m', w')"
| step_update: "UpdateClient cr cid upd guard m w = (r, m', w') \<Longrightarrow>
     \<forall>g. guard = Some g \<longrightarrow> guard_ok R g \<Longrightarrow> manager_step cr R (m, w) (fault r) (m', w')"
| step_regenerate: "RegenerateAWGParams cr rnd cid guard m w = (r, m', w') \<Longrightarrow>
     \<forall>g. guard = Some g \<longrightarrow> guard_ok R g \<Longrightarrow> rand_ok rnd \<Longrightarrow> manager_step cr R (m, w) (fault r) (m', w')"
| step_groups: "UpdateLANGroup ids g m w = (r, m', w') \<Longrightarrow> manager_step cr R (m, w) (fault r) (m', w')"
| step_delete: "DeleteClient cr cid m w = (e, m', w') \<Longrightarrow> manager_step cr R (m, w) e (m', w')"
| step_server_key: "SetServerPrivateKey key m w = (e, m', w') \<Longrightarrow> manager_step cr R (m, w) e (m', w')"

inductive_cases manager_stepE: "manager_step cr R (m, w) e (m', w')"

inductive manager_reach ::
  "crypto \<Rightarrow> ('w \<Rightarrow> 'w \<Rightarrow> bool) \<Rightarrow> (string \<Rightarrow> addr4 option) \<Rightarrow> ManagerDefaults \<Rightarrow> 'w Manager \<times> 'w \<Rightarrow> bool"
  for cr R parseIP df0 where
  reach_start: "PrepareRestorePlan cr parseIP rnd (Some cfg) df0 (Some data) = Inr plan \<Longrightarrow> stored_wf data \<Longrightarrow>
     config_ok cfg \<Longrightarrow> NewManagerFromRestorePlan pool save cfg plan w = (Inr m, w') \<Longrightarrow>
     manager_reach cr R parseIP df0 (m, w')"
| reach_step: "manager_reach cr R parseIP df0 s \<Longrightarrow> manager_step cr R s e s' \<Longrightarrow> manager_reach cr R parseIP df0 s'"

section \<open>The defaults stay\<close>

definition keeps_defaults :: "ManagerDefaults \<Rightarrow> StorageData \<Rightarrow> StorageData \<Rightarrow> bool" where
  "keeps_defaults df d d' \<longleftrightarrow>
     map_option as_GeneratedParams (sd_AWG31 d') = map_option as_GeneratedParams (sd_AWG31 d)
     \<and> resolveHeaderProtectionKey d' (md_DefaultHeaderKeyID df) = resolveHeaderProtectionKey d (md_DefaultHeaderKeyID df)
     \<and> sd_needsNormalization d' = sd_needsNormalization d"

lemma keeps_refl [simp]: "keeps_defaults df d d"
  by (simp add: keeps_defaults_def)

lemma keeps_trans: "keeps_defaults df d d1 \<Longrightarrow> keeps_defaults df d1 d2 \<Longrightarrow> keeps_defaults df d d2"
  by (simp add: keeps_defaults_def)

lemma keeps_clients [simp]:
  "keeps_defaults df d (d\<lparr>sd_Clients := cs\<rparr>)" "keeps_defaults df d (d\<lparr>sd_ServerPrivateKey := k\<rparr>)"
  by (simp_all add: keeps_defaults_def)

lemma keeps_sweep:
  assumes "header_state_ok df d"
  shows "keeps_defaults df d (markAndSweepHeaderKeys d)"
proof -
  obtain s keys where s: "sd_AWG31 d = Some s" "as_HeaderKeys s = Some keys" "as_DefaultHeaderKeyID s = md_DefaultHeaderKeyID df"
    using assms by (auto simp: header_state_ok_def)
  then have "referenced d (md_DefaultHeaderKeyID df)" by (auto simp: referenced_def)
  with s sweep_awg31 [OF s(1,2)] show ?thesis
    by (simp add: keeps_defaults_def resolve_sweep) (simp add: markAndSweepHeaderKeys_def Let_def)
qed

lemma keeps_sweep_clients:
  "header_state_ok df d \<Longrightarrow> keeps_defaults df d (markAndSweepHeaderKeys (d\<lparr>sd_Clients := cs\<rparr>))"
  by (rule keeps_trans [OF keeps_clients(1) keeps_sweep]) simp

lemma default_key_resolves:
  assumes "header_state_ok df d"
  shows "\<exists>b. resolveHeaderProtectionKey d (md_DefaultHeaderKeyID df) = Inr b"
proof -
  obtain s keys where s: "sd_AWG31 d = Some s" "as_HeaderKeys s = Some keys" "validateAWG31Storage s = None"
    "as_DefaultHeaderKeyID s = md_DefaultHeaderKeyID df"
    using assms by (auto simp: header_state_ok_def)
  note v = s(3) [unfolded validateAWG31_None [OF s(2)]]
  then obtain k where "map_of keys (md_DefaultHeaderKeyID df) = Some k" using s by auto
  with v s show ?thesis by (fastforce simp: resolveHeaderProtectionKey_def dest: map_of_SomeD)
qed

lemma keeps_add_key:
  assumes "header_state_ok df d" "replacement_ok d rep" "add_header_key rep d = Inr d'"
  shows "keeps_defaults df d d'"
proof -
  have "md_DefaultHeaderKeyID df \<noteq> fst (the rep) \<or> rep = None"
    using default_key_resolves [OF assms(1)] assms(2) by (cases rep) (auto simp: replacement_ok_def split: prod.splits)
  from add_header_key_resolve [OF assms(3) this] assms(3) show ?thesis
    by (auto simp: keeps_defaults_def add_header_key_def split: option.splits)
qed

section \<open>What a step does\<close>

text \<open>A step keeps the configuration of the manager and the defaults.\<close>

definition step_ok :: "crypto \<Rightarrow> 'w Manager \<Rightarrow> 'w Manager \<Rightarrow> bool" where
  "step_ok cr m m' \<longleftrightarrow> manager_inv cr m'
     \<and> m_pool m' = m_pool m \<and> m_save m' = m_save m \<and> m_config m' = m_config m \<and> m_defaults m' = m_defaults m
     \<and> keeps_defaults (m_defaults m) (m_data m) (m_data m')"

lemma step_ok_refl: "manager_inv cr m \<Longrightarrow> step_ok cr m m"
  by (simp add: step_ok_def)

lemma commit_fields [simp]:
  "m_pool (commitClientLocked c d m) = m_pool m" "m_save (commitClientLocked c d m) = m_save m"
  "m_config (commitClientLocked c d m) = m_config m" "m_defaults (commitClientLocked c d m) = m_defaults m"
  "m_data (commitClientLocked c d m) = d"
  by (simp_all add: commitClientLocked_def)

lemma inv_header [dest]: "manager_inv cr m \<Longrightarrow> header_state_ok (m_defaults m) (m_data m)"
  by (simp add: manager_inv_def data_ok_def)

lemma create_step_ok:
  assumes run: "CreateClientWithVersion cr rnd now name ver ps routing grp m w = (r, m', w')"
    and inv: "manager_inv cr m" and env: "rand_ok rnd" "crypto_ok cr" "fresh_peer cr rnd m"
  shows "step_ok cr m m'"
  using run
proof (cases rule: CreateClientWithVersion_cases)
  case (committed client d' profile pub psk w1 w2 w3)
  have "keeps_defaults (m_defaults m) (m_data m) d'"
    unfolding create_prepare_spec(3) [OF committed(1) inv env] using inv by (intro keeps_sweep_clients) blast
  with CreateClient_inv [OF run inv env] committed(4) show ?thesis by (simp add: step_ok_def)
qed (use inv in \<open>simp add: step_ok_refl\<close>)

lemma apply_step_ok:
  assumes run: "applyClientUpdateLocked cr client ver ps routing reset rep guard m w = (r, m', w')"
    and guard: "\<forall>g. guard = Some g \<longrightarrow> guard_ok R g"
    and inv: "manager_inv cr m" "manager_inv cr m'" and rep: "replacement_ok (m_data m) rep"
  shows "step_ok cr m m'"
  using run guard
proof (cases rule: applyClientUpdate_cases)
  case (committed op nextClient d' np)
  from committed(1) inv(1) obtain i wk where wk: "add_header_key rep (m_data m) = Inr wk"
    and d': "d' = markAndSweepHeaderKeys (wk\<lparr>sd_Clients := (sd_Clients (m_data m))[i := nextClient]\<rparr>)"
    by (rule update_prepare_Inr)
  have data: "data_ok cr (m_config m) (m_defaults m) (m_data m)" using inv by (simp add: manager_inv_def)
  have "header_state_ok (m_defaults m) (m_data m)" using data by (simp add: data_ok_def)
  from keeps_trans [OF keeps_add_key [OF this rep wk] keeps_sweep_clients [OF with_key_ok(1) [OF data rep wk]]]
  show ?thesis using inv committed(3) by (simp add: step_ok_def d')
qed (use inv in \<open>simp add: step_ok_refl\<close>)

lemma update_step_ok:
  assumes run: "UpdateClient cr cid upd guard m w = (r, m', w')"
    and guard: "\<forall>g. guard = Some g \<longrightarrow> guard_ok R g" and inv: "manager_inv cr m"
  shows "step_ok cr m m'"
  using run
proof (cases rule: UpdateClient_cases)
  case (app client ver ps0 ps rt0 routing reset)
  show ?thesis
    by (rule apply_step_ok [OF app(4) guard inv UpdateClient_inv [OF run guard inv]]) (simp add: replacement_ok_def)
qed (use inv in \<open>simp add: step_ok_refl\<close>)

lemma regenerate_step_ok:
  assumes run: "RegenerateAWGParams cr rnd cid guard m w = (r, m', w')" and rnd: "rand_ok rnd"
    and guard: "\<forall>g. guard = Some g \<longrightarrow> guard_ok R g" and inv: "manager_inv cr m"
  shows "step_ok cr m m'"
  using run rnd
proof (cases rule: RegenerateAWGParams_cases)
  case (app client ver ps0 ps rep)
  show ?thesis by (rule apply_step_ok [OF app(5) guard inv RegenerateAWGParams_inv [OF run guard inv rnd] app(3)])
qed (use inv in \<open>simp add: step_ok_refl\<close>)

lemma groups_step_ok:
  assumes run: "UpdateLANGroup ids g m w = (r, m', w')" and inv: "manager_inv cr m"
  shows "step_ok cr m m'"
  using run inv
proof (cases rule: UpdateLANGroup_cases)
  case (committed w1 w2)
  with UpdateLANGroup_inv [OF run inv] show ?thesis by (simp add: step_ok_def grouped_def)
qed (use inv in \<open>simp add: step_ok_refl\<close>)

lemma delete_step_ok:
  assumes run: "DeleteClient cr cid m w = (r, m', w')" and inv: "manager_inv cr m"
  shows "step_ok cr m m'"
  using run
proof (cases rule: DeleteClient_cases)
  case (committed client pub psk profile port d' w1 w2 w3)
  from committed(1) inv obtain i where
    "d' = markAndSweepHeaderKeys ((m_data m)\<lparr>sd_Clients := drop_at i (sd_Clients (m_data m))\<rparr>)"
    by (rule delete_prepare_Inr)
  then have "keeps_defaults (m_defaults m) (m_data m) d'" using keeps_sweep_clients [OF inv_header [OF inv]] by simp
  with DeleteClient_inv [OF run inv] committed(5) show ?thesis by (simp add: step_ok_def)
qed (use inv in \<open>simp add: step_ok_refl\<close>)

lemma server_key_step_ok:
  assumes run: "SetServerPrivateKey key m w = (r, m', w')" and inv: "manager_inv cr m"
  shows "step_ok cr m m'"
  using SetServerPrivateKey_inv [OF run inv] run inv
  by (auto simp: step_ok_def SetServerPrivateKey_def Let_def split: prod.splits option.splits)

lemma manager_step_ok:
  assumes "manager_step cr R (m, w) e (m', w')" "manager_inv cr m" "crypto_ok cr"
  shows "step_ok cr m m'"
  using assms(1)
  by (cases rule: manager_stepE)
     (use assms(2,3) in \<open>blast intro: create_step_ok update_step_ok regenerate_step_ok groups_step_ok delete_step_ok
        server_key_step_ok\<close>)+

section \<open>Reachable states\<close>

definition manager_good :: "crypto \<Rightarrow> ManagerDefaults \<Rightarrow> 'w Manager \<Rightarrow> bool" where
  "manager_good cr df0 m \<longleftrightarrow>
     manager_inv cr m \<and> resolveManagerDefaults cr df0 (m_data m) = Inr (m_defaults m) \<and> \<not> sd_needsNormalization (m_data m)"

lemma step_good:
  assumes "step_ok cr m m'" "manager_good cr df0 m"
  shows "manager_good cr df0 m'"
proof -
  have k: "keeps_defaults (m_defaults m) (m_data m) (m_data m')" "manager_inv cr m'" "m_defaults m' = m_defaults m"
    using assms(1) by (simp_all add: step_ok_def)
  have "resolveManagerDefaults cr df0 (m_data m') = Inr (m_defaults m)"
    by (rule resolveManagerDefaults_cong) (use assms(2) k inv_header [OF k(2)] in \<open>auto simp: manager_good_def keeps_defaults_def\<close>)
  with k assms(2) show ?thesis by (simp add: manager_good_def keeps_defaults_def)
qed

lemma reach_good:
  assumes "manager_reach cr R parseIP df0 s" "crypto_ok cr"
  shows "manager_good cr df0 (fst s)"
  using assms(1)
proof (induction rule: manager_reach.induct)
  case (reach_start rnd cfg data plan pool save w m w')
  from restore_inv [OF this] show ?case by (simp add: manager_good_def)
next
  case (reach_step s e s')
  obtain m w m' w' where s: "s = (m, w)" "s' = (m', w')" by fastforce
  have "manager_inv cr m" using reach_step.IH by (simp add: manager_good_def s)
  from manager_step_ok [OF reach_step.hyps(2) [unfolded s] this assms(2)] reach_step.IH show ?case
    by (auto simp: s intro: step_good)
qed

end
