(* ===== verification/Manager_Sync.thy ===== *)
theory Manager_Sync
  imports Manager_Reach Pool_Properties
begin

text \<open>
  Devices, storage and memory agree. \<open>peer_table\<close> is the table of peers that the manager's document
  describes; \<open>in_sync\<close> says that the devices track exactly that table and that the file holds exactly
  that document. The locale \<open>peer_devices\<close> is the interface between the manager and what it drives: the
  contract of the device pool and of the storage. Inside it every operation, successful or not, is proved to
  keep \<open>in_sync\<close> unless the error it returns reports that undoing a change failed. The contract is
  interpreted on the interface pool over an arbitrary command runner and on a disk with arbitrary faults.
\<close>

section \<open>The table a document describes\<close>

definition peer_table :: "crypto \<Rightarrow> ManagerDefaults \<Rightarrow> StorageData \<Rightarrow> peer_view" where
  "peer_table cr df d k pub =
     (case find (\<lambda>c. peer_key c = pub) (sd_Clients d) of
        None \<Rightarrow> None
      | Some c \<Rightarrow>
          (case effectiveProfileForData cr df d (cd_ProtocolVersion c) (cd_AWGParams c) (cd_headerKeyID c) of
             Inl _ \<Rightarrow> None
           | Inr p \<Rightarrow> if pkey p = k then Some (peer_psk c) else None))"

abbreviation profile_of :: "crypto \<Rightarrow> ManagerDefaults \<Rightarrow> StorageData \<Rightarrow> ClientData \<Rightarrow> Profile res" where
  "profile_of cr df d c \<equiv>
     effectiveProfileForData cr df d (cd_ProtocolVersion c) (cd_AWGParams c) (cd_headerKeyID c)"

lemma find_unique:
  assumes "distinct (map f xs)" "x \<in> set xs"
  shows "find (\<lambda>y. f y = f x) xs = Some x"
  using assms by (induction xs) (auto simp: image_iff)

lemma peer_table_client:
  assumes "distinct (map peer_key (sd_Clients d))" "c \<in> set (sd_Clients d)" "profile_of cr df d c = Inr p"
  shows "peer_table cr df d k (peer_key c) = (if pkey p = k then Some (peer_psk c) else None)"
  using find_unique [OF assms(1,2)] assms(3) by (simp add: peer_table_def)

lemma peer_table_absent:
  assumes "pub \<notin> peer_key ` set (sd_Clients d)"
  shows "peer_table cr df d k pub = None"
proof -
  have "find (\<lambda>c. peer_key c = pub) (sd_Clients d) = None" using assms by (auto simp: find_None_iff)
  then show ?thesis by (simp add: peer_table_def)
qed

lemma view_eqI: "(\<And>k pub. v k pub = v' k pub) \<Longrightarrow> v = (v' :: peer_view)"
  by (intro ext) blast

text \<open>Two documents whose clients occupy the same places have the same table.\<close>

lemma peer_table_cong:
  assumes "distinct (map peer_key (sd_Clients d))" "distinct (map peer_key (sd_Clients d'))"
    and oks: "\<forall>c \<in> set (sd_Clients d). \<exists>p. profile_of cr df d c = Inr p"
    and to: "\<forall>c \<in> set (sd_Clients d). peer_key c \<noteq> pub0 \<longrightarrow> (\<exists>c' \<in> set (sd_Clients d'). peer_key c' = peer_key c
        \<and> peer_psk c' = peer_psk c \<and> profile_of cr df d' c' = profile_of cr df d c)"
    and fro: "peer_key ` set (sd_Clients d') \<subseteq> insert pub0 (peer_key ` set (sd_Clients d))"
    and pub: "pub \<noteq> pub0"
  shows "peer_table cr df d' k pub = peer_table cr df d k pub"
proof (cases "pub \<in> peer_key ` set (sd_Clients d)")
  case True
  then obtain c where c: "c \<in> set (sd_Clients d)" "peer_key c = pub" by auto
  obtain p where p: "profile_of cr df d c = Inr p" using oks c by blast
  obtain c' where c': "c' \<in> set (sd_Clients d')" "peer_key c' = peer_key c" "peer_psk c' = peer_psk c"
    "profile_of cr df d' c' = profile_of cr df d c" using to c pub by blast
  show ?thesis
    using peer_table_client [OF assms(1) c(1) p, of k] peer_table_client [OF assms(2) c'(1), of cr df p k] c c' p by simp
next
  case False
  then have "pub \<notin> peer_key ` set (sd_Clients d')" using fro pub by blast
  with False show ?thesis by (simp add: peer_table_absent)
qed

lemma data_ok_table:
  assumes "data_ok cr cfg df d"
  shows "distinct (map peer_key (sd_Clients d))" "\<forall>c \<in> set (sd_Clients d). \<exists>p. profile_of cr df d c = Inr p"
  using assms by (auto simp: data_ok_def client_ok_def)

text \<open>Adding, replacing and dropping one client, as a change of the table.\<close>

lemma sweep_profile:
  assumes "c \<in> set (sd_Clients d)" "profile_of cr df d c = Inr p"
  shows "profile_of cr df (markAndSweepHeaderKeys d) c = Inr p"
proof -
  have "cd_ProtocolVersion c = ProtocolVersion2 \<or> referenced d (cd_headerKeyID c)"
    using effective_Inr(1,4) [OF assms(2)] assms(1) by (auto simp: version_Valid_def referenced_def)
  then have "cd_ProtocolVersion c = ProtocolVersion2
      \<or> resolveHeaderProtectionKey (markAndSweepHeaderKeys d) (cd_headerKeyID c) = resolveHeaderProtectionKey d (cd_headerKeyID c)"
    using resolve_sweep by blast
  from effective_cong [OF this] assms(2) show ?thesis by simp
qed

lemma table_append:
  assumes data: "data_ok cr cfg df d" and p: "profile_of cr df d c = Inr p"
    and new: "peer_key c \<notin> peer_key ` set (sd_Clients d)"
    and d': "d' = markAndSweepHeaderKeys (d\<lparr>sd_Clients := sd_Clients d @ [c]\<rparr>)"
  shows "peer_table cr df d' = abs_add (pkey p) (peer_key c) (peer_psk c) (peer_table cr df d)"
proof (rule view_eqI)
  fix k pub
  note D = data_ok_table [OF data]
  have dist: "distinct (map peer_key (sd_Clients d'))" using D(1) new by (simp add: d')
  have prof: "profile_of cr df d' x = profile_of cr df d x" if "x \<in> set (sd_Clients d) \<or> x = c" for x
  proof -
    have "\<exists>q. profile_of cr df d x = Inr q" using that bspec [OF D(2), of x] p by (elim disjE) simp_all
    then obtain q where q: "profile_of cr df d x = Inr q" by blast
    have "profile_of cr df (markAndSweepHeaderKeys (d\<lparr>sd_Clients := sd_Clients d @ [c]\<rparr>)) x = Inr q"
      by (rule sweep_profile) (use that q in auto)
    then show ?thesis using q by (simp add: d')
  qed
  show "peer_table cr df d' k pub = abs_add (pkey p) (peer_key c) (peer_psk c) (peer_table cr df d) k pub"
  proof (cases "pub = peer_key c")
    case True
    have "peer_table cr df d' k (peer_key c) = (if pkey p = k then Some (peer_psk c) else None)"
      using prof [of c] p by (intro peer_table_client [OF dist]) (simp_all add: d')
    then show ?thesis using True peer_table_absent [OF new] by (simp add: abs_add_def)
  next
    case False
    have "peer_table cr df d' k pub = peer_table cr df d k pub"
    proof (rule peer_table_cong [OF D(1) dist D(2) _ _ False])
      show "\<forall>x \<in> set (sd_Clients d). peer_key x \<noteq> peer_key c \<longrightarrow> (\<exists>x' \<in> set (sd_Clients d'). peer_key x' = peer_key x
        \<and> peer_psk x' = peer_psk x \<and> profile_of cr df d' x' = profile_of cr df d x)"
        using prof by (auto simp: d')
    qed (auto simp: d')
    with False show ?thesis by (simp add: abs_add_def)
  qed
qed

lemma table_update:
  assumes data: "data_ok cr cfg df d" "data_ok cr cfg df d'" and c: "client \<in> set (sd_Clients d)"
    and p: "profile_of cr df d client = Inr p" and p': "profile_of cr df d' c' = Inr p'"
    and same: "peer_key c' = peer_key client" "peer_psk c' = peer_psk client"
    and others: "\<And>x. x \<in> set (sd_Clients d) \<Longrightarrow> x \<noteq> client \<Longrightarrow> profile_of cr df d' x = profile_of cr df d x"
    and i: "i < length (sd_Clients d)" "sd_Clients d ! i = client" "sd_Clients d' = (sd_Clients d)[i := c']"
  shows "peer_table cr df d' = abs_add (pkey p') (peer_key client) (peer_psk client)
    (abs_remove (pkey p) (peer_key client) (peer_table cr df d))"
proof (rule view_eqI)
  fix k pub
  note D = data_ok_table [OF data(1)] and D' = data_ok_table [OF data(2)]
  have c': "c' \<in> set (sd_Clients d')" using i by (simp add: set_update_memI)
  show "peer_table cr df d' k pub = abs_add (pkey p') (peer_key client) (peer_psk client)
    (abs_remove (pkey p) (peer_key client) (peer_table cr df d)) k pub"
  proof (cases "pub = peer_key client")
    case True
    have "peer_table cr df d' k (peer_key client) = (if pkey p' = k then Some (peer_psk client) else None)"
      using peer_table_client [OF D'(1) c' p', of k] same by simp
    then show ?thesis using True peer_table_client [OF D(1) c p] by (simp add: abs_add_def abs_remove_def)
  next
    case False
    have mem: "x \<in> set (sd_Clients d')" if "x \<in> set (sd_Clients d)" "x \<noteq> client" for x
      using that i by (auto simp: in_set_conv_nth nth_list_update)
    have "peer_table cr df d' k pub = peer_table cr df d k pub"
    proof (rule peer_table_cong [OF D(1) D'(1) D(2) _ _ False])
      show "\<forall>x \<in> set (sd_Clients d). peer_key x \<noteq> peer_key client \<longrightarrow> (\<exists>x' \<in> set (sd_Clients d').
        peer_key x' = peer_key x \<and> peer_psk x' = peer_psk x \<and> profile_of cr df d' x' = profile_of cr df d x)"
        using mem others by metis
      show "peer_key ` set (sd_Clients d') \<subseteq> insert (peer_key client) (peer_key ` set (sd_Clients d))"
        using set_update_subset_insert [of "sd_Clients d" i c'] i(3) same(1) by auto
    qed
    with False show ?thesis by (simp add: abs_add_def abs_remove_def)
  qed
qed

lemma table_drop:
  assumes data: "data_ok cr cfg df d" "data_ok cr cfg df d'" and i: "i < length (sd_Clients d)" "sd_Clients d ! i = client"
    and p: "profile_of cr df d client = Inr p"
    and d': "d' = markAndSweepHeaderKeys (d\<lparr>sd_Clients := drop_at i (sd_Clients d)\<rparr>)"
  shows "peer_table cr df d' = abs_remove (pkey p) (peer_key client) (peer_table cr df d)"
proof (rule view_eqI)
  fix k pub
  note D = data_ok_table [OF data(1)] and D' = data_ok_table [OF data(2)]
  have cs: "sd_Clients d' = drop_at i (sd_Clients d)" by (simp add: d')
  have keys: "peer_key ` set (sd_Clients d') = peer_key ` set (sd_Clients d) - {peer_key client}"
    using drop_at_distinct [of i "map peer_key (sd_Clients d)"] D(1) i unfolding cs
    by (simp only: drop_at_map [symmetric] length_map set_map nth_map)
  have dist: "distinct (sd_Clients d)" using D(1) by (simp add: distinct_map)
  have set: "set (sd_Clients d') = set (sd_Clients d) - {client}" unfolding cs using drop_at_distinct [OF i(1) dist] i by simp
  have prof: "profile_of cr df d' x = profile_of cr df d x" if "x \<in> set (sd_Clients d')" for x
  proof -
    have "x \<in> set (sd_Clients d)" using that set by simp
    then obtain q where q: "profile_of cr df d x = Inr q" using D(2) by blast
    have "profile_of cr df (markAndSweepHeaderKeys (d\<lparr>sd_Clients := drop_at i (sd_Clients d)\<rparr>)) x = Inr q"
      by (rule sweep_profile) (use that q in \<open>auto simp: d'\<close>)
    then show ?thesis using q by (simp add: d')
  qed
  show "peer_table cr df d' k pub = abs_remove (pkey p) (peer_key client) (peer_table cr df d) k pub"
  proof (cases "pub = peer_key client")
    case True
    have "client \<in> set (sd_Clients d)" using i nth_mem by blast
    with True keys show ?thesis
      using peer_table_client [OF D(1) _ p] by (simp add: peer_table_absent abs_remove_def)
  next
    case False
    have "peer_table cr df d' k pub = peer_table cr df d k pub"
    proof (rule peer_table_cong [OF D(1) D'(1) D(2) _ _ False])
      show "\<forall>x \<in> set (sd_Clients d). peer_key x \<noteq> peer_key client \<longrightarrow> (\<exists>x' \<in> set (sd_Clients d').
        peer_key x' = peer_key x \<and> peer_psk x' = peer_psk x \<and> profile_of cr df d' x' = profile_of cr df d x)"
        using prof set by auto
    qed (use keys in auto)
    with False show ?thesis by (simp add: abs_remove_def)
  qed
qed

lemma table_groups:
  assumes "data_ok cr cfg df d"
  shows "peer_table cr df (grouped ids g d) = peer_table cr df d"
proof (rule view_eqI)
  fix k pub
  have "find (\<lambda>c. peer_key c = pub) (map (regroup (set ids) g) cs)
      = map_option (regroup (set ids) g) (find (\<lambda>c. peer_key c = pub) cs)" for cs
    by (induction cs) auto
  then show "peer_table cr df (grouped ids g d) k pub = peer_table cr df d k pub"
    by (simp add: peer_table_def grouped_def split: option.splits sum.splits)
qed

text \<open>Adding the entries of a plan one by one builds the table.\<close>

lemma fold_entries:
  assumes "list_all2 (entry_for cr df d) cs es" "distinct (map peer_key cs)" "\<forall>c \<in> set cs. \<forall>k. v k (peer_key c) = None"
  shows "fold (\<lambda>e. abs_add (pkey (re_profile e)) (re_publicKey e) (re_presharedKey e)) es v k pub
    = (case peer_table cr df (d\<lparr>sd_Clients := cs\<rparr>) k pub of None \<Rightarrow> v k pub | Some psk \<Rightarrow> Some psk)"
  using assms
proof (induction arbitrary: v rule: list_all2_induct)
  case Nil
  show ?case by (simp add: peer_table_def)
next
  case (Cons c cs e es)
  let ?v = "abs_add (pkey (re_profile e)) (re_publicKey e) (re_presharedKey e) v"
  have e: "re_publicKey e = peer_key c" "re_presharedKey e = peer_psk c" "profile_of cr df d c = Inr (re_profile e)"
    using Cons.hyps(1) by (simp_all add: entry_for_def)
  have "\<forall>x \<in> set cs. \<forall>k. ?v k (peer_key x) = None" using Cons.prems e by (auto simp: abs_add_def) (metis image_eqI)
  then have IH: "fold (\<lambda>e. abs_add (pkey (re_profile e)) (re_publicKey e) (re_presharedKey e)) es ?v k pub
      = (case peer_table cr df (d\<lparr>sd_Clients := cs\<rparr>) k pub of None \<Rightarrow> ?v k pub | Some psk \<Rightarrow> Some psk)"
    using Cons.prems by (intro Cons.IH) simp_all
  have tail: "peer_table cr df (d\<lparr>sd_Clients := c # cs\<rparr>) k pub = peer_table cr df (d\<lparr>sd_Clients := cs\<rparr>) k pub"
    if "pub \<noteq> peer_key c" using that by (simp add: peer_table_def split: option.splits)
  show ?case
  proof (cases "pub = peer_key c")
    case True
    have "peer_table cr df (d\<lparr>sd_Clients := cs\<rparr>) k pub = None" using Cons.prems True by (intro peer_table_absent) simp
    moreover have "peer_table cr df (d\<lparr>sd_Clients := c # cs\<rparr>) k pub = (if pkey (re_profile e) = k then Some (peer_psk c) else None)"
      using True e by (simp add: peer_table_def)
    moreover have "?v k pub = (if pkey (re_profile e) = k then Some (peer_psk c) else None)"
      using True e Cons.prems by (simp add: abs_add_def)
    ultimately show ?thesis using IH True Cons.prems by simp
  next
    case False
    then have "?v k pub = v k pub" using e by (simp add: abs_add_def)
    with IH tail [OF False] show ?thesis by (simp split: option.splits)
  qed
qed

section \<open>The contract of the devices and of the storage\<close>

text \<open>Errors that report a change which could not be undone.\<close>

fun failed_undo :: "go_error \<Rightarrow> bool" where
  "failed_undo (PersistenceError what e rollback) = (rollback \<noteq> None)"
| "failed_undo (Wrap a e b) = failed_undo e"
| "failed_undo _ = False"

definition unrecovered :: "go_error \<Rightarrow> bool" where
  "unrecovered e \<longleftrightarrow> errors_is e ErrRollbackFailed \<or> failed_undo e"

lemma unrecovered_Wrap [simp]: "unrecovered (Wrap a e b) = unrecovered e"
  by (simp add: unrecovered_def)

text \<open>
  More precisely, the errors after which devices and document may differ: a failed rollback of the devices, or a
  failed save whose change could not be taken back.
\<close>

definition lost_undo :: "('w \<Rightarrow> bool) \<Rightarrow> (StorageData \<Rightarrow> 'w action) \<Rightarrow> go_error \<Rightarrow> bool" where
  "lost_undo ok save e \<longleftrightarrow> (\<exists>what saveErr rollback d w w'.
     e = persistenceFailure what saveErr (Some rollback) \<and> ok w \<and> save d w = (Some saveErr, w'))"

definition lost_track :: "('w \<Rightarrow> bool) \<Rightarrow> (StorageData \<Rightarrow> 'w action) \<Rightarrow> go_error \<Rightarrow> bool" where
  "lost_track ok save e \<longleftrightarrow> errors_is e ErrRollbackFailed \<or> lost_undo ok save e"

lemma lost_track_unrecovered: "lost_track ok save e \<Longrightarrow> unrecovered e"
  by (auto simp: lost_track_def lost_undo_def persistenceFailure_def unrecovered_def)

lemma lost_trackI:
  "errors_is e ErrRollbackFailed \<Longrightarrow> lost_track ok save (Wrap a e b)" "lost_undo ok save e \<Longrightarrow> lost_track ok save e"
  by (simp_all add: lost_track_def)

definition keeps_host :: "('w \<Rightarrow> bool) \<Rightarrow> ('w \<Rightarrow> peer_view) \<Rightarrow> (StorageData \<Rightarrow> 'w \<Rightarrow> bool) \<Rightarrow> 'w \<Rightarrow> 'w \<Rightarrow> bool" where
  "keeps_host ok peers saved w w' \<longleftrightarrow>
     (ok w \<longrightarrow> ok w' \<and> peers w' = peers w) \<and> (\<forall>d. saved d w \<longrightarrow> saved d w')"

definition in_sync ::
  "('w \<Rightarrow> bool) \<Rightarrow> ('w \<Rightarrow> peer_view) \<Rightarrow> (StorageData \<Rightarrow> 'w \<Rightarrow> bool) \<Rightarrow> crypto \<Rightarrow> 'w Manager \<Rightarrow> 'w \<Rightarrow> bool" where
  "in_sync ok peers saved cr m w \<longleftrightarrow>
     ok w \<and> peers w = peer_table cr (m_defaults m) (m_data m) \<and> saved (m_data m) w"

lemma keeps_in_sync: "keeps_host ok peers saved w w' \<Longrightarrow> in_sync ok peers saved cr m w \<Longrightarrow> in_sync ok peers saved cr m w'"
  by (auto simp: keeps_host_def in_sync_def)

locale peer_devices =
  fixes pool :: "'w devicePool" and save :: "StorageData \<Rightarrow> 'w action"
    and ok :: "'w \<Rightarrow> bool" and peers :: "'w \<Rightarrow> peer_view" and saved :: "StorageData \<Rightarrow> 'w \<Rightarrow> bool"
  assumes add_ok: "dp_AddPeer pool p port pub psk ip w = (None, w') \<Longrightarrow> ok w \<Longrightarrow>
        ok w' \<and> peers w' = abs_add (pkey p) pub psk (peers w)"
    and add_fail: "dp_AddPeer pool p port pub psk ip w = (Some e, w') \<Longrightarrow> ok w \<Longrightarrow>
        ok w' \<and> (errors_is e ErrRollbackFailed \<or> peers w' = peers w)"
    and add_saved: "dp_AddPeer pool p port pub psk ip w = (r, w') \<Longrightarrow> saved d w \<Longrightarrow> saved d w'"
    and remove_peers: "dp_RemovePeer pool p pub ip w = (r, w') \<Longrightarrow> ok w \<Longrightarrow>
        ok w' \<and> peers w' = (if r = None then abs_remove (pkey p) pub (peers w) else peers w)"
    and remove_saved: "dp_RemovePeer pool p pub ip w = (r, w') \<Longrightarrow> saved d w \<Longrightarrow> saved d w'"
    and migrate_ok: "dp_MigratePeer pool p q port pub psk ip w = (None, w') \<Longrightarrow> ok w \<Longrightarrow>
        ok w' \<and> (peers w' = peers w \<and> pkey p = pkey q \<or> peers w' = abs_add (pkey q) pub psk (abs_remove (pkey p) pub (peers w)))"
    and migrate_fail: "dp_MigratePeer pool p q port pub psk ip w = (Some e, w') \<Longrightarrow> ok w \<Longrightarrow>
        pkey p = pkey q \<or> peers w (pkey q) pub = None \<Longrightarrow>
        ok w' \<and> (errors_is e ErrRollbackFailed \<or> peers w' = peers w)"
    and migrate_saved: "dp_MigratePeer pool p q port pub psk ip w = (r, w') \<Longrightarrow> saved d w \<Longrightarrow> saved d w'"
    and lan_keeps: "dp_ApplyLANIsolation pool ps w = (r, w') \<Longrightarrow> keeps_host ok peers saved w w'"
    and save_ok: "save d w = (None, w') \<Longrightarrow> saved d w'"
    and save_fail: "save d w = (Some e, w') \<Longrightarrow> saved d' w \<Longrightarrow> saved d' w'"
    and save_peers: "save d w = (r, w') \<Longrightarrow> ok w \<Longrightarrow> ok w' \<and> peers w' = peers w"
    and saved_flag: "saved (d\<lparr>sd_needsNormalization := b\<rparr>) w = saved d w"
begin

lemma lost_undoI: "save d w = (Some e, w') \<Longrightarrow> ok w \<Longrightarrow> lost_undo ok save (persistenceFailure what e (Some rollback))"
  unfolding lost_undo_def by blast

lemma block_keeps: "m_pool m = pool \<Longrightarrow> blockLANLocked m w = (e, w') \<Longrightarrow> keeps_host ok peers saved w w'"
  using lan_keeps by (auto simp: blockLANLocked_def split: prod.splits)

lemma rebuild_keeps: "m_pool m = pool \<Longrightarrow> rebuildLANLocked m w = (e, w') \<Longrightarrow> keeps_host ok peers saved w w'"
  using lan_keeps by (auto simp: rebuildLANLocked_def split: prod.splits)

lemma create_sync:
  assumes run: "CreateClientWithVersion cr rnd now name ver ps routing grp m w = (r, m', w')"
    and inv: "manager_inv cr m" and env: "rand_ok rnd" "crypto_ok cr" "fresh_peer cr rnd m"
    and live: "m_pool m = pool" "m_save m = save" and sync: "in_sync ok peers saved cr m w"
  shows "in_sync ok peers saved cr m' w' \<or> (\<exists>e. fault r = Some e \<and> lost_track ok save e)"
proof (cases "create_prepare cr rnd now name ver ps routing grp m")
  case (Inl e)
  with run sync show ?thesis by (simp add: CreateClientWithVersion_def)
next
  case (Inr t)
  then obtain client d' profile pub psk where
    prep: "create_prepare cr rnd now name ver ps routing grp m = Inr (client, d', profile, pub, psk)"
    by (cases t) auto
  note spec = create_prepare_spec [OF prep inv env]
  let ?table = "peer_table cr (m_defaults m) (m_data m)"
  obtain e1 w1 where block: "blockLANLocked m w = (e1, w1)" by fastforce
  obtain e2 w2 where add:
    "dp_AddPeer (m_pool m) profile (Port (params profile)) pub (Some psk) (cd_Address client) w1 = (e2, w2)" by fastforce
  obtain e3 w3 where sv: "m_save m d' w2 = (e3, w3)" by fastforce
  obtain e4 w4 where rm: "dp_RemovePeer (m_pool m) profile pub (cd_Address client) w3 = (e4, w4)" by fastforce
  let ?m = "commitClientLocked client d' m"
  obtain e5 w5 where lan: "rebuildLANLocked ?m w3 = (e5, w5)" by fastforce
  note run' = run [unfolded CreateClientWithVersion_def Let_def, simplified prep block add sv rm lan, simplified]
  have s1: "in_sync ok peers saved cr m w1" using keeps_in_sync [OF block_keeps [OF live(1) block] sync] .
  note D = s1 [unfolded in_sync_def]
  show ?thesis
  proof (cases "e1 = None \<and> e2 = None")
    case False
    then show ?thesis
    proof (cases e1)
      case None
      with False obtain e where e2: "e2 = Some e" by auto
      with run' None have r: "r = Inl (Wrap ''add peer to device: '' e [])" "m' = m" "w' = w2" by (auto simp: block add)
      have "ok w2" "errors_is e ErrRollbackFailed \<or> peers w2 = peers w1" "saved (m_data m) w2"
        using add_fail [OF add [unfolded live e2]] add_saved [OF add [unfolded live]] D by auto
      with D r show ?thesis by (auto simp: in_sync_def intro: lost_trackI(1))
    next
      case (Some e)
      with run' s1 show ?thesis by (auto simp: block)
    qed
  next
    case e12: True
    have p2: "ok w2" "peers w2 = abs_add (pkey profile) pub (Some psk) ?table" "saved (m_data m) w2"
      using add_ok [OF add [unfolded live e12 [THEN conjunct2]]] add_saved [OF add [unfolded live]] D by auto
    have p3: "ok w3" "peers w3 = peers w2" using save_peers [OF sv [unfolded live]] p2 by auto
    have prof: "profile_of cr (m_defaults m) (m_data m) (cloneClientData client) = Inr profile"
      using effective_clone [OF spec(9)] spec(10) by simp
    have keys: "peer_key (cloneClientData client) = pub" "peer_psk (cloneClientData client) = Some psk"
      using spec(6,7) by (simp_all add: peer_key_def peer_psk_def)
    show ?thesis
    proof (cases e3)
      case None
      then have m': "m' = ?m" and w': "w' = w5" using run' e12 by (auto simp: block add sv lan split: option.splits)
      have data: "data_ok cr (m_config m) (m_defaults m) (m_data m)" using inv by (simp add: manager_inv_def)
      have "peer_table cr (m_defaults m) d' = abs_add (pkey profile) pub (Some psk) ?table"
        using table_append [OF data prof _ spec(3)] spec(8) keys by simp
      then have "in_sync ok peers saved cr m' w3"
        using p2 p3 save_ok [OF sv [unfolded live None]] by (simp add: in_sync_def m')
      then show ?thesis using keeps_in_sync [OF rebuild_keeps [OF _ lan]] live by (simp add: m' w')
    next
      case (Some e)
      then have r: "r = Inl (persistenceFailure ''save created client'' e e4)" "m' = m" "w' = w4"
        using run' e12 by (auto simp: block add sv rm)
      have "peers w4 = (if e4 = None then abs_remove (pkey profile) pub (peers w3) else peers w3)" "ok w4" "saved (m_data m) w4"
        using remove_peers [OF rm [unfolded live]] remove_saved [OF rm [unfolded live]] p2 p3
          save_fail [OF sv [unfolded live Some]] by auto
      moreover have "?table (pkey profile) pub = None" using spec(8) by (rule peer_table_absent)
      then have "abs_remove (pkey profile) pub (abs_add (pkey profile) pub (Some psk) ?table) = ?table"
        by (auto simp: abs_remove_def abs_add_def fun_eq_iff)
      ultimately show ?thesis
        using r p2 p3 by (cases e4) (auto simp: in_sync_def intro!: lost_trackI(2) lost_undoI [OF sv [unfolded live Some] p2(1)])
    qed
  qed
qed

lemma transaction_sync:
  assumes run: "migrate_transaction client op np pub psk nextClient d' m w = (r, m', w')"
    and live: "m_pool m = pool" "m_save m = save" and sync: "in_sync ok peers saved cr m w"
    and old: "\<forall>k. peer_table cr (m_defaults m) (m_data m) k pub = (if pkey op = k then Some psk else None)"
    and new: "peer_table cr (m_defaults m) d' =
      abs_add (pkey np) pub psk (abs_remove (pkey op) pub (peer_table cr (m_defaults m) (m_data m)))"
  shows "in_sync ok peers saved cr m' w' \<or> (\<exists>e. r = Some e \<and> lost_track ok save e)"
proof (cases "dp_PortForProfile (m_pool m) op w")
  case (Inl e)
  with run sync show ?thesis by (auto simp: migrate_transaction_def)
next
  case (Inr port)
  let ?table = "peer_table cr (m_defaults m) (m_data m)"
  obtain e1 w1 where mig:
    "dp_MigratePeer (m_pool m) op np (Port (params np)) pub psk (cd_Address client) w = (e1, w1)" by fastforce
  obtain e2 w2 where sv: "m_save m d' w1 = (e2, w2)" by fastforce
  obtain e3 w3 where undo:
    "dp_MigratePeer (m_pool m) np op port pub psk (cd_Address client) w2 = (e3, w3)" by fastforce
  note run' = run [unfolded migrate_transaction_def Inr sum.case mig prod.case]
  note D = sync [unfolded in_sync_def]
  have elsewhere: "pkey op = pkey np \<or> peers w (pkey np) pub = None" using old D by auto
  have undone: "abs_add (pkey op) pub psk (abs_remove (pkey np) pub (abs_add (pkey np) pub psk (abs_remove (pkey op) pub ?table))) = ?table"
    using old by (auto simp: abs_add_def abs_remove_def fun_eq_iff)
  have stay: "abs_add (pkey op) pub psk (abs_remove (pkey op) pub ?table) = ?table"
    using old by (auto simp: abs_add_def abs_remove_def fun_eq_iff)
  show ?thesis
  proof (cases e1)
    case (Some e)
    with run' have r: "r = Some (Wrap ''migrate peer: '' e [])" "m' = m" "w' = w1" by auto
    have "ok w1" "errors_is e ErrRollbackFailed \<or> peers w1 = peers w" "saved (m_data m) w1"
      using migrate_fail [OF mig [unfolded live Some] _ elsewhere] migrate_saved [OF mig [unfolded live]] D by auto
    with D r show ?thesis by (auto simp: in_sync_def intro: lost_trackI(1))
  next
    case e1: None
    have p1: "ok w1" "peers w1 = peer_table cr (m_defaults m) d'" "saved (m_data m) w1"
      using migrate_ok [OF mig [unfolded live e1]] migrate_saved [OF mig [unfolded live]] D new stay by auto
    have p2: "ok w2" "peers w2 = peers w1" using save_peers [OF sv [unfolded live]] p1 by auto
    show ?thesis
    proof (cases e2)
      case None
      with run' e1 have "m' = commitClientLocked nextClient d' m" "w' = w2" by (auto simp: sv)
      then show ?thesis using p1 p2 save_ok [OF sv [unfolded live None]] by (simp add: in_sync_def)
    next
      case (Some e)
      with run' e1 have r: "r = Some (persistenceFailure ''save client update'' e e3)" "m' = m" "w' = w3"
        by (auto simp: sv undo)
      have sv3: "saved (m_data m) w3"
        using migrate_saved [OF undo [unfolded live]] save_fail [OF sv [unfolded live Some] p1(3)] by blast
      show ?thesis
      proof (cases e3)
        case None
        have "ok w3" "peers w3 = ?table"
          using migrate_ok [OF undo [unfolded live None] p2(1)] p1 p2 new undone stay by auto
        with r sv3 show ?thesis by (simp add: in_sync_def)
      qed (use r in \<open>auto intro!: lost_trackI(2) lost_undoI [OF sv [unfolded live Some] p1(1)]\<close>)
    qed
  qed
qed

lemma apply_sync:
  assumes run: "applyClientUpdateLocked cr client ver ps routing reset rep guard m w = (r, m', w')"
    and guard: "\<forall>g. guard = Some g \<longrightarrow> guard_ok (keeps_host ok peers saved) g"
    and inv: "manager_inv cr m" and mem: "map_of (m_clients m) (cd_ID client) = Some client"
    and rep: "replacement_ok (m_data m) rep" "rep \<noteq> None \<longrightarrow> ver = ProtocolVersion31"
    and nps: "NormalizeOverridesForVersion ver ps0 = Inr ps" and nrt: "NormalizeRouting rt0 = Inr routing"
    and live: "m_pool m = pool" "m_save m = save" and sync: "in_sync ok peers saved cr m w"
  shows "in_sync ok peers saved cr m' w' \<or> (\<exists>e. fault r = Some e \<and> lost_track ok save e)"
proof (cases "update_prepare cr client ver ps routing reset rep m")
  case (Inl e)
  with run sync show ?thesis by (simp add: applyClientUpdateLocked_def)
next
  case (Inr t)
  then obtain op nextClient d' np where
    prep: "update_prepare cr client ver ps routing reset rep m = Inr (op, nextClient, d', np)" by (cases t) auto
  note spec = update_prepare_spec [OF prep inv mem rep nps nrt]
  have data: "data_ok cr (m_config m) (m_defaults m) (m_data m)" using inv by (simp add: manager_inv_def)
  have cmem: "client \<in> set (sd_Clients (m_data m))" by (rule manager_inv_client(1) [OF inv mem])
  have "profile_of cr (m_defaults m) (m_data m) client = Inr op \<and> profile_of cr (m_defaults m) d' nextClient = Inr np
      \<and> peer_key nextClient = peer_key client \<and> peer_psk nextClient = peer_psk client"
    using prep inv by (rule update_prepare_Inr) (simp add: client_profile_def peer_key_def peer_psk_def)
  then have op': "profile_of cr (m_defaults m) (m_data m) client = Inr op"
    and np': "profile_of cr (m_defaults m) d' nextClient = Inr np"
    and same: "peer_key nextClient = peer_key client" "peer_psk nextClient = peer_psk client" by blast+
  obtain i where i: "i < length (sd_Clients (m_data m))" "sd_Clients (m_data m) ! i = client"
    "sd_Clients d' = (sd_Clients (m_data m))[i := nextClient]" using spec(3) by blast
  have new: "peer_table cr (m_defaults m) d' = abs_add (pkey np) (peer_key client) (peer_psk client)
      (abs_remove (pkey op) (peer_key client) (peer_table cr (m_defaults m) (m_data m)))"
    by (rule table_update [OF data spec(1) cmem op' np' same _ i]) (rule spec(2) [unfolded client_profile_def])
  have old: "\<forall>k. peer_table cr (m_defaults m) (m_data m) k (peer_key client) = (if pkey op = k then Some (peer_psk client) else None)"
    using peer_table_client [OF data_ok_table(1) [OF data] cmem op'] by blast
  note run' = run [unfolded applyClientUpdateLocked_def prep sum.case prod.case]
  note D = sync [unfolded in_sync_def]
  show ?thesis
  proof (cases "pkey op = pkey np \<and> Port (params op) = Port (params np)")
    case True
    have same_table: "peer_table cr (m_defaults m) d' = peer_table cr (m_defaults m) (m_data m)"
      unfolding new using True old by (auto simp: abs_add_def abs_remove_def fun_eq_iff)
    obtain e1 w1 where sv: "m_save m d' w = (e1, w1)" by fastforce
    have p: "ok w1" "peers w1 = peers w" using save_peers [OF sv [unfolded live]] D by auto
    show ?thesis
    proof (cases e1)
      case None
      with True run' sv have "m' = commitClientLocked nextClient d' m" "w' = w1" by auto
      with None p D same_table show ?thesis using save_ok sv [unfolded live] by (simp add: in_sync_def)
    next
      case (Some e)
      with True run' sv have "m' = m" "w' = w1" by auto
      with p D show ?thesis using save_fail [OF sv [unfolded live Some]] by (simp add: in_sync_def)
    qed
  next
    case False
    obtain pub psk where k: "Base64ToKey (cd_PublicKey client) = Inr pub" "decodePresharedKey (cd_PresharedKey client) = Inr psk"
      using manager_inv_client(3) [OF inv mem] by (auto simp: client_ok_def client_keys_ok_def)
    have pk: "peer_key client = pub" "peer_psk client = psk" using k by (simp_all add: peer_key_def peer_psk_def)
    show ?thesis
    proof (cases guard)
      case None
      with False run' sync show ?thesis by auto
    next
      case (Some g)
      let ?tx = "migrate_transaction client op np pub psk nextClient d'"
      obtain e m2 w2 where g: "g ?tx m w = (e, m2, w2)" by (metis prod_cases3)
      have r: "m' = m2" "w' = w2" "fault r = e"
        using False run' Some k g by (auto split: option.splits)
      obtain w1 where w1: "keeps_host ok peers saved w w1" "g ?tx m w = ?tx m w1 \<or> (\<exists>e. g ?tx m w = (Some e, m, w1))"
        using guard [rule_format, OF Some, unfolded guard_ok_def] by blast
      note s1 = keeps_in_sync [OF w1(1) sync]
      from w1(2) show ?thesis
      proof
        assume "g ?tx m w = ?tx m w1"
        with g have "?tx m w1 = (e, m2, w2)" by simp
        from transaction_sync [OF this live s1 old [unfolded pk] new [unfolded pk]] r show ?thesis by simp
      next
        assume "\<exists>e. g ?tx m w = (Some e, m, w1)"
        with g r s1 show ?thesis by auto
      qed
    qed
  qed
qed

lemma delete_sync:
  assumes run: "DeleteClient cr cid m w = (r, m', w')" and inv: "manager_inv cr m"
    and live: "m_pool m = pool" "m_save m = save" and sync: "in_sync ok peers saved cr m w"
  shows "in_sync ok peers saved cr m' w' \<or> (\<exists>e. r = Some e \<and> lost_undo ok save e)"
proof (cases "delete_prepare cr cid m w")
  case (Inl e)
  with run sync show ?thesis by (simp add: DeleteClient_def)
next
  case (Inr t)
  then obtain client pub psk profile port d' where
    prep: "delete_prepare cr cid m w = Inr (client, pub, psk, profile, port, d')" by (cases t) auto
  let ?table = "peer_table cr (m_defaults m) (m_data m)"
  obtain i where k: "Base64ToKey (cd_PublicKey client) = Inr pub" "decodePresharedKey (cd_PresharedKey client) = Inr psk"
    and prof: "profile_of cr (m_defaults m) (m_data m) client = Inr profile"
    and i: "i < length (sd_Clients (m_data m))" "sd_Clients (m_data m) ! i = client"
    and d': "d' = markAndSweepHeaderKeys ((m_data m)\<lparr>sd_Clients := drop_at i (sd_Clients (m_data m))\<rparr>)"
    using prep inv by (rule delete_prepare_Inr) (auto simp: client_profile_def)
  have pk: "peer_key client = pub" "peer_psk client = psk" using k by (simp_all add: peer_key_def peer_psk_def)
  have data: "data_ok cr (m_config m) (m_defaults m) (m_data m)" using inv by (simp add: manager_inv_def)
  have new: "peer_table cr (m_defaults m) d' = abs_remove (pkey profile) pub ?table"
    using table_drop [OF data delete_data_ok [OF data i(1) d'] i prof d'] pk by simp
  have "client \<in> set (sd_Clients (m_data m))" using i nth_mem by blast
  from peer_table_client [OF data_ok_table(1) [OF data] this prof, of "pkey profile"]
  have old: "?table (pkey profile) pub = Some psk" by (simp add: pk)
  obtain e1 w1 where block: "blockLANLocked m w = (e1, w1)" by fastforce
  obtain e2 w2 where rm: "dp_RemovePeer (m_pool m) profile pub (cd_Address client) w1 = (e2, w2)" by fastforce
  obtain e3 w3 where sv: "m_save m d' w2 = (e3, w3)" by fastforce
  obtain e4 w4 where add: "dp_AddPeer (m_pool m) profile port pub psk (cd_Address client) w3 = (e4, w4)" by fastforce
  let ?m = "m\<lparr>m_usedIPs := m_usedIPs m - {cd_Address client}, m_clients := AList.delete cid (m_clients m), m_data := d'\<rparr>"
  obtain e5 w5 where lan: "rebuildLANLocked ?m w3 = (e5, w5)" by fastforce
  note run' = run [unfolded DeleteClient_def Let_def, simplified prep block rm sv add lan, simplified]
  have s1: "in_sync ok peers saved cr m w1" using keeps_in_sync [OF block_keeps [OF live(1) block] sync] .
  note D = s1 [unfolded in_sync_def]
  note R = remove_peers [OF rm [unfolded live]] remove_saved [OF rm [unfolded live]]
  show ?thesis
  proof (cases "e1 = None \<and> e2 = None")
    case False
    then have "m' = m" "w' = w1 \<or> e2 \<noteq> None \<and> w' = w2" using run' by (auto simp: block rm split: option.splits)
    with s1 D R show ?thesis by (auto simp: in_sync_def)
  next
    case e12: True
    then have p2: "ok w2" "peers w2 = abs_remove (pkey profile) pub ?table" "saved (m_data m) w2" using R D by auto
    have p3: "ok w3" "peers w3 = peers w2" using save_peers [OF sv [unfolded live]] p2 by auto
    show ?thesis
    proof (cases e3)
      case None
      then have m': "m' = ?m" "w' = w5" using run' e12 by (auto simp: block rm sv lan split: option.splits)
      have "in_sync ok peers saved cr m' w3"
        using p2 p3 new save_ok [OF sv [unfolded live None]] by (simp add: in_sync_def m')
      then show ?thesis using keeps_in_sync [OF rebuild_keeps [OF _ lan]] live by (simp add: m')
    next
      case (Some e)
      then have r: "r = Some (persistenceFailure ''save deleted client'' e e4)" "m' = m" "w' = w4"
        using run' e12 by (auto simp: block rm sv add)
      have sv4: "saved (m_data m) w4"
        using add_saved [OF add [unfolded live]] save_fail [OF sv [unfolded live Some] p2(3)] by blast
      show ?thesis
      proof (cases e4)
        case None
        have "ok w4" "peers w4 = abs_add (pkey profile) pub psk (peers w3)"
          using add_ok [OF add [unfolded live None] p3(1)] by auto
        then have "ok w4" "peers w4 = ?table" using p2 p3 abs_add_remove [of ?table, OF old] by simp_all
        with r sv4 show ?thesis by (simp add: in_sync_def)
      qed (use r in \<open>auto intro!: lost_undoI [OF sv [unfolded live Some] p2(1)]\<close>)
    qed
  qed
qed

lemma groups_sync:
  assumes run: "UpdateLANGroup ids g m w = (r, m', w')" and inv: "manager_inv cr m"
    and live: "m_pool m = pool" "m_save m = save" and sync: "in_sync ok peers saved cr m w"
  shows "in_sync ok peers saved cr m' w'"
  using run inv
proof (cases rule: UpdateLANGroup_cases)
  case (failed e w1 e2)
  obtain e1 w1' where block: "blockLANLocked m w = (e1, w1')" by fastforce
  have s1: "in_sync ok peers saved cr m w1'" using keeps_in_sync [OF block_keeps [OF live(1) block] sync] .
  from failed(3) show ?thesis
  proof (elim disjE conjE)
    assume sv: "blockLANLocked m w = (None, w1)" "m_save m (grouped ids g (m_data m)) w1 = (Some e2, w')"
    then have "in_sync ok peers saved cr m w1" using s1 block by simp
    then show ?thesis
      using save_peers [OF sv(2) [unfolded live]] save_fail [OF sv(2) [unfolded live]] failed(2) by (simp add: in_sync_def)
  qed (use failed sync s1 block in auto)
next
  case (committed w1 w2)
  note D = keeps_in_sync [OF block_keeps [OF live(1) committed(5)] sync, unfolded in_sync_def]
  have data: "data_ok cr (m_config m) (m_defaults m) (m_data m)" using inv by (simp add: manager_inv_def)
  have "in_sync ok peers saved cr m' w2"
    using D save_peers [OF committed(6) [unfolded live]] save_ok [OF committed(6) [unfolded live]] committed(7,13)
      table_groups [OF data] by (simp add: in_sync_def)
  moreover have "rebuildLANLocked m' w2 = (fst (rebuildLANLocked m' w2), w')" using committed(16) by auto
  ultimately show ?thesis using keeps_in_sync rebuild_keeps committed(10) live by metis
qed

lemma server_key_sync:
  assumes run: "SetServerPrivateKey key m w = (r, m', w')" and inv: "manager_inv cr m"
    and live: "m_pool m = pool" "m_save m = save" and sync: "in_sync ok peers saved cr m w"
  shows "in_sync ok peers saved cr m' w'"
proof -
  let ?d = "(m_data m)\<lparr>sd_ServerPrivateKey := key\<rparr>"
  have clone: "cloneStorageData (m_data m) = m_data m" using inv by simp
  obtain e w1 where sv: "m_save m ?d w = (e, w1)" by fastforce
  have r: "w' = w1" "m' = (if e = None then m\<lparr>m_data := ?d\<rparr> else m)"
    using run sv unfolding SetServerPrivateKey_def Let_def clone by (auto split: option.splits)
  have "peer_table cr (m_defaults m) ?d = peer_table cr (m_defaults m) (m_data m)"
    by (rule view_eqI) (simp add: peer_table_def split: option.splits)
  with r sync sv show ?thesis
    using save_peers [of ?d w e w1] save_ok [of ?d w w1] save_fail [of ?d w _ w1] live by (auto simp: in_sync_def)
qed

lemma update_sync:
  assumes run: "UpdateClient cr cid upd guard m w = (r, m', w')"
    and guard: "\<forall>g. guard = Some g \<longrightarrow> guard_ok (keeps_host ok peers saved) g" and inv: "manager_inv cr m"
    and live: "m_pool m = pool" "m_save m = save" and sync: "in_sync ok peers saved cr m w"
  shows "in_sync ok peers saved cr m' w' \<or> (\<exists>e. fault r = Some e \<and> lost_track ok save e)"
  using run
proof (cases rule: UpdateClient_cases)
  case (app client ver ps0 ps rt0 routing reset)
  have mem: "map_of (m_clients m) (cd_ID client) = Some client"
    using manager_inv_client(2) [OF inv app(1)] app(1) by simp
  show ?thesis
    by (rule apply_sync [OF app(4) guard inv mem _ _ app(2,3) live sync]) (simp_all add: replacement_ok_def)
qed (use sync in simp)

lemma regenerate_sync:
  assumes run: "RegenerateAWGParams cr rnd cid guard m w = (r, m', w')" and rnd: "rand_ok rnd"
    and guard: "\<forall>g. guard = Some g \<longrightarrow> guard_ok (keeps_host ok peers saved) g" and inv: "manager_inv cr m"
    and live: "m_pool m = pool" "m_save m = save" and sync: "in_sync ok peers saved cr m w"
  shows "in_sync ok peers saved cr m' w' \<or> (\<exists>e. fault r = Some e \<and> lost_track ok save e)"
  using run rnd
proof (cases rule: RegenerateAWGParams_cases)
  case (app client ver ps0 ps rep)
  note mem = manager_inv_client [OF inv app(1)]
  have rt: "NormalizeRouting (cd_Routing client) = Inr (cd_Routing client)" using mem by (simp add: client_ok_def)
  show ?thesis
    by (rule apply_sync [OF app(5) guard inv _ app(3,4,2) rt live sync]) (use mem app in simp)
qed (use sync in simp)

lemma step_sync:
  assumes step: "manager_step cr (keeps_host ok peers saved) (m, w) e (m', w')" and "manager_inv cr m" "crypto_ok cr"
    and "m_pool m = pool" "m_save m = save" "in_sync ok peers saved cr m w"
  shows "in_sync ok peers saved cr m' w' \<or> (\<exists>x. e = Some x \<and> lost_track ok save x)"
  using step
proof (cases rule: manager_step.cases)
  case (step_create rnd now name ver ps routing grp r)
  with create_sync [of cr rnd now name ver ps routing grp m w r m' w'] assms(2-6) show ?thesis by simp
next
  case (step_update cid upd guard r)
  with update_sync [of cr cid upd guard m w r m' w'] assms(2-6) show ?thesis by simp
next
  case (step_regenerate rnd cid guard r)
  with regenerate_sync [of cr rnd cid guard m w r m' w'] assms(2-6) show ?thesis by simp
next
  case (step_groups ids g r)
  with groups_sync [of ids g m w r m' w' cr] assms(2-6) show ?thesis by simp
next
  case (step_delete cid)
  with delete_sync [of cr cid m w e m' w'] assms(2-6) show ?thesis by (auto intro: lost_trackI(2))
next
  case (step_server_key key)
  with server_key_sync [of key m w e m' w' cr] assms(2-6) show ?thesis by simp
qed

lemma restore_peers_ok:
  "restore_peers pool es w = (None, w') \<Longrightarrow> ok w \<Longrightarrow> ok w'
     \<and> peers w' = fold (\<lambda>e. abs_add (pkey (re_profile e)) (re_publicKey e) (re_presharedKey e)) es (peers w)
     \<and> (\<forall>d. saved d w \<longrightarrow> saved d w')"
proof (induction es arbitrary: w)
  case (Cons e es)
  obtain r w1 where add: "dp_AddPeer pool (re_profile e) (re_requestedPort e) (re_publicKey e) (re_presharedKey e)
      (cd_Address (re_client e)) w = (r, w1)" by fastforce
  with Cons.prems have r: "r = None" "restore_peers pool es w1 = (None, w')" by (auto split: option.splits)
  note A = add_ok [OF add [unfolded r(1)] Cons.prems(2)]
  from Cons.IH [OF r(2)] A add_saved [OF add] show ?case by simp
qed simp

lemma restore_sync:
  assumes plan: "PrepareRestorePlan cr parseIP rnd (Some cfg) df0 (Some data) = Inr plan" and wf: "stored_wf data"
    and cfg: "config_ok cfg" and new: "NewManagerFromRestorePlan pool save cfg plan w = (Inr m, w')"
    and start: "ok w" "peers w = (\<lambda>k pub. None)" and doc: "rp_needsNormalization plan \<or> saved (m_data m) w"
  shows "in_sync ok peers saved cr m w'"
proof -
  note P = PrepareRestorePlan_Inr [OF plan wf] and M = NewManager_cases [OF new]
  note inv = restore_inv [OF plan wf cfg new]
  let ?cs = "sd_Clients (m_data m)" and ?d = "cloneStorageData (rp_data plan)"
  obtain w1 w2 where rp: "restore_peers pool (rp_entries plan) w = (None, w1)"
    and lan: "dp_ApplyLANIsolation pool (lanPeers (sd_Clients ?d)) w1 = (None, w2)"
    and sv: "if rp_needsNormalization plan then save ?d w2 = (None, w') else w' = w2" using M(1) by blast
  note R = restore_peers_ok [OF rp start(1)]
  have df: "m_defaults m = rp_defaults plan" using resolved_defaults_clone [OF P(1)] M(5) by simp
  have cs: "?cs = map cloneClientData (sd_Clients (rp_data plan))" by (simp add: M(6))
  have "list_all2 (entry_for cr (m_defaults m) (m_data m)) ?cs (rp_entries plan)"
    unfolding cs list_all2_map1
  proof (rule list_all2_mono [OF P(3)])
    fix c e assume "entry_for cr (rp_defaults plan) (rp_data plan) c e"
    moreover have "resolveHeaderProtectionKey (m_data m) = resolveHeaderProtectionKey (rp_data plan)" by (simp add: M(6))
    then have "effectiveProfileForData cr df (m_data m) v ps k = effectiveProfileForData cr df (rp_data plan) v ps k" for df v ps k
      by (intro effective_cong) simp
    ultimately show "entry_for cr (m_defaults m) (m_data m) (cloneClientData c) e"
      using df effective_clone [of cr "rp_defaults plan" "rp_data plan"] by (auto simp: entry_for_def peer_key_def peer_psk_def)
  qed
  moreover have "distinct (map peer_key ?cs)" using inv(1) by (simp add: manager_inv_def data_ok_def)
  ultimately have "peers w1 = peer_table cr (m_defaults m) (m_data m)"
    using fold_entries [of cr "m_defaults m" "m_data m" ?cs "rp_entries plan" "\<lambda>k pub. None"] R start(2)
    by (simp add: fun_eq_iff split: option.splits)
  then have w2: "ok w2" "peers w2 = peer_table cr (m_defaults m) (m_data m)" "saved (m_data m) w \<Longrightarrow> saved (m_data m) w2"
    using lan_keeps [OF lan] R by (auto simp: keeps_host_def)
  show ?thesis
  proof (cases "rp_needsNormalization plan")
    case True
    with sv have "save ?d w2 = (None, w')" by simp
    with w2 True show ?thesis using save_peers save_ok saved_flag by (auto simp: in_sync_def M(6))
  next
    case False
    with sv w2 doc show ?thesis by (simp add: in_sync_def)
  qed
qed

end

end
