(* ===== verification/Deployment.thy ===== *)
theory Deployment
  imports Manager_Sync
begin

text \<open>
  The running program: the manager on top of the interface pool of \<open>Pool\<close>, over an arbitrary command
  runner, and of the storage of \<open>Storage\<close>, over a disk on which every call may fail. The world of the
  manager has the pool, the host that the commands change, and the disk; it is extensible, so that the usage
  collector can add its own state. The contract \<open>peer_devices\<close> of the manager is discharged here.
\<close>

section \<open>A disk with faults\<close>

text \<open>
  A file holds a JSON text or something that does not parse. Each call consumes one entry of the list of
  faults; a failed write leaves the file in the state the fault names, and a failed rename leaves both files
  alone, as \<open>os.Rename\<close> does on one file system.
\<close>

datatype disk_fault = DiskFault go_error "json option"

record disk =
  dk_files :: "string \<Rightarrow> json option option"
  dk_faults :: "disk_fault option list"

definition next_fault :: "disk \<Rightarrow> disk_fault option \<times> disk" where
  "next_fault d = (case dk_faults d of [] \<Rightarrow> (None, d) | f # fs \<Rightarrow> (f, d\<lparr>dk_faults := fs\<rparr>))"

definition disk_MkdirAll :: "string \<Rightarrow> disk action" where
  "disk_MkdirAll dir d =
     (case next_fault d of (Some (DiskFault e _), d') \<Rightarrow> (Some e, d') | (None, d') \<Rightarrow> (None, d'))"

definition disk_WriteFile :: "string \<Rightarrow> json \<Rightarrow> disk action" where
  "disk_WriteFile path v d =
     (case next_fault d of
        (Some (DiskFault e part), d') \<Rightarrow> (Some e, d'\<lparr>dk_files := (dk_files d')(path \<mapsto> part)\<rparr>)
      | (None, d') \<Rightarrow> (None, d'\<lparr>dk_files := (dk_files d')(path \<mapsto> Some v)\<rparr>))"

definition disk_Rename :: "string \<Rightarrow> string \<Rightarrow> disk action" where
  "disk_Rename src dst d =
     (case next_fault d of
        (Some (DiskFault e _), d') \<Rightarrow> (Some e, d')
      | (None, d') \<Rightarrow>
          (case dk_files d' src of
             None \<Rightarrow> (Some (Plain ''no such file or directory''), d')
           | Some content \<Rightarrow> (None, d'\<lparr>dk_files := (dk_files d')(dst \<mapsto> content, src := None)\<rparr>)))"

definition disk_ReadFile :: "string \<Rightarrow> disk \<Rightarrow> read_result" where
  "disk_ReadFile path d = (case dk_files d path of None \<Rightarrow> FileMissing | Some content \<Rightarrow> FileText content)"

definition disk_ops :: "disk os_ops" where
  "disk_ops = \<lparr>os_MkdirAll = disk_MkdirAll, os_WriteFile = disk_WriteFile, os_Rename = disk_Rename,
     os_ReadFile = disk_ReadFile\<rparr>"

definition file_holds :: "Storage \<Rightarrow> StorageData \<Rightarrow> disk \<Rightarrow> bool" where
  "file_holds s d dk \<longleftrightarrow> dk_files dk (filePath s) = Some (Some (storage_MarshalJSON d))"

lemma next_fault_files: "next_fault d = (f, d') \<Longrightarrow> dk_files d' = dk_files d"
  by (auto simp: next_fault_def split: list.splits)

lemma disk_frame:
  "disk_MkdirAll dir d = (e, d') \<Longrightarrow> dk_files d' = dk_files d"
  "disk_WriteFile path v d = (e, d') \<Longrightarrow> p \<noteq> path \<Longrightarrow> dk_files d' p = dk_files d p"
  "disk_Rename src dst d = (Some x, d') \<Longrightarrow> dk_files d' = dk_files d"
  by (auto simp: disk_MkdirAll_def disk_WriteFile_def disk_Rename_def dest!: next_fault_files
      split: prod.splits option.splits disk_fault.splits)

lemma disk_write_rename:
  assumes "disk_WriteFile src v d = (None, d1)" "disk_Rename src dst d1 = (None, d2)" "src \<noteq> dst"
  shows "dk_files d2 dst = Some (Some v)"
  using assms
  by (auto simp: disk_WriteFile_def disk_Rename_def dest!: next_fault_files split: prod.splits option.splits disk_fault.splits)

lemma save_disk:
  assumes "storage_Save disk_ops s d dk = (e, dk')"
  shows "e = None \<Longrightarrow> file_holds s d dk'" "e \<noteq> None \<Longrightarrow> dk_files dk' (filePath s) = dk_files dk (filePath s)"
proof -
  let ?tmp = "filePath s @ ''.tmp''"
  obtain e1 d1 where mk: "disk_MkdirAll (fileDir s) dk = (e1, d1)" by fastforce
  obtain e2 d2 where wr: "disk_WriteFile ?tmp (storage_MarshalJSON d) d1 = (e2, d2)" by fastforce
  obtain e3 d3 where rn: "disk_Rename ?tmp (filePath s) d2 = (e3, d3)" by fastforce
  note run = assms [unfolded storage_Save_def disk_ops_def os_ops.simps mk wr rn prod.case]
  have tmp: "filePath s \<noteq> ?tmp" by simp
  show "file_holds s d dk'" if "e = None"
    using run that disk_write_rename [of ?tmp "storage_MarshalJSON d" d1 d2 "filePath s" d3] wr rn
    by (auto simp: file_holds_def split: option.splits)
  show "dk_files dk' (filePath s) = dk_files dk (filePath s)" if "e \<noteq> None"
    using run that disk_frame(1) [OF mk] disk_frame(2) [OF wr tmp] disk_frame(3) [of ?tmp "filePath s" d2 _ d3] rn
    by (auto simp: wr rn split: option.splits)
qed

section \<open>The world\<close>

record 'h world =
  wd_pool :: Pool
  wd_host :: 'h
  wd_disk :: disk

definition lift_pool :: "'h pool_step \<Rightarrow> ('h, 'x) world_scheme action" where
  "lift_pool f w = (case f (wd_pool w) (wd_host w) of (e, p, h) \<Rightarrow> (e, w\<lparr>wd_pool := p, wd_host := h\<rparr>))"

definition livePool :: "'h run \<Rightarrow> ('h, 'x) world_scheme devicePool" where
  "livePool run =
     \<lparr>dp_AddPeer = \<lambda>p port pub psk ip. lift_pool (AddPeer (hostPoolOperations run) p port pub psk ip),
      dp_RemovePeer = \<lambda>p pub ip. lift_pool (RemovePeer (hostPoolOperations run) p pub ip),
      dp_MigratePeer = \<lambda>p q port pub psk ip. lift_pool (MigratePeer (hostPoolOperations run) p q port pub psk ip),
      dp_PortForProfile = \<lambda>p w. PortForProfile (wd_pool w) p,
      dp_PublicKey = \<lambda>w. PublicKey (wd_pool w),
      dp_ApplyLANIsolation = \<lambda>ps w.
        (case ApplyLANIsolation run (cfgNetwork (pool_config (wd_pool w))) ps (wd_host w) of
           (e, h) \<Rightarrow> (e, w\<lparr>wd_host := h\<rparr>))\<rparr>"

definition liveSave :: "Storage \<Rightarrow> StorageData \<Rightarrow> ('h, 'x) world_scheme action" where
  "liveSave s d w = (case storage_Save disk_ops s d (wd_disk w) of (e, dk) \<Rightarrow> (e, w\<lparr>wd_disk := dk\<rparr>))"

abbreviation live_ok :: "('h, 'x) world_scheme \<Rightarrow> bool" where "live_ok w \<equiv> pool_inv (wd_pool w)"
abbreviation live_peers :: "('h, 'x) world_scheme \<Rightarrow> peer_view" where "live_peers w \<equiv> tracked (wd_pool w)"
abbreviation live_saved :: "Storage \<Rightarrow> StorageData \<Rightarrow> ('h, 'x) world_scheme \<Rightarrow> bool" where
  "live_saved s d w \<equiv> file_holds s d (wd_disk w)"

lemma lift_pool_eq:
  "lift_pool f w = (e, w') \<Longrightarrow> \<exists>p h. f (wd_pool w) (wd_host w) = (e, p, h) \<and> wd_pool w' = p \<and> wd_disk w' = wd_disk w"
  by (auto simp: lift_pool_def split: prod.splits)

lemma live_ops [simp]:
  "dp_AddPeer (livePool run) p port pub psk ip = lift_pool (AddPeer (hostPoolOperations run) p port pub psk ip)"
  "dp_RemovePeer (livePool run) p pub ip = lift_pool (RemovePeer (hostPoolOperations run) p pub ip)"
  "dp_MigratePeer (livePool run) p q port pub psk ip = lift_pool (MigratePeer (hostPoolOperations run) p q port pub psk ip)"
  by (simp_all add: livePool_def)

interpretation live: peer_devices "livePool run" "liveSave s" live_ok live_peers "live_saved s" for run s
proof
  fix p q :: Profile and port pub psk ip and w w' :: "('a, 'b) world_scheme" and e r d
  show "live_ok w' \<and> live_peers w' = abs_add (pkey p) pub psk (live_peers w)"
    if "dp_AddPeer (livePool run) p port pub psk ip w = (None, w')" "live_ok w"
    using that AddPeer_tracked AddPeer_inv by (fastforce dest!: lift_pool_eq)
  show "live_ok w' \<and> (errors_is e ErrRollbackFailed \<or> live_peers w' = live_peers w)"
    if "dp_AddPeer (livePool run) p port pub psk ip w = (Some e, w')" "live_ok w"
    using that host.AddPeer_failure AddPeer_inv by (fastforce dest!: lift_pool_eq)
  show "live_saved s d w'" if "dp_AddPeer (livePool run) p port pub psk ip w = (r, w')" "live_saved s d w"
    using that by (auto dest!: lift_pool_eq)
  show "live_ok w' \<and> live_peers w' = (if r = None then abs_remove (pkey p) pub (live_peers w) else live_peers w)"
    if "dp_RemovePeer (livePool run) p pub ip w = (r, w')" "live_ok w"
    using that RemovePeer_tracked RemovePeer_inv by (fastforce dest!: lift_pool_eq)
  show "live_saved s d w'" if "dp_RemovePeer (livePool run) p pub ip w = (r, w')" "live_saved s d w"
    using that by (auto dest!: lift_pool_eq)
  show "live_ok w' \<and> (live_peers w' = live_peers w \<and> pkey p = pkey q
      \<or> live_peers w' = abs_add (pkey q) pub psk (abs_remove (pkey p) pub (live_peers w)))"
    if "dp_MigratePeer (livePool run) p q port pub psk ip w = (None, w')" "live_ok w"
    using that MigratePeer_table MigratePeer_inv by (fastforce dest!: lift_pool_eq)
  show "live_ok w' \<and> (errors_is e ErrRollbackFailed \<or> live_peers w' = live_peers w)"
    if "dp_MigratePeer (livePool run) p q port pub psk ip w = (Some e, w')" "live_ok w"
      "pkey p = pkey q \<or> live_peers w (pkey q) pub = None"
    using that host.MigratePeer_failure MigratePeer_inv by (fastforce dest!: lift_pool_eq)
  show "live_saved s d w'" if "dp_MigratePeer (livePool run) p q port pub psk ip w = (r, w')" "live_saved s d w"
    using that by (auto dest!: lift_pool_eq)
  show "keeps_host live_ok live_peers (live_saved s) w w'" if "dp_ApplyLANIsolation (livePool run) ps w = (r, w')" for ps
    using that by (auto simp: livePool_def keeps_host_def split: prod.splits)
  show "live_saved s d w'" if "liveSave s d w = (None, w')"
    using that save_disk(1) by (fastforce simp: liveSave_def split: prod.splits)
  show "live_saved s d' w'" if "liveSave s d w = (Some e, w')" "live_saved s d' w" for d'
    using that save_disk(2) by (fastforce simp: liveSave_def file_holds_def split: prod.splits)
  show "live_ok w' \<and> live_peers w' = live_peers w" if "liveSave s d w = (r, w')" "live_ok w"
    using that by (auto simp: liveSave_def split: prod.splits)
  show "live_saved s (d\<lparr>sd_needsNormalization := b\<rparr>) w = live_saved s d w" for b
    by (simp add: file_holds_def storage_MarshalJSON_def storage_table_def)
qed

end
