(* ===== verification/Restore_Dry_Run.thy ===== *)
theory Restore_Dry_Run
  imports Deployment
begin

text \<open>
  \<open>validateRestoreInterfaces\<close> simulates the interface pool before the server touches the host. The
  simulation is exact: on a host whose commands succeed, restoring the peers into a new pool succeeds if
  and only if the dry run accepts the plan. The dry run keeps a moving lower bound for free ports while the
  pool searches from the configured port each time; \<open>next_free_port_skip\<close> says why they agree.
\<close>

section \<open>Free ports\<close>

lemma next_free_port_skip:
  "used \<subseteq> used' \<Longrightarrow> next_free_port used' (next_free_port used p) = next_free_port used' p"
proof (induction used p rule: next_free_port.induct)
  case (1 used p)
  show ?case
  proof (cases "p \<in> used \<and> p \<le> MaxPort")
    case True
    then have "next_free_port used p = next_free_port used (p + 1)" "next_free_port used' p = next_free_port used' (p + 1)"
      using "1.prems" by (subst next_free_port.simps, auto)+
    with "1.IH" [OF True "1.prems"] show ?thesis by simp
  next
    case False
    then have "next_free_port used p = p" by (subst next_free_port.simps) auto
    then show ?thesis by simp
  qed
qed

section \<open>A host whose commands succeed\<close>

definition host_ok :: "'h run \<Rightarrow> bool" where
  "host_ok run \<longleftrightarrow> (\<forall>args stdin h. \<exists>out. fst (run args stdin h) = CmdOk out)"

lemma host_ok_run: "host_ok run \<Longrightarrow> \<exists>out h'. run args stdin h = (CmdOk out, h')"
  unfolding host_ok_def by (metis prod.collapse)

lemma host_ok_exec: "host_ok run \<Longrightarrow> \<exists>h'. exec_cmd run pre args stdin h = (None, h')"
  using host_ok_run [of run args stdin h] by (auto simp: exec_cmd_def exec_err_def)

lemma host_ok_then: "\<exists>h1. f h = (None, h1) \<Longrightarrow> \<forall>h. \<exists>h1. g h = (None, h1) \<Longrightarrow> \<exists>h1. then_do f g h = (None, h1)"
  by (auto simp: then_do_def)

lemma host_ok_ops:
  assumes "host_ok run"
  shows "\<exists>h'. op_createInterface (hostPoolOperations run) n h = (None, h')"
    and "\<exists>h'. op_configureDevice (hostPoolOperations run) n port p k h = (None, h')"
    and "\<exists>h'. op_configureInterfaceNetwork (hostPoolOperations run) n a h = (None, h')"
    and "\<exists>h'. op_addMasquerade (hostPoolOperations run) net out h = (None, h')"
    and "\<exists>h'. op_addPeerToInterface (hostPoolOperations run) n pub psk ip h = (None, h')"
proof -
  note ex = host_ok_exec [OF assms]
  show "\<exists>h'. op_createInterface (hostPoolOperations run) n h = (None, h')"
    by (simp add: hostPoolOperations_def createInterface_def ex)
  show "\<exists>h'. op_addMasquerade (hostPoolOperations run) net out h = (None, h')"
    by (simp add: hostPoolOperations_def host_addMasquerade_def ex)
  show "\<exists>h'. op_configureDevice (hostPoolOperations run) n port p k h = (None, h')"
    using host_ok_run [OF assms, of "[''awg'', ''setconf'', n, ''/dev/stdin'']" "ServerConfig p k port" h]
    by (auto simp: hostPoolOperations_def configureDevice_def)
  have c: "\<exists>h'. run_commands run cmds h = (None, h')" for cmds h
  proof (induction cmds arbitrary: h)
    case (Cons args cmds)
    show ?case unfolding run_commands.simps by (intro host_ok_then allI ex Cons.IH)
  qed simp
  show "\<exists>h'. op_configureInterfaceNetwork (hostPoolOperations run) n a h = (None, h')"
    by (simp add: hostPoolOperations_def configureInterfaceNetwork_def c del: run_commands.simps)
  have "\<exists>h1. addPeerToInterface run n pub psk ip h = (None, h1)"
    unfolding addPeerToInterface_def setPeerOnInterface_def replacePeerRoute_def by (intro host_ok_then allI ex)
  then show "\<exists>h'. op_addPeerToInterface (hostPoolOperations run) n pub psk ip h = (None, h')"
    by (simp add: hostPoolOperations_def)
qed

lemma create_iface_ok:
  assumes "host_ok run"
  shows "\<exists>h'. create_iface (hostPoolOperations run) p port pool h =
    (Inr \<lparr>ifName = awg_name (nextIndex pool), ifPort = port, ifProfile = p, peerCount = 0, peerPSKs = []\<rparr>,
     pool\<lparr>nextIndex := nextIndex pool + 1, masqAdded := True,
       ifaces := AList.update (pkey p) \<lparr>ifName = awg_name (nextIndex pool), ifPort = port, ifProfile = p,
         peerCount = 0, peerPSKs = []\<rparr> (ifaces pool), usedPorts := insert port (usedPorts pool)\<rparr>, h')"
proof -
  let ?ops = "hostPoolOperations run" and ?name = "awg_name (nextIndex pool)"
  obtain h1 where h1: "op_createInterface ?ops ?name h = (None, h1)" using host_ok_ops [OF assms] by blast
  obtain h2 where h2: "op_configureDevice ?ops ?name port p (privKey pool) h1 = (None, h2)" using host_ok_ops [OF assms] by blast
  obtain h3 where h3: "op_configureInterfaceNetwork ?ops ?name (cfgAddress (pool_config pool)) h2 = (None, h3)"
    using host_ok_ops [OF assms] by blast
  obtain h4 where h4: "op_addMasquerade ?ops (cfgNetwork (pool_config pool)) (outIface pool) h3 = (None, h4)"
    using host_ok_ops [OF assms] by blast
  show ?thesis unfolding create_iface_def awg_name_def [symmetric] by (simp add: Let_def h1 h2 h3 h4)
qed

section \<open>One entry\<close>

text \<open>What the dry run knows of a pool.\<close>

definition dry_matches :: "(key32, int) gmap \<Rightarrow> int set \<Rightarrow> int \<Rightarrow> Pool \<Rightarrow> bool" where
  "dry_matches pp used np pool \<longleftrightarrow>
     pool_inv pool \<and> orphans pool = [] \<and> gm_wf pp
     \<and> (\<forall>k. map_of pp k = map_option ifPort (map_of (ifaces pool) k))
     \<and> length pp = length (ifaces pool) \<and> usedPorts pool = used
     \<and> next_free_port used np = next_free_port used (cfgListenPort (pool_config pool))"

lemma resolve_dry:
  assumes "dry_matches pp used np pool"
  shows "resolveRestorePort requested np used = resolvePort pool requested"
proof (cases "ValidatePort requested")
  case None
  then have "requested = 0 \<or> requested > 0" by (auto simp: ValidatePort_None)
  with None assms show ?thesis
    by (auto simp: dry_matches_def resolveRestorePort_def resolvePort_def Let_def)
qed (simp add: resolveRestorePort_def resolvePort_def)

lemma set_iface_update:
  assumes "map_of (ifaces pool) k = Some ifc"
  shows "length (ifaces (set_iface k ifc' pool)) = length (ifaces pool)"
  using assms by (simp add: set_iface_def gm_length_update)

lemma add_known_profile:
  assumes ok: "host_ok run" and pv: "profile_valid p" and dry: "dry_matches pp used np pool"
    and known: "map_of (ifaces pool) (pkey p) = Some ifc"
    and run: "AddPeer (hostPoolOperations run) p req pub psk ip pool h = (e, pool', h')"
  shows "e = None \<longleftrightarrow> \<not> (req \<noteq> 0 \<and> req \<noteq> ifPort ifc)"
    and "e = None \<Longrightarrow> dry_matches pp used np pool' \<and> pool_config pool' = pool_config pool \<and> maxIfaces pool' = maxIfaces pool"
proof -
  obtain h1 where h1: "op_addPeerToInterface (hostPoolOperations run) (ifName ifc) pub psk ip h = (None, h1)"
    using host_ok_ops(5) [OF ok] by blast
  have r: "(e, pool', h') = (if req \<noteq> 0 \<and> req \<noteq> ifPort ifc
      then (Some (Wrap ''get or create interface: '' (Sentinel ErrProfilePortConflict) []), pool, h)
      else (None, set_iface (pkey p) (trackPeerLocked ifc pub psk) pool, h1))"
    using run pv known h1 by (auto simp: AddPeer_def getOrCreateInterface_def validateExistingInterfacePort_def addPeerLocked_def)
  then show "e = None \<longleftrightarrow> \<not> (req \<noteq> 0 \<and> req \<noteq> ifPort ifc)" by (auto split: if_splits)
  show "dry_matches pp used np pool' \<and> pool_config pool' = pool_config pool \<and> maxIfaces pool' = maxIfaces pool" if "e = None"
    using r that dry known AddPeer_inv [OF run]
    by (auto simp: dry_matches_def set_iface_update split: if_splits)
qed

lemma add_new_profile:
  assumes ok: "host_ok run" and pv: "profile_valid p" and dry: "dry_matches pp used np pool"
    and new: "map_of (ifaces pool) (pkey p) = None"
    and run: "AddPeer (hostPoolOperations run) p req pub psk ip pool h = (e, pool', h')"
  shows "e = None \<longleftrightarrow> \<not> (maxIfaces pool > 0 \<and> int (length pp) \<ge> maxIfaces pool) \<and> (\<exists>port. resolvePort pool req = Inr port)"
    and "e = None \<Longrightarrow> resolvePort pool req = Inr port \<Longrightarrow>
      dry_matches (AList.update (pkey p) port pp) (insert port used) (next_free_port (insert port used) np) pool'
      \<and> pool_config pool' = pool_config pool \<and> maxIfaces pool' = maxIfaces pool"
proof -
  let ?ops = "hostPoolOperations run"
  have zero: "req \<noteq> 0 \<Longrightarrow> resolvePort pool req = Inr q \<Longrightarrow> q = req" for q by (rule resolvePort_requested)
  have len: "int (length (ifaces pool)) + int (length (orphans pool)) = int (length pp)"
    using dry by (simp add: dry_matches_def)
  have get: "getOrCreateInterface ?ops p req pool h = (case resolvePort pool req of
      Inl x \<Rightarrow> (if req \<noteq> 0 \<or> \<not> (maxIfaces pool > 0 \<and> int (length pp) \<ge> maxIfaces pool) then (Inl x, pool, h)
                else (Inl (Sentinel ErrMaxInterfacesReached), pool, h))
    | Inr q \<Rightarrow> if maxIfaces pool > 0 \<and> int (length pp) \<ge> maxIfaces pool then (Inl (Sentinel ErrMaxInterfacesReached), pool, h)
        else create_iface ?ops p q pool h)"
    using pv new len zero by (auto simp: getOrCreateInterface_def split: sum.splits)
  show "e = None \<longleftrightarrow> \<not> (maxIfaces pool > 0 \<and> int (length pp) \<ge> maxIfaces pool) \<and> (\<exists>port. resolvePort pool req = Inr port)"
  proof (cases "\<not> (maxIfaces pool > 0 \<and> int (length pp) \<ge> maxIfaces pool) \<and> (\<exists>port. resolvePort pool req = Inr port)")
    case True
    then obtain q where q: "resolvePort pool req = Inr q" by blast
    obtain ifc pool1 h1 where c: "create_iface ?ops p q pool h = (Inr ifc, pool1, h1)"
      using create_iface_ok [OF ok, of p q pool h] by auto
    obtain h2 where "op_addPeerToInterface ?ops (ifName ifc) pub psk ip h1 = (None, h2)"
      using host_ok_ops(5) [OF ok] by blast
    with run pv get q c True have "e = None" by (auto simp: AddPeer_def addPeerLocked_def)
    with True show ?thesis by simp
  next
    case False
    with run pv get have "e \<noteq> None" by (auto simp: AddPeer_def split: sum.splits if_splits)
    with False show ?thesis by blast
  qed
next
  assume e: "e = None" and port: "resolvePort pool req = Inr port"
  let ?ops = "hostPoolOperations run"
  let ?ifc = "\<lparr>ifName = awg_name (nextIndex pool), ifPort = port, ifProfile = p, peerCount = 0, peerPSKs = []\<rparr>"
  let ?pool1 = "pool\<lparr>nextIndex := nextIndex pool + 1, masqAdded := True,
       ifaces := AList.update (pkey p) ?ifc (ifaces pool), usedPorts := insert port (usedPorts pool)\<rparr>"
  obtain h1 where c: "create_iface ?ops p port pool h = (Inr ?ifc, ?pool1, h1)" using create_iface_ok [OF ok] by blast
  have get: "getOrCreateInterface ?ops p req pool h = (Inr ?ifc, ?pool1, h1)"
    using run e pv new port resolvePort_requested [OF port] c
    by (auto simp: AddPeer_def getOrCreateInterface_def split: if_splits sum.splits)
  obtain h2 where h2: "op_addPeerToInterface ?ops (ifName ?ifc) pub psk ip h1 = (None, h2)"
    using host_ok_ops(5) [OF ok] by blast
  have pool': "pool' = set_iface (pkey p) (trackPeerLocked ?ifc pub psk) ?pool1"
    using run pv get h2 by (simp add: AddPeer_def addPeerLocked_def)
  have inv: "pool_inv pool'" using AddPeer_inv [OF run] dry by (simp add: dry_matches_def)
  have l1: "length (ifaces ?pool1) = Suc (length (ifaces pool))" using new by (simp add: gm_length_update)
  have l2: "length (ifaces pool') = length (ifaces ?pool1)"
    unfolding pool' by (rule set_iface_update [of _ _ ?ifc]) (simp add: update_conv')
  have l3: "length (AList.update (pkey p) port pp) = Suc (length pp)"
    using dry new by (simp add: dry_matches_def gm_length_update)
  have "next_free_port (insert port used) (next_free_port (insert port used) np)
      = next_free_port (insert port used) (next_free_port used np)"
    by (simp add: next_free_port_skip subset_insertI)
  also have "\<dots> = next_free_port (insert port used) (next_free_port used (cfgListenPort (pool_config pool)))"
    using dry by (simp add: dry_matches_def)
  finally have np: "next_free_port (insert port used) (next_free_port (insert port used) np)
      = next_free_port (insert port used) (cfgListenPort (pool_config pool))"
    by (simp add: next_free_port_skip subset_insertI)
  have "map_of (AList.update (pkey p) port pp) k = map_option ifPort (map_of (ifaces pool') k)" for k
    using dry by (simp add: dry_matches_def pool' update_conv')
  with dry inv l1 l2 l3 np show "dry_matches (AList.update (pkey p) port pp) (insert port used)
      (next_free_port (insert port used) np) pool' \<and> pool_config pool' = pool_config pool \<and> maxIfaces pool' = maxIfaces pool"
    by (simp add: dry_matches_def pool')
qed

section \<open>The whole plan\<close>

lemma restore_ports_exact:
  assumes ok: "host_ok run"
  shows "dry_matches pp used np (wd_pool w) \<Longrightarrow> maxIfaces (wd_pool w) = mx \<Longrightarrow>
    \<forall>e \<in> set es. profile_valid (re_profile e) \<Longrightarrow>
    fst (restore_peers (livePool run) es w) = None \<longleftrightarrow> restore_ports mx pp used np es = None"
proof (induction es arbitrary: pp used np w)
  case (Cons e es)
  let ?p = "re_profile e" and ?req = "re_requestedPort e"
  obtain err pool' h' where run: "AddPeer (hostPoolOperations run) ?p ?req (re_publicKey e) (re_presharedKey e)
      (cd_Address (re_client e)) (wd_pool w) (wd_host w) = (err, pool', h')" by (metis prod_cases3)
  let ?w = "w\<lparr>wd_pool := pool', wd_host := h'\<rparr>"
  have step: "fst (restore_peers (livePool run) (e # es) w) = None \<longleftrightarrow>
      err = None \<and> fst (restore_peers (livePool run) es ?w) = None"
    by (simp add: lift_pool_def run split: option.splits)
  have pv: "profile_valid ?p" and rest: "\<forall>x \<in> set es. profile_valid (re_profile x)" using Cons.prems(3) by simp_all
  have mx: "maxIfaces (wd_pool w) = mx" by (rule Cons.prems(2))
  have ports: "map_of pp (pkey ?p) = map_option ifPort (map_of (ifaces (wd_pool w)) (pkey ?p))"
    using Cons.prems(1) by (simp add: dry_matches_def)
  show ?case
  proof (cases "map_of (ifaces (wd_pool w)) (pkey ?p)")
    case (Some ifc)
    note A = add_known_profile [OF ok pv Cons.prems(1) Some run]
    show ?thesis
    proof (cases err)
      case None
      with Cons.IH [of pp used np ?w] A(2) mx rest
      have "fst (restore_peers (livePool run) es ?w) = None \<longleftrightarrow> restore_ports mx pp used np es = None" by simp
      with step A(1) None Some ports show ?thesis by auto
    next
      case err: (Some x)
      with step A(1) Some ports show ?thesis by auto
    qed
  next
    case None
    note A = add_new_profile [OF ok pv Cons.prems(1) None run]
    show ?thesis
    proof (cases err)
      case noerr: None
      then obtain port where port: "resolvePort (wd_pool w) ?req = Inr port"
        and room: "\<not> (mx > 0 \<and> int (length pp) \<ge> mx)" using A(1) mx by auto
      have "fst (restore_peers (livePool run) es ?w) = None \<longleftrightarrow>
          restore_ports mx (AList.update (pkey ?p) port pp) (insert port used) (next_free_port (insert port used) np) es = None"
        using A(2) [OF noerr port] mx rest by (intro Cons.IH) simp_all
      moreover have "restore_ports mx pp used np (e # es) = restore_ports mx (AList.update (pkey ?p) port pp)
          (insert port used) (next_free_port (insert port used) np) es"
        using None ports port room resolve_dry [OF Cons.prems(1), of ?req] by auto
      ultimately show ?thesis using step noerr by simp
    next
      case (Some x)
      with A(1) have bad: "(maxIfaces (wd_pool w) > 0 \<and> int (length pp) \<ge> maxIfaces (wd_pool w))
          \<or> (\<forall>port. resolvePort (wd_pool w) ?req \<noteq> Inr port)" by auto
      have dry: "resolveRestorePort ?req np used = resolvePort (wd_pool w) ?req" by (rule resolve_dry [OF Cons.prems(1)])
      have "restore_ports mx pp used np (e # es) \<noteq> None"
        using bad mx None ports dry by (cases "resolvePort (wd_pool w) ?req") auto
      moreover have "err \<noteq> None" using Some by simp
      ultimately show ?thesis using step by blast
    qed
  qed
qed simp

lemma fresh_dry_matches:
  assumes "pool_fresh pool"
  shows "dry_matches [] {} (cfgListenPort (pool_config pool)) pool"
  using assms pool_fresh_inv [OF assms] by (simp add: dry_matches_def pool_fresh_def)

end
