(* ===== verification/Manager_Sample.thy ===== *)
theory Manager_Sample
  imports Restore_Dry_Run
begin

text \<open>
  A small installation, evaluated: the configuration of \<open>Config\<close>, an empty document with its 3.1 state, a
  pool on a host whose commands succeed, and a first client. The witnesses of the manager's properties use it.
\<close>

definition sample_cr :: crypto where
  "sample_cr = \<lparr>cr_sha256 = take 32, cr_mult = (\<lambda>k. k)\<rparr>"

definition one_key :: key32 where "one_key = replicate 32 1"

definition sample_g31 :: GeneratedParamsV31 where
  "sample_g31 = \<lparr>gH1 = ''100000'', gH2 = ''1000000'', gH3 = ''10000000'', gH4 = ''100000000'',
     gS1 = 15, gS2 = 15, gS3 = 15, gS4 = 12\<rparr>"

definition sample_defaults :: ManagerDefaults where
  "sample_defaults = \<lparr>md_LegacyParams = sample_params 0, md_AWG31Params = zeroParams, md_DefaultVersion = ''2.0'',
     md_DefaultHeaderKeyID = []\<rparr>"

definition sample_resolved :: ManagerDefaults where
  "sample_resolved = sample_defaults\<lparr>md_AWG31Params := ApplyGeneratedParamsV31 (Some zeroParams) sample_g31,
     md_DefaultHeaderKeyID := ''k''\<rparr>"

definition sample_awg31 :: AWG31Storage where
  "sample_awg31 = \<lparr>as_DefaultHeaderKeyID = ''k'', as_GeneratedParams = Some sample_g31,
     as_HeaderKeys = Some [(''k'', \<lparr>hk_HeaderProtectionKey = HeaderProtectionKeyToBase64 one_key\<rparr>)]\<rparr>"

definition sample_data :: StorageData where
  "sample_data = zeroStorageData\<lparr>sd_AWG31 := Some sample_awg31\<rparr>"

definition sample_storage :: Storage where
  "sample_storage = \<lparr>filePath = ''/data/clients.json'', fileDir = ''/data''\<rparr>"

definition sample_world :: "unit world" where
  "sample_world = \<lparr>wd_pool = sample_pool, wd_host = (),
     wd_disk = \<lparr>dk_files = [''/data/clients.json'' \<mapsto> Some (storage_MarshalJSON sample_data)], dk_faults = []\<rparr>\<rparr>"

definition sample_manager :: "unit world Manager" where
  "sample_manager = \<lparr>m_pool = livePool ok_run, m_save = liveSave sample_storage, m_config = sample_cfg,
     m_defaults = sample_resolved, m_clients = [], m_usedIPs = {}, m_data = sample_data\<rparr>"

definition sample_rand :: rand_source where
  "sample_rand = \<lparr>rnd_words = [], rnd_blocks = [one_key, one_key], rnd_ids = []\<rparr>"

section \<open>Restoring it\<close>

lemma one_key_ok: "length one_key = 32" "one_key \<noteq> zero_key"
  by (simp_all add: one_key_def zero_key_def replicate_eq_replicate)

lemma one_key_text: "Base64ToHeaderProtectionKey (HeaderProtectionKeyToBase64 one_key) = Inr one_key"
  using one_key_ok by (simp add: Base64ToHeaderProtectionKey_def HeaderProtectionKeyToBase64_def)

lemma clone_zero: "cloneStoredAWGParams zeroParams = zeroParams" "cloneStoredAWGParams (sample_params m) = sample_params m"
  by (simp_all add: cloneStoredAWGParams_def zeroParams_def sample_params_def ApplyGeneratedParams_def slice_def)

lemma sample_legacy:
  "NewLegacyProfile (take 32) (sample_params 0) = Inr (newProfile (take 32) ''2.0'' (sample_params 0) zero_key False)"
  using sample_params_ok [of 0] by (simp add: NewLegacyProfile_def check_eq_Inr ValidateProfile_None version_consts)

lemma sample_31:
  "\<exists>p. NewAWG31Profile (take 32) (ApplyGeneratedParamsV31 (Some zeroParams) sample_g31) one_key = Inr p"
  using generated31_profile_ok [OF GenerateParamsV31_zeros zeroParams_ok(2)] one_key_ok
  by (simp add: NewAWG31Profile_def check_eq_Inr ValidateProfile_None version_consts sample_g31_def zeroParams_def
      split: if_splits)

lemma sample_awg31_valid: "validateAWG31Storage sample_awg31 = None"
  by (subst validateAWG31_None [of _ "[(''k'', \<lparr>hk_HeaderProtectionKey = HeaderProtectionKeyToBase64 one_key\<rparr>)]"])
     (simp_all add: sample_awg31_def one_key_text)

lemma sample_key: "resolveHeaderProtectionKey sample_data ''k'' = Inr one_key"
  by (simp add: resolveHeaderProtectionKey_def sample_data_def sample_awg31_def one_key_text)

lemma sample_data_simps:
  "sd_Clients sample_data = []" "\<not> sd_needsNormalization sample_data" "sd_AWG31 sample_data = Some sample_awg31"
  "as_GeneratedParams sample_awg31 = Some sample_g31" "as_DefaultHeaderKeyID sample_awg31 = ''k''"
  "cloneManagerDefaults sample_defaults = sample_defaults" "cloneManagerDefaults sample_resolved = sample_resolved"
  "cloneStorageData sample_data = sample_data" "sample_data\<lparr>sd_Clients := []\<rparr> = sample_data"
  by (simp_all add: sample_data_def zeroStorageData_def sample_awg31_def cloneManagerDefaults_def sample_defaults_def
      sample_resolved_def clone_zero cloneStorageData_def)
     (simp add: cloneStoredAWGParams_def ApplyGeneratedParamsV31_def zeroParams_def slice_def)

lemma sample_resolve: "resolveManagerDefaults sample_cr sample_defaults sample_data = Inr sample_resolved"
proof -
  obtain p where p: "NewAWG31Profile (cr_sha256 sample_cr) (ApplyGeneratedParamsV31 (Some zeroParams) sample_g31) one_key = Inr p"
    using sample_31 by (auto simp: sample_cr_def)
  have "version_Valid (md_DefaultVersion sample_defaults)"
    "NewLegacyProfile (cr_sha256 sample_cr) (md_LegacyParams sample_defaults)
       = Inr (newProfile (take 32) ''2.0'' (sample_params 0) zero_key False)"
    using sample_legacy by (simp_all add: sample_defaults_def version_Valid_def version_consts sample_cr_def)
  moreover have "md_AWG31Params sample_defaults = zeroParams" by (simp add: sample_defaults_def)
  ultimately show ?thesis
    unfolding resolveManagerDefaults_def Let_def
    by (simp add: sample_data_simps sample_awg31_valid sample_key p) (simp add: sample_resolved_def)
qed

lemma sample_plan:
  "PrepareRestorePlan sample_cr parseIP rnd (Some sample_cfg) sample_defaults (Some sample_data)
     = Inr \<lparr>rp_data = sample_data, rp_defaults = sample_resolved, rp_entries = [], rp_needsNormalization = False\<rparr>"
proof -
  have "cfg_ListenPort sample_cfg = 51820" by (simp add: sample_cfg_def config_of_def envInt_def sample_env_def)
  moreover have "ValidatePort 51820 = None" by (simp add: ValidatePort_None)
  ultimately have "validateRestoreInterfaces sample_cfg [] = None" by (simp add: validateRestoreInterfaces_def)
  then show ?thesis
    unfolding PrepareRestorePlan_def Let_def option.case restore_awg31_def
    by (simp add: sample_resolve sample_data_simps)
qed

lemma sample_network: "Network sample_cfg = Some (167772160, 24)" "ServerIP sample_cfg = Some 167772161"
proof -
  have "(167772161 :: addr4) AND prefix_mask 24 = 167772160"
    using unat_masked [of 167772161 24] by (simp add: word_unat_eq_iff)
  then show "Network sample_cfg = Some (167772160, 24)" "ServerIP sample_cfg = Some 167772161"
    by (simp_all add: Network_def ServerIP_def sample_cfg_def config_of_def sample_env_def sample_cidr Masked_def)
qed

lemma sample_start:
  "NewManagerFromRestorePlan (livePool ok_run) (liveSave sample_storage) sample_cfg
     \<lparr>rp_data = sample_data, rp_defaults = sample_resolved, rp_entries = [], rp_needsNormalization = False\<rparr> sample_world
   = (Inr sample_manager, sample_world)"
proof -
  have "ParsePrefix4 ''10.0.0.0/24'' = Some (167772160, 24)"
    by (simp add: ParseAddr4_def ParsePrefix4_def valid_octet_def no_leading_zero_def octets_addr_def go_eval)
  then show ?thesis
    by (simp add: NewManagerFromRestorePlan_def sample_world_def livePool_def ApplyLANIsolation_def
        lanFirewallHookExists_def renderLANFirewall_def lanPeers_def host_eval sample_pool_def Let_def
        sample_data_simps sample_manager_def)
qed

section \<open>Its first client\<close>

definition alice :: ClientData where
  "alice = \<lparr>cd_ID = ''alice'', cd_ProtocolVersion = ''2.0'', cd_PrivateKey = KeyToBase64 (clamp_key one_key),
     cd_PublicKey = KeyToBase64 (clamp_key one_key), cd_PresharedKey = KeyToBase64 one_key,
     cd_Address = addr_String 167772162, cd_LANGroupID = ''peer:alice'', cd_CreatedAt = [], cd_AWGParams = None,
     cd_Routing = None, cd_headerKeyID = []\<rparr>"

definition sample_data1 :: StorageData where
  "sample_data1 = sample_data\<lparr>sd_Clients := [alice]\<rparr>"

definition sample_manager1 :: "unit world Manager" where
  "sample_manager1 = commitClientLocked alice sample_data1 sample_manager"

lemma sample_profile_eq:
  "effectiveProfileForData sample_cr sample_resolved sample_data ''2.0'' None [] = Inr sample_profile"
proof -
  have "effectiveParamsForVersion sample_resolved ''2.0'' None = sample_params 0"
    by (simp add: effectiveParamsForVersion_def sample_resolved_def sample_defaults_def version_consts clone_zero)
  moreover have "ValidateOverridesForVersion ''2.0'' None = None"
    by (simp add: ValidateOverridesForVersion_def version_Valid_def version_consts)
  moreover have "cr_sha256 sample_cr = take 32" by (simp add: sample_cr_def)
  ultimately show ?thesis
    using sample_legacy by (simp add: effectiveProfileForData_def version_Valid_def version_consts sample_profile_def)
qed

lemma sample_ip: "allocateIP sample_manager = Inr (addr_String 167772162)"
proof -
  have b: "unat (broadcast (167772160, 24)) = 167772415"
    using broadcast_nat [of "(167772160, 24)" "(167772160, 24)"] unat_masked [of 167772160 24]
    by (simp add: Masked_def word_unat_eq_iff)
  then have "(167772162 :: addr4) < broadcast (167772160, 24)" by (simp add: word_less_nat_alt)
  then have "find_ip {} (addr_String 167772161) (broadcast (167772160, 24)) 167772162 = Some (addr_String 167772162)"
    by (subst find_ip.simps) simp
  then show ?thesis by (simp add: allocateIP_def sample_manager_def sample_network)
qed

lemma sample_prepare:
  "create_prepare sample_cr sample_rand [] ''alice'' ''2.0'' None None [] sample_manager
     = Inr (alice, sample_data1, sample_profile, clamp_key one_key, one_key)"
proof -
  have v: "validateClientID ''alice'' = None" using rune_count_le [of "''alice''"] by (simp add: validateClientID_def)
  have n: "NormalizeOverridesForVersion ''2.0'' None = Inr None" "NormalizeRouting None = Inr None"
    by (simp_all add: NormalizeOverridesForVersion_def)
  have m: "map_of (m_clients sample_manager) k = None" "m_data sample_manager = sample_data"
    "m_defaults sample_manager = sample_resolved" for k by (simp_all add: sample_manager_def)
  have c: "cloneClientData alice = alice" by (simp add: cloneClientData_def alice_def)
  have sweep: "markAndSweepHeaderKeys sample_data1 = sample_data1"
    by (simp add: markAndSweepHeaderKeys_def sample_data1_def sample_data_def sample_awg31_def)
  have k: "GeneratePrivateKey (rnd_blocks sample_rand) = Inr (clamp_key one_key, [one_key])"
    "GeneratePresharedKey [one_key] = Inr (one_key, [])"
    by (simp_all add: GeneratePrivateKey_def GeneratePresharedKey_def read_block_def sample_rand_def)
  have a: "\<lparr>cd_ID = ''alice'', cd_ProtocolVersion = ''2.0'', cd_PrivateKey = KeyToBase64 (clamp_key one_key),
     cd_PublicKey = KeyToBase64 (PublicKeyFromPrivate (cr_mult sample_cr) (clamp_key one_key)), cd_PresharedKey = KeyToBase64 one_key,
     cd_Address = addr_String 167772162, cd_LANGroupID = defaultLANGroupID ''alice'', cd_CreatedAt = [], cd_AWGParams = None,
     cd_Routing = None, cd_headerKeyID = []\<rparr> = alice"
    by (simp add: alice_def PublicKeyFromPrivate_def sample_cr_def defaultLANGroupID_def)
  have pub: "PublicKeyFromPrivate (cr_mult sample_cr) (clamp_key one_key) = clamp_key one_key"
    by (simp add: PublicKeyFromPrivate_def sample_cr_def)
  have ver: "version_Valid ''2.0''" "''2.0'' \<noteq> ProtocolVersion31" by (simp_all add: version_Valid_def version_consts)
  show ?thesis
    unfolding create_prepare_def Let_def m sample_data_simps sample_ip
    by (simp add: v n ver k sample_profile_eq a [unfolded pub] pub c) (simp add: sample_data1_def [symmetric] sample_data_simps sweep)
qed

lemma ok_run_host: "host_ok ok_run"
  by (simp add: host_ok_def ok_run_def)

lemma sample_lan:
  assumes "pool_config (wd_pool w) = pool_config sample_pool"
  shows "dp_ApplyLANIsolation (livePool ok_run) [] w = (None, w)"
    and "dp_ApplyLANIsolation (livePool ok_run) (lanPeers [alice]) w = (None, w)"
proof -
  have net: "cfgNetwork (pool_config (wd_pool w)) = ''10.0.0.0/24''" using assms by (simp add: sample_pool_def)
  have p: "ParsePrefix4 ''10.0.0.0/24'' = Some (167772160, 24)"
    by (simp add: ParseAddr4_def ParsePrefix4_def valid_octet_def no_leading_zero_def octets_addr_def go_eval)
  have masked: "Masked (167772160, 24) = (167772160, 24)"
    using unat_masked [of 167772160 24] by (simp add: Masked_def word_unat_eq_iff)
  have "Contains (167772160, 24) 167772162" by (simp add: Contains_nat)
  then have n: "normalize_peers (167772160, 24) [] (lanPeers [alice]) = Inr [(167772162, ''peer:alice'')]"
    by (simp add: lanPeers_def alice_def)
  have u: "w\<lparr>wd_host := ()\<rparr> = w" by (cases w) simp
  show "dp_ApplyLANIsolation (livePool ok_run) [] w = (None, w)"
    "dp_ApplyLANIsolation (livePool ok_run) (lanPeers [alice]) w = (None, w)"
    by (simp_all add: livePool_def ApplyLANIsolation_def lanFirewallHookExists_def renderLANFirewall_def host_eval
        net p masked n u Let_def)
qed

lemma sample_save:
  assumes "dk_faults (wd_disk w) = []"
  shows "\<exists>w'. liveSave sample_storage d w = (None, w') \<and> wd_pool w' = wd_pool w"
  using assms
  by (simp add: liveSave_def storage_Save_def disk_ops_def disk_MkdirAll_def disk_WriteFile_def disk_Rename_def next_fault_def
      sample_storage_def)

lemma sample_create:
  "\<exists>w'. CreateClientWithVersion sample_cr sample_rand [] ''alice'' ''2.0'' None None [] sample_manager sample_world
     = (Inr alice, sample_manager1, w')"
proof -
  have fresh: "pool_fresh (wd_pool sample_world)" by (simp add: pool_fresh_def sample_world_def sample_pool_def)
  note dry = fresh_dry_matches [OF fresh]
  let ?port = "Port (params sample_profile)"
  have port: "?port = 0"
    by (simp add: sample_profile_def newProfile_def Let_def sample_params_def ApplyGeneratedParams_def zeroParams_def
        canonicalizeUnsignedRanges_def)
  obtain e pool' h' where add: "AddPeer (hostPoolOperations ok_run) sample_profile ?port (clamp_key one_key) (Some one_key)
      (cd_Address alice) (wd_pool sample_world) (wd_host sample_world) = (e, pool', h')" by (metis prod_cases3)
  have new: "map_of (ifaces (wd_pool sample_world)) (pkey sample_profile) = None" by (simp add: sample_world_def sample_pool_def)
  have "ValidatePort 0 = None" by (simp add: ValidatePort_None)
  then have r: "resolvePort (wd_pool sample_world) ?port = Inr 51820"
    by (simp add: port resolvePort_def next_free_port.simps sample_world_def sample_pool_def param_consts)
  note A = add_new_profile [OF ok_run_host sample_profile_valid dry new add]
  have e: "e = None" using A(1) r by (simp add: sample_world_def sample_pool_def)
  let ?w = "sample_world\<lparr>wd_pool := pool', wd_host := h'\<rparr>"
  have cfg: "pool_config pool' = pool_config sample_pool" using A(2) [OF e r] by (simp add: sample_world_def)
  obtain w' where sv: "liveSave sample_storage sample_data1 ?w = (None, w')" "wd_pool w' = pool'"
    using sample_save [of ?w sample_data1] by (auto simp: sample_world_def)
  have m: "m_pool sample_manager = livePool ok_run" "m_save sample_manager = liveSave sample_storage"
    "m_pool sample_manager1 = livePool ok_run" "m_data sample_manager1 = sample_data1"
    by (simp_all add: sample_manager_def sample_manager1_def)
  have block: "blockLANLocked sample_manager sample_world = (None, sample_world)"
    using sample_lan(1) [of sample_world] by (simp add: blockLANLocked_def m wrap_err_def sample_world_def)
  have rebuild: "rebuildLANLocked sample_manager1 w' = (None, w')"
    using sample_lan(2) [of w'] cfg sv(2) by (simp add: rebuildLANLocked_def m wrap_err_def sample_data1_def)
  have added: "dp_AddPeer (livePool ok_run) sample_profile ?port (clamp_key one_key) (Some one_key) (cd_Address alice) sample_world
      = (None, ?w)" using add e by (simp add: lift_pool_def)
  have clone: "cloneClientData alice = alice" by (simp add: cloneClientData_def alice_def)
  show ?thesis
    unfolding CreateClientWithVersion_def Let_def sample_prepare sum.case prod.case block m added sv(1)
      sample_manager1_def [symmetric] option.case rebuild
    by (simp add: clone)
qed

lemma sample_crypto: "crypto_ok sample_cr"
  by (simp add: crypto_ok_def sample_cr_def)

lemma sample_env_ok:
  "rand_ok sample_rand" "fresh_peer sample_cr sample_rand sample_manager" "stored_wf sample_data" "config_ok sample_cfg"
proof -
  show "rand_ok sample_rand" by (simp add: rand_ok_def sample_rand_def one_key_ok)
  show "fresh_peer sample_cr sample_rand sample_manager" by (simp add: fresh_peer_def sample_manager_def sample_data_simps)
  show "stored_wf sample_data" by (simp add: stored_wf_def sample_data_def sample_awg31_def)
  show "config_ok sample_cfg" by (simp add: config_ok_def sample_network)
qed

end
