(* ===== verification/Manager_Properties.thy ===== *)
theory Manager_Properties
  imports Manager_Sample
begin

text \<open>
  The properties of the client manager and of the manager, the interface pool and the storage together: the
  invariant of every reachable manager, agreement of devices, file and memory, restarts, and the dry run of a
  restore.
\<close>

section \<open>Runs of the whole program\<close>

text \<open>
  The program starts on a pool without interfaces, from a plan whose document it either saves on the way or
  found in the file, and then serves calls whose errors do not report a failed rollback.
\<close>

inductive live_run ::
  "crypto \<Rightarrow> 'h run \<Rightarrow> Storage \<Rightarrow> (string \<Rightarrow> addr4 option) \<Rightarrow> ManagerDefaults
   \<Rightarrow> ('h, 'x) world_scheme Manager \<times> ('h, 'x) world_scheme \<Rightarrow> bool" for cr run s parseIP df0 where
  live_start: "PrepareRestorePlan cr parseIP rnd (Some cfg) df0 (Some data) = Inr plan \<Longrightarrow> stored_wf data \<Longrightarrow>
     config_ok cfg \<Longrightarrow> pool_fresh (wd_pool w) \<Longrightarrow>
     NewManagerFromRestorePlan (livePool run) (liveSave s) cfg plan w = (Inr m, w') \<Longrightarrow>
     rp_needsNormalization plan \<or> file_holds s (m_data m) (wd_disk w) \<Longrightarrow> live_run cr run s parseIP df0 (m, w')"
| live_step: "live_run cr run s parseIP df0 st \<Longrightarrow>
     manager_step cr (keeps_host live_ok live_peers (live_saved s)) st e st' \<Longrightarrow>
     \<forall>x. e = Some x \<longrightarrow> \<not> unrecovered x \<Longrightarrow> live_run cr run s parseIP df0 st'"

lemma fresh_no_peers: "pool_fresh pool \<Longrightarrow> tracked pool = (\<lambda>k pub. None)"
  by (auto simp: pool_fresh_def tracked_def psks_of_def fun_eq_iff)

lemma live_run_sync:
  assumes "live_run cr run s parseIP df0 st" "crypto_ok cr"
  shows "manager_good cr df0 (fst st) \<and> m_pool (fst st) = livePool run \<and> m_save (fst st) = liveSave s
    \<and> in_sync live_ok live_peers (live_saved s) cr (fst st) (snd st)"
  using assms(1)
proof (induction rule: live_run.induct)
  case (live_start rnd cfg data plan w m w')
  have "live_ok w" "live_peers w = (\<lambda>k pub. None)"
    using pool_fresh_inv fresh_no_peers live_start(4) by blast+
  with live.restore_sync [OF live_start(1-3,5)] live_start(6) restore_inv [OF live_start(1-3,5)] NewManager_cases(2,3) [OF live_start(5)]
  show ?case by (auto simp: manager_good_def)
next
  case (live_step st e st')
  obtain m w m' w' where st: "st = (m, w)" "st' = (m', w')" by fastforce
  have inv: "manager_inv cr m" using live_step.IH by (simp add: st manager_good_def)
  note ok = manager_step_ok [OF live_step(2) [unfolded st] inv assms(2)]
  have "in_sync live_ok live_peers (live_saved s) cr m' w' \<or> (\<exists>x. e = Some x \<and> unrecovered x)"
    using live.step_sync [OF live_step(2) [unfolded st] inv assms(2)] live_step.IH
    by (auto simp: st dest: lost_track_unrecovered)
  with live_step(3) live_step.IH step_good [OF ok] ok show ?case by (auto simp: st step_ok_def)
qed

lemma sample_reach0: "manager_reach sample_cr R parseIP sample_defaults (sample_manager, sample_world)"
  by (rule reach_start [OF sample_plan sample_env_ok(3,4) sample_start])

lemma sample_reach1: "\<exists>w. manager_reach sample_cr R parseIP sample_defaults (sample_manager1, w)"
proof -
  obtain w where "CreateClientWithVersion sample_cr sample_rand [] ''alice'' ''2.0'' None None [] sample_manager sample_world
      = (Inr alice, sample_manager1, w)" using sample_create by blast
  from reach_step [OF sample_reach0 step_create [OF this sample_env_ok(1,2)]] show ?thesis by blast
qed

lemma sample_manager1_simps:
  "m_data sample_manager1 = sample_data1" "sd_Clients sample_data1 = [alice]" "m_config sample_manager1 = sample_cfg"
  "m_defaults sample_manager1 = sample_resolved" "m_usedIPs sample_manager1 = {cd_Address alice}"
  "map_of (m_clients sample_manager1) ''alice'' = Some alice"
  by (simp_all add: sample_manager1_def commitClientLocked_def sample_data1_def sample_manager_def alice_def cloneClientData_def)

lemma failed_step:
  assumes "manager_step cr R (m, w) (Some e) (m', w')" "manager_inv cr m"
  shows "m' = m \<or> (\<exists>w1. rebuildLANLocked m' w1 = (Some e, w'))"
  using assms(1)
proof (cases rule: manager_step.cases)
  case (step_create rnd now name ver ps routing grp r)
  from step_create(2) show ?thesis
  proof (cases rule: CreateClientWithVersion_cases)
    case (committed client d' profile pub psk w1 w2 w3)
    with step_create(1) have "rebuildLANLocked m' w3 = (Some e, w')" by (auto simp: prod_eq_iff split: option.splits)
    then show ?thesis by blast
  qed simp
next
  case (step_update cid upd guard r)
  from step_update(2) show ?thesis
  proof (cases rule: UpdateClient_cases)
    case (app client ver ps0 ps rt0 routing reset)
    from app(4) step_update(3) show ?thesis by (cases rule: applyClientUpdate_cases) (use step_update(1) in auto)
  qed simp
next
  case (step_regenerate rnd cid guard r)
  from step_regenerate(2,4) show ?thesis
  proof (cases rule: RegenerateAWGParams_cases)
    case (app client ver ps0 ps rep)
    from app(5) step_regenerate(3) show ?thesis by (cases rule: applyClientUpdate_cases) (use step_regenerate(1) in auto)
  qed simp
next
  case (step_groups ids g r)
  from step_groups(2) assms(2) show ?thesis
  proof (cases rule: UpdateLANGroup_cases)
    case (committed w1 w2)
    with step_groups(1) have "rebuildLANLocked m' w2 = (Some e, w')" by (cases r) (auto simp: prod_eq_iff)
    then show ?thesis by blast
  qed simp
next
  case (step_delete cid)
  then show ?thesis by (cases rule: DeleteClient_cases) blast+
next
  case (step_server_key key)
  then show ?thesis by (auto simp: SetServerPrivateKey_def Let_def split: prod.splits option.splits)
qed

section \<open>Properties\<close>

text \<open>C1. Whatever calls the manager serves, and whatever the devices and the storage answer, including
  failed commands, failed saves and failed rollbacks: identifiers, addresses and public keys of clients stay
  unique; every client has an address of the VPN network that is neither the network, nor the
  broadcast, nor the server address, and a usable profile; the table in memory is the saved list; and the set of
  used addresses is exactly the addresses of the clients.\<close>

theorem manager_reachable_invariant:
  assumes "manager_reach cr R parseIP df0 (m, w)" "crypto_ok cr"
  shows "distinct (map cd_ID (sd_Clients (m_data m))) \<and> distinct (map cd_Address (sd_Clients (m_data m)))
    \<and> distinct (map peer_key (sd_Clients (m_data m)))
    \<and> (\<forall>c \<in> set (sd_Clients (m_data m)). (\<exists>a. cd_Address c = addr_String a \<and> client_addr (m_config m) a)
         \<and> (\<exists>p. client_profile cr m c = Inr p \<and> profile_valid p))
    \<and> map_of (m_clients m) = client_map (sd_Clients (m_data m))
    \<and> m_usedIPs m = cd_Address ` set (sd_Clients (m_data m))"
proof -
  have inv: "manager_inv cr m" using reach_good [OF assms] by (simp add: manager_good_def)
  then have ok: "client_ok cr (m_config m) (m_defaults m) (m_data m) c" if "c \<in> set (sd_Clients (m_data m))" for c
    using that by (simp add: manager_inv_def data_ok_def)
  have "(\<exists>a. cd_Address c = addr_String a \<and> client_addr (m_config m) a)
      \<and> (\<exists>p. client_profile cr m c = Inr p \<and> profile_valid p)" if "c \<in> set (sd_Clients (m_data m))" for c
    using ok [OF that] effective_Inr(3) unfolding client_ok_def client_profile_def by metis
  with inv show ?thesis by (simp add: manager_inv_def data_ok_def)
qed

theorem manager_reachable_invariant_witness:
  "m_usedIPs sample_manager1 = {addr_String 167772162} \<and> client_addr sample_cfg 167772162"
proof -
  obtain w where "manager_reach sample_cr (\<lambda>_ _. True) (\<lambda>_. None) sample_defaults (sample_manager1, w)"
    using sample_reach1 by blast
  from manager_reachable_invariant [OF this sample_crypto] show ?thesis
    by (auto simp: sample_manager1_simps alice_def)
qed

text \<open>C2. Devices, file and memory agree. At every point of a run of the program, over any command
  runner and any disk faults, as long as no call has reported a failed rollback: the interfaces of the pool
  track exactly the manager's clients, each on the interface of its profile with its preshared key, and the
  storage file holds exactly the manager's document, after successful and after failed calls.\<close>

theorem devices_and_storage_agree:
  assumes "live_run cr run s parseIP df0 (m, w)" "crypto_ok cr"
  shows "tracked (wd_pool w) = peer_table cr (m_defaults m) (m_data m)
    \<and> os_ReadFile disk_ops (filePath s) (wd_disk w) = FileText (Some (storage_MarshalJSON (m_data m)))"
  using live_run_sync [OF assms]
  by (simp add: in_sync_def file_holds_def disk_ops_def disk_ReadFile_def)

theorem devices_and_storage_agree_witness:
  "\<exists>w :: unit world. tracked (wd_pool w) (pkey sample_profile) (peer_key alice) = Some (Some one_key)
     \<and> os_ReadFile disk_ops ''/data/clients.json'' (wd_disk w) = FileText (Some (storage_MarshalJSON sample_data1))"
proof -
  let ?run = "live_run sample_cr ok_run sample_storage (\<lambda>_. None) sample_defaults"
  obtain w where w: "CreateClientWithVersion sample_cr sample_rand [] ''alice'' ''2.0'' None None [] sample_manager sample_world
      = (Inr alice, sample_manager1, w)" using sample_create by blast
  have "?run (sample_manager, sample_world)"
    by (rule live_start [OF sample_plan sample_env_ok(3,4) _ sample_start])
       (simp_all add: pool_fresh_def sample_world_def sample_pool_def file_holds_def sample_storage_def sample_manager_def)
  from live_step [OF this step_create [OF w sample_env_ok(1,2)]] have "?run (sample_manager1, w)" by simp
  note A = devices_and_storage_agree [OF this sample_crypto]
  have "profile_of sample_cr sample_resolved sample_data1 alice = Inr sample_profile"
    using sample_profile_eq by (simp add: sample_data1_def alice_def)
  moreover have "decodePresharedKey (KeyToBase64 one_key) = Inr (Some one_key)"
    by (simp add: decodePresharedKey_def KeyToBase64_Nil_iff one_key_ok) (simp add: one_key_def)
  then have "peer_psk alice = Some one_key" by (simp add: peer_psk_def alice_def)
  ultimately have "peer_table sample_cr sample_resolved sample_data1 (pkey sample_profile) (peer_key alice) = Some (Some one_key)"
    by (simp add: peer_table_def sample_manager1_simps)
  with A show ?thesis by (intro exI [of _ w]) (simp add: sample_manager1_simps sample_storage_def)
qed

text \<open>C21. An error leaves the manager as it was, with one exception: when the change is saved and committed and
  only the last step, rebuilding the LAN firewall, fails, the caller gets the error of that step.\<close>

theorem failed_call_keeps_manager:
  assumes "manager_step cr R (m, w) (Some e) (m', w')" "manager_inv cr m"
  shows "m' = m \<or> (\<exists>w1. rebuildLANLocked m' w1 = (Some e, w'))"
  using assms by (rule failed_step)

theorem failed_call_keeps_manager_witness:
  "\<exists>m' w' :: unit world. CreateClientWithVersion sample_cr sample_rand [] [] ''2.0'' None None [] sample_manager sample_world
     = (Inl (Plain ''client ID is required''), m', w') \<and>
   (m' = sample_manager \<or> (\<exists>w1. rebuildLANLocked m' w1 = (Some (Plain ''client ID is required''), w')))"
proof -
  have c: "CreateClientWithVersion sample_cr sample_rand [] [] ''2.0'' None None [] sample_manager sample_world
      = (Inl (Plain ''client ID is required''), sample_manager, sample_world)"
    by (simp add: CreateClientWithVersion_def create_prepare_def validateClientID_def)
  have inv: "manager_inv sample_cr sample_manager"
    using reach_good [OF sample_reach0 sample_crypto] by (simp add: manager_good_def)
  have "manager_step sample_cr (\<lambda>_ _. True) (sample_manager, sample_world) (Some (Plain ''client ID is required''))
      (sample_manager, sample_world)" using step_create [OF c sample_env_ok(1,2)] by simp
  from failed_call_keeps_manager [OF this inv] c show ?thesis by blast
qed

text \<open>C10. Restarting is idempotent. From any reachable manager, preparing a restore plan from its document with
  the same configuration reproduces the document, the resolved defaults and one entry per client with its keys
  and profile, and asks for no rewriting of the file; the only check that can still refuse is the dry run of
  the interfaces. \<open>net.ParseIP\<close> is only assumed to read the dotted quads that the server writes.\<close>

theorem restart_reproduces_manager:
  assumes "manager_reach cr R parseIP df0 (m, w)" "crypto_ok cr" "\<forall>a. parseIP (addr_String a) = Some a"
  shows "\<exists>es. list_all2 (entry_for cr (m_defaults m) (m_data m)) (sd_Clients (m_data m)) es
    \<and> PrepareRestorePlan cr parseIP rnd (Some (m_config m)) df0 (Some (m_data m))
        = check (validateRestoreInterfaces (m_config m) es)
            (Inr \<lparr>rp_data = m_data m, rp_defaults = m_defaults m, rp_entries = es, rp_needsNormalization = False\<rparr>)"
  using reach_good [OF assms(1,2)] by (intro restart_plan [OF _ _ assms(3)]) (simp_all add: manager_good_def)

theorem restart_reproduces_manager_witness:
  "\<exists>es. length es = 1 \<and> PrepareRestorePlan sample_cr ParseAddr4 sample_rand (Some sample_cfg) sample_defaults (Some sample_data1)
        = check (validateRestoreInterfaces sample_cfg es)
            (Inr \<lparr>rp_data = sample_data1, rp_defaults = sample_resolved, rp_entries = es, rp_needsNormalization = False\<rparr>)"
proof -
  obtain w where "manager_reach sample_cr (\<lambda>_ _. True) ParseAddr4 sample_defaults (sample_manager1, w)"
    using sample_reach1 by blast
  from restart_reproduces_manager [OF this sample_crypto, of sample_rand] obtain es where
    es: "list_all2 (entry_for sample_cr sample_resolved sample_data1) [alice] es"
      "PrepareRestorePlan sample_cr ParseAddr4 sample_rand (Some sample_cfg) sample_defaults (Some sample_data1)
        = check (validateRestoreInterfaces sample_cfg es)
            (Inr \<lparr>rp_data = sample_data1, rp_defaults = sample_resolved, rp_entries = es, rp_needsNormalization = False\<rparr>)"
    by (auto simp: sample_manager1_simps)
  then show ?thesis using list_all2_lengthD [OF es(1)] by (intro exI [of _ es]) simp
qed

text \<open>C11. The dry run is exact: on a host whose commands succeed, restoring the peers of a plan into a new
  pool with the configured port and limit succeeds if and only if \<open>validateRestoreInterfaces\<close> accepts the plan.
  So a plan that is refused would have failed half way through, and one that is accepted does not.\<close>

theorem restore_dry_run_exact:
  assumes "host_ok run" "pool_fresh (wd_pool w)" "\<forall>e \<in> set es. profile_valid (re_profile e)"
    and "cfgListenPort (pool_config (wd_pool w)) = cfg_ListenPort cfg" "maxIfaces (wd_pool w) = cfg_MaxInterfaces cfg"
    and "ValidatePort (cfg_ListenPort cfg) = None"
  shows "fst (restore_peers (livePool run) es w) = None \<longleftrightarrow> validateRestoreInterfaces cfg es = None"
  using restore_ports_exact [OF assms(1) fresh_dry_matches [OF assms(2)] assms(5,3)] assms(4,6)
  by (simp add: validateRestoreInterfaces_def)

definition sample_entry :: restoreEntry where
  "sample_entry = \<lparr>re_client = alice, re_profile = sample_profile, re_publicKey = zero_key, re_presharedKey = None,
     re_requestedPort = 0\<rparr>"

lemma sample_cfg_ports: "cfg_ListenPort sample_cfg = 51820" "cfg_MaxInterfaces sample_cfg = 0"
  by (simp_all add: sample_cfg_def config_of_def envInt_def sample_env_def)

theorem restore_dry_run_exact_witness:
  "fst (restore_peers (livePool ok_run) [sample_entry] (sample_world\<lparr>wd_pool := sample_pool\<lparr>maxIfaces := 0\<rparr>\<rparr>)) = None"
proof -
  have "ValidatePort 51820 = None" "ValidatePort 0 = None" by (simp_all add: ValidatePort_None)
  then have v: "validateRestoreInterfaces sample_cfg [sample_entry] = None"
    by (simp add: validateRestoreInterfaces_def sample_cfg_ports resolveRestorePort_def sample_entry_def
        next_free_port.simps param_consts)
  show ?thesis
    by (subst restore_dry_run_exact [OF ok_run_host, where cfg = sample_cfg])
       (use v in \<open>simp_all add: sample_world_def sample_pool_def pool_fresh_def sample_cfg_ports sample_entry_def
          sample_profile_valid ValidatePort_None\<close>)
qed



text \<open>Garbage collection of header keys keeps exactly the default key and the keys that clients of version
  3.1 refer to, and changes nothing else of the document.\<close>

lemma markAndSweepHeaderKeys_exact:
  assumes "sd_AWG31 d = Some s" "as_HeaderKeys s = Some keys"
  shows "\<exists>keys'. markAndSweepHeaderKeys d = d\<lparr>sd_AWG31 := Some (s\<lparr>as_HeaderKeys := Some keys'\<rparr>)\<rparr>
    \<and> (\<forall>k. map_of keys' k =
          (if k = as_DefaultHeaderKeyID s
              \<or> (\<exists>c \<in> set (sd_Clients d). cd_ProtocolVersion c = ProtocolVersion31 \<and> cd_headerKeyID c = k \<and> k \<noteq> [])
           then map_of keys k else None))"
proof -
  have "markAndSweepHeaderKeys d
      = d\<lparr>sd_AWG31 := Some (s\<lparr>as_HeaderKeys := Some (filter (\<lambda>(k, _). referenced d k) keys)\<rparr>)\<rparr>"
    using sweep_awg31 [OF assms] assms by (simp add: markAndSweepHeaderKeys_def Let_def)
  moreover have "referenced d k \<longleftrightarrow> k = as_DefaultHeaderKeyID s
      \<or> (\<exists>c \<in> set (sd_Clients d). cd_ProtocolVersion c = ProtocolVersion31 \<and> cd_headerKeyID c = k \<and> k \<noteq> [])" for k
    using assms by (auto simp: referenced_def)
  ultimately show ?thesis by (intro exI conjI) (auto simp: map_of_filter_key)
qed

text \<open>
  Three profiles with different keys, and the plan entries of the two clients that remain: the second profile
  with an automatic port and the third with the default port as its own.
\<close>

definition conflict_profile :: "byte \<Rightarrow> Profile" where
  "conflict_profile n = sample_profile\<lparr>pkey := [n]\<rparr>"

definition conflict_entries :: "restoreEntry list" where
  "conflict_entries = [sample_entry\<lparr>re_profile := conflict_profile 2, re_requestedPort := 0\<rparr>,
     sample_entry\<lparr>re_profile := conflict_profile 3, re_publicKey := one_key, re_requestedPort := 51820\<rparr>]"


end
