(* ===== verification/Update.thy ===== *)
theory Update
  imports Storage Firewall
begin

text \<open>
  The self-update of \<^verbatim>\<open>src/internal/update/update.go\<close> and its lock, \<^verbatim>\<open>src/internal/update/lock_unix.go\<close>:
  release metadata and its checks, version comparison, the signed manifest of digests, and the replacement of
  the running binary. File contents and response bodies are byte strings.

  The network, the file system, the lock calls and the execution of a binary are the record \<open>update_host\<close> of
  functions on a host state \<open>'w\<close>. Ed25519, SHA-256, PEM and PKIX parsing and the text syntax of JSON are the
  record \<open>update_lib\<close>. A response is its status with a body: the bytes it delivers and the error that ends it,
  if one does.
\<close>

section \<open>Names and versions\<close>

definition repo :: string where "repo = ''StealthSurf-VPN/awg-server''"
definition releaseBinaryName :: string where "releaseBinaryName = ''awg-server-awg31''"
definition latestReleaseURL :: string where
  "latestReleaseURL = ''https://api.github.com/repos/'' @ repo @ ''/releases/latest''"
definition checksumAssetName :: string where "checksumAssetName = ''SHA256SUMS''"
definition signatureAssetName :: string where "signatureAssetName = ''SHA256SUMS.sig''"
definition maxReleaseMetadata :: nat where "maxReleaseMetadata = 64 * 2 ^ 10"
definition maxReleaseBinary :: nat where "maxReleaseBinary = 64 * 2 ^ 20"

definition releaseAssetNames :: "string list" where
  "releaseAssetNames =
     [''awg-server-awg31-darwin-amd64'', ''awg-server-awg31-darwin-arm64'',
      ''awg-server-awg31-linux-amd64'', ''awg-server-awg31-linux-arm64'',
      ''awg-server-awg31-windows-amd64.exe'', ''awg-server-awg31-windows-arm64.exe'']"

record asset =
  asset_Name :: string
  asset_BrowserDownloadURL :: string

record release =
  rel_TagName :: string
  rel_Assets :: "asset list"

record CheckResult =
  upd_Latest :: string
  upd_AssetName :: string
  upd_DownloadURL :: string
  upd_ChecksumsURL :: string
  upd_SignatureURL :: string
  upd_NeedsUpdate :: bool

definition validateUpdatePlatform :: "string \<Rightarrow> go_error option" where
  "validateUpdatePlatform goos =
     (if goos \<in> {''linux'', ''darwin''} then None
      else if goos = ''windows''
      then Some (Plain ''self-update is unavailable on Windows because a running executable cannot be replaced atomically; install a separately verified signed release'')
      else Some (Plain (''self-update is unsupported on '' @ goos)))"

definition releaseAssetName :: "string \<Rightarrow> string \<Rightarrow> string" where
  "releaseAssetName goos goarch =
     releaseBinaryName @ ''-'' @ goos @ ''-'' @ goarch @ (if goos = ''windows'' then ''.exe'' else [])"

definition expectedAssetURL :: "string \<Rightarrow> string \<Rightarrow> string" where
  "expectedAssetURL ver assetName =
     ''https://github.com/'' @ repo @ ''/releases/download/v'' @ ver @ ''/'' @ assetName"

definition part_error :: go_error where
  "part_error = Plain ''components must be decimal integers without leading zeroes''"

definition part_check :: "string \<Rightarrow> go_error option" where
  "part_check part =
     (if part = [] \<or> length part > 1 \<and> hd part = CHR ''0'' then Some part_error
      else if \<not> all_digits part then Some part_error else None)"

definition parseStableVersion :: "string \<Rightarrow> string list res" where
  "parseStableVersion ver =
     (let parts = split_on (CHR ''.'') ver in
      if length parts \<noteq> 3 then Inl (Plain ''must use MAJOR.MINOR.PATCH'')
      else check (first_err (map part_check parts)) (Inr parts))"

text \<open>Go's \<open><\<close> on strings: bytewise, a proper prefix first.\<close>

fun string_less :: "string \<Rightarrow> string \<Rightarrow> bool" where
  "string_less s [] = False"
| "string_less [] (c # t) = True"
| "string_less (a # s) (c # t) =
     ((of_char a :: nat) < of_char c \<or> a = c \<and> string_less s t)"

fun compare_parts :: "string list \<Rightarrow> string list \<Rightarrow> int" where
  "compare_parts (l # ls) (r # rs) =
     (if length l < length r then -1 else if length l > length r then 1
      else if string_less l r then -1 else if string_less r l then 1
      else compare_parts ls rs)"
| "compare_parts ls rs = 0"

definition compareStableVersions :: "string \<Rightarrow> string \<Rightarrow> int res" where
  "compareStableVersions left right =
     res_bind (map_err (\<lambda>e. Wrap (''invalid version '' @ go_quote left @ '': '') e []) (parseStableVersion left)) (\<lambda>ls.
     res_bind (map_err (\<lambda>e. Wrap (''invalid version '' @ go_quote right @ '': '') e []) (parseStableVersion right)) (\<lambda>rs.
       Inr (compare_parts ls rs)))"

definition compareCurrentVersion :: "string \<Rightarrow> string \<Rightarrow> int res" where
  "compareCurrentVersion current latest =
     (if current = ''dev'' then Inr (-1)
      else (let current = trim_prefix current ''v'' in
        map_err (\<lambda>e. Wrap (''compare installed version '' @ go_quote current @ '' with latest '' @ go_quote latest
                             @ '': '') e []) (compareStableVersions current latest)))"

definition validateUpgrade :: "string \<Rightarrow> string \<Rightarrow> go_error option" where
  "validateUpgrade current target =
     (case compareCurrentVersion current target of
        Inl e \<Rightarrow> Some e
      | Inr comparison \<Rightarrow>
          if comparison > 0
          then Some (Plain (''release '' @ target @ '' is older than installed version '' @ current))
          else if comparison = 0
          then Some (Plain (''release '' @ target @ '' is not newer than installed version '' @ current))
          else None)"

section \<open>Release assets\<close>

definition twice_error :: "string \<Rightarrow> go_error" where
  "twice_error name = Plain (''requested release asset '' @ name @ '' appears more than once'')"

fun first_repeat :: "string list \<Rightarrow> string list \<Rightarrow> string option" where
  "first_repeat seen [] = None"
| "first_repeat seen (n # ns) = (if n \<in> set seen then Some n else first_repeat (n # seen) ns)"

text \<open>The maps \<open>counts\<close> and \<open>urls\<close> after the loop over the assets; the last URL of a name stays.\<close>

definition asset_count :: "asset list \<Rightarrow> string \<Rightarrow> nat" where
  "asset_count assets name = length (filter (\<lambda>a. asset_Name a = name) assets)"

definition asset_urls :: "asset list \<Rightarrow> (string, string) gmap" where
  "asset_urls assets = fold (\<lambda>a. AList.update (asset_Name a) (asset_BrowserDownloadURL a)) assets []"

definition gm_get :: "(string, string) gmap \<Rightarrow> string \<Rightarrow> string" where
  "gm_get m k = (case map_of m k of None \<Rightarrow> [] | Some v \<Rightarrow> v)"

definition asset_checks :: "asset list \<Rightarrow> string \<Rightarrow> string \<Rightarrow> go_error option list" where
  "asset_checks assets ver name =
     [fail_if (asset_count assets name \<noteq> 1) (Plain (''release asset '' @ name @ '' must appear exactly once'')),
      fail_if (gm_get (asset_urls assets) name \<noteq> expectedAssetURL ver name)
        (Plain (''release asset '' @ name @ '' has unexpected download URL ''
                @ go_quote (gm_get (asset_urls assets) name)))]"

definition selectReleaseAssetURLs :: "asset list \<Rightarrow> string \<Rightarrow> string list \<Rightarrow> (string, string) gmap res" where
  "selectReleaseAssetURLs assets ver names =
     check (map_option twice_error (first_repeat [] names))
     (check (first_err (map (\<lambda>a. fail_if (asset_Name a \<notin> set names)
               (Plain (''unexpected release asset '' @ asset_Name a))) assets))
      (check (first_err (concat (map (asset_checks assets ver) names)))
       (Inr (asset_urls assets))))"

section \<open>Keys and the signed manifest\<close>

record update_lib =
  ul_pem :: "byte list \<Rightarrow> (string \<times> byte list \<times> string) option"
  ul_pkix :: "byte list \<Rightarrow> byte list option res"
  ul_verify :: "byte list \<Rightarrow> string \<Rightarrow> string \<Rightarrow> bool"
  ul_sha256 :: "string \<Rightarrow> key32"
  ul_json :: "string \<Rightarrow> json option"

text \<open>\<open>ul_pkix\<close> gives the raw key when the parsed key is an Ed25519 key, and \<open>None\<close> for another kind.\<close>

definition parseReleasePublicKey :: "update_lib \<Rightarrow> string \<Rightarrow> byte list res" where
  "parseReleasePublicKey lib encoded =
     (if encoded = [] then Inl (Plain ''release verification public key is not embedded'')
      else (case b64_decode True encoded of
        None \<Rightarrow> Inl (Wrap ''decode release verification public key: '' (Plain ''illegal base64 data'') [])
      | Some pemBytes \<Rightarrow>
          (let one_block = Plain ''release verification public key must contain exactly one PUBLIC KEY PEM block'' in
           case ul_pem lib pemBytes of
             None \<Rightarrow> Inl one_block
           | Some (typ, block, rest) \<Rightarrow>
               if typ \<noteq> ''PUBLIC KEY'' \<or> TrimSpace rest \<noteq> [] then Inl one_block
               else res_bind (map_err (\<lambda>e. Wrap ''parse release verification public key: '' e []) (ul_pkix lib block))
                 (\<lambda>parsed. case parsed of
                    None \<Rightarrow> Inl (Plain ''release verification public key must be Ed25519'')
                  | Some key \<Rightarrow>
                      if length key \<noteq> 32 then Inl (Plain ''release verification public key must be Ed25519'')
                      else Inr key))))"

text \<open>The checks of one manifest line against the name it must carry; the result is its digest text.\<close>

definition manifest_line :: "string \<Rightarrow> string \<Rightarrow> string res" where
  "manifest_line line expectedName =
     (if length line \<noteq> 64 + 2 + length expectedName \<or> take 2 (drop 64 line) \<noteq> ''  '' \<or> drop 66 line \<noteq> expectedName
      then Inl (Plain ''signed checksum manifest has an unexpected asset set, order, or format'')
      else if \<not> list_all is_lower_hex (take 64 line)
      then Inl (Plain ''signed checksum manifest digest must use lowercase hexadecimal'')
      else Inr (take 64 line))"

fun manifest_lines :: "string \<Rightarrow> string list \<Rightarrow> string list \<Rightarrow> key32 option \<Rightarrow> key32 option res" where
  "manifest_lines selectedAsset (line # lines) (expectedName # names) found =
     (case manifest_line line expectedName of
        Inl e \<Rightarrow> Inl e
      | Inr digestText \<Rightarrow>
          if expectedName = selectedAsset then
            (case hex_decode digestText of
               None \<Rightarrow> Inl (Wrap ''decode signed checksum: '' (Plain ''invalid hex'') [])
             | Some decoded \<Rightarrow> manifest_lines selectedAsset lines names (Some decoded))
          else manifest_lines selectedAsset lines names found)"
| "manifest_lines selectedAsset lines names found = Inr found"

definition verifyReleaseManifest :: "update_lib \<Rightarrow> byte list \<Rightarrow> string \<Rightarrow> string \<Rightarrow> string \<Rightarrow> key32 res" where
  "verifyReleaseManifest lib publicKey manifest signature selectedAsset =
     (if length signature \<noteq> 64 \<or> \<not> ul_verify lib publicKey manifest signature
      then Inl (Plain ''signed checksum manifest signature verification failed'')
      else if \<not> has_suffix manifest [CHR 0x0A]
      then Inl (Plain ''signed checksum manifest must end with a newline'')
      else (let lines = split_on (CHR 0x0A) (trim_suffix manifest [CHR 0x0A]) in
        if length lines \<noteq> length releaseAssetNames
        then Inl (Plain (''signed checksum manifest must contain exactly '' @ dec_nat (length releaseAssetNames)
                         @ '' assets''))
        else res_bind (manifest_lines selectedAsset lines releaseAssetNames None) (\<lambda>found.
          case found of
            None \<Rightarrow> Inl (Plain (''signed checksum manifest is missing '' @ selectedAsset))
          | Some digest \<Rightarrow> Inr digest)))"

section \<open>The host\<close>

record http_body =
  body_bytes :: string
  body_error :: "go_error option"

record http_response =
  http_status :: nat
  http_body :: http_body

datatype flock_result = FlockHeld | FlockWouldBlock | FlockFailed go_error

record 'w update_host =
  uh_Get :: "string \<Rightarrow> 'w \<Rightarrow> http_response res \<times> 'w"
  uh_Executable :: "'w \<Rightarrow> string res"
  uh_OpenLock :: "string \<Rightarrow> 'w action"
  uh_Flock :: "string \<Rightarrow> 'w \<Rightarrow> flock_result \<times> 'w"
  uh_Funlock :: "string \<Rightarrow> 'w action"
  uh_CloseLock :: "string \<Rightarrow> 'w action"
  uh_Stat :: "string \<Rightarrow> 'w \<Rightarrow> nat res"
  uh_RunVersion :: "string \<Rightarrow> 'w \<Rightarrow> string res \<times> 'w"
  uh_CreateTemp :: "string \<Rightarrow> 'w \<Rightarrow> string res \<times> 'w"
  uh_Write :: "string \<Rightarrow> string \<Rightarrow> 'w action"
  uh_Sync :: "string \<Rightarrow> 'w action"
  uh_Close :: "string \<Rightarrow> 'w action"
  uh_Chmod :: "string \<Rightarrow> nat \<Rightarrow> 'w action"
  uh_Rename :: "string \<Rightarrow> string \<Rightarrow> 'w action"
  uh_Remove :: "string \<Rightarrow> 'w action"

text \<open>The updater, with the platform it was compiled for.\<close>

record Updater =
  u_current :: string
  u_publicKey :: string
  u_goos :: string
  u_goarch :: string

text \<open>\<open>io.LimitReader\<close> of a body: what a reader that reads to the end gets.\<close>

definition limited :: "nat \<Rightarrow> http_body \<Rightarrow> string \<times> go_error option" where
  "limited n body = (take n (body_bytes body), if n \<le> length (body_bytes body) then None else body_error body)"

definition acquireUpdateLock :: "'w update_host \<Rightarrow> string \<Rightarrow> 'w \<Rightarrow> string res \<times> 'w" where
  "acquireUpdateLock host execPath w =
     (let lockPath = execPath @ ''.update.lock'' in
      case uh_OpenLock host lockPath w of
        (Some e, w1) \<Rightarrow> (Inl (Wrap ''open update lock: '' e []), w1)
      | (None, w1) \<Rightarrow>
          (case uh_Flock host lockPath w1 of
             (FlockHeld, w2) \<Rightarrow> (Inr lockPath, w2)
           | (FlockWouldBlock, w2) \<Rightarrow>
               (Inl (Plain ''another update is already in progress''), snd (uh_CloseLock host lockPath w2))
           | (FlockFailed e, w2) \<Rightarrow>
               (Inl (Wrap ''acquire update lock: '' e []), snd (uh_CloseLock host lockPath w2))))"

definition lock_Close :: "'w update_host \<Rightarrow> string \<Rightarrow> 'w action" where
  "lock_Close host lockPath w =
     (case uh_Funlock host lockPath w of
        (unlockErr, w1) \<Rightarrow>
          (case uh_CloseLock host lockPath w1 of
             (closeErr, w2) \<Rightarrow>
               ((case unlockErr of
                   Some e \<Rightarrow> Some (Wrap ''release update lock: '' e [])
                 | None \<Rightarrow> wrap_err ''close update lock: '' closeErr), w2)))"

text \<open>The text before the version is trimmed as a prefix and compared again.\<close>

definition unsupported_output :: "string \<Rightarrow> go_error" where
  "unsupported_output output = Plain (''unsupported version output '' @ go_quote (TrimSpace output))"

definition version_of_output :: "string \<Rightarrow> string res" where
  "version_of_output output =
     (if output = [] \<or> List.last output \<noteq> CHR 0x0A \<or> length (filter (\<lambda>c. c = CHR 0x0A) output) \<noteq> 1
      then Inl (unsupported_output output)
      else (let ver = trim_suffix (trim_prefix output ''awg-server '') [CHR 0x0A] in
        if output \<noteq> ''awg-server '' @ ver @ [CHR 0x0A] then Inl (unsupported_output output)
        else if ver = ''dev'' then Inr ver
        else (case parseStableVersion ver of
          Inl e \<Rightarrow> Inl (Wrap (''unsupported version output '' @ go_quote (TrimSpace output) @ '': '') e [])
        | Inr _ \<Rightarrow> Inr ver)))"

definition readBinaryVersion :: "'w update_host \<Rightarrow> string \<Rightarrow> 'w \<Rightarrow> string res \<times> 'w" where
  "readBinaryVersion host path w =
     (case uh_RunVersion host path w of (r, w1) \<Rightarrow> (res_bind r version_of_output, w1))"

definition downloadBytes :: "'w update_host \<Rightarrow> string \<Rightarrow> nat \<Rightarrow> 'w \<Rightarrow> string res \<times> 'w" where
  "downloadBytes host url limit w =
     (case uh_Get host url w of
        (Inl e, w1) \<Rightarrow> (Inl e, w1)
      | (Inr resp, w1) \<Rightarrow>
          (if http_status resp \<noteq> 200 then Inl (Plain (''download returned '' @ dec_nat (http_status resp)))
           else (case limited (limit + 1) (http_body resp) of
             (contents, Some e) \<Rightarrow> Inl e
           | (contents, None) \<Rightarrow>
               if length contents > limit
               then Inl (Plain (''download exceeds '' @ dec_nat limit @ ''-byte limit''))
               else Inr contents), w1))"

definition downloadBinary ::
  "update_lib \<Rightarrow> 'w update_host \<Rightarrow> string \<Rightarrow> string \<Rightarrow> 'w \<Rightarrow> key32 res \<times> 'w" where
  "downloadBinary lib host url destination w =
     (case uh_Get host url w of
        (Inl e, w1) \<Rightarrow> (Inl (Wrap ''download binary: '' e []), w1)
      | (Inr resp, w1) \<Rightarrow>
          if http_status resp \<noteq> 200
          then (Inl (Plain (''download binary returned '' @ dec_nat (http_status resp))), w1)
          else (case limited (maxReleaseBinary + 1) (http_body resp) of
            (contents, readErr) \<Rightarrow>
              (case uh_Write host destination contents w1 of
                 (writeErr, w2) \<Rightarrow>
                   (case (writeErr, readErr) of
                      (Some e, _) \<Rightarrow> (Inl (Wrap ''write update file: '' e []), w2)
                    | (None, Some e) \<Rightarrow> (Inl (Wrap ''write update file: '' e []), w2)
                    | (None, None) \<Rightarrow>
                        (if contents = [] then Inl (Plain ''downloaded binary is empty'')
                         else if length contents > maxReleaseBinary
                         then Inl (Plain (''downloaded binary exceeds '' @ dec_nat maxReleaseBinary @ ''-byte limit''))
                         else Inr (ul_sha256 lib contents), w2)))))"

section \<open>Checking for an update\<close>

definition decode_asset :: "json \<Rightarrow> asset res" where
  "decode_asset = dec_struct (\<lambda>kvs.
     res_bind (dec_field dec_str ''name'' kvs []) (\<lambda>n.
     res_bind (dec_field dec_str ''browser_download_url'' kvs []) (\<lambda>url.
       Inr \<lparr>asset_Name = n, asset_BrowserDownloadURL = url\<rparr>)))"

definition decode_release :: "json \<Rightarrow> release res" where
  "decode_release = dec_struct (\<lambda>kvs.
     res_bind (dec_field dec_str ''tag_name'' kvs []) (\<lambda>tag.
     res_bind (dec_field (\<lambda>v acc. case v of JArr vs \<Rightarrow> dec_elems decode_asset vs | JNull \<Rightarrow> Inr []
                                   | _ \<Rightarrow> Inl type_error) ''assets'' kvs []) (\<lambda>assets.
       Inr \<lparr>rel_TagName = tag, rel_Assets = assets\<rparr>)))"

definition read_release :: "update_lib \<Rightarrow> http_response \<Rightarrow> release res" where
  "read_release lib resp =
     (if http_status resp \<noteq> 200 then Inl (Plain (''GitHub API returned '' @ dec_nat (http_status resp)))
      else map_err (\<lambda>e. Wrap ''decode release: '' e [])
        (case ul_json lib (fst (limited (2 ^ 20) (http_body resp))) of
           None \<Rightarrow> Inl (Plain ''invalid JSON'') | Some v \<Rightarrow> decode_release v))"

definition tag_error :: "string \<Rightarrow> go_error" where
  "tag_error tag = Plain (''latest release tag '' @ go_quote tag @ '' is not a stable vMAJOR.MINOR.PATCH tag'')"

definition check_release :: "Updater \<Rightarrow> release \<Rightarrow> CheckResult res" where
  "check_release u rel =
     (if \<not> has_prefix (rel_TagName rel) ''v'' then Inl (tag_error (rel_TagName rel))
      else (let latest = trim_prefix (rel_TagName rel) ''v'' in
        res_bind (map_err (\<lambda>e. Wrap (''latest release tag '' @ go_quote (rel_TagName rel) @ '': '') e [])
                    (parseStableVersion latest)) (\<lambda>_.
        res_bind (compareCurrentVersion (u_current u) latest) (\<lambda>comparison.
          if comparison > 0
          then Inl (Plain (''latest release '' @ latest @ '' is older than installed version '' @ u_current u))
          else if comparison = 0
          then Inr \<lparr>upd_Latest = latest, upd_AssetName = [], upd_DownloadURL = [], upd_ChecksumsURL = [],
                    upd_SignatureURL = [], upd_NeedsUpdate = False\<rparr>
          else (let assetName = releaseAssetName (u_goos u) (u_goarch u) in
            res_bind (selectReleaseAssetURLs (rel_Assets rel) latest
                        (releaseAssetNames @ [checksumAssetName, signatureAssetName])) (\<lambda>urls.
              Inr \<lparr>upd_Latest = latest, upd_AssetName = assetName, upd_DownloadURL = gm_get urls assetName,
                   upd_ChecksumsURL = gm_get urls checksumAssetName,
                   upd_SignatureURL = gm_get urls signatureAssetName, upd_NeedsUpdate = True\<rparr>))))))"

definition Check :: "update_lib \<Rightarrow> 'w update_host \<Rightarrow> Updater \<Rightarrow> 'w \<Rightarrow> CheckResult res \<times> 'w" where
  "Check lib host u w =
     (case validateUpdatePlatform (u_goos u) of
        Some e \<Rightarrow> (Inl e, w)
      | None \<Rightarrow>
          (case parseReleasePublicKey lib (u_publicKey u) of
             Inl e \<Rightarrow> (Inl e, w)
           | Inr _ \<Rightarrow>
               (case uh_Get host latestReleaseURL w of
                  (Inl e, w1) \<Rightarrow> (Inl (Wrap ''fetch latest release: '' e []), w1)
                | (Inr resp, w1) \<Rightarrow> (res_bind (read_release lib resp) (check_release u), w1))))"

section \<open>Applying an update\<close>

definition url_check :: "string \<Rightarrow> string \<times> string \<Rightarrow> go_error option" where
  "url_check latest p =
     fail_if (snd p \<noteq> expectedAssetURL latest (fst p))
       (Plain (''release asset '' @ fst p @ '' has unexpected download URL '' @ go_quote (snd p)))"

text \<open>The three URLs are compared in the order of a Go map, which only affects which mismatch is named.\<close>

definition validateUpdateResult :: "Updater \<Rightarrow> CheckResult option \<Rightarrow> go_error option" where
  "validateUpdateResult u result =
     (case result of
        None \<Rightarrow> Some (Plain ''update result does not request an update'')
      | Some r \<Rightarrow>
          if \<not> upd_NeedsUpdate r then Some (Plain ''update result does not request an update'')
          else (case parseStableVersion (upd_Latest r) of
            Inl e \<Rightarrow> Some (Wrap (''invalid update version '' @ go_quote (upd_Latest r) @ '': '') e [])
          | Inr _ \<Rightarrow>
              (case validateUpgrade (u_current u) (upd_Latest r) of
                 Some e \<Rightarrow> Some e
               | None \<Rightarrow>
                   (let expectedAsset = releaseAssetName (u_goos u) (u_goarch u) in
                    if upd_AssetName r \<noteq> expectedAsset
                    then Some (Plain (''release asset '' @ upd_AssetName r @ '' does not match this host (''
                                      @ expectedAsset @ '')''))
                    else first_err (map (url_check (upd_Latest r))
                      [(upd_AssetName r, upd_DownloadURL r), (checksumAssetName, upd_ChecksumsURL r),
                       (signatureAssetName, upd_SignatureURL r)])))))"

text \<open>From the download of the binary to the replacement, with the temporary file \<open>tmp\<close> in place.\<close>

definition apply_staged ::
  "update_lib \<Rightarrow> 'w update_host \<Rightarrow> CheckResult \<Rightarrow> string \<Rightarrow> nat \<Rightarrow> key32 \<Rightarrow> string \<Rightarrow> 'w action" where
  "apply_staged lib host r execPath mode expectedDigest tmp w =
     (case downloadBinary lib host (upd_DownloadURL r) tmp w of
        (Inl e, w1) \<Rightarrow> (Some e, snd (uh_Close host tmp w1))
      | (Inr actualDigest, w1) \<Rightarrow>
     (case uh_Sync host tmp w1 of
        (Some e, w2) \<Rightarrow> (Some (Wrap ''sync update file: '' e []), snd (uh_Close host tmp w2))
      | (None, w2) \<Rightarrow>
     (case uh_Close host tmp w2 of
        (Some e, w3) \<Rightarrow> (Some (Wrap ''close update file: '' e []), w3)
      | (None, w3) \<Rightarrow>
          if actualDigest \<noteq> expectedDigest
          then (Some (Plain (''downloaded binary checksum does not match signed manifest for '' @ upd_AssetName r)), w3)
          else
     (case uh_Chmod host tmp mode w3 of
        (Some e, w4) \<Rightarrow> (Some (Wrap ''set update file mode: '' e []), w4)
      | (None, w4) \<Rightarrow>
     (case readBinaryVersion host tmp w4 of
        (Inl e, w5) \<Rightarrow> (Some (Wrap ''read downloaded binary version: '' e []), w5)
      | (Inr downloadedVersion, w5) \<Rightarrow>
          if downloadedVersion \<noteq> upd_Latest r
          then (Some (Plain (''downloaded binary reports '' @ go_quote downloadedVersion @ '', expected ''
                             @ go_quote (upd_Latest r))), w5)
          else
     (case readBinaryVersion host execPath w5 of
        (Inl e, w6) \<Rightarrow> (Some (Wrap ''recheck installed binary version: '' e []), w6)
      | (Inr installedVersion, w6) \<Rightarrow>
     (case validateUpgrade installedVersion (upd_Latest r) of
        Some e \<Rightarrow> (Some e, w6)
      | None \<Rightarrow>
     (case uh_Rename host tmp execPath w6 of
        (Some e, w7) \<Rightarrow> (Some (Wrap ''replace binary: '' e []), w7)
      | (None, w7) \<Rightarrow> (None, w7)))))))))"

text \<open>The directory of a path, up to its last slash.\<close>

definition dir_of :: "string \<Rightarrow> string" where
  "dir_of path = rev (dropWhile (\<lambda>c. c \<noteq> CHR ''/'') (rev path))"

text \<open>Everything under the lock; a temporary file that was not renamed is removed.\<close>

definition apply_locked ::
  "update_lib \<Rightarrow> 'w update_host \<Rightarrow> byte list \<Rightarrow> CheckResult \<Rightarrow> string \<Rightarrow> 'w action" where
  "apply_locked lib host publicKey r execPath w =
     (case uh_Stat host execPath w of
        Inl e \<Rightarrow> (Some (Wrap ''stat executable: '' e []), w)
      | Inr mode \<Rightarrow>
     (case readBinaryVersion host execPath w of
        (Inl e, w1) \<Rightarrow> (Some (Wrap ''read installed binary version: '' e []), w1)
      | (Inr installedVersion, w1) \<Rightarrow>
     (case validateUpgrade installedVersion (upd_Latest r) of
        Some e \<Rightarrow> (Some e, w1)
      | None \<Rightarrow>
     (case downloadBytes host (upd_ChecksumsURL r) maxReleaseMetadata w1 of
        (Inl e, w2) \<Rightarrow> (Some (Wrap ''download signed checksum manifest: '' e []), w2)
      | (Inr manifest, w2) \<Rightarrow>
     (case downloadBytes host (upd_SignatureURL r) 64 w2 of
        (Inl e, w3) \<Rightarrow> (Some (Wrap ''download checksum signature: '' e []), w3)
      | (Inr signature, w3) \<Rightarrow>
     (case verifyReleaseManifest lib publicKey manifest signature (upd_AssetName r) of
        Inl e \<Rightarrow> (Some e, w3)
      | Inr expectedDigest \<Rightarrow>
     (case uh_CreateTemp host (dir_of execPath) w3 of
        (Inl e, w4) \<Rightarrow> (Some (Wrap ''create update file: '' e []), w4)
      | (Inr tmp, w4) \<Rightarrow>
     (case apply_staged lib host r execPath mode expectedDigest tmp w4 of
        (Some e, w5) \<Rightarrow> (Some e, snd (uh_Remove host tmp w5))
      | (None, w5) \<Rightarrow> (None, w5)))))))))"

definition Apply :: "update_lib \<Rightarrow> 'w update_host \<Rightarrow> Updater \<Rightarrow> CheckResult option \<Rightarrow> 'w action" where
  "Apply lib host u result w =
     (case first_err [validateUpdatePlatform (u_goos u), validateUpdateResult u result] of
        Some e \<Rightarrow> (Some e, w)
      | None \<Rightarrow>
     (case parseReleasePublicKey lib (u_publicKey u) of
        Inl e \<Rightarrow> (Some e, w)
      | Inr publicKey \<Rightarrow>
     (case uh_Executable host w of
        Inl e \<Rightarrow> (Some (Wrap ''get executable path: '' e []), w)
      | Inr execPath \<Rightarrow>
     (case acquireUpdateLock host execPath w of
        (Inl e, w1) \<Rightarrow> (Some e, w1)
      | (Inr lock, w1) \<Rightarrow>
     (case apply_locked lib host publicKey (the result) execPath w1 of
        (err, w2) \<Rightarrow> (err, snd (lock_Close host lock w2)))))))"

end
