(* ===== verification/Update_Versions.thy ===== *)
theory Update_Versions
  imports Update "HOL-Library.Multiset"
begin

text \<open>
  The values of a self-update: versions as triples of numbers with their order, the text of a signed manifest,
  and release asset lists as multisets; the code's comparisons and parsers are exact on them.
\<close>

section \<open>Versions\<close>

datatype stable_version = Version (major: nat) (minor: nat) (patch: nat)

instantiation stable_version :: linorder
begin

definition less_eq_stable_version :: "stable_version \<Rightarrow> stable_version \<Rightarrow> bool" where
  "v \<le> v' \<longleftrightarrow> major v < major v' \<or> major v = major v' \<and>
     (minor v < minor v' \<or> minor v = minor v' \<and> patch v \<le> patch v')"

definition less_stable_version :: "stable_version \<Rightarrow> stable_version \<Rightarrow> bool" where
  "v < v' \<longleftrightarrow> major v < major v' \<or> major v = major v' \<and>
     (minor v < minor v' \<or> minor v = minor v' \<and> patch v < patch v')"

instance
  by standard (auto simp: less_eq_stable_version_def less_stable_version_def stable_version.expand)

end

lemma Version_less: "Version a b c < Version a' b' c' \<longleftrightarrow> a < a' \<or> a = a' \<and> (b < b' \<or> b = b' \<and> c < c')"
  by (simp add: less_stable_version_def)

definition version_parts :: "stable_version \<Rightarrow> string list" where
  "version_parts v = [dec_nat (major v), dec_nat (minor v), dec_nat (patch v)]"

definition version_text :: "stable_version \<Rightarrow> string" where
  "version_text v = join_str ''.'' (version_parts v)"

text \<open>The components that are accepted are the decimal prints.\<close>

lemma dec_nat_no_leading: "length (dec_nat n) > 1 \<Longrightarrow> hd (dec_nat n) \<noteq> CHR ''0''"
proof (induction n rule: dec_nat.induct)
  case (1 n)
  show ?case
  proof (cases "n < 10")
    case True
    then have "length (dec_nat n) = 1" by (subst dec_nat.simps) simp
    with 1 show ?thesis by simp
  next
    case False
    then have e: "dec_nat n = dec_nat (n div 10) @ [digit_char (n mod 10)]" by (subst dec_nat.simps) simp
    show ?thesis
    proof (cases "length (dec_nat (n div 10)) > 1")
      case True
      with 1 False e show ?thesis by simp
    next
      case nle: False
      have "0 < n div 10" using False by linarith
      moreover have "n div 10 < 10"
      proof (rule ccontr)
        assume "\<not> n div 10 < 10"
        then have "dec_nat (n div 10) = dec_nat (n div 10 div 10) @ [digit_char (n div 10 mod 10)]"
          by (subst dec_nat.simps) simp
        with nle show False using dec_nat_not_Nil [of "n div 10 div 10"] by (cases "dec_nat (n div 10 div 10)") auto
      qed
      then have "dec_nat (n div 10) = [digit_char (n div 10)]" by (subst dec_nat.simps) simp
      moreover from \<open>n div 10 < 10\<close> have "digit_val (digit_char (n div 10)) = n div 10" by (rule digit_char_props)
      then have "digit_char (n div 10) = CHR ''0'' \<Longrightarrow> n div 10 = 0"
        by (simp add: digit_val_def)
      ultimately show ?thesis using e by auto
    qed
  qed
qed

lemma part_check_iff: "part_check p = None \<longleftrightarrow> p = dec_nat (dec_val p)"
proof
  assume "part_check p = None"
  then have "p \<noteq> []" "all_digits p" "length p \<le> 1 \<or> hd p \<noteq> CHR ''0''"
    by (auto simp: part_check_def split: if_splits)
  moreover from this have "hd p \<noteq> CHR ''0'' \<or> length p = 1" by (cases p) auto
  ultimately show "p = dec_nat (dec_val p)" by (simp add: dec_nat_dec_val)
next
  assume "p = dec_nat (dec_val p)"
  then show "part_check p = None"
    using dec_nat_no_leading [of "dec_val p"] all_digits_dec_nat [of "dec_val p"] dec_nat_not_Nil [of "dec_val p"]
    by (auto simp: part_check_def)
qed

lemma version_parts_sep: "\<forall>p \<in> set (version_parts v). CHR ''.'' \<notin> set p"
  by (simp add: version_parts_def)

lemma parse_version_text [simp]: "parseStableVersion (version_text v) = Inr (version_parts v)"
proof -
  have "split_on (CHR ''.'') (version_text v) = version_parts v"
    unfolding version_text_def by (rule split_on_join) (simp_all add: version_parts_def)
  moreover have "\<forall>p \<in> set (version_parts v). part_check p = None"
    by (simp add: version_parts_def part_check_iff)
  ultimately show ?thesis by (simp add: parseStableVersion_def version_parts_def first_err_eval)
qed

lemma parseStableVersion_Inr:
  assumes "parseStableVersion s = Inr ps"
  shows "\<exists>v. s = version_text v \<and> ps = version_parts v"
proof -
  from assms have ps: "ps = split_on (CHR ''.'') s" "length ps = 3" "\<forall>p \<in> set ps. part_check p = None"
    by (auto simp: parseStableVersion_def Let_def res_simps split: if_splits)
  then obtain a b c where abc: "ps = [a, b, c]" by (auto simp: length_Suc_conv numeral_3_eq_3)
  have "a = dec_nat (dec_val a)" "b = dec_nat (dec_val b)" "c = dec_nat (dec_val c)"
    using ps(3) by (simp_all add: abc part_check_iff)
  then have "ps = version_parts (Version (dec_val a) (dec_val b) (dec_val c))" by (simp add: version_parts_def abc)
  moreover have "s = join_str ''.'' ps" by (simp add: ps(1) join_split_on)
  ultimately show ?thesis by (auto simp: version_text_def)
qed

interpretation version_codec: codec version_text
  "\<lambda>s. case parseStableVersion s of Inl _ \<Rightarrow> None
     | Inr ps \<Rightarrow> Some (Version (dec_val (ps ! 0)) (dec_val (ps ! 1)) (dec_val (ps ! 2)))" "\<lambda>_. True"
  by unfold_locales (simp add: version_parts_def)

lemmas version_text_inject [simp] = version_codec.enc_inject [OF TrueI TrueI]

text \<open>Comparing digit strings by length and then bytewise is comparing numbers.\<close>

lemma foldl_digits: "foldl (\<lambda>v c. v * 10 + digit_val c) a s = a * 10 ^ length s + dec_val s"
proof (induction s arbitrary: a)
  case (Cons c s)
  have "dec_val (c # s) = digit_val c * 10 ^ length s + dec_val s" using Cons [of "digit_val c"] by (simp add: dec_val_def)
  with Cons [of "a * 10 + digit_val c"] show ?case by (simp add: algebra_simps)
qed simp

lemma dec_val_Cons: "dec_val (c # s) = digit_val c * 10 ^ length s + dec_val s"
  using foldl_digits [of "digit_val c" s] by (simp add: dec_val_def)

lemma dec_val_bound: "all_digits s \<Longrightarrow> dec_val s < 10 ^ length s"
proof (induction s)
  case (Cons c s)
  then have "digit_val c \<le> 9" "dec_val s < 10 ^ length s" using digit_char_digit_val [of c] by auto
  then have "digit_val c * 10 ^ length s + dec_val s < 9 * 10 ^ length s + 10 ^ length s"
    by (intro add_le_less_mono mult_right_mono) auto
  then show ?case by (simp add: dec_val_Cons)
qed simp

lemma string_less_digits:
  "all_digits s \<Longrightarrow> all_digits t \<Longrightarrow> length s = length t \<Longrightarrow> string_less s t \<longleftrightarrow> dec_val s < dec_val t"
proof (induction s t rule: string_less.induct)
  case (3 a s c t)
  then have ih: "string_less s t \<longleftrightarrow> dec_val s < dec_val t" and len: "length s = length t" by auto
  have b: "dec_val s < 10 ^ length s" "dec_val t < 10 ^ length s"
    using "3.prems" dec_val_bound [of s] dec_val_bound [of t] by (auto simp: len)
  have v: "(of_char a :: nat) = 48 + digit_val a" "(of_char c :: nat) = 48 + digit_val c"
    using "3.prems" by (auto simp: digit_val_def is_digit_def)
  have eq: "a = c \<longleftrightarrow> digit_val a = digit_val c"
    using "3.prems" digit_char_digit_val by (metis all_digits_simps(2))
  have lt: "dec_val (a # s) < dec_val (c # t)"
    if "digit_val a < digit_val c" "dec_val s < 10 ^ n" "length s = n" "length t = n" for a c s t n
  proof -
    have "(digit_val a + 1) * 10 ^ n \<le> digit_val c * 10 ^ n" using that(1) by (intro mult_right_mono) auto
    with that show ?thesis by (simp add: dec_val_Cons)
  qed
  consider "digit_val a < digit_val c" | "digit_val c < digit_val a" | "a = c" using eq by linarith
  then show ?case
  proof cases
    case 1
    then have "dec_val (a # s) < dec_val (c # t)" using lt b(1) len by simp
    moreover have "string_less (a # s) (c # t)" using 1 v by simp
    ultimately show ?thesis by blast
  next
    case 2
    then have "dec_val (c # t) < dec_val (a # s)" using lt b(2) len by simp
    moreover have "\<not> string_less (a # s) (c # t)" using 2 v eq by simp
    ultimately show ?thesis by linarith
  next
    case 3
    with ih len show ?thesis by (simp add: dec_val_Cons)
  qed
qed simp_all

lemma dec_nat_length_mono:
  assumes "length (dec_nat m) < length (dec_nat n)" shows "m < n"
proof -
  have "1 < length (dec_nat n)"
    using assms dec_nat_not_Nil [of m] by (metis Suc_lessI length_0_conv less_nat_zero_code less_trans_Suc not_gr_zero One_nat_def)
  then have "hd (dec_nat n) \<noteq> CHR ''0''" by (rule dec_nat_no_leading)
  obtain c s where cs: "dec_nat n = c # s" using dec_nat_not_Nil [of n] by (cases "dec_nat n") auto
  have "is_digit c" using all_digits_dec_nat [of n] by (simp add: cs del: all_digits_dec_nat)
  then have "digit_val c \<noteq> 0"
    using \<open>hd (dec_nat n) \<noteq> CHR ''0''\<close> digit_char_digit_val [of c] digit_char_table(1) by (metis cs list.sel(1))
  then have "1 * 10 ^ length s \<le> digit_val c * 10 ^ length s" by (intro mult_right_mono) auto
  then have "10 ^ length s \<le> dec_val (c # s)" unfolding dec_val_Cons by linarith
  moreover have "dec_val (dec_nat m) < 10 ^ length (dec_nat m)" by (rule dec_val_bound) simp
  moreover have "(10::nat) ^ length (dec_nat m) \<le> 10 ^ length s" using assms cs by (intro power_increasing) auto
  ultimately have "dec_val (dec_nat m) < dec_val (c # s)" by linarith
  then show ?thesis unfolding cs [symmetric] by simp
qed

definition three_way :: "'a::linorder \<Rightarrow> 'a \<Rightarrow> int" where
  "three_way x y = (if x < y then -1 else if x = y then 0 else 1)"

lemma compare_part_step:
  "compare_parts (dec_nat m # ls) (dec_nat n # rs) =
     (if m < n then -1 else if n < m then 1 else compare_parts ls rs)"
proof (cases "length (dec_nat m)" "length (dec_nat n)" rule: linorder_cases)
  case equal
  then have "string_less (dec_nat m) (dec_nat n) \<longleftrightarrow> m < n" "string_less (dec_nat n) (dec_nat m) \<longleftrightarrow> n < m"
    using string_less_digits [of "dec_nat m" "dec_nat n"] string_less_digits [of "dec_nat n" "dec_nat m"] by simp_all
  with equal show ?thesis by simp
qed (use dec_nat_length_mono [of m n] dec_nat_length_mono [of n m] in auto)

declare compare_parts.simps(1) [simp del]

lemma compare_version_parts: "compare_parts (version_parts v) (version_parts v') = three_way v v'"
  by (simp add: version_parts_def compare_part_step three_way_def less_stable_version_def stable_version.expand
      split del: if_split cong: if_cong) (auto simp: stable_version.expand)

lemma compare_texts: "compareStableVersions (version_text v) (version_text v') = Inr (three_way v v')"
  by (simp add: compareStableVersions_def compare_version_parts)

lemma version_text_hd: "\<exists>c s. version_text v = c # s \<and> is_digit c"
proof -
  obtain c s where "dec_nat (major v) = c # s" using dec_nat_not_Nil [of "major v"] by (cases "dec_nat (major v)") auto
  moreover from this have "is_digit c" using all_digits_dec_nat [of "major v"] by (simp del: all_digits_dec_nat)
  ultimately show ?thesis by (auto simp: version_text_def version_parts_def)
qed

lemma version_text_not: "version_text v \<noteq> ''dev''" "trim_prefix (version_text v) ''v'' = version_text v"
  using version_text_hd [of v] by (auto simp: trim_prefix_def is_digit_def)

text \<open>The upgrade check on the versions that the code reads from binaries: \<open>dev\<close> or a stable version.\<close>

definition older :: "string \<Rightarrow> stable_version \<Rightarrow> bool" where
  "older current v \<longleftrightarrow> current = ''dev'' \<or> (\<exists>c < v. trim_prefix current ''v'' = version_text c)"

lemma validateUpgrade_None: "validateUpgrade current (version_text v) = None \<longleftrightarrow> older current v"
proof (cases "current = ''dev''")
  case True
  then show ?thesis by (simp add: validateUpgrade_def compareCurrentVersion_def older_def)
next
  case False
  show ?thesis
  proof (cases "\<exists>c. trim_prefix current ''v'' = version_text c")
    case True
    then obtain c where c: "trim_prefix current ''v'' = version_text c" by blast
    then have "compareCurrentVersion current (version_text v) = Inr (three_way c v)"
      using False by (simp add: compareCurrentVersion_def Let_def compare_texts)
    then show ?thesis using False c by (auto simp: validateUpgrade_def older_def three_way_def)
  next
    case none: False
    then have "\<exists>e. parseStableVersion (trim_prefix current ''v'') = Inl e"
      using parseStableVersion_Inr by (cases "parseStableVersion (trim_prefix current ''v'')") blast+
    then show ?thesis using False none
      by (auto simp: validateUpgrade_def compareCurrentVersion_def compareStableVersions_def Let_def older_def)
  qed
qed

section \<open>Manifests\<close>

definition manifest_row :: "key32 \<Rightarrow> string \<Rightarrow> string" where
  "manifest_row d name = hex_encode d @ ''  '' @ name"

definition manifest_text :: "key32 list \<Rightarrow> string" where
  "manifest_text ds = concat (map (\<lambda>(d, n). manifest_row d n @ [CHR 0x0A]) (zip ds releaseAssetNames))"

lemma manifest_line_iff:
  "manifest_line line name = Inr t \<longleftrightarrow> (\<exists>d. length d = 32 \<and> line = manifest_row d name \<and> t = hex_encode d)"
proof
  assume L: "manifest_line line name = Inr t"
  then have len: "length line = 66 + length name" and sp: "take 2 (drop 64 line) = ''  ''" and nm: "drop 66 line = name"
    and hex: "list_all is_lower_hex (take 64 line)" and t: "t = take 64 line"
    by (auto simp: manifest_line_def split: if_splits)
  have t64: "length t = 64" using len t by simp
  then have "even (length t)" by simp
  then obtain d where d: "hex_decode t = Some d" "hex_encode d = t" using hex_decode_lower hex t by blast
  have "drop 64 line = take 2 (drop 64 line) @ drop 2 (drop 64 line)" by (simp only: append_take_drop_id)
  then have "drop 64 line = ''  '' @ name" using sp nm by simp
  then have "line = t @ ''  '' @ name" using t append_take_drop_id [of 64 line] by simp
  moreover have "length d = 32" using length_hex_encode [of d] t64 d(2) by simp
  ultimately show "\<exists>d. length d = 32 \<and> line = manifest_row d name \<and> t = hex_encode d"
    using d(2) by (intro exI [of _ d]) (simp add: manifest_row_def)
next
  assume "\<exists>d. length d = 32 \<and> line = manifest_row d name \<and> t = hex_encode d"
  then obtain d where d: "length d = 32" "line = manifest_row d name" "t = hex_encode d" by blast
  then have "length (hex_encode d) = 64" by simp
  with d show "manifest_line line name = Inr t"
    by (simp add: manifest_line_def manifest_row_def hex_encode_lower)
qed

lemma manifest_lines_Inr:
  assumes "length lines = length names"
  shows "manifest_lines sel lines names found = Inr r \<longleftrightarrow>
    (\<exists>ds. length ds = length names \<and> (\<forall>d \<in> set ds. length d = 32) \<and> lines = map2 manifest_row ds names
       \<and> r = fold (\<lambda>(n, d) acc. if n = sel then Some d else acc) (zip names ds) found)"
  using assms
proof (induction lines names arbitrary: found rule: list_induct2)
  case Nil
  then show ?case by auto
next
  case (Cons line lines name names)
  show ?case
  proof (cases "manifest_line line name")
    case (Inl e)
    then have "\<nexists>d. length d = 32 \<and> line = manifest_row d name"
      using manifest_line_iff [of line name] by (metis sum.simps(4))
    then show ?thesis using Inl by (auto simp: length_Suc_conv)
  next
    case (Inr t)
    then obtain d where d: "length d = 32" "line = manifest_row d name" "t = hex_encode d"
      using manifest_line_iff by blast
    have inj: "manifest_row d' name = manifest_row d name \<Longrightarrow> length d' = 32 \<Longrightarrow> d' = d" for d'
      using d(1) hex.enc_inject by (fastforce simp: manifest_row_def)
    have step: "manifest_lines sel (line # lines) (name # names) found =
        manifest_lines sel lines names (if name = sel then Some d else found)"
      using Inr d by simp
    show ?thesis unfolding step Cons.IH
    proof (intro iffI; elim exE conjE)
      fix ds
      assume "length ds = length names" "\<forall>d \<in> set ds. length d = 32" "lines = map2 manifest_row ds names"
        "r = fold (\<lambda>(n, d) acc. if n = sel then Some d else acc) (zip names ds) (if name = sel then Some d else found)"
      then show "\<exists>ds. length ds = length (name # names) \<and> (\<forall>d \<in> set ds. length d = 32)
          \<and> line # lines = map2 manifest_row ds (name # names)
          \<and> r = fold (\<lambda>(n, d) acc. if n = sel then Some d else acc) (zip (name # names) ds) found"
        using d by (intro exI [of _ "d # ds"]) simp
    next
      fix ds
      assume "length ds = length (name # names)" "\<forall>d \<in> set ds. length d = 32"
        "line # lines = map2 manifest_row ds (name # names)"
        "r = fold (\<lambda>(n, d) acc. if n = sel then Some d else acc) (zip (name # names) ds) found"
      then show "\<exists>ds. length ds = length names \<and> (\<forall>d \<in> set ds. length d = 32) \<and> lines = map2 manifest_row ds names
          \<and> r = fold (\<lambda>(n, d) acc. if n = sel then Some d else acc) (zip names ds) (if name = sel then Some d else found)"
        using d inj by (cases ds) auto
    qed
  qed
qed

lemma fold_select:
  "distinct ns \<Longrightarrow> length ns = length ds \<Longrightarrow>
   fold (\<lambda>(n, d) acc. if n = sel then Some d else acc) (zip ns ds) found =
     (case map_of (zip ns ds) sel of None \<Rightarrow> found | Some d \<Rightarrow> Some d)"
proof (induction ns ds arbitrary: found rule: list_induct2')
  case (4 n ns d ds)
  then have "n = sel \<Longrightarrow> map_of (zip ns ds) sel = None" by (simp add: map_of_zip_is_None)
  with 4 show ?case by (cases "n = sel") (simp_all split: option.splits)
qed simp_all

lemma release_names: "distinct releaseAssetNames" "length releaseAssetNames = 6"
  "\<forall>n \<in> set releaseAssetNames. CHR 0x0A \<notin> set n"
  by (simp_all add: releaseAssetNames_def)

lemma lower_hex_no_newline: "CHR 0x0A \<notin> set (hex_encode d)"
  using hex_encode_lower [of d] by (auto simp: list_all_iff is_lower_hex_def)

lemma manifest_lines_text:
  assumes "length ds = 6"
  shows "manifest_text ds = join_str [CHR 0x0A] (map2 manifest_row ds releaseAssetNames) @ [CHR 0x0A]"
proof -
  have j: "ls \<noteq> [] \<Longrightarrow> concat (map (\<lambda>l. l @ [CHR 0x0A]) ls) = join_str [CHR 0x0A] ls @ [CHR 0x0A]" for ls :: "string list"
    by (induction "[CHR 0x0A] :: string" ls rule: join_str.induct) auto
  have "map2 manifest_row ds releaseAssetNames \<noteq> []" using assms release_names(2) by (cases ds) auto
  moreover have "manifest_text ds = concat (map (\<lambda>l. l @ [CHR 0x0A]) (map2 manifest_row ds releaseAssetNames))"
    by (simp add: manifest_text_def comp_def split_def)
  ultimately show ?thesis using j by metis
qed

lemma verify_manifest_core:
  "verifyReleaseManifest lib pk m sg sel = Inr d \<longleftrightarrow>
     length sg = 64 \<and> ul_verify lib pk m sg
     \<and> (\<exists>ds. length ds = 6 \<and> (\<forall>d \<in> set ds. length d = 32) \<and> m = manifest_text ds
          \<and> map_of (zip releaseAssetNames ds) sel = Some d)"
proof (cases "length sg = 64 \<and> ul_verify lib pk m sg")
  case sg: True
  let ?lines = "split_on (CHR 0x0A) (trim_suffix m [CHR 0x0A])"
  have rows: "manifest_lines sel ?lines releaseAssetNames None = Inr (Some d) \<longleftrightarrow>
      (\<exists>ds. length ds = 6 \<and> (\<forall>d \<in> set ds. length d = 32) \<and> ?lines = map2 manifest_row ds releaseAssetNames
         \<and> map_of (zip releaseAssetNames ds) sel = Some d)" if "length ?lines = 6"
    using that manifest_lines_Inr [of ?lines releaseAssetNames sel None "Some d"] release_names
    by (auto simp: fold_select split: option.splits)
  show ?thesis
  proof
    assume V: "verifyReleaseManifest lib pk m sg sel = Inr d"
    then have nl: "has_suffix m [CHR 0x0A]" and len: "length ?lines = 6"
      and r: "manifest_lines sel ?lines releaseAssetNames None = Inr (Some d)"
      by (auto simp: verifyReleaseManifest_def Let_def release_names res_simps split: if_splits option.splits)
    obtain ds where ds: "length ds = 6" "\<forall>d \<in> set ds. length d = 32" "?lines = map2 manifest_row ds releaseAssetNames"
      "map_of (zip releaseAssetNames ds) sel = Some d" using r rows [OF len] by blast
    obtain body where body: "m = body @ [CHR 0x0A]" using nl by (auto simp: has_suffix_iff)
    then have "body = join_str [CHR 0x0A] (map2 manifest_row ds releaseAssetNames)"
      using ds(3) join_split_on [of "CHR 0x0A" body] by simp
    with ds body sg show "length sg = 64 \<and> ul_verify lib pk m sg \<and> (\<exists>ds. length ds = 6 \<and> (\<forall>d \<in> set ds. length d = 32)
        \<and> m = manifest_text ds \<and> map_of (zip releaseAssetNames ds) sel = Some d)"
      by (auto simp: manifest_lines_text)
  next
    assume "length sg = 64 \<and> ul_verify lib pk m sg \<and> (\<exists>ds. length ds = 6 \<and> (\<forall>d \<in> set ds. length d = 32)
        \<and> m = manifest_text ds \<and> map_of (zip releaseAssetNames ds) sel = Some d)"
    then obtain ds where ds: "length ds = 6" "\<forall>d \<in> set ds. length d = 32" "m = manifest_text ds"
      "map_of (zip releaseAssetNames ds) sel = Some d" by blast
    let ?rows = "map2 manifest_row ds releaseAssetNames"
    have m: "m = join_str [CHR 0x0A] ?rows @ [CHR 0x0A]" using ds by (simp add: manifest_lines_text)
    have "\<forall>p \<in> set ?rows. CHR 0x0A \<notin> set p"
      using release_names(3) lower_hex_no_newline by (auto simp: manifest_row_def dest: set_zip_rightD)
    moreover have "?rows \<noteq> []" using ds(1) release_names(2) by (cases ds) auto
    ultimately have lines: "?lines = ?rows" by (simp add: m split_on_join)
    then have "length ?lines = 6" using ds(1) release_names(2) by simp
    with rows ds lines have "manifest_lines sel ?lines releaseAssetNames None = Inr (Some d)" by blast
    then show "verifyReleaseManifest lib pk m sg sel = Inr d"
      using sg \<open>length ?lines = 6\<close> by (simp add: verifyReleaseManifest_def Let_def release_names m has_suffix_iff)
  qed
qed (auto simp: verifyReleaseManifest_def)

end
