(* ===== verification/Update_Apply.thy ===== *)
theory Update_Apply
  imports Update_Versions
begin

text \<open>
  Applying an update. The locale \<open>update_files\<close> states what \<open>Apply\<close> relies on of the file system: which calls
  touch which files, and what a call that succeeds does. The file system of this theory, on which every call may
  fail, is an instance, for an arbitrary network and arbitrary binaries.
\<close>

section \<open>Assets\<close>

definition asset_of :: "string \<Rightarrow> string \<Rightarrow> asset" where
  "asset_of ver n = \<lparr>asset_Name = n, asset_BrowserDownloadURL = expectedAssetURL ver n\<rparr>"

lemma asset_of_simps [simp]:
  "asset_Name (asset_of ver n) = n" "asset_BrowserDownloadURL (asset_of ver n) = expectedAssetURL ver n"
  by (simp_all add: asset_of_def)

lemma first_repeat_None: "first_repeat seen ns = None \<longleftrightarrow> distinct ns \<and> set ns \<inter> set seen = {}"
  by (induction seen ns rule: first_repeat.induct) auto

lemma map_of_asset_fold:
  "map_of (fold (\<lambda>a. AList.update (asset_Name a) (asset_BrowserDownloadURL a)) as m) n =
     (case map_of (rev (map (\<lambda>a. (asset_Name a, asset_BrowserDownloadURL a)) as)) n of None \<Rightarrow> map_of m n | Some x \<Rightarrow> Some x)"
  by (induction as arbitrary: m) (auto simp: map_add_def split: option.splits)

lemma asset_url_mem:
  assumes "asset_count as n = 1"
  shows "\<exists>a \<in> set as. asset_Name a = n \<and> gm_get (asset_urls as) n = asset_BrowserDownloadURL a"
proof -
  let ?ps = "rev (map (\<lambda>a. (asset_Name a, asset_BrowserDownloadURL a)) as)"
  have "filter (\<lambda>a. asset_Name a = n) as \<noteq> []" using assms by (auto simp: asset_count_def)
  then have "n \<in> fst ` set ?ps" by (force simp: filter_empty_conv)
  then obtain url where "map_of ?ps n = Some url" by (metis map_of_eq_None_iff not_None_eq)
  moreover from this have "(n, url) \<in> set ?ps" by (rule map_of_SomeD)
  ultimately show ?thesis by (auto simp: asset_urls_def gm_get_def map_of_asset_fold)
qed

lemma distinct_by_counts: "(\<And>n. length (filter (\<lambda>a. f a = n) xs) \<le> 1) \<Longrightarrow> distinct (map f xs)"
proof (induction xs)
  case (Cons a xs)
  have "length (filter (\<lambda>b. f b = n) xs) \<le> 1" for n using Cons.prems [of n] by (simp split: if_splits)
  moreover have "filter (\<lambda>b. f b = f a) xs = []" using Cons.prems [of "f a"] by simp
  ultimately show ?case using Cons.IH by (auto simp: filter_empty_conv)
qed simp

lemma count_of_mset: "length (filter P xs) = size (filter_mset P (mset xs))"
  by (metis mset_filter size_mset)

lemma select_core:
  "selectReleaseAssetURLs as ver names = Inr urls \<longleftrightarrow>
     distinct names \<and> mset as = mset (map (asset_of ver) names) \<and> urls = asset_urls as"
  (is "?L \<longleftrightarrow> ?R")
proof
  assume ?L
  then have names: "distinct names" and sub: "\<forall>a \<in> set as. asset_Name a \<in> set names"
    and one: "\<forall>n \<in> set names. asset_count as n = 1 \<and> gm_get (asset_urls as) n = expectedAssetURL ver n"
    and urls: "urls = asset_urls as"
    by (auto simp: selectReleaseAssetURLs_def res_simps first_repeat_None asset_checks_def)
  have le: "length (filter (\<lambda>a. asset_Name a = n) as) \<le> 1" for n
  proof (cases "n \<in> set names")
    case False
    then have "filter (\<lambda>a. asset_Name a = n) as = []" using sub by (auto simp: filter_empty_conv)
    then show ?thesis by simp
  qed (use one in \<open>simp add: asset_count_def\<close>)
  then have d: "distinct (map asset_Name as)" by (rule distinct_by_counts)
  have mem: "asset_of ver n \<in> set as" if n: "n \<in> set names" for n
  proof -
    obtain a where "a \<in> set as" "asset_Name a = n" "asset_BrowserDownloadURL a = expectedAssetURL ver n"
      using bspec [OF one n] asset_url_mem [of as n] by auto
    then show ?thesis unfolding asset_of_def by (metis (full_types) asset.surjective old.unit.exhaust)
  qed
  have "a = asset_of ver (asset_Name a)" if "a \<in> set as" for a
  proof -
    have "asset_of ver (asset_Name a) \<in> set as" using sub that mem by blast
    with d that show ?thesis by (metis asset_of_simps(1) eq_key_imp_eq_value distinct_map inj_onD)
  qed
  with mem sub have "set as = set (map (asset_of ver) names)" by fastforce
  moreover have "distinct as" using d by (simp add: distinct_map)
  moreover have "distinct (map (asset_of ver) names)"
    using names by (auto simp: distinct_map inj_on_def asset_of_def)
  ultimately have "mset as = mset (map (asset_of ver) names)" by (simp only: set_eq_iff_mset_eq_distinct)
  with names urls show ?R by blast
next
  assume R: ?R
  then have set_as: "set as = asset_of ver ` set names" by (metis list.set_map set_mset_mset)
  have one: "asset_count as n = 1" if "n \<in> set names" for n
  proof -
    have "asset_count as n = length (filter (\<lambda>a. asset_Name a = n) (map (asset_of ver) names))"
      using R by (simp only: asset_count_def count_of_mset)
    also have "\<dots> = length (filter (\<lambda>m. m = n) names)" by (simp add: filter_map comp_def)
    also have "\<dots> = 1" using R that by (simp add: distinct_length_filter Int_absorb1 Collect_conv_if)
    finally show ?thesis .
  qed
  have "gm_get (asset_urls as) n = expectedAssetURL ver n" if "n \<in> set names" for n
    using asset_url_mem [OF one [OF that]] set_as by auto
  with R one set_as show ?L
    by (auto simp: selectReleaseAssetURLs_def res_simps first_repeat_None asset_checks_def)
qed

lemma select_urls:
  assumes "selectReleaseAssetURLs as ver names = Inr urls"
  shows "gm_get urls n = (if n \<in> set names then expectedAssetURL ver n else [])"
proof -
  from assms have "distinct names" "\<forall>m \<in> set names. gm_get (asset_urls as) m = expectedAssetURL ver m"
    "urls = asset_urls as" "\<forall>a \<in> set as. asset_Name a \<in> set names"
    by (auto simp: selectReleaseAssetURLs_def res_simps first_repeat_None asset_checks_def)
  moreover from this have "map_of (asset_urls as) n = None" if "n \<notin> set names"
    using that by (auto simp: asset_urls_def map_of_asset_fold map_of_eq_None_iff split: option.splits dest!: map_of_SomeD)
  ultimately show ?thesis by (simp add: gm_get_def)
qed

section \<open>What an update may do to files\<close>

lemma version_output: "version_of_output out = Inr ver \<Longrightarrow> out = ''awg-server '' @ ver @ [CHR 0x0A]"
  by (auto simp: version_of_output_def Let_def split: if_splits sum.splits)

text \<open>\<open>bin\<close> has the digest that a manifest signed with the embedded key gives for this platform.\<close>

definition authentic :: "update_lib \<Rightarrow> Updater \<Rightarrow> string \<Rightarrow> bool" where
  "authentic lib u bin \<longleftrightarrow>
     (\<exists>pk manifest signature ds. parseReleasePublicKey lib (u_publicKey u) = Inr pk
        \<and> ul_verify lib pk manifest signature \<and> manifest = manifest_text ds \<and> length ds = length releaseAssetNames
        \<and> map_of (zip releaseAssetNames ds) (releaseAssetName (u_goos u) (u_goarch u)) = Some (ul_sha256 lib bin))"

locale update_files =
  fixes host :: "'w update_host" and content :: "'w \<Rightarrow> string \<Rightarrow> string option" and prog_output :: "string \<Rightarrow> string res"
  assumes get: "uh_Get host url w = (resp, w') \<Longrightarrow> content w' = content w"
    and open_lock: "uh_OpenLock host p w = (e, w') \<Longrightarrow> q \<noteq> p \<Longrightarrow> content w' q = content w q"
    and flock: "uh_Flock host p w = (f, w') \<Longrightarrow> content w' = content w"
    and funlock: "uh_Funlock host p w = (e, w') \<Longrightarrow> content w' = content w"
    and close_lock: "uh_CloseLock host p w = (e, w') \<Longrightarrow> content w' = content w"
    and stat: "uh_Stat host p w = Inr m \<Longrightarrow> content w p \<noteq> None"
    and run: "uh_RunVersion host p w = (r, w') \<Longrightarrow> content w' = content w"
    and run_output: "uh_RunVersion host p w = (Inr out, w') \<Longrightarrow> \<exists>c. content w p = Some c \<and> prog_output c = Inr out"
    and temp_fails: "uh_CreateTemp host d w = (Inl x, w') \<Longrightarrow> content w' = content w"
    and temp: "uh_CreateTemp host d w = (Inr t, w') \<Longrightarrow> content w t = None \<and> content w' = (content w)(t \<mapsto> [])"
    and write_other: "uh_Write host p s w = (e, w') \<Longrightarrow> q \<noteq> p \<Longrightarrow> content w' q = content w q"
    and write_done: "uh_Write host p s w = (None, w') \<Longrightarrow> content w p = Some c \<Longrightarrow> content w' p = Some (c @ s)"
    and sync: "uh_Sync host p w = (e, w') \<Longrightarrow> content w' = content w"
    and close: "uh_Close host p w = (e, w') \<Longrightarrow> content w' = content w"
    and chmod: "uh_Chmod host p m w = (e, w') \<Longrightarrow> content w' = content w"
    and rename_fails: "uh_Rename host p q w = (Some x, w') \<Longrightarrow> content w' = content w"
    and rename: "uh_Rename host p q w = (None, w') \<Longrightarrow> content w' = (content w)(q := content w p, p := None)"
    and remove: "uh_Remove host p w = (e, w') \<Longrightarrow> q \<noteq> p \<Longrightarrow> content w' q = content w q"
begin

lemma download_bytes: "downloadBytes host url n w = (r, w') \<Longrightarrow> content w' = content w"
  by (auto simp: downloadBytes_def split: prod.splits sum.splits dest: get)

lemma read_version:
  assumes "readBinaryVersion host p w = (r, w')"
  shows "content w' = content w"
    "r = Inr ver \<Longrightarrow> \<exists>c. content w p = Some c \<and> prog_output c = Inr (''awg-server '' @ ver @ [CHR 0x0A])"
  using assms
  by (auto simp: readBinaryVersion_def res_simps split: prod.splits dest: run dest!: run_output version_output)

lemma download_binary:
  assumes "downloadBinary lib host url t w = (r, w')"
  shows "q \<noteq> t \<Longrightarrow> content w' q = content w q"
    "r = Inr d \<Longrightarrow> content w t = Some [] \<Longrightarrow> \<exists>bin. content w' t = Some bin \<and> d = ul_sha256 lib bin"
  using assms unfolding downloadBinary_def
  by (fastforce split: prod.splits sum.splits option.splits if_splits dest: get write_other write_done)+

lemma staged:
  assumes "apply_staged lib host r exe mode dg t w = (e, w')" "t \<noteq> exe" "content w t = Some []"
  shows "q \<noteq> t \<Longrightarrow> e \<noteq> None \<or> q \<noteq> exe \<Longrightarrow> content w' q = content w q"
    "e = None \<Longrightarrow> \<exists>bin. content w' exe = Some bin \<and> dg = ul_sha256 lib bin
       \<and> prog_output bin = Inr (''awg-server '' @ upd_Latest r @ [CHR 0x0A])"
proof -
  obtain r1 w1 where dl: "downloadBinary lib host (upd_DownloadURL r) t w = (r1, w1)" by fastforce
  obtain e2 w2 where sy: "uh_Sync host t w1 = (e2, w2)" by fastforce
  obtain e3 w3 where cl: "uh_Close host t w2 = (e3, w3)" by fastforce
  obtain e3' w3' where cl': "uh_Close host t w1 = (e3', w3')" by fastforce
  obtain e4 w4 where ch: "uh_Chmod host t mode w3 = (e4, w4)" by fastforce
  obtain r5 w5 where rv: "readBinaryVersion host t w4 = (r5, w5)" by fastforce
  obtain r6 w6 where ri: "readBinaryVersion host exe w5 = (r6, w6)" by fastforce
  obtain e7 w7 where rn: "uh_Rename host t exe w6 = (e7, w7)" by fastforce
  note run = assms(1) [unfolded apply_staged_def dl prod.case sy cl cl' snd_conv ch rv ri rn]
  have c1: "content w1 q = content w q" if "q \<noteq> t" for q using download_binary(1) [OF dl that] .
  have c2: "content w2 = content w1" "content w3 = content w1" "content w3' = content w1" "content w4 = content w1"
    "content w5 = content w1" "content w6 = content w1"
    using sync [OF sy] close [OF cl] close [OF cl'] chmod [OF ch] read_version(1) [OF rv] read_version(1) [OF ri] by simp_all
  show "content w' q = content w q" if "q \<noteq> t" "e \<noteq> None \<or> q \<noteq> exe"
    using run that c1 [OF that(1)] c2 rename_fails [of t exe w6 _ w7] rename [of t exe w6 w7] rn
    by (auto split: sum.splits option.splits if_splits)
  show "\<exists>bin. content w' exe = Some bin \<and> dg = ul_sha256 lib bin
      \<and> prog_output bin = Inr (''awg-server '' @ upd_Latest r @ [CHR 0x0A])" if "e = None"
  proof -
    from run that obtain d where ok: "r1 = Inr d" "d = dg" "r5 = Inr (upd_Latest r)" "e7 = None" "w' = w7"
      by (auto split: sum.splits option.splits if_splits)
    obtain bin where bin: "content w1 t = Some bin" "d = ul_sha256 lib bin"
      using download_binary(2) [OF dl ok(1) assms(3)] by blast
    have "prog_output bin = Inr (''awg-server '' @ upd_Latest r @ [CHR 0x0A])"
      using read_version(2) [OF rv ok(3)] c2 bin(1) by simp
    moreover have "content w' exe = Some bin" using rename [OF rn [unfolded ok(4)]] ok(5) c2 bin(1) assms(2) by simp
    ultimately show ?thesis using bin ok by blast
  qed
qed

lemma locked:
  assumes "apply_locked lib host pk r exe w = (e, w')"
  shows "content w q \<noteq> None \<Longrightarrow> e \<noteq> None \<or> q \<noteq> exe \<Longrightarrow> content w' q = content w q"
    "e = None \<Longrightarrow> \<exists>bin old ver manifest signature. content w' exe = Some bin
       \<and> verifyReleaseManifest lib pk manifest signature (upd_AssetName r) = Inr (ul_sha256 lib bin)
       \<and> prog_output bin = Inr (''awg-server '' @ upd_Latest r @ [CHR 0x0A])
       \<and> content w exe = Some old \<and> prog_output old = Inr (''awg-server '' @ ver @ [CHR 0x0A])
       \<and> validateUpgrade ver (upd_Latest r) = None"
proof -
  obtain r1 w1 where rv: "readBinaryVersion host exe w = (r1, w1)" by fastforce
  obtain r2 w2 where d2: "downloadBytes host (upd_ChecksumsURL r) maxReleaseMetadata w1 = (r2, w2)" by fastforce
  obtain r3 w3 where d3: "downloadBytes host (upd_SignatureURL r) 64 w2 = (r3, w3)" by fastforce
  obtain r4 w4 where ct: "uh_CreateTemp host (dir_of exe) w3 = (r4, w4)" by fastforce
  note run = assms [unfolded apply_locked_def rv d2 d3 ct prod.case]
  have c: "content w1 = content w" "content w2 = content w" "content w3 = content w"
    using read_version(1) [OF rv] download_bytes [OF d2] download_bytes [OF d3] by simp_all
  consider (early) "e \<noteq> None" "content w' = content w"
    | (go) ver manifest signature dg t mode e5 w5 where
        "r1 = Inr ver" "validateUpgrade ver (upd_Latest r) = None" "r2 = Inr manifest" "r3 = Inr signature"
        "verifyReleaseManifest lib pk manifest signature (upd_AssetName r) = Inr dg" "r4 = Inr t"
        "uh_Stat host exe w = Inr mode" "apply_staged lib host r exe mode dg t w4 = (e5, w5)" "e = e5"
        "w' = (if e5 = None then w5 else snd (uh_Remove host t w5))"
    using run c temp_fails [of "dir_of exe" w3 _ w4] ct
    by (auto split: sum.splits option.splits prod.splits) metis+
  note cases = this
  have T: "content w t = None \<and> content w4 = (content w)(t \<mapsto> []) \<and> t \<noteq> exe" if "r4 = Inr t" "uh_Stat host exe w = Inr mode" for t mode
    using temp [of "dir_of exe" w3 t w4] ct that c stat [OF that(2)] by auto
  show "content w' q = content w q" if "content w q \<noteq> None" "e \<noteq> None \<or> q \<noteq> exe"
    using cases
  proof cases
    case (go ver manifest signature dg t mode e5 w5)
    note t = T [OF go(6,7)]
    have qt: "q \<noteq> t" using t that(1) by auto
    have "content w5 q = content w4 q" using staged(1) [OF go(8) _ _ qt] t that(2) go(9) by auto
    moreover have "content w' q = content w5 q"
      using go(10) remove [of t w5 _ _ q] qt by (cases "uh_Remove host t w5") auto
    ultimately show ?thesis using t qt by simp
  qed simp
  show "\<exists>bin old ver manifest signature. content w' exe = Some bin
       \<and> verifyReleaseManifest lib pk manifest signature (upd_AssetName r) = Inr (ul_sha256 lib bin)
       \<and> prog_output bin = Inr (''awg-server '' @ upd_Latest r @ [CHR 0x0A])
       \<and> content w exe = Some old \<and> prog_output old = Inr (''awg-server '' @ ver @ [CHR 0x0A])
       \<and> validateUpgrade ver (upd_Latest r) = None" if "e = None"
    using cases
  proof cases
    case (go ver manifest signature dg t mode e5 w5)
    note t = T [OF go(6,7)]
    have s: "\<exists>bin. content w5 exe = Some bin \<and> dg = ul_sha256 lib bin
        \<and> prog_output bin = Inr (''awg-server '' @ upd_Latest r @ [CHR 0x0A])"
      using staged(2) [OF go(8)] t that go(9) by simp
    moreover have "w' = w5" using go(9,10) that by simp
    moreover obtain old where "content w exe = Some old" "prog_output old = Inr (''awg-server '' @ ver @ [CHR 0x0A])"
      using read_version(2) [OF rv go(1)] by blast
    ultimately show ?thesis using go(2,5) by blast
  qed (use that in simp)
qed

lemma applied:
  assumes "Apply lib host u result w = (e, w')" "uh_Executable host w = Inr exe"
  shows "content w q \<noteq> None \<Longrightarrow> q \<noteq> exe @ ''.update.lock'' \<Longrightarrow> e \<noteq> None \<or> q \<noteq> exe \<Longrightarrow> content w' q = content w q"
    "e = None \<Longrightarrow> \<exists>r bin old ver v. result = Some r \<and> content w' exe = Some bin \<and> authentic lib u bin
       \<and> upd_Latest r = version_text v \<and> prog_output bin = Inr (''awg-server '' @ version_text v @ [CHR 0x0A])
       \<and> older (u_current u) v \<and> content w exe = Some old
       \<and> prog_output old = Inr (''awg-server '' @ ver @ [CHR 0x0A]) \<and> older ver v"
proof -
  let ?lock = "exe @ ''.update.lock''"
  consider (refused) "e \<noteq> None" "w' = w"
    | (run) pk where "validateUpdateResult u result = None" "parseReleasePublicKey lib (u_publicKey u) = Inr pk"
        "(case acquireUpdateLock host exe w of (Inl e, w1) \<Rightarrow> (Some e, w1)
          | (Inr lock, w1) \<Rightarrow> (case apply_locked lib host pk (the result) exe w1 of
              (err, w2) \<Rightarrow> (err, snd (lock_Close host lock w2)))) = (e, w')"
    using assms by (auto simp: Apply_def split: option.splits sum.splits) (metis first_err_None_simps)+
  note cases = this
  have lock: "content w1 q = content w q" if "acquireUpdateLock host exe w = (l, w1)" "q \<noteq> ?lock" for l w1 q
    using that close_lock [OF prod.collapse [symmetric]] unfolding acquireUpdateLock_def Let_def
    by (auto split: prod.splits option.splits flock_result.splits dest!: open_lock [of _ _ _ _ q] flock dest: close_lock)

  have unlock: "content (snd (lock_Close host l w)) = content w" for l w
    using funlock close_lock by (auto simp: lock_Close_def split: prod.splits)
  show "content w' q = content w q" if "content w q \<noteq> None" "q \<noteq> ?lock" "e \<noteq> None \<or> q \<noteq> exe"
    using cases
  proof cases
    case (run pk)
    then show ?thesis using lock [OF _ that(2)] locked(1) [of lib pk "the result" exe _ _ _ q] that
      by (auto simp: unlock split: prod.splits sum.splits)
  qed simp
  show "\<exists>r bin old ver v. result = Some r \<and> content w' exe = Some bin \<and> authentic lib u bin
       \<and> upd_Latest r = version_text v \<and> prog_output bin = Inr (''awg-server '' @ version_text v @ [CHR 0x0A])
       \<and> older (u_current u) v \<and> content w exe = Some old
       \<and> prog_output old = Inr (''awg-server '' @ ver @ [CHR 0x0A]) \<and> older ver v" if "e = None"
    using cases
  proof cases
    case (run pk)
    from run(1) obtain r ps where r: "result = Some r" "parseStableVersion (upd_Latest r) = Inr ps"
      "validateUpgrade (u_current u) (upd_Latest r) = None" "upd_AssetName r = releaseAssetName (u_goos u) (u_goarch u)"
      by (auto simp: validateUpdateResult_def Let_def split: option.splits if_splits sum.splits)
    obtain v where v: "upd_Latest r = version_text v" using parseStableVersion_Inr [OF r(2)] by blast
    from run(3) that obtain l w1 w2 where go: "acquireUpdateLock host exe w = (Inr l, w1)"
      "apply_locked lib host pk r exe w1 = (None, w2)" "w' = snd (lock_Close host l w2)"
      by (auto simp: r split: prod.splits sum.splits)
    from locked(2) [OF go(2)] obtain bin old ver manifest signature where L: "content w2 exe = Some bin"
      "verifyReleaseManifest lib pk manifest signature (upd_AssetName r) = Inr (ul_sha256 lib bin)"
      "prog_output bin = Inr (''awg-server '' @ upd_Latest r @ [CHR 0x0A])" "content w1 exe = Some old"
      "prog_output old = Inr (''awg-server '' @ ver @ [CHR 0x0A])" "validateUpgrade ver (upd_Latest r) = None" by blast
    have "authentic lib u bin"
      using L(2) run(2) unfolding verify_manifest_core authentic_def r(4) release_names(2) by blast
    moreover have "content w exe = Some old" using lock [OF go(1), of exe] L(4) by simp
    ultimately show ?thesis
      using r v L unlock [of l w2] go(3) by (auto simp: validateUpgrade_None)
  qed (use that in simp)
qed

end

section \<open>A file system with faults\<close>

text \<open>
  Files have contents and a mode. Each call consumes one entry of the list of faults; a failed write leaves the
  first \<open>n\<close> bytes. Names for temporary files come from a list; a name that is taken is refused.
\<close>

datatype update_fault = UpdateFault go_error nat

record 'n update_world =
  uw_files :: "string \<Rightarrow> (string \<times> nat) option"
  uw_faults :: "update_fault option list"
  uw_names :: "string list"
  uw_net :: 'n

definition uw_content :: "'n update_world \<Rightarrow> string \<Rightarrow> string option" where
  "uw_content w p = map_option fst (uw_files w p)"

definition uw_next :: "'n update_world \<Rightarrow> update_fault option \<times> 'n update_world" where
  "uw_next w = (case uw_faults w of [] \<Rightarrow> (None, w) | f # fs \<Rightarrow> (f, w\<lparr>uw_faults := fs\<rparr>))"

definition uw_call :: "('n update_world \<Rightarrow> 'n update_world) \<Rightarrow> 'n update_world action" where
  "uw_call f w = (case uw_next w of (Some (UpdateFault e _), w') \<Rightarrow> (Some e, w') | (None, w') \<Rightarrow> (None, f w'))"

definition uw_set :: "string \<Rightarrow> (string \<times> nat) option \<Rightarrow> 'n update_world \<Rightarrow> 'n update_world" where
  "uw_set p f w = w\<lparr>uw_files := (uw_files w)(p := f)\<rparr>"

definition missing_file :: go_error where "missing_file = Plain ''no such file or directory''"

definition uw_RunVersion :: "(string \<Rightarrow> string res) \<Rightarrow> string \<Rightarrow> 'n update_world \<Rightarrow> string res \<times> 'n update_world" where
  "uw_RunVersion prog p w =
     (case uw_next w of
        (Some (UpdateFault e _), w') \<Rightarrow> (Inl e, w')
      | (None, w') \<Rightarrow> (case uw_content w' p of None \<Rightarrow> Inl missing_file | Some c \<Rightarrow> prog c, w'))"

definition uw_CreateTemp :: "string \<Rightarrow> 'n update_world \<Rightarrow> string res \<times> 'n update_world" where
  "uw_CreateTemp dir w =
     (case uw_next w of
        (Some (UpdateFault e _), w') \<Rightarrow> (Inl e, w')
      | (None, w') \<Rightarrow>
          (case uw_names w' of
             [] \<Rightarrow> (Inl (Plain ''no free name''), w')
           | n # ns \<Rightarrow>
               if uw_files w' n \<noteq> None then (Inl (Plain ''file exists''), w'\<lparr>uw_names := ns\<rparr>)
               else (Inr n, uw_set n (Some ([], 384)) (w'\<lparr>uw_names := ns\<rparr>))))"

definition uw_Write :: "string \<Rightarrow> string \<Rightarrow> 'n update_world action" where
  "uw_Write p s w =
     (let old = (case uw_files w p of None \<Rightarrow> ([], 384) | Some f \<Rightarrow> f) in
      case uw_next w of
        (Some (UpdateFault e n), w') \<Rightarrow> (Some e, uw_set p (Some (fst old @ take n s, snd old)) w')
      | (None, w') \<Rightarrow> (None, uw_set p (Some (fst old @ s, snd old)) w'))"

definition uw_Rename :: "string \<Rightarrow> string \<Rightarrow> 'n update_world action" where
  "uw_Rename p q w =
     (case uw_next w of
        (Some (UpdateFault e _), w') \<Rightarrow> (Some e, w')
      | (None, w') \<Rightarrow>
          (case uw_files w' p of
             None \<Rightarrow> (Some missing_file, w')
           | Some f \<Rightarrow> (None, uw_set p None (uw_set q (Some f) w'))))"

definition disk_host ::
  "(string \<Rightarrow> 'n \<Rightarrow> http_response res \<times> 'n) \<Rightarrow> (string \<Rightarrow> string res) \<Rightarrow> string \<Rightarrow> 'n update_world update_host" where
  "disk_host network prog exe =
     \<lparr>uh_Get = \<lambda>url w. (case network url (uw_net w) of (r, n) \<Rightarrow> (r, w\<lparr>uw_net := n\<rparr>)),
      uh_Executable = \<lambda>w. Inr exe,
      uh_OpenLock = \<lambda>p. uw_call (\<lambda>w. uw_set p (Some (case uw_files w p of None \<Rightarrow> ([], 384) | Some f \<Rightarrow> f)) w),
      uh_Flock = \<lambda>p w. (case uw_next w of
         (Some (UpdateFault e n), w') \<Rightarrow> (if n = 0 then FlockWouldBlock else FlockFailed e, w')
       | (None, w') \<Rightarrow> (FlockHeld, w')),
      uh_Funlock = \<lambda>p. uw_call (\<lambda>w. w),
      uh_CloseLock = \<lambda>p. uw_call (\<lambda>w. w),
      uh_Stat = \<lambda>p w. (case uw_files w p of None \<Rightarrow> Inl missing_file | Some f \<Rightarrow> Inr (snd f)),
      uh_RunVersion = uw_RunVersion prog,
      uh_CreateTemp = uw_CreateTemp,
      uh_Write = uw_Write,
      uh_Sync = \<lambda>p. uw_call (\<lambda>w. w),
      uh_Close = \<lambda>p. uw_call (\<lambda>w. w),
      uh_Chmod = \<lambda>p m. uw_call (\<lambda>w. uw_set p (map_option (\<lambda>f. (fst f, m)) (uw_files w p)) w),
      uh_Rename = uw_Rename,
      uh_Remove = \<lambda>p. uw_call (uw_set p None)\<rparr>"

lemma uw_next_files: "uw_next w = (f, w') \<Longrightarrow> uw_files w' = uw_files w \<and> uw_names w' = uw_names w"
  by (auto simp: uw_next_def split: list.splits)

lemma uw_call_content:
  assumes "uw_call f w = (e, w')" "\<And>w. uw_content (f w) q = uw_content w q"
  shows "uw_content w' q = uw_content w q"
  using assms by (auto simp: uw_call_def uw_content_def dest!: uw_next_files split: prod.splits option.splits update_fault.splits)

lemma uw_set_content: "uw_content (uw_set p f w) q = (if q = p then map_option fst f else uw_content w q)"
  by (simp add: uw_set_def uw_content_def)

interpretation disk_update: update_files "disk_host network prog exe" uw_content prog for network prog exe
proof
  fix w w' :: "'a update_world" and p q s e r d t m c out url
  note defs = disk_host_def update_host.simps
  show "uw_content w' = uw_content w" if "uh_Get (disk_host network prog exe) url w = (r, w')" for r
    using that by (auto simp: disk_host_def uw_content_def fun_eq_iff split: prod.splits)
  show "uw_content w' q = uw_content w q" if "uh_OpenLock (disk_host network prog exe) p w = (e, w')" "q \<noteq> p"
    using uw_call_content [of _ w e w' q] that by (simp add: disk_host_def uw_set_content)
  show "uw_content w' = uw_content w" if "uh_Flock (disk_host network prog exe) p w = (f, w')" for f
    using that by (auto simp: disk_host_def uw_content_def fun_eq_iff dest!: uw_next_files
        split: prod.splits option.splits update_fault.splits)
  show "uw_content w' = uw_content w" if "uh_Funlock (disk_host network prog exe) p w = (e, w')"
    using uw_call_content [of _ w e w'] that by (simp add: disk_host_def fun_eq_iff)
  show "uw_content w' = uw_content w" if "uh_CloseLock (disk_host network prog exe) p w = (e, w')"
    using uw_call_content [of _ w e w'] that by (simp add: disk_host_def fun_eq_iff)
  show "uw_content w p \<noteq> None" if "uh_Stat (disk_host network prog exe) p w = Inr m"
    using that by (auto simp: disk_host_def uw_content_def split: option.splits)
  show "uw_content w' = uw_content w" if "uh_RunVersion (disk_host network prog exe) p w = (r, w')" for r
    using that by (auto simp: disk_host_def uw_RunVersion_def uw_content_def fun_eq_iff dest!: uw_next_files
        split: prod.splits option.splits update_fault.splits)
  show "\<exists>c. uw_content w p = Some c \<and> prog c = Inr out"
    if "uh_RunVersion (disk_host network prog exe) p w = (Inr out, w')"
    using that by (auto simp: disk_host_def uw_RunVersion_def uw_content_def dest!: uw_next_files
        split: prod.splits option.splits update_fault.splits)
  show "uw_content w' = uw_content w" if "uh_CreateTemp (disk_host network prog exe) d w = (Inl e, w')" for e
    using that by (auto simp: disk_host_def uw_CreateTemp_def uw_content_def fun_eq_iff dest!: uw_next_files
        split: prod.splits option.splits update_fault.splits list.splits if_splits)
  show "uw_content w t = None \<and> uw_content w' = (uw_content w)(t \<mapsto> [])"
    if "uh_CreateTemp (disk_host network prog exe) d w = (Inr t, w')"
    using that by (auto simp: disk_host_def uw_CreateTemp_def uw_content_def uw_set_def fun_eq_iff dest!: uw_next_files
        split: prod.splits option.splits update_fault.splits list.splits if_splits) (metis not_None_eq surj_pair)
  show "uw_content w' q = uw_content w q" if "uh_Write (disk_host network prog exe) p s w = (e, w')" "q \<noteq> p"
    using that by (auto simp: disk_host_def uw_Write_def uw_content_def uw_set_def Let_def dest!: uw_next_files
        split: prod.splits option.splits update_fault.splits)
  show "uw_content w' p = Some (c @ s)"
    if "uh_Write (disk_host network prog exe) p s w = (None, w')" "uw_content w p = Some c"
    using that by (auto simp: disk_host_def uw_Write_def uw_content_def uw_set_def Let_def dest!: uw_next_files
        split: prod.splits option.splits update_fault.splits)
  show "uw_content w' = uw_content w" if "uh_Sync (disk_host network prog exe) p w = (e, w')"
    using uw_call_content [of _ w e w'] that by (simp add: disk_host_def fun_eq_iff)
  show "uw_content w' = uw_content w" if "uh_Close (disk_host network prog exe) p w = (e, w')"
    using uw_call_content [of _ w e w'] that by (simp add: disk_host_def fun_eq_iff)
  show "uw_content w' = uw_content w" if "uh_Chmod (disk_host network prog exe) p m w = (e, w')"
  proof
    fix x
    have "uw_content (uw_set p (map_option (\<lambda>f. (fst f, m)) (uw_files v p)) v) x = uw_content v x" for v :: "'a update_world"
      by (simp add: uw_set_content) (simp add: uw_content_def option.map_comp comp_def)
    then show "uw_content w' x = uw_content w x"
      using uw_call_content [of _ w e w' x] that by (simp add: disk_host_def)
  qed
  show "uw_content w' = uw_content w" if "uh_Rename (disk_host network prog exe) p q w = (Some e, w')" for e
    using that by (auto simp: disk_host_def uw_Rename_def uw_content_def fun_eq_iff dest!: uw_next_files
        split: prod.splits option.splits update_fault.splits)
  show "uw_content w' = (uw_content w)(q := uw_content w p, p := None)"
    if "uh_Rename (disk_host network prog exe) p q w = (None, w')"
    using that by (auto simp: disk_host_def uw_Rename_def uw_content_def uw_set_def fun_eq_iff dest!: uw_next_files
        split: prod.splits option.splits update_fault.splits)
  show "uw_content w' q = uw_content w q" if "uh_Remove (disk_host network prog exe) p w = (e, w')" "q \<noteq> p"
    using uw_call_content [of _ w e w' q] that by (simp add: disk_host_def uw_set_content)
qed

end
