(* ===== verification/Update_Properties.thy ===== *)
theory Update_Properties
  imports Update_Apply
begin

text \<open>
  The properties of the self-update: the order of versions, the grammar of a signed manifest, the exact set of
  release assets, what \<open>Check\<close> may offer and what \<open>Apply\<close> may do to the file system.
\<close>

section \<open>A sample release\<close>

definition sample_lib :: update_lib where
  "sample_lib = \<lparr>ul_pem = \<lambda>_. Some (''PUBLIC KEY'', [], []), ul_pkix = \<lambda>_. Inr (Some zero_key),
     ul_verify = \<lambda>_ _ _. True, ul_sha256 = \<lambda>_. zero_key,
     ul_json = \<lambda>_. Some (JObj [(''tag_name'', JStr ''v1.2.3''), (''assets'', JArr (map (\<lambda>n.
       JObj [(''name'', JStr n), (''browser_download_url'', JStr (expectedAssetURL ''1.2.3'' n))])
         (releaseAssetNames @ [checksumAssetName, signatureAssetName])))])\<rparr>"

definition sample_updater :: Updater where
  "sample_updater = \<lparr>u_current = ''dev'', u_publicKey = ''AAAA'', u_goos = ''linux'', u_goarch = ''amd64''\<rparr>"

definition sample_result :: CheckResult where
  "sample_result = \<lparr>upd_Latest = ''1.2.3'', upd_AssetName = ''awg-server-awg31-linux-amd64'',
     upd_DownloadURL = expectedAssetURL ''1.2.3'' ''awg-server-awg31-linux-amd64'',
     upd_ChecksumsURL = expectedAssetURL ''1.2.3'' checksumAssetName,
     upd_SignatureURL = expectedAssetURL ''1.2.3'' signatureAssetName, upd_NeedsUpdate = True\<rparr>"

text \<open>A server that answers with the manifest, the signature and the binary; binaries print their version.\<close>

definition sample_manifest :: string where
  "sample_manifest = manifest_text (replicate 6 zero_key)"

definition sample_network :: "string \<Rightarrow> string list \<Rightarrow> http_response res \<times> string list" where
  "sample_network url bodies = (Inr \<lparr>http_status = 200, http_body = \<lparr>body_bytes = hd bodies, body_error = None\<rparr>\<rparr>, tl bodies)"

definition sample_prog :: "string \<Rightarrow> string res" where
  "sample_prog c = Inr (if c = ''old'' then ''awg-server 1.0.0'' @ [CHR 0x0A] else ''awg-server 1.2.3'' @ [CHR 0x0A])"

definition sample_files :: "string list update_world" where
  "sample_files = \<lparr>uw_files = Map.empty(''/bin/awg'' \<mapsto> (''old'', 493)), uw_faults = [], uw_names = [''/bin/tmp''],
     uw_net = [sample_manifest, replicate 64 (CHR ''s''), ''new'']\<rparr>"

lemma sample_version: "''1.2.3'' = version_text (Version 1 2 3)" "''1.0.0'' = version_text (Version 1 0 0)"
  by (simp_all add: version_text_def version_parts_def go_eval)

lemma sample_version_parse: "parseStableVersion ''1.2.3'' = Inr [''1'', ''2'', ''3'']" "parseStableVersion ''1.0.0'' = Inr [''1'', ''0'', ''0'']"
  unfolding sample_version parse_version_text by (simp_all add: version_parts_def go_eval)

lemma sample_trust_key: "parseReleasePublicKey sample_lib ''AAAA'' = Inr zero_key"
  by (simp add: parseReleasePublicKey_def sample_lib_def TrimSpace_def zero_key_def b64_decode_def b64_val_def
      b64_alphabet_def upt_rec)

lemma sample_release_select:
  "\<exists>urls. selectReleaseAssetURLs (map (asset_of ver) (releaseAssetNames @ [checksumAssetName, signatureAssetName])) ver
     (releaseAssetNames @ [checksumAssetName, signatureAssetName]) = Inr urls"
  unfolding select_core by (simp add: releaseAssetNames_def checksumAssetName_def signatureAssetName_def)

lemma decode_asset_json:
  "decode_asset (JObj [(''name'', JStr n), (''browser_download_url'', JStr url)])
   = Inr \<lparr>asset_Name = n, asset_BrowserDownloadURL = url\<rparr>"
  by (simp add: decode_asset_def dec_struct_def dec_str_def EqualFold_def lower_char_def char_of_table)

lemma dec_elems_map: "(\<And>x. x \<in> set xs \<Longrightarrow> f (g x) = Inr (h x)) \<Longrightarrow> dec_elems f (map g xs) = Inr (map h xs)"
  by (induction xs) simp_all

lemma sample_release_decode:
  "decode_release (the (ul_json sample_lib s)) =
     Inr \<lparr>rel_TagName = ''v1.2.3'',
       rel_Assets = map (asset_of ''1.2.3'') (releaseAssetNames @ [checksumAssetName, signatureAssetName])\<rparr>"
proof -
  let ?ns = "releaseAssetNames @ [checksumAssetName, signatureAssetName]"
  have "dec_elems decode_asset (map (\<lambda>n. JObj [(''name'', JStr n), (''browser_download_url'',
      JStr (expectedAssetURL ''1.2.3'' n))]) ?ns) = Inr (map (asset_of ''1.2.3'') ?ns)"
    by (rule dec_elems_map) (simp only: decode_asset_json asset_of_def)
  then show ?thesis
    by (simp add: sample_lib_def decode_release_def dec_struct_def dec_str_def EqualFold_def lower_char_def char_of_table
        del: map_append)
qed

section \<open>Properties\<close>

text \<open>Versions are compared as triples of numbers: \<open>compareStableVersions\<close> accepts exactly two texts
  MAJOR.MINOR.PATCH without leading zeroes, of any length, and returns the sign of the lexicographic comparison of
  the triples. Comparing lengths and bytes of the digit strings needs no integer type, so no version overflows.\<close>

lemma compareStableVersions_numeric:
  "compareStableVersions s t = Inr n \<longleftrightarrow>
     (\<exists>v v'. s = version_text v \<and> t = version_text v' \<and> n = (if v < v' then -1 else if v = v' then 0 else 1))"
proof -
  have "s = version_text v \<Longrightarrow> t = version_text v' \<Longrightarrow>
      compareStableVersions s t = Inr n \<longleftrightarrow> n = (if v < v' then -1 else if v = v' then 0 else 1)" for v v'
    by (auto simp: compare_texts three_way_def)
  moreover have "\<exists>v v'. s = version_text v \<and> t = version_text v'" if "compareStableVersions s t = Inr n"
    using that parseStableVersion_Inr by (fastforce simp: compareStableVersions_def res_simps)
  ultimately show ?thesis by blast
qed

text \<open>C31. The signed manifest has one form: \<open>verifyReleaseManifest\<close> returns a digest exactly when the signature is
  64 bytes and verifies over the whole manifest, the manifest is the canonical text of six digests in the order of
  the release assets, and the digest is the one of the selected asset.\<close>

theorem verifyReleaseManifest_exact:
  "verifyReleaseManifest lib publicKey manifest signature selected = Inr digest \<longleftrightarrow>
     length signature = 64 \<and> ul_verify lib publicKey manifest signature
     \<and> (\<exists>ds. length ds = 6 \<and> list_all (\<lambda>d. length d = 32) ds \<and> manifest = manifest_text ds
          \<and> map_of (zip releaseAssetNames ds) selected = Some digest)"
  by (simp add: verify_manifest_core list_all_iff)

text \<open>C32. Asset selection is exact: it succeeds precisely when the requested names are distinct and the release has
  exactly one asset per name, each at its canonical URL, in any order, and nothing else; then every requested name
  has its canonical URL.\<close>

theorem selectReleaseAssetURLs_exact:
  "(case selectReleaseAssetURLs assets ver names of
      Inr urls \<Rightarrow> distinct names \<and> mset assets = mset (map (asset_of ver) names)
        \<and> (\<forall>n. gm_get urls n = (if n \<in> set names then expectedAssetURL ver n else []))
    | Inl _ \<Rightarrow> \<not> (distinct names \<and> mset assets = mset (map (asset_of ver) names)))"
proof (cases "selectReleaseAssetURLs assets ver names")
  case (Inl e)
  then have "\<not> (distinct names \<and> mset assets = mset (map (asset_of ver) names))"
    using select_core [of assets ver names "asset_urls assets"] by auto
  with Inl show ?thesis by simp
next
  case (Inr urls)
  then show ?thesis using select_core [of assets ver names urls] select_urls [OF Inr] by simp
qed



text \<open>C30. The running binary is only ever replaced by an authentic, newer one. Whatever the network answers and
  whichever file operation fails: unless \<open>Apply\<close> succeeds, every existing file other than its lock keeps its
  contents, the executable included; when it succeeds, the executable is a binary whose digest stands in a manifest
  signed with the embedded key, that reports the offered version, and that version is newer than the version of
  the updater and than the version the replaced binary reported. All other files keep their contents.\<close>

theorem Apply_replaces_only_authentic:
  assumes "Apply lib (disk_host network prog exe) u result w = (e, w')"
  shows "(\<forall>q. uw_content w q \<noteq> None \<and> q \<noteq> exe @ ''.update.lock'' \<and> (e \<noteq> None \<or> q \<noteq> exe)
            \<longrightarrow> uw_content w' q = uw_content w q)
    \<and> (e = None \<longrightarrow> (\<exists>bin old ver v. uw_content w' exe = Some bin \<and> authentic lib u bin
         \<and> prog bin = Inr (''awg-server '' @ version_text v @ [CHR 0x0A]) \<and> older (u_current u) v
         \<and> uw_content w exe = Some old \<and> prog old = Inr (''awg-server '' @ ver @ [CHR 0x0A]) \<and> older ver v))"
proof -
  have "uh_Executable (disk_host network prog exe) w = Inr exe" by (simp add: disk_host_def)
  from disk_update.applied [OF assms this] show ?thesis by blast
qed

lemma sample_manifest_ok:
  "verifyReleaseManifest sample_lib zero_key sample_manifest (replicate 64 (CHR ''s'')) ''awg-server-awg31-linux-amd64'' = Inr zero_key"
  unfolding verify_manifest_core
  by (intro conjI exI [of _ "replicate 6 zero_key"])
     (simp_all add: sample_lib_def sample_manifest_def zero_key_def releaseAssetNames_def numeral_eq_Suc)

lemma sample_manifest_length: "length sample_manifest < maxReleaseMetadata"
proof -
  have "length (concat (map (\<lambda>n. manifest_row zero_key n @ [CHR 0x0A]) ns)) = (\<Sum>n\<leftarrow>ns. 67 + length n)" for ns
    by (induction ns) (simp_all add: manifest_row_def zero_key_def)
  moreover have "zip (replicate 6 zero_key) releaseAssetNames = map (Pair zero_key) releaseAssetNames"
    by (simp add: releaseAssetNames_def numeral_eq_Suc)
  ultimately show ?thesis
    by (simp add: sample_manifest_def manifest_text_def comp_def) (simp add: releaseAssetNames_def maxReleaseMetadata_def)
qed

lemma sample_versions:
  "version_of_output (''awg-server 1.2.3'' @ [CHR 0x0A]) = Inr ''1.2.3''"
  "version_of_output (''awg-server 1.0.0'' @ [CHR 0x0A]) = Inr ''1.0.0''"
  by (simp_all add: version_of_output_def trim_prefix_def trim_suffix_def has_suffix_def Let_def sample_version_parse)

lemma sample_upgrade:
  "validateUpgrade ''1.0.0'' ''1.2.3'' = None" "validateUpgrade ''dev'' ''1.2.3'' = None"
proof -
  have "Version 1 0 0 < Version 1 2 3" by (simp add: Version_less)
  moreover have "trim_prefix ''1.0.0'' ''v'' = version_text (Version 1 0 0)"
    using version_text_not(2) [of "Version 1 0 0"] by (simp only: sample_version(2) [symmetric])
  ultimately show "validateUpgrade ''1.0.0'' ''1.2.3'' = None" "validateUpgrade ''dev'' ''1.2.3'' = None"
    unfolding sample_version(1) validateUpgrade_None older_def by blast+
qed

lemma sample_downloads:
  "downloadBytes (disk_host sample_network sample_prog exe) url n w =
     (if length (hd (uw_net w)) \<le> n then Inr (hd (uw_net w)) else Inl (Plain (''download exceeds '' @ dec_nat n @ ''-byte limit'')),
      w\<lparr>uw_net := tl (uw_net w)\<rparr>)"
  by (auto simp: downloadBytes_def disk_host_def sample_network_def limited_def min_def)

lemma sample_reads:
  assumes "uw_faults w = []" "uw_content w p = Some c"
  shows "readBinaryVersion (disk_host sample_network sample_prog exe) p w =
    (Inr (if c = ''old'' then ''1.0.0'' else ''1.2.3''), w)"
  using assms sample_versions
  by (simp add: readBinaryVersion_def disk_host_def uw_RunVersion_def uw_next_def sample_prog_def)

lemma sample_staged:
  assumes "uw_faults w = []" "uw_net w = [''new'']" "uw_files w = Map.empty(''/bin/awg'' \<mapsto> (''old'', 493), l \<mapsto> f, ''/bin/tmp'' \<mapsto> ([], 384))"
    "l = ''/bin/awg.update.lock''"
  shows "\<exists>w'. apply_staged sample_lib (disk_host sample_network sample_prog ''/bin/awg'') sample_result ''/bin/awg'' 493 zero_key
      ''/bin/tmp'' w = (None, w') \<and> uw_content w' ''/bin/awg'' = Some ''new'' \<and> uw_faults w' = []"
proof -
  let ?host = "disk_host sample_network sample_prog ''/bin/awg''"
  let ?w1 = "uw_set ''/bin/tmp'' (Some (''new'', 384)) (w\<lparr>uw_net := []\<rparr>)"
  let ?w4 = "uw_set ''/bin/tmp'' (Some (''new'', 493)) ?w1"
  have dl: "downloadBinary sample_lib ?host (upd_DownloadURL sample_result) ''/bin/tmp'' w = (Inr zero_key, ?w1)"
    using assms by (simp add: downloadBinary_def disk_host_def sample_network_def limited_def maxReleaseBinary_def
        uw_Write_def uw_next_def sample_lib_def)
  have files: "uw_faults ?w1 = []" "uw_faults ?w4 = []" "uw_content ?w4 ''/bin/tmp'' = Some ''new''"
    "uw_content ?w4 ''/bin/awg'' = Some ''old''" "uw_files ?w1 ''/bin/tmp'' = Some (''new'', 384)"
    using assms by (simp_all add: uw_set_def uw_content_def)
  have calls: "uh_Sync ?host ''/bin/tmp'' ?w1 = (None, ?w1)" "uh_Close ?host ''/bin/tmp'' ?w1 = (None, ?w1)"
    "uh_Chmod ?host ''/bin/tmp'' 493 ?w1 = (None, ?w4)"
    using files by (simp_all add: disk_host_def uw_call_def uw_next_def)
  have rename: "uh_Rename ?host ''/bin/tmp'' ''/bin/awg'' ?w4 =
      (None, uw_set ''/bin/tmp'' None (uw_set ''/bin/awg'' (Some (''new'', 493)) ?w4))"
    using files by (simp add: disk_host_def uw_Rename_def uw_next_def) (simp add: uw_set_def)
  show ?thesis
    unfolding apply_staged_def dl prod.case sum.case calls option.case sample_reads [OF files(2,3)] sample_reads [OF files(2,4)]
    using sample_upgrade files by (simp add: sample_result_def rename uw_set_content) (simp add: uw_set_def)
qed

lemma sample_apply:
  "\<exists>w'. Apply sample_lib (disk_host sample_network sample_prog ''/bin/awg'') sample_updater (Some sample_result) sample_files
     = (None, w') \<and> uw_content w' ''/bin/awg'' = Some ''new''"
proof -
  let ?host = "disk_host sample_network sample_prog ''/bin/awg''"
  let ?lock = "''/bin/awg.update.lock''"
  let ?w1 = "uw_set ?lock (Some ([], 384)) sample_files"
  let ?w3 = "?w1\<lparr>uw_net := [''new'']\<rparr>"
  let ?w4 = "uw_set ''/bin/tmp'' (Some ([], 384)) (?w3\<lparr>uw_names := []\<rparr>)"
  have lock: "acquireUpdateLock ?host ''/bin/awg'' sample_files = (Inr ?lock, ?w1)"
    by (simp add: acquireUpdateLock_def Let_def disk_host_def uw_call_def uw_next_def sample_files_def uw_set_def)
  have files: "uw_faults ?w1 = []" "uw_content ?w1 ''/bin/awg'' = Some ''old''"
    by (simp_all add: sample_files_def uw_set_def uw_content_def)
  have stat: "uh_Stat ?host ''/bin/awg'' ?w1 = Inr 493" by (simp add: disk_host_def sample_files_def uw_set_def)
  have temp: "uh_CreateTemp ?host (dir_of ''/bin/awg'') ?w3 = (Inr ''/bin/tmp'', ?w4)"
    by (simp add: disk_host_def uw_CreateTemp_def uw_next_def sample_files_def uw_set_def)
  have d2: "downloadBytes ?host url maxReleaseMetadata ?w1
      = (Inr sample_manifest, ?w1\<lparr>uw_net := [replicate 64 (CHR ''s''), ''new'']\<rparr>)" for url
    using sample_manifest_length by (simp add: sample_downloads) (simp add: uw_set_def sample_files_def)
  have d3: "downloadBytes ?host url 64 (?w1\<lparr>uw_net := [replicate 64 (CHR ''s''), ''new'']\<rparr>)
      = (Inr (replicate 64 (CHR ''s'')), ?w3)" for url by (simp add: sample_downloads)
  obtain w5 where staged: "apply_staged sample_lib ?host sample_result ''/bin/awg'' 493 zero_key ''/bin/tmp'' ?w4 = (None, w5)"
    "uw_content w5 ''/bin/awg'' = Some ''new''" "uw_faults w5 = []"
    using sample_staged [of ?w4 ?lock "([], 384)"] by (auto simp: uw_set_def sample_files_def)
  have up: "validateUpgrade (if ''old'' = ''old'' then ''1.0.0'' else ''1.2.3'') (upd_Latest sample_result) = None"
    using sample_upgrade by (simp add: sample_result_def)
  have man: "verifyReleaseManifest sample_lib zero_key sample_manifest (replicate 64 (CHR ''s'')) (upd_AssetName sample_result) = Inr zero_key"
    using sample_manifest_ok by (simp add: sample_result_def)
  have "apply_locked sample_lib ?host zero_key sample_result ''/bin/awg'' ?w1 = (None, w5)"
    unfolding apply_locked_def stat sum.case sample_reads [OF files] prod.case up option.case d2 d3 man temp staged(1) by simp
  moreover have "snd (lock_Close ?host ?lock w5) = w5" using staged(3) by (simp add: lock_Close_def disk_host_def uw_call_def uw_next_def)
  moreover have "validateUpdateResult sample_updater (Some sample_result) = None"
    using sample_upgrade by (simp add: validateUpdateResult_def sample_result_def sample_updater_def sample_version_parse url_check_def
        releaseAssetName_def releaseBinaryName_def fail_if_def first_err_eval Let_def)
  moreover have "parseReleasePublicKey sample_lib (u_publicKey sample_updater) = Inr zero_key"
    using sample_trust_key by (simp add: sample_updater_def)
  moreover have "validateUpdatePlatform (u_goos sample_updater) = None" "uh_Executable ?host sample_files = Inr ''/bin/awg''"
    by (simp_all add: validateUpdatePlatform_def sample_updater_def disk_host_def)
  ultimately show ?thesis using lock staged(2) by (intro exI [of _ w5]) (simp add: Apply_def first_err_eval)
qed

theorem Apply_replaces_only_authentic_witness:
  "authentic sample_lib sample_updater ''new'' \<and> older ''dev'' (Version 1 2 3)"
proof -
  obtain w' where w': "Apply sample_lib (disk_host sample_network sample_prog ''/bin/awg'') sample_updater (Some sample_result)
      sample_files = (None, w')" "uw_content w' ''/bin/awg'' = Some ''new''" using sample_apply by blast
  from Apply_replaces_only_authentic [OF w'(1)] w'(2) obtain v where
    v: "authentic sample_lib sample_updater ''new''" "older ''dev'' v"
      "sample_prog ''new'' = Inr (''awg-server '' @ version_text v @ [CHR 0x0A])" by (auto simp: sample_updater_def)
  then have "version_text v = ''1.2.3''" by (simp add: sample_prog_def)
  then have "v = Version 1 2 3" by (simp add: sample_version(1))
  with v show ?thesis by simp
qed

end
