(* ===== verification/Usage.thy ===== *)
theory Usage
  imports Device Storage
begin

text \<open>
  Traffic accounting, \<^verbatim>\<open>src/internal/usage/collector.go\<close>. The collector adds the growth of the kernel
  counters of every peer to totals that survive restarts of the interfaces, and keeps them in a file.

  Counters are Go's \<open>int64\<close>: integers with the wrap-around \<open>int64\<close> written out. The list of interfaces and
  their dumps are functions on a host state \<open>'w\<close>. A handshake time is the seconds since 1970, \<open>None\<close> the zero
  time; its JSON text is a parameter. The two locks make \<open>collect\<close> and each access to the map one step.
\<close>

section \<open>Counters\<close>

definition int64 :: "int \<Rightarrow> int" where
  "int64 n = (n + 2 ^ 63) mod 2 ^ 64 - 2 ^ 63"

record PeerStats =
  TotalRx :: int
  TotalTx :: int
  LastRawRx :: int
  LastRawTx :: int
  stats_LastHandshake :: "int option"

definition zeroPeerStats :: PeerStats where
  "zeroPeerStats = \<lparr>TotalRx = 0, TotalTx = 0, LastRawRx = 0, LastRawTx = 0, stats_LastHandshake = None\<rparr>"

type_synonym stats_map = "(string, PeerStats) gmap"

record Collector =
  col_filePath :: string
  col_stats :: stats_map

text \<open>The growth since the last reading; a smaller counter is a counter that started again at zero.\<close>

definition counter_delta :: "int \<Rightarrow> int \<Rightarrow> int" where
  "counter_delta transfer lastRaw = (if transfer < lastRaw then transfer else int64 (transfer - lastRaw))"

definition seen_handshake :: "PeerDump \<Rightarrow> PeerStats \<Rightarrow> PeerStats" where
  "seen_handshake p stats =
     (if LastHandshake p \<noteq> None then stats\<lparr>stats_LastHandshake := LastHandshake p\<rparr> else stats)"

definition account_stats :: "PeerDump \<Rightarrow> PeerStats option \<Rightarrow> PeerStats" where
  "account_stats p old =
     seen_handshake p
       (case old of
          None \<Rightarrow> \<lparr>TotalRx = TransferRx p, TotalTx = TransferTx p, LastRawRx = TransferRx p, LastRawTx = TransferTx p,
                  stats_LastHandshake = None\<rparr>
        | Some stats \<Rightarrow>
            stats\<lparr>TotalRx := int64 (TotalRx stats + counter_delta (TransferRx p) (LastRawRx stats)),
                  TotalTx := int64 (TotalTx stats + counter_delta (TransferTx p) (LastRawTx stats)),
                  LastRawRx := TransferRx p, LastRawTx := TransferTx p\<rparr>)"

definition account_peer :: "PeerDump \<Rightarrow> stats_map \<Rightarrow> stats_map" where
  "account_peer p stats = AList.update (dumpPublicKey p) (account_stats p (map_of stats (dumpPublicKey p))) stats"

section \<open>Collecting\<close>

text \<open>The dumps of all interfaces, appended; an incomplete one is skipped, or fails a complete collection.\<close>

fun gather :: "(string \<Rightarrow> 'w \<Rightarrow> PeerDump list res \<times> 'w) \<Rightarrow> bool \<Rightarrow> string list \<Rightarrow> 'w \<Rightarrow> PeerDump list res \<times> 'w" where
  "gather dump requireComplete [] w = (Inr [], w)"
| "gather dump requireComplete (ifName # names) w =
     (case dump ifName w of
        (Inl e, w1) \<Rightarrow>
          if requireComplete then (Inl (Wrap (''dump interface '' @ ifName @ '': '') e []), w1)
          else gather dump requireComplete names w1
      | (Inr peers, w1) \<Rightarrow>
          if peers = [] \<and> requireComplete
          then (Inl (Plain (''dump interface '' @ ifName @ '': no peers returned'')), w1)
          else (case gather dump requireComplete names w1 of
            (Inl e, w2) \<Rightarrow> (Inl e, w2)
          | (Inr rest, w2) \<Rightarrow> (Inr (peers @ rest), w2)))"

record 'w usage_host =
  us_ifaces :: "'w \<Rightarrow> string list"
  us_dump :: "string \<Rightarrow> 'w \<Rightarrow> PeerDump list res \<times> 'w"

definition collect :: "'w usage_host \<Rightarrow> bool \<Rightarrow> Collector \<Rightarrow> 'w \<Rightarrow> go_error option \<times> Collector \<times> 'w" where
  "collect host requireComplete c w =
     (case gather (us_dump host) requireComplete (us_ifaces host w) w of
        (Inl e, w1) \<Rightarrow> (Some e, c, w1)
      | (Inr allPeers, w1) \<Rightarrow> (None, c\<lparr>col_stats := fold account_peer allPeers (col_stats c)\<rparr>, w1))"

definition collector_Collect :: "'w usage_host \<Rightarrow> Collector \<Rightarrow> 'w \<Rightarrow> Collector \<times> 'w" where
  "collector_Collect host c w = snd (collect host False c w)"

text \<open>The action of a required snapshot works on the state \<open>'s\<close> of its caller and on the host.\<close>

definition WithRequiredSnapshot ::
  "'w usage_host \<Rightarrow> ('s \<Rightarrow> Collector \<times> 'w \<Rightarrow> go_error option \<times> 's \<times> Collector \<times> 'w)
   \<Rightarrow> 's \<Rightarrow> Collector \<times> 'w \<Rightarrow> go_error option \<times> 's \<times> Collector \<times> 'w" where
  "WithRequiredSnapshot host perform s cw =
     (case collect host True (fst cw) (snd cw) of
        (Some e, c, w) \<Rightarrow> (Some (Sentinel ErrSnapshotFailed), s, c, w)
      | (None, c, w) \<Rightarrow> perform s (c, w))"

definition GetStats :: "Collector \<Rightarrow> string \<Rightarrow> PeerStats \<times> bool" where
  "GetStats c publicKey =
     (case map_of (col_stats c) publicKey of None \<Rightarrow> (zeroPeerStats, False) | Some stats \<Rightarrow> (stats, True))"

definition RemoveStats :: "string \<Rightarrow> Collector \<Rightarrow> Collector" where
  "RemoveStats publicKey c = c\<lparr>col_stats := AList.delete publicKey (col_stats c)\<rparr>"

section \<open>The file\<close>

definition peer_stats_json :: "(int option \<Rightarrow> string) \<Rightarrow> PeerStats \<Rightarrow> json" where
  "peer_stats_json time_text s = JObj
     [(''total_rx'', JNum (dec_int (TotalRx s))), (''total_tx'', JNum (dec_int (TotalTx s))),
      (''last_raw_rx'', JNum (dec_int (LastRawRx s))), (''last_raw_tx'', JNum (dec_int (LastRawTx s))),
      (''last_handshake'', JStr (time_text (stats_LastHandshake s)))]"

definition stats_json :: "(int option \<Rightarrow> string) \<Rightarrow> stats_map \<Rightarrow> json" where
  "stats_json time_text m = JObj (map (\<lambda>(k, s). (k, peer_stats_json time_text s)) m)"

definition collector_Save :: "(int option \<Rightarrow> string) \<Rightarrow> 'w os_ops \<Rightarrow> Collector \<Rightarrow> 'w \<Rightarrow> go_error option \<times> 'w" where
  "collector_Save time_text os c w =
     (let tmpPath = col_filePath c @ ''.tmp'' in
      case os_WriteFile os tmpPath (stats_json time_text (col_stats c)) w of
        (Some e, w1) \<Rightarrow> (Some (Wrap ''write temp file: '' e []), w1)
      | (None, w1) \<Rightarrow>
          (case os_Rename os tmpPath (col_filePath c) w1 of
             (Some e, w2) \<Rightarrow> (Some (Wrap ''rename temp file: '' e []), w2)
           | (None, w2) \<Rightarrow> (None, w2)))"

definition dec_time :: "(string \<Rightarrow> int option option) \<Rightarrow> json \<Rightarrow> int option \<Rightarrow> int option res" where
  "dec_time parse_time v acc =
     (case v of
        JStr s \<Rightarrow> (case parse_time s of None \<Rightarrow> Inl type_error | Some t \<Rightarrow> Inr t)
      | JNull \<Rightarrow> Inr acc | _ \<Rightarrow> Inl type_error)"

definition decode_peer_stats :: "(string \<Rightarrow> int option option) \<Rightarrow> json \<Rightarrow> PeerStats res" where
  "decode_peer_stats parse_time = dec_struct (\<lambda>kvs.
     let num = (\<lambda>name. dec_field dec_num name kvs 0) in
     res_bind (num ''total_rx'') (\<lambda>rx. res_bind (num ''total_tx'') (\<lambda>tx.
     res_bind (num ''last_raw_rx'') (\<lambda>rawRx. res_bind (num ''last_raw_tx'') (\<lambda>rawTx.
     res_bind (dec_field (dec_time parse_time) ''last_handshake'' kvs None) (\<lambda>t.
       Inr \<lparr>TotalRx = rx, TotalTx = tx, LastRawRx = rawRx, LastRawTx = rawTx, stats_LastHandshake = t\<rparr>))))))"

definition dec_stats_ptr :: "(string \<Rightarrow> int option option) \<Rightarrow> json \<Rightarrow> PeerStats option res" where
  "dec_stats_ptr parse_time v = dec_ptr (decode_peer_stats parse_time) v None"

definition negative_stats :: "PeerStats \<Rightarrow> bool" where
  "negative_stats s = (TotalRx s < 0 \<or> TotalTx s < 0 \<or> LastRawRx s < 0 \<or> LastRawTx s < 0)"

definition stats_entry_check :: "string \<times> PeerStats option \<Rightarrow> go_error option" where
  "stats_entry_check e =
     (case snd e of
        None \<Rightarrow> Some (Plain ''parse usage file: null peer stats entry'')
      | Some s \<Rightarrow> fail_if (negative_stats s) (Plain ''parse usage file: negative traffic counter''))"

text \<open>The checks of the entries come in the order of a Go map, which only affects which error is named.\<close>

definition collector_load ::
  "(string \<Rightarrow> int option option) \<Rightarrow> 'w os_ops \<Rightarrow> Collector \<Rightarrow> 'w \<Rightarrow> go_error option \<times> Collector" where
  "collector_load parse_time os c w =
     (case os_ReadFile os (col_filePath c) w of
        FileMissing \<Rightarrow> (None, c)
      | FileFailed e \<Rightarrow> (Some (Wrap ''read usage file: '' (Plain e) []), c)
      | FileText None \<Rightarrow> (Some (Wrap ''parse usage file: '' (Plain ''invalid JSON'') []), c)
      | FileText (Some v) \<Rightarrow>
          (case dec_map (dec_stats_ptr parse_time) v None of
             Inl e \<Rightarrow> (Some (Wrap ''parse usage file: '' e []), c)
           | Inr None \<Rightarrow> (Some (Plain ''parse usage file: expected a JSON object''), c)
           | Inr (Some loaded) \<Rightarrow>
               (case first_err (map stats_entry_check loaded) of
                  Some e \<Rightarrow> (Some e, c)
                | None \<Rightarrow> (None, c\<lparr>col_stats := map (\<lambda>(k, s). (k, the s)) loaded\<rparr>))))"

text \<open>\<open>filePath\<close> is \<open>usage.json\<close> in the data directory; a file that cannot be used is only logged.\<close>

definition NewCollector :: "(string \<Rightarrow> int option option) \<Rightarrow> 'w os_ops \<Rightarrow> string \<Rightarrow> 'w \<Rightarrow> Collector" where
  "NewCollector parse_time os dataDir w =
     snd (collector_load parse_time os \<lparr>col_filePath = filepath_Join dataDir ''usage.json'', col_stats = []\<rparr> w)"

text \<open>One round of \<open>Run\<close>: at the start, and then at every tick; a failed save is only logged.\<close>

definition collector_round ::
  "(int option \<Rightarrow> string) \<Rightarrow> 'w usage_host \<Rightarrow> 'w os_ops \<Rightarrow> Collector \<Rightarrow> 'w \<Rightarrow> Collector \<times> 'w" where
  "collector_round time_text host os c w =
     (case collector_Collect host c w of (c1, w1) \<Rightarrow> (c1, snd (collector_Save time_text os c1 w1)))"

definition collector_Run ::
  "(int option \<Rightarrow> string) \<Rightarrow> 'w usage_host \<Rightarrow> 'w os_ops \<Rightarrow> nat \<Rightarrow> Collector \<Rightarrow> 'w \<Rightarrow> Collector \<times> 'w" where
  "collector_Run time_text host os ticks c w =
     ((\<lambda>(c, w). collector_round time_text host os c w) ^^ Suc ticks) (c, w)"

end
