(* ===== verification/Json_Fields.thy ===== *)
theory Json_Fields
  imports Storage
begin

text \<open>
  How \<open>encoding/json\<close> reads back an object it has written: lemmas shared by the round trips of the storage
  file and of the usage file. A written object has distinct names in the lower-case spelling of the struct tags,
  so every field finds exactly its own entry.
\<close>

section \<open>Names\<close>

definition tag_name :: "string \<Rightarrow> bool" where
  "tag_name n = list_all (\<lambda>c. (of_char c :: nat) < 128 \<and> \<not> (65 \<le> (of_char c :: nat) \<and> (of_char c :: nat) \<le> 90)) n"

lemma fold_name_step:
  assumes "a \<noteq> CHR 0xC5" "a \<noteq> CHR 0xE2"
  shows "fold_name (a # s) = lower_char a # fold_name s"
proof (cases s)
  case (Cons b t)
  with assms show ?thesis by (cases t) simp_all
qed (simp add: assms)

lemma fold_tag_name: "tag_name n \<Longrightarrow> fold_name n = n"
proof (induction n)
  case (Cons a s)
  then have "a \<noteq> CHR 0xC5" "a \<noteq> CHR 0xE2" "lower_char a = a" "tag_name s"
    by (auto simp: tag_name_def lower_char_def Let_def simp del: of_char_eq_iff)
  with Cons.IH show ?case by (simp add: fold_name_step del: fold_name.simps)
qed simp

text \<open>The entry of a field, the last one of its name.\<close>

definition tagged :: "(string \<times> json) list \<Rightarrow> bool" where
  "tagged kvs = (distinct (map fst kvs) \<and> list_all (\<lambda>kv. tag_name (fst kv)) kvs)"

lemma dec_field_absent: "list_all (\<lambda>kv. tag_name (fst kv)) kvs \<Longrightarrow> tag_name name \<Longrightarrow> name \<notin> fst ` set kvs \<Longrightarrow>
    dec_field step name kvs acc = Inr acc"
  by (induction kvs) (auto simp: EqualFold_def fold_tag_name)

lemma dec_field_tagged:
  assumes "tagged kvs" "tag_name name"
  shows "dec_field step name kvs acc = (case map_of kvs name of None \<Rightarrow> Inr acc | Some v \<Rightarrow> step v acc)"
  using assms
proof (induction kvs)
  case (Cons kv kvs)
  obtain k v where kv: "kv = (k, v)" by (cases kv)
  show ?case
  proof (cases "k = name")
    case True
    with Cons.prems kv have "dec_field step name kvs = Inr" by (intro ext dec_field_absent) (auto simp: tagged_def image_iff)
    with True kv show ?thesis by (cases "step v acc") (simp_all add: EqualFold_def)
  next
    case False
    with Cons kv show ?thesis by (simp add: tagged_def EqualFold_def fold_tag_name)
  qed
qed simp

section \<open>Tables\<close>

lemma map_of_obj_fields: "distinct (map fst t) \<Longrightarrow> map_of (obj_fields t) k = Option.bind (map_of t k) id"
proof (induction t)
  case (Cons e t)
  obtain n v where e: "e = (n, v)" by (cases e)
  have "map_of t n = None" using Cons.prems e by (simp add: map_of_eq_None_iff)
  with Cons e show ?case by (cases v) (auto simp: obj_fields_def map_filter_simps)
qed (simp add: obj_fields_def map_filter_simps)

lemma obj_fields_names: "set (map fst (obj_fields t)) \<subseteq> set (map fst t)"
  by (auto simp: obj_fields_def set_map_filter_iff image_iff split: prod.splits) force

lemma tagged_obj_fields:
  assumes "distinct (map fst t)" "list_all tag_name (map fst t)"
  shows "tagged (obj_fields t)"
proof -
  have "distinct (map fst (obj_fields t))" using assms(1)
  proof (induction t)
    case (Cons e t)
    then have "distinct (map fst (obj_fields t))" "fst e \<notin> set (map fst (obj_fields t))"
      using obj_fields_names [of t] by auto
    moreover have "obj_fields (e # t) = (case snd e of None \<Rightarrow> obj_fields t | Some v \<Rightarrow> (fst e, v) # obj_fields t)"
      by (cases e) (simp add: obj_fields_def map_filter_simps split: option.splits)
    ultimately show ?case by (simp split: option.splits)
  qed (simp add: obj_fields_def map_filter_simps)
  moreover have "list_all (\<lambda>kv. tag_name (fst kv)) (obj_fields t)"
    using assms(2) obj_fields_names [of t] by (force simp: list_all_iff)
  ultimately show ?thesis by (simp add: tagged_def)
qed

lemma dec_field_table:
  assumes "distinct (map fst t)" "list_all tag_name (map fst t)" "tag_name name"
  shows "dec_field step name (obj_fields t) acc =
    (case Option.bind (map_of t name) id of None \<Rightarrow> Inr acc | Some v \<Rightarrow> step v acc)"
  by (simp add: dec_field_tagged tagged_obj_fields map_of_obj_fields assms)

section \<open>Numbers and maps\<close>

lemma parse_int64_dec:
  assumes "- (2 ^ 63) \<le> n" "n < 2 ^ 63"
  shows "parse_int64 (dec_int n) = Some n"
proof (cases "n < 0")
  case True
  with assms show ?thesis by (simp add: parse_int64_def dec_int_def Let_def)
next
  case False
  have "hd (dec_nat (nat n)) \<in> set (dec_nat (nat n))" by simp
  then have "is_digit (hd (dec_nat (nat n)))" using all_digits_dec_nat [of "nat n"] by (auto simp: all_digits_def list_all_iff)
  then have "hd (dec_nat (nat n)) \<noteq> CHR ''-''" "hd (dec_nat (nat n)) \<noteq> CHR ''+''" by (auto simp: is_digit_def)
  with assms False show ?thesis by (simp add: parse_int64_def dec_int_def Let_def)
qed

lemma dec_num_int: "- (2 ^ 63) \<le> n \<Longrightarrow> n < 2 ^ 63 \<Longrightarrow> dec_num (JNum (dec_int n)) acc = Inr n"
  by (simp add: dec_num_def parse_int64_dec)

lemma dec_num_counter: "0 \<le> n \<Longrightarrow> n < 2 ^ 63 \<Longrightarrow> dec_num (JNum (dec_int n)) acc = Inr n"
  by (rule dec_num_int) simp_all

lemma update_fresh: "k \<notin> fst ` set m \<Longrightarrow> AList.update k v m = m @ [(k, v)]"
  by (induction m) auto

lemma dec_entries_inverse:
  assumes "\<forall>(k, x) \<in> set m. dec (enc x) = Inr (f x)" "distinct (map fst acc @ map fst m)"
  shows "dec_entries dec (map (\<lambda>(k, x). (k, enc x)) m) acc = Inr (acc @ map (\<lambda>(k, x). (k, f x)) m)"
  using assms
proof (induction m arbitrary: acc)
  case (Cons e m)
  obtain k x where e: "e = (k, x)" by (cases e)
  have "AList.update k (f x) acc = acc @ [(k, f x)]" using Cons.prems e by (intro update_fresh) auto
  with Cons.prems e Cons.IH [of "acc @ [(k, f x)]"] show ?case by simp
qed simp

end
