(* ===== verification/Usage_Properties.thy ===== *)
theory Usage_Properties
  imports Usage Json_Fields Deployment
begin

text \<open>
  What the traffic totals mean. A peer's history is a sequence of traffic, restarts of its kernel counters and
  readings by the collector; the lemmas compare the totals with the traffic that really flowed. The other
  properties are about the required snapshot and the usage file.
\<close>

section \<open>Counters\<close>

lemma int64_id: "- (2 ^ 63) \<le> n \<Longrightarrow> n < 2 ^ 63 \<Longrightarrow> int64 n = n"
  by (simp add: int64_def)

datatype traffic = Flow nat nat | Restart | Reading

text \<open>
  The kernel counters, the traffic that flowed in all, whether the counters restarted since the last reading, and
  what the collector holds for the peer.
\<close>

record meter =
  mt_rx :: int
  mt_tx :: int
  mt_true_rx :: int
  mt_true_tx :: int
  mt_restarted :: bool
  mt_stats :: "PeerStats option"

definition new_meter :: meter where
  "new_meter = \<lparr>mt_rx = 0, mt_tx = 0, mt_true_rx = 0, mt_true_tx = 0, mt_restarted = False, mt_stats = None\<rparr>"

definition meter_dump :: "string \<Rightarrow> meter \<Rightarrow> PeerDump" where
  "meter_dump k m = \<lparr>dumpPublicKey = k, TransferRx = mt_rx m, TransferTx = mt_tx m, LastHandshake = None\<rparr>"

fun meter_step :: "string \<Rightarrow> traffic \<Rightarrow> meter \<Rightarrow> meter" where
  "meter_step k (Flow rx tx) m = m\<lparr>mt_rx := mt_rx m + int rx, mt_tx := mt_tx m + int tx,
     mt_true_rx := mt_true_rx m + int rx, mt_true_tx := mt_true_tx m + int tx\<rparr>"
| "meter_step k Restart m = m\<lparr>mt_rx := 0, mt_tx := 0, mt_restarted := True\<rparr>"
| "meter_step k Reading m =
     m\<lparr>mt_restarted := False, mt_stats := map_of (account_peer (meter_dump k m)
        (case mt_stats m of None \<Rightarrow> [] | Some s \<Rightarrow> [(k, s)])) k\<rparr>"

definition metered :: "string \<Rightarrow> traffic list \<Rightarrow> meter" where
  "metered k es = fold (meter_step k) es new_meter"

lemma metered_simps [simp]: "metered k [] = new_meter" "metered k (es @ [e]) = meter_step k e (metered k es)"
  by (simp_all add: metered_def)

definition reading_of :: "(PeerStats \<Rightarrow> int) \<Rightarrow> meter \<Rightarrow> int" where
  "reading_of f m = (case mt_stats m of None \<Rightarrow> 0 | Some s \<Rightarrow> f s)"

text \<open>What the next reading adds to a total.\<close>

definition growth :: "int \<Rightarrow> int \<Rightarrow> int" where
  "growth raw lastRaw = (if raw < lastRaw then raw else raw - lastRaw)"

lemma reading_simps [simp]:
  "mt_rx (meter_step k Reading m) = mt_rx m" "mt_tx (meter_step k Reading m) = mt_tx m"
  "mt_true_rx (meter_step k Reading m) = mt_true_rx m" "mt_true_tx (meter_step k Reading m) = mt_true_tx m"
  "mt_restarted (meter_step k Reading m) = False"
  by simp_all

lemma reading_stats:
  "mt_stats (meter_step k Reading m) = Some (account_stats (meter_dump k m) (mt_stats m))"
  by (simp add: account_peer_def split: option.splits) (simp add: meter_dump_def)

lemma reading_other [simp]:
  "reading_of f (m\<lparr>mt_rx := a\<rparr>) = reading_of f m" "reading_of f (m\<lparr>mt_tx := a\<rparr>) = reading_of f m"
  "reading_of f (m\<lparr>mt_true_rx := a\<rparr>) = reading_of f m" "reading_of f (m\<lparr>mt_true_tx := a\<rparr>) = reading_of f m"
  "reading_of f (m\<lparr>mt_restarted := b\<rparr>) = reading_of f m"
  by (simp_all add: reading_of_def)

lemma reading_last [simp]:
  "reading_of LastRawRx (meter_step k Reading m) = mt_rx m" "reading_of LastRawTx (meter_step k Reading m) = mt_tx m"
  unfolding reading_of_def reading_stats
  by (simp_all add: account_stats_def seen_handshake_def meter_dump_def split: option.splits)

lemma counter_delta_growth:
  "0 \<le> raw \<Longrightarrow> raw < 2 ^ 63 \<Longrightarrow> 0 \<le> lastRaw \<Longrightarrow> counter_delta raw lastRaw = growth raw lastRaw"
  by (auto simp: counter_delta_def growth_def int64_id)

lemma reading_total:
  assumes "0 \<le> mt_rx m" "mt_rx m < 2 ^ 63" "0 \<le> reading_of LastRawRx m" "0 \<le> reading_of TotalRx m"
    "reading_of TotalRx m + growth (mt_rx m) (reading_of LastRawRx m) < 2 ^ 63"
  shows "reading_of TotalRx (meter_step k Reading m) = reading_of TotalRx m + growth (mt_rx m) (reading_of LastRawRx m)"
proof -
  have "0 \<le> growth (mt_rx m) (reading_of LastRawRx m)" using assms by (auto simp: growth_def)
  with assms show ?thesis unfolding reading_of_def reading_stats
    by (cases "mt_stats m")
       (simp_all add: account_stats_def seen_handshake_def meter_dump_def counter_delta_growth int64_id growth_def [of _ 0])
qed

lemma reading_total_tx:
  assumes "0 \<le> mt_tx m" "mt_tx m < 2 ^ 63" "0 \<le> reading_of LastRawTx m" "0 \<le> reading_of TotalTx m"
    "reading_of TotalTx m + growth (mt_tx m) (reading_of LastRawTx m) < 2 ^ 63"
  shows "reading_of TotalTx (meter_step k Reading m) = reading_of TotalTx m + growth (mt_tx m) (reading_of LastRawTx m)"
proof -
  have "0 \<le> growth (mt_tx m) (reading_of LastRawTx m)" using assms by (auto simp: growth_def)
  with assms show ?thesis unfolding reading_of_def reading_stats
    by (cases "mt_stats m")
       (simp_all add: account_stats_def seen_handshake_def meter_dump_def counter_delta_growth int64_id growth_def [of _ 0])
qed

text \<open>One direction: kernel counter, true traffic, total and last reading.\<close>

definition bounded_dir :: "int \<Rightarrow> int \<Rightarrow> int \<Rightarrow> int \<Rightarrow> bool" where
  "bounded_dir raw traffic all lastRaw \<longleftrightarrow>
     0 \<le> raw \<and> 0 \<le> lastRaw \<and> 0 \<le> all \<and> raw \<le> traffic \<and> all + growth raw lastRaw \<le> traffic"

lemma bounded_flow: "bounded_dir raw traffic all lastRaw \<Longrightarrow> bounded_dir (raw + int n) (traffic + int n) all lastRaw"
  by (auto simp: bounded_dir_def growth_def split: if_splits)

lemma bounded_restart: "bounded_dir raw traffic all lastRaw \<Longrightarrow> bounded_dir 0 traffic all lastRaw"
  by (auto simp: bounded_dir_def growth_def split: if_splits)

lemma bounded_reading: "bounded_dir raw traffic all lastRaw \<Longrightarrow> bounded_dir raw traffic (all + growth raw lastRaw) raw"
  by (auto simp: bounded_dir_def growth_def split: if_splits)

lemma bounded_total: "bounded_dir raw traffic all lastRaw \<Longrightarrow> all \<le> traffic"
  by (auto simp: bounded_dir_def growth_def split: if_splits)

abbreviation bounded_meter :: "meter \<Rightarrow> bool" where
  "bounded_meter m \<equiv> bounded_dir (mt_rx m) (mt_true_rx m) (reading_of TotalRx m) (reading_of LastRawRx m)
     \<and> bounded_dir (mt_tx m) (mt_true_tx m) (reading_of TotalTx m) (reading_of LastRawTx m)"

lemma bounded_step:
  assumes "bounded_meter m" "mt_true_rx (meter_step k e m) < 2 ^ 63" "mt_true_tx (meter_step k e m) < 2 ^ 63"
  shows "bounded_meter (meter_step k e m)"
proof (cases e)
  case (Flow a b)
  with assms(1) show ?thesis by (simp add: bounded_flow)
next
  case Restart
  with assms(1) show ?thesis by (auto intro: bounded_restart)
next
  case Reading
  have "reading_of TotalRx (meter_step k Reading m) = reading_of TotalRx m + growth (mt_rx m) (reading_of LastRawRx m)"
    "reading_of TotalTx (meter_step k Reading m) = reading_of TotalTx m + growth (mt_tx m) (reading_of LastRawTx m)"
    using assms unfolding Reading reading_simps bounded_dir_def
    by (intro reading_total; linarith) (intro reading_total_tx; use assms in \<open>simp add: Reading bounded_dir_def\<close>)
  with assms(1) show ?thesis unfolding Reading by (simp only: reading_simps reading_last bounded_reading simp_thms)
qed

text \<open>True traffic only grows, so a bound at the end is a bound all along.\<close>

lemma true_mono: "mt_true_rx m \<le> mt_true_rx (meter_step k e m)" "mt_true_tx m \<le> mt_true_tx (meter_step k e m)"
  by (cases e; simp)+

lemma metered_bounded:
  assumes "mt_true_rx (metered k es) < 2 ^ 63" "mt_true_tx (metered k es) < 2 ^ 63"
  shows "bounded_meter (metered k es)"
  using assms
proof (induction es rule: rev_induct)
  case Nil
  then show ?case by (simp add: new_meter_def reading_of_def bounded_dir_def growth_def)
next
  case (snoc e es)
  have "mt_true_rx (metered k es) < 2 ^ 63" "mt_true_tx (metered k es) < 2 ^ 63"
    using snoc.prems true_mono [of "metered k es" k e] by simp_all
  with snoc show ?case unfolding metered_simps by (intro bounded_step) simp_all
qed

section \<open>Histories without loss\<close>

text \<open>
  A restart loses nothing when a reading comes directly before it, which the required snapshot of a migration
  ensures; and the next reading must see a counter below the old one.
\<close>

fun safe_event :: "traffic \<Rightarrow> meter \<Rightarrow> bool" where
  "safe_event (Flow a b) m = True"
| "safe_event Restart m =
     (\<not> mt_restarted m \<and> mt_rx m = reading_of LastRawRx m \<and> mt_tx m = reading_of LastRawTx m)"
| "safe_event Reading m =
     (mt_restarted m \<longrightarrow> (mt_rx m < reading_of LastRawRx m \<or> reading_of LastRawRx m = 0)
        \<and> (mt_tx m < reading_of LastRawTx m \<or> reading_of LastRawTx m = 0))"

fun lossless :: "string \<Rightarrow> traffic list \<Rightarrow> meter \<Rightarrow> bool" where
  "lossless k [] m = True"
| "lossless k (e # es) m = (safe_event e m \<and> lossless k es (meter_step k e m))"

lemma lossless_snoc: "lossless k (es @ [e]) m \<longleftrightarrow> lossless k es m \<and> safe_event e (fold (meter_step k) es m)"
  by (induction es arbitrary: m) auto

definition exact_dir :: "bool \<Rightarrow> int \<Rightarrow> int \<Rightarrow> int \<Rightarrow> int \<Rightarrow> bool" where
  "exact_dir restarted raw traffic all lastRaw \<longleftrightarrow>
     (if restarted then traffic = all + raw else lastRaw \<le> raw \<and> traffic = all + (raw - lastRaw))"

abbreviation exact_meter :: "meter \<Rightarrow> bool" where
  "exact_meter m \<equiv> exact_dir (mt_restarted m) (mt_rx m) (mt_true_rx m) (reading_of TotalRx m) (reading_of LastRawRx m)
     \<and> exact_dir (mt_restarted m) (mt_tx m) (mt_true_tx m) (reading_of TotalTx m) (reading_of LastRawTx m)"

lemma exact_step:
  assumes "exact_meter m" "bounded_meter m" "safe_event e m"
    "mt_true_rx (meter_step k e m) < 2 ^ 63" "mt_true_tx (meter_step k e m) < 2 ^ 63"
  shows "exact_meter (meter_step k e m)"
proof (cases e)
  case Reading
  have "reading_of TotalRx (meter_step k Reading m) = reading_of TotalRx m + growth (mt_rx m) (reading_of LastRawRx m)"
    "reading_of TotalTx (meter_step k Reading m) = reading_of TotalTx m + growth (mt_tx m) (reading_of LastRawTx m)"
    using assms unfolding Reading reading_simps bounded_dir_def
    by (intro reading_total; linarith) (intro reading_total_tx; use assms in \<open>simp add: Reading bounded_dir_def\<close>)
  moreover have "exact_dir False raw traffic (all + growth raw lastRaw) raw"
    if "exact_dir b raw traffic all lastRaw" "b \<longrightarrow> raw < lastRaw \<or> lastRaw = 0" for b raw traffic all lastRaw
    using that by (auto simp: exact_dir_def growth_def split: if_splits)
  ultimately show ?thesis using assms(1,3) unfolding Reading
    by (simp only: reading_simps reading_last safe_event.simps simp_thms) blast
qed (use assms in \<open>auto simp: exact_dir_def split: if_splits\<close>)

lemma metered_exact:
  assumes "mt_true_rx (metered k es) < 2 ^ 63" "mt_true_tx (metered k es) < 2 ^ 63" "lossless k es new_meter"
  shows "exact_meter (metered k es)"
  using assms
proof (induction es rule: rev_induct)
  case Nil
  then show ?case by (simp add: new_meter_def reading_of_def exact_dir_def)
next
  case (snoc e es)
  have b: "mt_true_rx (metered k es) < 2 ^ 63" "mt_true_tx (metered k es) < 2 ^ 63"
    using snoc.prems true_mono [of "metered k es" k e] by simp_all
  have "lossless k es new_meter" "safe_event e (metered k es)"
    using snoc.prems(3) by (simp_all add: lossless_snoc metered_def)
  with b snoc metered_bounded [OF b] show ?case unfolding metered_simps by (intro exact_step) simp_all
qed

section \<open>Properties\<close>

text \<open>C34. Traffic totals. Over any history of a peer in which less than 2 ^ 63 bytes flow, the totals never exceed
  the traffic that really flowed; and they are exact at every reading of a history in which each restart of the
  counters comes directly after a reading, as the required snapshot of a migration makes it, and the first
  reading after a restart sees counters below the old ones.\<close>

theorem usage_totals:
  assumes "mt_true_rx (metered k es) < 2 ^ 63" "mt_true_tx (metered k es) < 2 ^ 63"
  shows "reading_of TotalRx (metered k es) \<le> mt_true_rx (metered k es)
    \<and> reading_of TotalTx (metered k es) \<le> mt_true_tx (metered k es)
    \<and> (lossless k (es @ [Reading]) new_meter \<longrightarrow>
         reading_of TotalRx (metered k (es @ [Reading])) = mt_true_rx (metered k es)
         \<and> reading_of TotalTx (metered k (es @ [Reading])) = mt_true_tx (metered k es))"
proof -
  have "reading_of TotalRx (metered k es) \<le> mt_true_rx (metered k es)"
    "reading_of TotalTx (metered k es) \<le> mt_true_tx (metered k es)"
    using metered_bounded [OF assms] by (auto intro: bounded_total)
  moreover have "exact_meter (metered k (es @ [Reading]))" if "lossless k (es @ [Reading]) new_meter"
    using that assms by (intro metered_exact) simp_all
  ultimately show ?thesis by (simp add: exact_dir_def del: meter_step.simps)
qed

theorem usage_totals_witness:
  "reading_of TotalRx (metered [] [Flow 100 7, Reading, Restart, Flow 30 2, Reading]) = 130"
  using usage_totals [of "[]" "[Flow 100 7, Reading, Restart, Flow 30 2]"]
  by (simp add: metered_def new_meter_def reading_of_def account_peer_def account_stats_def seen_handshake_def
      meter_dump_def counter_delta_def int64_def)



section \<open>The required snapshot\<close>

definition dumped :: "'w usage_host \<Rightarrow> string list \<Rightarrow> 'w \<Rightarrow> PeerDump list" where
  "dumped host names w = concat (map (\<lambda>i. projr (fst (us_dump host i w))) names)"

definition complete_dump :: "'w usage_host \<Rightarrow> string \<Rightarrow> 'w \<Rightarrow> bool" where
  "complete_dump host i w = (case fst (us_dump host i w) of Inl _ \<Rightarrow> False | Inr ps \<Rightarrow> ps \<noteq> [])"

lemma gather_complete:
  assumes "\<forall>i. snd (us_dump host i w) = w" "\<forall>i \<in> set names. complete_dump host i w"
  shows "gather (us_dump host) True names w = (Inr (dumped host names w), w)"
  using assms
proof (induction names)
  case (Cons i names)
  obtain ps where "us_dump host i w = (Inr ps, w)" "ps \<noteq> []"
    using Cons.prems by (cases "us_dump host i w") (auto simp: complete_dump_def dest: spec [of _ i] split: sum.splits)
  with Cons show ?case by (simp add: dumped_def)
qed (simp add: dumped_def)

lemma gather_incomplete:
  assumes "\<forall>i. snd (us_dump host i w) = w" "\<exists>i \<in> set names. \<not> complete_dump host i w"
  shows "\<exists>e. gather (us_dump host) True names w = (Inl e, w)"
  using assms
proof (induction names)
  case (Cons i names)
  obtain r where r: "us_dump host i w = (r, w)" using Cons.prems(1) by (metis prod.collapse)
  show ?case
  proof (cases "complete_dump host i w")
    case True
    then obtain ps where "r = Inr ps" "ps \<noteq> []" using r by (auto simp: complete_dump_def split: sum.splits)
    with True Cons r show ?thesis by auto
  next
    case False
    then show ?thesis using r by (auto simp: complete_dump_def split: sum.splits)
  qed
qed simp

lemma account_peer_map:
  "map_of (account_peer p m) k = (if k = dumpPublicKey p then Some (account_stats p (map_of m k)) else map_of m k)"
  by (simp add: account_peer_def)

lemma fold_account_other:
  "k \<notin> dumpPublicKey ` set ps \<Longrightarrow> map_of (fold account_peer ps m) k = map_of m k"
  by (induction ps arbitrary: m) (auto simp: account_peer_map)

lemma fold_account:
  "distinct (map dumpPublicKey ps) \<Longrightarrow> p \<in> set ps \<Longrightarrow>
     map_of (fold account_peer ps m) (dumpPublicKey p) = Some (account_stats p (map_of m (dumpPublicKey p)))"
proof (induction ps arbitrary: m)
  case (Cons q ps)
  show ?case
  proof (cases "p = q")
    case True
    with Cons.prems show ?thesis by (simp add: fold_account_other account_peer_map)
  next
    case False
    with Cons.prems have "dumpPublicKey p \<noteq> dumpPublicKey q" "p \<in> set ps" by (auto simp: image_iff)
    with Cons show ?thesis by (simp add: account_peer_map)
  qed
qed simp

lemma account_stats_last [simp]:
  "LastRawRx (account_stats p old) = TransferRx p" "LastRawTx (account_stats p old) = TransferTx p"
  by (simp_all add: account_stats_def seen_handshake_def split: option.splits)

text \<open>C35. The required snapshot, when dumping only reads: if every interface returns a nonempty dump, the action
  runs on a collector whose last readings are the counters of every dumped peer and whose other peers are as they
  were; otherwise the action does not run, and neither the caller's state, nor the collector, nor the host
  changes.\<close>

theorem WithRequiredSnapshot_exact:
  assumes "\<forall>i. snd (us_dump host i w) = w" "distinct (map dumpPublicKey (dumped host (us_ifaces host w) w))"
  shows "if list_all (\<lambda>i. complete_dump host i w) (us_ifaces host w)
    then \<exists>c'. WithRequiredSnapshot host perform s (c, w) = perform s (c', w)
      \<and> (\<forall>p \<in> set (dumped host (us_ifaces host w) w). GetStats c' (dumpPublicKey p)
           = (account_stats p (map_of (col_stats c) (dumpPublicKey p)), True)
           \<and> LastRawRx (fst (GetStats c' (dumpPublicKey p))) = TransferRx p
           \<and> LastRawTx (fst (GetStats c' (dumpPublicKey p))) = TransferTx p)
      \<and> (\<forall>k. k \<notin> dumpPublicKey ` set (dumped host (us_ifaces host w) w) \<longrightarrow> GetStats c' k = GetStats c k)
    else WithRequiredSnapshot host perform s (c, w) = (Some (Sentinel ErrSnapshotFailed), s, c, w)"
proof (cases "\<forall>i \<in> set (us_ifaces host w). complete_dump host i w")
  case True
  let ?c = "c\<lparr>col_stats := fold account_peer (dumped host (us_ifaces host w) w) (col_stats c)\<rparr>"
  have "WithRequiredSnapshot host perform s (c, w) = perform s (?c, w)"
    by (simp add: WithRequiredSnapshot_def collect_def gather_complete [OF assms(1) True])
  then show ?thesis using True assms(2)
    by (auto simp: list_all_iff GetStats_def fold_account fold_account_other intro!: exI [of _ ?c])
next
  case False
  then obtain e where "gather (us_dump host) True (us_ifaces host w) w = (Inl e, w)"
    using gather_incomplete [OF assms(1)] by blast
  with False show ?thesis by (auto simp: WithRequiredSnapshot_def collect_def list_all_iff)
qed

theorem WithRequiredSnapshot_exact_witness:
  "\<exists>c'. WithRequiredSnapshot \<lparr>us_ifaces = \<lambda>_. [''awg0''],
        us_dump = \<lambda>i w. (Inr [\<lparr>dumpPublicKey = ''k'', TransferRx = w, TransferTx = 2, LastHandshake = None\<rparr>], w)\<rparr>
      (\<lambda>s (c, w). (None, s + 1, c, w)) (0::int) (\<lparr>col_filePath = [], col_stats = []\<rparr>, 5) = (None, 1, c', 5)
    \<and> LastRawRx (fst (GetStats c' ''k'')) = 5"
proof -
  let ?host = "\<lparr>us_ifaces = \<lambda>_. [''awg0''],
    us_dump = \<lambda>i w. (Inr [\<lparr>dumpPublicKey = ''k'', TransferRx = w, TransferTx = 2, LastHandshake = None\<rparr>], w)\<rparr>"
  show ?thesis
    using WithRequiredSnapshot_exact [of ?host "5" "\<lambda>s (c, w). (None, s + (1::int), c, w)" 0 "\<lparr>col_filePath = [], col_stats = []\<rparr>"]
    by (fastforce simp: dumped_def complete_dump_def)
qed

section \<open>The file\<close>

definition counters_ok :: "PeerStats \<Rightarrow> bool" where
  "counters_ok s = (\<not> negative_stats s
     \<and> TotalRx s < 2 ^ 63 \<and> TotalTx s < 2 ^ 63 \<and> LastRawRx s < 2 ^ 63 \<and> LastRawTx s < 2 ^ 63)"

lemma decode_peer_stats_json:
  assumes "counters_ok s" "parse_time (time_text (stats_LastHandshake s)) = Some (stats_LastHandshake s)"
  shows "dec_stats_ptr parse_time (peer_stats_json time_text s) = Inr (Some s)"
proof -
  let ?kvs = "[(''total_rx'', JNum (dec_int (TotalRx s))), (''total_tx'', JNum (dec_int (TotalTx s))),
      (''last_raw_rx'', JNum (dec_int (LastRawRx s))), (''last_raw_tx'', JNum (dec_int (LastRawTx s))),
      (''last_handshake'', JStr (time_text (stats_LastHandshake s)))]"
  have num: "dec_num (JNum (dec_int (f s))) 0 = Inr (f s)" if "f \<in> {TotalRx, TotalTx, LastRawRx, LastRawTx}" for f
    using that assms(1) by (intro dec_num_counter) (auto simp: counters_ok_def negative_stats_def)
  have "dec_field dec_num ''total_rx'' ?kvs 0 = Inr (TotalRx s)" "dec_field dec_num ''total_tx'' ?kvs 0 = Inr (TotalTx s)"
    "dec_field dec_num ''last_raw_rx'' ?kvs 0 = Inr (LastRawRx s)" "dec_field dec_num ''last_raw_tx'' ?kvs 0 = Inr (LastRawTx s)"
    "dec_field (dec_time parse_time) ''last_handshake'' ?kvs None = Inr (stats_LastHandshake s)"
    by (subst dec_field_tagged; simp add: tagged_def tag_name_def num dec_time_def assms(2))+
  then show ?thesis
    by (simp only: dec_stats_ptr_def dec_ptr_def peer_stats_json_def decode_peer_stats_def dec_struct_def Let_def
        json.case res_bind_simps map_sum.simps id_apply PeerStats.surjective [symmetric]) simp
qed

text \<open>C36. The usage file. After a successful save, a fresh collector that loads the file has exactly the saved
  statistics; after a failed one the file is what it was.\<close>

theorem usage_file_roundtrip:
  assumes "collector_Save time_text disk_ops c d = (r, d')" "gm_wf (col_stats c)"
    "\<forall>(k, s) \<in> set (col_stats c). counters_ok s
       \<and> parse_time (time_text (stats_LastHandshake s)) = Some (stats_LastHandshake s)"
  shows "if r = None
    then collector_load parse_time disk_ops \<lparr>col_filePath = col_filePath c, col_stats = []\<rparr> d' = (None, c)
    else disk_ReadFile (col_filePath c) d' = disk_ReadFile (col_filePath c) d"
proof -
  let ?tmp = "col_filePath c @ ''.tmp''" and ?v = "stats_json time_text (col_stats c)"
  obtain e1 d1 where wr: "disk_WriteFile ?tmp ?v d = (e1, d1)" by fastforce
  obtain e2 d2 where rn: "disk_Rename ?tmp (col_filePath c) d1 = (e2, d2)" by fastforce
  note run = assms(1) [unfolded collector_Save_def disk_ops_def os_ops.simps Let_def wr rn prod.case]
  have tmp: "col_filePath c \<noteq> ?tmp" by simp
  show ?thesis
  proof (cases "r = None")
    case True
    with run have "e1 = None" "e2 = None" "d' = d2" by (auto simp: wr rn split: option.splits)
    with wr rn have saved: "dk_files d' (col_filePath c) = Some (Some ?v)"
      using disk_write_rename [of ?tmp ?v d d1 "col_filePath c" d2] by simp
    have "\<forall>(k, s) \<in> set (col_stats c). dec_stats_ptr parse_time (peer_stats_json time_text s) = Inr (Some s)"
      using assms(3) by (auto simp: decode_peer_stats_json)
    then have "dec_map (dec_stats_ptr parse_time) ?v None = Inr (Some (map (\<lambda>(k, s). (k, Some s)) (col_stats c)))"
      using dec_entries_inverse [of "col_stats c" "dec_stats_ptr parse_time" "peer_stats_json time_text" Some "[]"] assms(2)
      by (simp add: dec_map_def stats_json_def)
    moreover have "first_err (map stats_entry_check (map (\<lambda>(k, s). (k, Some s)) (col_stats c))) = None"
      using assms(3) by (auto simp: first_err_None_iff stats_entry_check_def fail_if_def counters_ok_def)
    ultimately show ?thesis using True saved
      by (simp add: collector_load_def disk_ops_def disk_ReadFile_def case_prod_beta' comp_def)
  next
    case False
    with run have "dk_files d' (col_filePath c) = dk_files d (col_filePath c)"
      using disk_frame(2) [OF wr tmp] disk_frame(3) [of ?tmp "col_filePath c" d1 _ d2] rn
      by (auto simp: wr rn split: option.splits)
    with False show ?thesis by (simp only: disk_ReadFile_def if_False)
  qed
qed

definition sample_collector :: Collector where
  "sample_collector = \<lparr>col_filePath = ''/data/usage.json'',
     col_stats = [(''k'', \<lparr>TotalRx = 5, TotalTx = 7, LastRawRx = 1, LastRawTx = 2, stats_LastHandshake = None\<rparr>)]\<rparr>"

theorem usage_file_roundtrip_witness:
  "collector_load (\<lambda>_. Some None) disk_ops \<lparr>col_filePath = ''/data/usage.json'', col_stats = []\<rparr>
     (snd (collector_Save (\<lambda>_. ''0'') disk_ops sample_collector \<lparr>dk_files = Map.empty, dk_faults = []\<rparr>)) = (None, sample_collector)"
proof -
  let ?run = "collector_Save (\<lambda>_. ''0'') disk_ops sample_collector \<lparr>dk_files = Map.empty, dk_faults = []\<rparr>"
  have "fst ?run = None"
    by (simp add: collector_Save_def disk_ops_def Let_def disk_WriteFile_def disk_Rename_def next_fault_def)
  then have run: "?run = (None, snd ?run)" by (cases ?run) simp
  show ?thesis
    using usage_file_roundtrip [OF run, of "\<lambda>_. Some None"] by (simp add: sample_collector_def counters_ok_def negative_stats_def)
qed

end
