(* ===== verification/Api.thy ===== *)
theory Api
  imports Deployment Usage
begin

text \<open>
  The HTTP interface of \<^verbatim>\<open>src/internal/api\<close>: routes, authorisation, request decoding, handlers and the mapping
  of errors to status codes, over the manager on the live pool and storage and over the usage collector.

  A request has its method, the unescaped segments of its path, its query and body as text, and the value of its
  Authorization header. How \<open>json.Decoder\<close> cuts a text into values is the parameter \<open>se_stream\<close>: the values it
  reads one after the other, and whether the text then ends cleanly. A handler is one step: the model has no
  requests that interleave. Not modelled: timeouts, headers of responses, the missing body of a response to HEAD.
\<close>

section \<open>The server\<close>

record 'h server_world = "'h world" +
  sw_collector :: Collector

type_synonym 'h server_manager = "'h server_world Manager"

record 'h server_env =
  se_crypto :: crypto
  se_run :: "'h run"
  se_config :: Config
  se_stream :: "string \<Rightarrow> json list \<times> bool"
  se_rfc3339 :: "int \<Rightarrow> string"

record http_request =
  rq_Method :: string
  rq_Path :: "string list"
  rq_RawQuery :: string
  rq_Authorization :: string
  rq_Body :: string

datatype http_body = JsonBody json | TextBody string | EmptyBody

record http_response =
  rs_Status :: nat
  rs_Body :: http_body

type_synonym 'h served = "http_response \<times> 'h server_manager \<times> 'h server_world"

definition json_ok :: "json \<Rightarrow> http_response" where
  "json_ok v = \<lparr>rs_Status = 200, rs_Body = JsonBody v\<rparr>"

definition jsonError :: "string \<Rightarrow> nat \<Rightarrow> http_response" where
  "jsonError msg status = \<lparr>rs_Status = status, rs_Body = JsonBody (JObj [(''error'', JStr msg)])\<rparr>"

definition writeError :: "go_error \<Rightarrow> nat \<Rightarrow> http_response" where
  "writeError err status =
     (if status = 500 then jsonError ''internal server error'' status else jsonError (error_text err) status)"

text \<open>The status of the first sentinel that the error matches.\<close>

definition status_of :: "(sentinel \<times> nat) list \<Rightarrow> go_error \<Rightarrow> nat" where
  "status_of table err = (case find (\<lambda>e. errors_is err (fst e)) table of None \<Rightarrow> 500 | Some e \<Rightarrow> snd e)"

definition clientUpdateErrorStatus :: "go_error \<Rightarrow> nat" where
  "clientUpdateErrorStatus = status_of
     [(ErrRollbackFailed, 500), (ErrClientNotFound, 404), (ErrInvalidParams, 400), (ErrInvalidPort, 400),
      (ErrInvalidRouting, 400), (ErrEmptyClientUpdate, 400), (ErrPortInUse, 409), (ErrPortShared, 409),
      (ErrProfilePortConflict, 409), (ErrMaxInterfacesReached, 503)]"

definition createErrorStatus :: "go_error \<Rightarrow> nat" where
  "createErrorStatus = status_of
     [(ErrRollbackFailed, 500), (ErrClientExists, 409), (ErrInvalidParams, 400), (ErrInvalidPort, 400),
      (ErrInvalidRouting, 400), (ErrPortInUse, 409), (ErrProfilePortConflict, 409), (ErrMaxInterfacesReached, 503)]"

definition lanGroupErrorStatus :: "go_error \<Rightarrow> nat" where
  "lanGroupErrorStatus = status_of
     [(ErrEmptyClientIDs, 400), (ErrEmptyLANGroupID, 400), (ErrDuplicateClientID, 400), (ErrClientNotFound, 404)]"

definition lookupErrorStatus :: "go_error \<Rightarrow> nat" where
  "lookupErrorStatus = status_of [(ErrClientNotFound, 404)]"

section \<open>The collector\<close>

text \<open>The dumps of the interfaces of the pool, and the files of the disk, as the collector uses them.\<close>

definition server_usage :: "'h run \<Rightarrow> ('h, 'x) world_scheme usage_host" where
  "server_usage run = \<lparr>us_ifaces = \<lambda>w. InterfaceNames (wd_pool w),
     us_dump = \<lambda>i w. (case ShowDump run i (wd_host w) of (r, h) \<Rightarrow> (r, w\<lparr>wd_host := h\<rparr>))\<rparr>"

definition on_disk :: "disk action \<Rightarrow> ('h, 'x) world_scheme action" where
  "on_disk f w = (case f (wd_disk w) of (e, d) \<Rightarrow> (e, w\<lparr>wd_disk := d\<rparr>))"

definition world_os :: "('h, 'x) world_scheme os_ops" where
  "world_os = \<lparr>os_MkdirAll = \<lambda>p. on_disk (disk_MkdirAll p), os_WriteFile = \<lambda>p v. on_disk (disk_WriteFile p v),
     os_Rename = \<lambda>p q. on_disk (disk_Rename p q), os_ReadFile = \<lambda>p w. disk_ReadFile p (wd_disk w)\<rparr>"

text \<open>A round of \<open>Run\<close>, and the collector as the guard of migrations.\<close>

definition collector_tick :: "'h run \<Rightarrow> (int option \<Rightarrow> string) \<Rightarrow> 'h server_world \<Rightarrow> 'h server_world" where
  "collector_tick run time_text w =
     (case collector_round time_text (server_usage run) world_os (sw_collector w) w of
        (c, w') \<Rightarrow> w'\<lparr>sw_collector := c\<rparr>)"

definition snapshotGuard :: "'h run \<Rightarrow> 'h server_world MigrationGuard" where
  "snapshotGuard run perform m w =
     (case WithRequiredSnapshot (server_usage run)
             (\<lambda>m (c, w). case perform m (w\<lparr>sw_collector := c\<rparr>) of (e, m', w') \<Rightarrow> (e, m', sw_collector w', w'))
             m (sw_collector w, w) of
        (e, m', c, w') \<Rightarrow> (e, m', w'\<lparr>sw_collector := c\<rparr>))"

section \<open>Requests\<close>

record 'a optionalField =
  of_Set :: bool
  of_Value :: "'a option"

abbreviation unset_field :: "'a optionalField" where
  "unset_field \<equiv> \<lparr>of_Set = False, of_Value = None\<rparr>"

definition optional_UnmarshalJSON :: "(json \<Rightarrow> 'a res) \<Rightarrow> json \<Rightarrow> 'a optionalField \<Rightarrow> 'a optionalField res" where
  "optional_UnmarshalJSON decode v f =
     (if v = JNull then Inr \<lparr>of_Set = True, of_Value = None\<rparr>
      else res_bind (decode v) (\<lambda>x. Inr \<lparr>of_Set = True, of_Value = Some x\<rparr>))"

record createClientRequest =
  cr_ID :: string
  cr_ProtocolVersion :: "string optionalField"
  cr_LANGroupID :: string
  cr_AWGParams :: "AWGParams option"
  cr_Routing :: "Routing option"

record updateClientRequest =
  ur_ProtocolVersion :: "string optionalField"
  ur_AWGParams :: "AWGParams optionalField"
  ur_Routing :: "Routing optionalField"

record updateLANGroupRequest =
  lr_ClientIDs :: "string list"
  lr_LANGroupID :: string

definition decode_string :: "json \<Rightarrow> string res" where
  "decode_string v = dec_str v []"

definition decode_create :: "json \<Rightarrow> createClientRequest res" where
  "decode_create = dec_struct (\<lambda>kvs.
     res_bind (dec_field dec_str ''id'' kvs []) (\<lambda>cid.
     res_bind (dec_field (optional_UnmarshalJSON decode_string) ''protocol_version'' kvs unset_field) (\<lambda>ver.
     res_bind (dec_field dec_str ''lan_group_id'' kvs []) (\<lambda>grp.
     res_bind (dec_field (dec_ptr decode_params) ''awg_params'' kvs None) (\<lambda>ps.
     res_bind (dec_field (dec_ptr decode_routing) ''routing'' kvs None) (\<lambda>rt.
       Inr \<lparr>cr_ID = cid, cr_ProtocolVersion = ver, cr_LANGroupID = grp, cr_AWGParams = ps, cr_Routing = rt\<rparr>))))))"

definition decode_update :: "json \<Rightarrow> updateClientRequest res" where
  "decode_update = dec_struct (\<lambda>kvs.
     res_bind (dec_field (optional_UnmarshalJSON decode_string) ''protocol_version'' kvs unset_field) (\<lambda>ver.
     res_bind (dec_field (optional_UnmarshalJSON decode_params) ''awg_params'' kvs unset_field) (\<lambda>ps.
     res_bind (dec_field (optional_UnmarshalJSON decode_routing) ''routing'' kvs unset_field) (\<lambda>rt.
       Inr \<lparr>ur_ProtocolVersion = ver, ur_AWGParams = ps, ur_Routing = rt\<rparr>))))"

definition decode_lan_group :: "json \<Rightarrow> updateLANGroupRequest res" where
  "decode_lan_group = dec_struct (\<lambda>kvs.
     res_bind (dec_field dec_strs ''client_ids'' kvs None) (\<lambda>ids.
     res_bind (dec_field dec_str ''lan_group_id'' kvs []) (\<lambda>grp.
       Inr \<lparr>lr_ClientIDs = slice ids, lr_LANGroupID = grp\<rparr>)))"

text \<open>
  The body goes through \<open>http.MaxBytesReader\<close>, which fails after a mebibyte; the first value must decode into the
  request, and the second call of \<open>Decode\<close> must find the clean end of the body.
\<close>

definition maxRequestBody :: nat where "maxRequestBody = 2 ^ 20"

definition decode_body :: "(string \<Rightarrow> json list \<times> bool) \<Rightarrow> (json \<Rightarrow> 'a res) \<Rightarrow> string \<Rightarrow> 'a option" where
  "decode_body stream decode text =
     (case stream (take maxRequestBody text) of
        ([v], True) \<Rightarrow>
          if length text > maxRequestBody then None
          else (case decode v of Inl _ \<Rightarrow> None | Inr req \<Rightarrow> Some req)
      | _ \<Rightarrow> None)"

definition invalid_body :: http_response where
  "invalid_body = jsonError ''invalid request body'' 400"

definition parseRequestProtocolVersion :: "string optionalField \<Rightarrow> ProtocolVersion res" where
  "parseRequestProtocolVersion field =
     (case of_Value field of
        None \<Rightarrow> Inl (Plain ''protocol_version must be a non-null string'')
      | Some v \<Rightarrow>
          (case ParseProtocolVersion v of
             Inl _ \<Rightarrow> Inl (Plain ''protocol_version must be 2, 2.0, or 3.1'')
           | Inr ver \<Rightarrow> Inr ver))"

section \<open>Queries\<close>

text \<open>\<open>url.QueryUnescape\<close> and \<open>url.ParseQuery\<close>; \<open>None\<close> is an error.\<close>

fun QueryUnescape :: "string \<Rightarrow> string option" where
  "QueryUnescape [] = Some []"
| "QueryUnescape (c # s) =
     (if c = CHR ''%'' then
        (case s of
           a # b # t \<Rightarrow>
             (case (hex_val a, hex_val b) of
                (Some x, Some y) \<Rightarrow> map_option (Cons (char_of (16 * x + y))) (QueryUnescape t)
              | _ \<Rightarrow> None)
         | _ \<Rightarrow> None)
      else map_option (Cons (if c = CHR ''+'' then CHR '' '' else c)) (QueryUnescape s))"

definition query_pair :: "string \<Rightarrow> (string \<times> string) option" where
  "query_pair piece =
     (if CHR '';'' \<in> set piece then None
      else (case (QueryUnescape (takeWhile (\<lambda>c. c \<noteq> CHR ''='') piece),
                  QueryUnescape (drop 1 (dropWhile (\<lambda>c. c \<noteq> CHR ''='') piece))) of
              (Some k, Some v) \<Rightarrow> Some (k, v) | _ \<Rightarrow> None))"

fun add_pairs :: "string list \<Rightarrow> (string, string list) gmap \<Rightarrow> (string, string list) gmap option" where
  "add_pairs [] m = Some m"
| "add_pairs (piece # pieces) m =
     (if piece = [] then add_pairs pieces m
      else (case query_pair piece of
              None \<Rightarrow> None
            | Some (k, v) \<Rightarrow>
                add_pairs pieces (AList.update k ((case map_of m k of None \<Rightarrow> [] | Some vs \<Rightarrow> vs) @ [v]) m)))"

definition ParseQuery :: "string \<Rightarrow> (string, string list) gmap option" where
  "ParseQuery query = add_pairs (split_on (CHR ''&'') query) []"

definition generateProtocolVersion :: "string \<Rightarrow> string \<Rightarrow> ProtocolVersion res" where
  "generateProtocolVersion rawQuery defaultVersion =
     (case ParseQuery rawQuery of
        None \<Rightarrow> Inl (Plain ''invalid URL query'')
      | Some query \<Rightarrow>
          if length query = 0 then ParseProtocolVersion defaultVersion
          else if length query \<noteq> 1 then Inl (Plain ''protocol_version query is invalid'')
          else (case map_of query ''protocol_version'' of
            None \<Rightarrow> Inl (Plain ''protocol_version query is invalid'')
          | Some values \<Rightarrow>
              if length values \<noteq> 1 then Inl (Plain ''protocol_version must appear once'')
              else ParseProtocolVersion (values ! 0)))"

section \<open>Responses\<close>

definition toResponse :: "ClientData \<Rightarrow> json" where
  "toResponse c = JObj (obj_fields
     [(''id'', jstr (cd_ID c)), (''protocol_version'', jstr (cd_ProtocolVersion c)), (''address'', jstr (cd_Address c)),
      (''lan_group_id'', jstr (cd_LANGroupID c)), (''created_at'', jstr (cd_CreatedAt c)),
      (''awg_params'', map_option params_json (cd_AWGParams c)),
      (''routing'', Some (routing_json (EffectiveRouting (cd_Routing c))))])"

definition stats_response :: "(int \<Rightarrow> string) \<Rightarrow> PeerStats \<Rightarrow> json" where
  "stats_response rfc3339 s = JObj (obj_fields
     [(''rx_bytes'', jint (TotalRx s)), (''tx_bytes'', jint (TotalTx s)),
      (''last_handshake'', map_option (\<lambda>t. JStr (rfc3339 t)) (stats_LastHandshake s))])"

section \<open>Handlers\<close>

definition handleHealth :: http_response where
  "handleHealth = json_ok (JObj [(''status'', JStr ''ok'')])"

definition handleCapabilities :: http_response where
  "handleCapabilities = json_ok (JObj [(''awg_protocol_3_1'', JBool True), (''lan_group_isolation'', JBool True)])"

definition handleListClients :: "'w Manager \<Rightarrow> http_response" where
  "handleListClients m = json_ok (JArr (map toResponse (ListClients m)))"

definition handleGenerateAWGParams :: "'h server_env \<Rightarrow> rand_source \<Rightarrow> http_request \<Rightarrow> http_response" where
  "handleGenerateAWGParams env rnd rq =
     (case generateProtocolVersion (rq_RawQuery rq) (cfg_DefaultProtocolVersion (se_config env)) of
        Inl _ \<Rightarrow> jsonError ''invalid protocol_version query'' 400
      | Inr ver \<Rightarrow>
          (case (if ver = ProtocolVersion2
                 then map_sum id (\<lambda>(g, _). obj_fields (generated_table g)) (GenerateParams (rnd_words rnd))
                 else map_sum id (\<lambda>(g, _). obj_fields (generated31_table g)) (GenerateParamsV31 (rnd_words rnd))) of
             Inl err \<Rightarrow> writeError err 500
           | Inr flds \<Rightarrow> json_ok (JObj flds)))"

text \<open>The version of a creation: the one requested, or \<open>None\<close> for the default.\<close>

definition requested_version :: "string optionalField \<Rightarrow> ProtocolVersion option res" where
  "requested_version field =
     (if of_Set field then map_sum id Some (parseRequestProtocolVersion field) else Inr None)"

definition handleCreateClient ::
  "'h server_env \<Rightarrow> rand_source \<Rightarrow> string \<Rightarrow> http_request \<Rightarrow> 'h server_manager \<Rightarrow> 'h server_world \<Rightarrow> 'h served" where
  "handleCreateClient env rnd now rq m w =
     (case decode_body (se_stream env) decode_create (rq_Body rq) of
        None \<Rightarrow> (invalid_body, m, w)
      | Some req \<Rightarrow>
          if cr_ID req = [] then (jsonError ''id is required'' 400, m, w)
          else if rune_count (cr_ID req) > 256 then (jsonError ''id is too long (max 256 chars)'' 400, m, w)
          else (case requested_version (cr_ProtocolVersion req) of
            Inl e \<Rightarrow> (jsonError (error_text e) 400, m, w)
          | Inr ver \<Rightarrow>
              (case (case ver of
                       Some v \<Rightarrow> CreateClientWithVersion (se_crypto env) rnd now (cr_ID req) v (cr_AWGParams req)
                                   (cr_Routing req) (cr_LANGroupID req) m w
                     | None \<Rightarrow> CreateClient (se_crypto env) rnd now (cr_ID req) (cr_AWGParams req)
                                 (cr_Routing req) (cr_LANGroupID req) m w) of
                 (Inl err, m', w') \<Rightarrow> (writeError err (createErrorStatus err), m', w')
               | (Inr client, m', w') \<Rightarrow> (\<lparr>rs_Status = 201, rs_Body = JsonBody (toResponse client)\<rparr>, m', w'))))"

definition handleUpdateLANGroup ::
  "'h server_env \<Rightarrow> http_request \<Rightarrow> 'h server_manager \<Rightarrow> 'h server_world \<Rightarrow> 'h served" where
  "handleUpdateLANGroup env rq m w =
     (case decode_body (se_stream env) decode_lan_group (rq_Body rq) of
        None \<Rightarrow> (invalid_body, m, w)
      | Some req \<Rightarrow>
          (case UpdateLANGroup (lr_ClientIDs req) (lr_LANGroupID req) m w of
             (Inl err, m', w') \<Rightarrow> (writeError err (lanGroupErrorStatus err), m', w')
           | (Inr updated, m', w') \<Rightarrow> (json_ok (JObj [(''clients'', JArr (map toResponse updated))]), m', w')))"

definition update_of :: "updateClientRequest \<Rightarrow> ProtocolVersion option \<Rightarrow> ClientUpdate" where
  "update_of req ver =
     \<lparr>up_ProtocolVersion = (case ver of None \<Rightarrow> [] | Some v \<Rightarrow> v),
      up_ProtocolVersionSet = of_Set (ur_ProtocolVersion req),
      up_AWGParams = of_Value (ur_AWGParams req), up_AWGParamsSet = of_Set (ur_AWGParams req),
      up_Routing = of_Value (ur_Routing req), up_RoutingSet = of_Set (ur_Routing req)\<rparr>"

definition client_reply :: "(ClientData, 'h server_world) op_result \<Rightarrow> 'h served" where
  "client_reply r =
     (case r of
        (Inl err, m', w') \<Rightarrow> (writeError err (clientUpdateErrorStatus err), m', w')
      | (Inr client, m', w') \<Rightarrow> (json_ok (toResponse client), m', w'))"

definition handleUpdateClient ::
  "'h server_env \<Rightarrow> string \<Rightarrow> http_request \<Rightarrow> 'h server_manager \<Rightarrow> 'h server_world \<Rightarrow> 'h served" where
  "handleUpdateClient env cid rq m w =
     (case decode_body (se_stream env) decode_update (rq_Body rq) of
        None \<Rightarrow> (invalid_body, m, w)
      | Some req \<Rightarrow>
          if \<not> of_Set (ur_ProtocolVersion req) \<and> \<not> of_Set (ur_AWGParams req) \<and> \<not> of_Set (ur_Routing req)
          then (jsonError (sentinel_text ErrEmptyClientUpdate) 400, m, w)
          else (case requested_version (ur_ProtocolVersion req) of
            Inl e \<Rightarrow> (jsonError (error_text e) 400, m, w)
          | Inr ver \<Rightarrow>
              client_reply (UpdateClient (se_crypto env) cid (update_of req ver) (Some (snapshotGuard (se_run env))) m w)))"

definition handleRegenerateClientAWGParams ::
  "'h server_env \<Rightarrow> rand_source \<Rightarrow> string \<Rightarrow> 'h server_manager \<Rightarrow> 'h server_world \<Rightarrow> 'h served" where
  "handleRegenerateClientAWGParams env rnd cid m w =
     client_reply (RegenerateAWGParams (se_crypto env) rnd cid (Some (snapshotGuard (se_run env))) m w)"

definition handleGetConfiguration ::
  "'h server_env \<Rightarrow> string \<Rightarrow> 'h server_manager \<Rightarrow> 'h server_world \<Rightarrow> http_response" where
  "handleGetConfiguration env cid m w =
     (case GetClientConfig (se_crypto env) cid m w of
        Inl err \<Rightarrow> writeError err (lookupErrorStatus err)
      | Inr cfg \<Rightarrow> \<lparr>rs_Status = 200, rs_Body = TextBody cfg\<rparr>)"

definition handleGetClientStats ::
  "'h server_env \<Rightarrow> string \<Rightarrow> 'h server_manager \<Rightarrow> 'h server_world \<Rightarrow> http_response" where
  "handleGetClientStats env cid m w =
     (case GetClient m cid of
        Inl err \<Rightarrow> writeError err (lookupErrorStatus err)
      | Inr client \<Rightarrow>
          json_ok (stats_response (se_rfc3339 env) (fst (GetStats (sw_collector w) (cd_PublicKey client)))))"

definition handleDeleteClient ::
  "'h server_env \<Rightarrow> string \<Rightarrow> 'h server_manager \<Rightarrow> 'h server_world \<Rightarrow> 'h served" where
  "handleDeleteClient env cid m w =
     (case GetClient m cid of
        Inl err \<Rightarrow> (writeError err (lookupErrorStatus err), m, w)
      | Inr client \<Rightarrow>
          (case DeleteClient (se_crypto env) cid m w of
             (Some err, m', w') \<Rightarrow> (writeError err (lookupErrorStatus err), m', w')
           | (None, m', w') \<Rightarrow>
               (\<lparr>rs_Status = 204, rs_Body = EmptyBody\<rparr>, m',
                w'\<lparr>sw_collector := RemoveStats (cd_PublicKey client) (sw_collector w')\<rparr>)))"

section \<open>Routes\<close>

datatype segment = Lit string | Wild

datatype route =
    Health | Capabilities | GenerateAWGParams | ListAll | Create | LANGroup | Configuration | Change | Regenerate
  | Stats | Remove

text \<open>
  The patterns of \<open>NewServer\<close>. \<open>ServeMux\<close> prefers the more specific pattern, which only matters for the LAN group,
  that comes before the pattern it is more specific than; a pattern for GET serves HEAD too.
\<close>

definition routes :: "(string \<times> segment list \<times> route) list" where
  "routes =
     [(''GET'', [Lit ''health''], Health),
      (''GET'', [Lit ''api'', Lit ''capabilities''], Capabilities),
      (''POST'', [Lit ''api'', Lit ''awg-params'', Lit ''generate''], GenerateAWGParams),
      (''GET'', [Lit ''api'', Lit ''clients''], ListAll),
      (''POST'', [Lit ''api'', Lit ''clients''], Create),
      (''PATCH'', [Lit ''api'', Lit ''clients'', Lit ''lan-group''], LANGroup),
      (''GET'', [Lit ''api'', Lit ''clients'', Wild, Lit ''configuration''], Configuration),
      (''PATCH'', [Lit ''api'', Lit ''clients'', Wild], Change),
      (''POST'', [Lit ''api'', Lit ''clients'', Wild, Lit ''regenerate-awg-params''], Regenerate),
      (''GET'', [Lit ''api'', Lit ''clients'', Wild, Lit ''stats''], Stats),
      (''DELETE'', [Lit ''api'', Lit ''clients'', Wild], Remove)]"

text \<open>The path value of the wildcard, empty when the pattern has none.\<close>

fun match_path :: "segment list \<Rightarrow> string list \<Rightarrow> string option" where
  "match_path [] [] = Some []"
| "match_path (Lit l # ps) (s # ss) = (if l = s then match_path ps ss else None)"
| "match_path (Wild # ps) (s # ss) = (if s = [] then None else map_option (\<lambda>v. s @ v) (match_path ps ss))"
| "match_path _ _ = None"

definition method_matches :: "string \<Rightarrow> string \<Rightarrow> bool" where
  "method_matches pattern method = (pattern = method \<or> pattern = ''GET'' \<and> method = ''HEAD'')"

fun find_route :: "(string \<times> segment list \<times> route) list \<Rightarrow> string \<Rightarrow> string list \<Rightarrow> (route \<times> string) option" where
  "find_route [] method path = None"
| "find_route ((pm, pattern, r) # rs) method path =
     (case (if method_matches pm method then match_path pattern path else None) of
        Some v \<Rightarrow> Some (r, v) | None \<Rightarrow> find_route rs method path)"

definition no_route :: "string list \<Rightarrow> http_response" where
  "no_route path =
     (if list_ex (\<lambda>(_, pattern, _). match_path pattern path \<noteq> None) routes
      then \<lparr>rs_Status = 405, rs_Body = TextBody ''Method Not Allowed''\<rparr>
      else \<lparr>rs_Status = 404, rs_Body = TextBody ''404 page not found''\<rparr>)"

definition authMiddleware :: "'h server_env \<Rightarrow> http_request \<Rightarrow> 'h served \<Rightarrow> 'h server_manager \<Rightarrow> 'h server_world \<Rightarrow> 'h served" where
  "authMiddleware env rq next_handler m w =
     (let authHeader = rq_Authorization rq in
      if authHeader = [] then (jsonError ''missing authorization header'' 401, m, w)
      else
        (let token = trim_prefix authHeader ''Bearer '' in
         if token = authHeader \<or> token \<noteq> cfg_APIToken (se_config env) then (jsonError ''invalid token'' 401, m, w)
         else next_handler))"

definition handle ::
  "'h server_env \<Rightarrow> rand_source \<Rightarrow> string \<Rightarrow> http_request \<Rightarrow> route \<Rightarrow> string \<Rightarrow> 'h server_manager \<Rightarrow> 'h server_world \<Rightarrow> 'h served" where
  "handle env rnd now rq r cid m w =
     (case r of
        Health \<Rightarrow> (handleHealth, m, w)
      | Capabilities \<Rightarrow> authMiddleware env rq (handleCapabilities, m, w) m w
      | GenerateAWGParams \<Rightarrow> authMiddleware env rq (handleGenerateAWGParams env rnd rq, m, w) m w
      | ListAll \<Rightarrow> authMiddleware env rq (handleListClients m, m, w) m w
      | Create \<Rightarrow> authMiddleware env rq (handleCreateClient env rnd now rq m w) m w
      | LANGroup \<Rightarrow> authMiddleware env rq (handleUpdateLANGroup env rq m w) m w
      | Configuration \<Rightarrow> authMiddleware env rq (handleGetConfiguration env cid m w, m, w) m w
      | Change \<Rightarrow> authMiddleware env rq (handleUpdateClient env cid rq m w) m w
      | Regenerate \<Rightarrow> authMiddleware env rq (handleRegenerateClientAWGParams env rnd cid m w) m w
      | Stats \<Rightarrow> authMiddleware env rq (handleGetClientStats env cid m w, m, w) m w
      | Remove \<Rightarrow> authMiddleware env rq (handleDeleteClient env cid m w) m w)"

definition ServeHTTP ::
  "'h server_env \<Rightarrow> rand_source \<Rightarrow> string \<Rightarrow> http_request \<Rightarrow> 'h server_manager \<Rightarrow> 'h server_world \<Rightarrow> 'h served" where
  "ServeHTTP env rnd now rq m w =
     (case find_route routes (rq_Method rq) (rq_Path rq) of
        None \<Rightarrow> (no_route (rq_Path rq), m, w)
      | Some (r, cid) \<Rightarrow> handle env rnd now rq r cid m w)"

end
