(* ===== verification/Api_Steps.thy ===== *)
theory Api_Steps
  imports Api Manager_Properties Usage_Properties
begin

text \<open>
  The requests of the server as steps: every request that is not answered with status 500 keeps devices, storage
  and memory in agreement, and so does every round of the collector. The contract \<open>peer_devices\<close> of the manager
  is interpreted a second time, on a disk whose errors are none of the server's own error values, so that the
  status codes can be read back from the errors.
\<close>

section \<open>Errors of the host\<close>

definition foreign :: "go_error \<Rightarrow> bool" where
  "foreign e \<longleftrightarrow> (\<forall>t. \<not> errors_is e t)"

lemma foreign_simps [simp]: "foreign (Plain s)" "foreign (Wrap a e b) = foreign e"
  "foreign (persistenceFailure what e r) = foreign e"
  by (simp_all add: foreign_def persistenceFailure_def)

lemma foreign_status: "foreign e \<Longrightarrow> status_of table e = 500"
  by (induction table) (simp_all add: status_of_def foreign_def)

lemma foreign_exec: "exec_cmd run pre args stdin w = (Some e, w') \<Longrightarrow> foreign e"
  by (auto simp: exec_cmd_def exec_err_def split: prod.splits cmd_result.splits)

lemma foreign_peers: "normalize_peers p seen ps = Inl e \<Longrightarrow> foreign e"
  by (induction p seen ps rule: normalize_peers.induct)
     (auto simp: res_simps Let_def split: if_splits option.splits)

lemma foreign_lan: "ApplyLANIsolation run net ps w = (Some e, w') \<Longrightarrow> foreign e"
  by (auto simp: ApplyLANIsolation_def lanFirewallHookExists_def renderLANFirewall_def res_simps Let_def
      dest!: foreign_exec foreign_peers split: prod.splits sum.splits cmd_result.splits if_splits option.splits)

lemma foreign_rebuild:
  assumes "m_pool m = livePool run" "rebuildLANLocked m w = (Some e, w')"
  shows "foreign e"
  using assms by (auto simp: rebuildLANLocked_def livePool_def wrap_err_def dest: foreign_lan split: prod.splits)

definition disk_ok :: "disk \<Rightarrow> bool" where
  "disk_ok d \<longleftrightarrow> (\<forall>e part. Some (DiskFault e part) \<in> set (dk_faults d) \<longrightarrow> foreign e)"

lemma next_fault_ok:
  assumes "next_fault d = (f, d')" "disk_ok d"
  shows "disk_ok d'" "f = Some (DiskFault e part) \<Longrightarrow> foreign e"
proof -
  have "set (dk_faults d') \<subseteq> set (dk_faults d)" "f \<noteq> None \<Longrightarrow> f \<in> set (dk_faults d)"
    using assms(1) by (auto simp: next_fault_def split: list.splits)
  with assms(2) show "disk_ok d'" "f = Some (DiskFault e part) \<Longrightarrow> foreign e" unfolding disk_ok_def by blast+
qed

lemma disk_ok_files [simp]: "disk_ok (d\<lparr>dk_files := fs\<rparr>) = disk_ok d"
  by (simp add: disk_ok_def)

lemma disk_ops_ok:
  "disk_MkdirAll p d = (r, d') \<Longrightarrow> disk_ok d \<Longrightarrow> disk_ok d' \<and> (\<forall>e. r = Some e \<longrightarrow> foreign e)"
  "disk_WriteFile p v d = (r, d') \<Longrightarrow> disk_ok d \<Longrightarrow> disk_ok d' \<and> (\<forall>e. r = Some e \<longrightarrow> foreign e)"
  "disk_Rename p q d = (r, d') \<Longrightarrow> disk_ok d \<Longrightarrow> disk_ok d' \<and> (\<forall>e. r = Some e \<longrightarrow> foreign e)"
  by (auto simp: disk_MkdirAll_def disk_WriteFile_def disk_Rename_def dest: next_fault_ok
      split: prod.splits option.splits disk_fault.splits)

lemma save_ok_errors:
  assumes "storage_Save disk_ops s d dk = (r, dk')" "disk_ok dk"
  shows "disk_ok dk' \<and> (\<forall>e. r = Some e \<longrightarrow> foreign e)"
proof -
  let ?tmp = "filePath s @ ''.tmp''"
  obtain e1 d1 where mk: "disk_MkdirAll (fileDir s) dk = (e1, d1)" by fastforce
  obtain e2 d2 where wr: "disk_WriteFile ?tmp (storage_MarshalJSON d) d1 = (e2, d2)" by fastforce
  obtain e3 d3 where rn: "disk_Rename ?tmp (filePath s) d2 = (e3, d3)" by fastforce
  note run = assms(1) [unfolded storage_Save_def disk_ops_def os_ops.simps mk wr rn prod.case]
  note A = disk_ops_ok(1) [OF mk assms(2)]
  note B = disk_ops_ok(2) [OF wr conjunct1 [OF A]]
  note C = disk_ops_ok(3) [OF rn conjunct1 [OF B]]
  show ?thesis using run A B C by (auto simp: wr rn split: option.splits)
qed

section \<open>The contract of the devices again\<close>

text \<open>\<open>cp\<close> is the path of the usage file, which no operation changes.\<close>

abbreviation served_ok :: "string \<Rightarrow> 'h server_world \<Rightarrow> bool" where
  "served_ok cp w \<equiv> live_ok w \<and> disk_ok (wd_disk w) \<and> col_filePath (sw_collector w) = cp"

lemma lift_disk: "lift_pool f w = (e, w') \<Longrightarrow> wd_disk w' = wd_disk w \<and> sw_collector w' = sw_collector w"
  by (auto simp: lift_pool_def split: prod.splits)

lemma lan_disk:
  "dp_ApplyLANIsolation (livePool run) ps w = (r, w') \<Longrightarrow> wd_disk w' = wd_disk w \<and> sw_collector w' = sw_collector w"
  by (auto simp: livePool_def split: prod.splits)

lemma save_world:
  "liveSave s d w = (r, w') \<Longrightarrow> storage_Save disk_ops s d (wd_disk w) = (r, wd_disk w') \<and> sw_collector w' = sw_collector w"
  by (auto simp: liveSave_def split: prod.splits)

interpretation served: peer_devices "livePool run" "liveSave s" "served_ok cp" live_peers "live_saved s" for run s cp
proof
  fix p q :: Profile and port pub psk ip and w w' :: "'a server_world" and e r d
  show "served_ok cp w' \<and> live_peers w' = abs_add (pkey p) pub psk (live_peers w)"
    if "dp_AddPeer (livePool run) p port pub psk ip w = (None, w')" "served_ok cp w"
    using live.add_ok [OF that(1)] lift_disk [OF that(1) [unfolded live_ops]] that(2) by simp
  show "served_ok cp w' \<and> (errors_is e ErrRollbackFailed \<or> live_peers w' = live_peers w)"
    if "dp_AddPeer (livePool run) p port pub psk ip w = (Some e, w')" "served_ok cp w"
    using live.add_fail [OF that(1)] lift_disk [OF that(1) [unfolded live_ops]] that(2) by simp
  show "live_saved s d w'" if "dp_AddPeer (livePool run) p port pub psk ip w = (r, w')" "live_saved s d w"
    using that by (rule live.add_saved)
  show "served_ok cp w' \<and> live_peers w' = (if r = None then abs_remove (pkey p) pub (live_peers w) else live_peers w)"
    if "dp_RemovePeer (livePool run) p pub ip w = (r, w')" "served_ok cp w"
    using live.remove_peers [OF that(1)] lift_disk [OF that(1) [unfolded live_ops]] that(2) by simp
  show "live_saved s d w'" if "dp_RemovePeer (livePool run) p pub ip w = (r, w')" "live_saved s d w"
    using that by (rule live.remove_saved)
  show "served_ok cp w' \<and> (live_peers w' = live_peers w \<and> pkey p = pkey q
      \<or> live_peers w' = abs_add (pkey q) pub psk (abs_remove (pkey p) pub (live_peers w)))"
    if "dp_MigratePeer (livePool run) p q port pub psk ip w = (None, w')" "served_ok cp w"
    using live.migrate_ok [OF that(1)] lift_disk [OF that(1) [unfolded live_ops]] that(2) by simp
  show "served_ok cp w' \<and> (errors_is e ErrRollbackFailed \<or> live_peers w' = live_peers w)"
    if "dp_MigratePeer (livePool run) p q port pub psk ip w = (Some e, w')" "served_ok cp w"
      "pkey p = pkey q \<or> live_peers w (pkey q) pub = None"
    using live.migrate_fail [OF that(1) _ that(3)] lift_disk [OF that(1) [unfolded live_ops]] that(2) by simp
  show "live_saved s d w'" if "dp_MigratePeer (livePool run) p q port pub psk ip w = (r, w')" "live_saved s d w"
    using that by (rule live.migrate_saved)
  show "keeps_host (served_ok cp) live_peers (live_saved s) w w'" if "dp_ApplyLANIsolation (livePool run) ps w = (r, w')" for ps
    using live.lan_keeps [OF that] lan_disk [OF that] by (auto simp: keeps_host_def)
  show "live_saved s d w'" if "liveSave s d w = (None, w')"
    using that by (rule live.save_ok)
  show "live_saved s d' w'" if "liveSave s d w = (Some e, w')" "live_saved s d' w" for d'
    using that by (rule live.save_fail)
  show "served_ok cp w' \<and> live_peers w' = live_peers w" if "liveSave s d w = (r, w')" "served_ok cp w"
    using live.save_peers [OF that(1)] save_ok_errors [OF conjunct1 [OF save_world [OF that(1)]]] save_world [OF that(1)] that(2) by simp
  show "live_saved s (d\<lparr>sd_needsNormalization := b\<rparr>) w = live_saved s d w" for b
    by (rule live.saved_flag)
qed

lemma lost_undo_foreign: "lost_undo (served_ok cp) (liveSave s) e \<Longrightarrow> foreign e"
  unfolding lost_undo_def using save_world save_ok_errors by fastforce

lemma lost_status:
  assumes "lost_track (served_ok cp) (liveSave s) e"
  shows "createErrorStatus e = 500" "clientUpdateErrorStatus e = 500"
  using assms lost_undo_foreign [of cp s e] foreign_status [of e]
  by (auto simp: lost_track_def createErrorStatus_def clientUpdateErrorStatus_def) (simp_all add: status_of_def)

section \<open>The snapshot guard\<close>

lemma usage_gather:
  "gather (us_dump (server_usage run)) complete names w = (r, w') \<Longrightarrow> \<exists>h. w' = w\<lparr>wd_host := h\<rparr>"
proof (induction names arbitrary: w r w')
  case Nil
  then have "w' = w\<lparr>wd_host := wd_host w\<rparr>" by simp
  then show ?case ..
next
  case (Cons i names)
  obtain d h where dump: "ShowDump run i (wd_host w) = (d, h)" by fastforce
  then have "us_dump (server_usage run) i w = (d, w\<lparr>wd_host := h\<rparr>)" by (simp add: server_usage_def)
  note run = Cons.prems [unfolded gather.simps this prod.case]
  show ?case
  proof (cases "(\<exists>e. d = Inl e \<and> complete) \<or> d = Inr [] \<and> complete")
    case True
    with run show ?thesis by auto
  next
    case False
    obtain r2 w2 where rest: "gather (us_dump (server_usage run)) complete names (w\<lparr>wd_host := h\<rparr>) = (r2, w2)" by fastforce
    with False run have "w' = w2" by (auto split: sum.splits if_splits)
    with Cons.IH [OF rest] show ?thesis by auto
  qed
qed

lemma usage_collect:
  "collect (server_usage run) complete c w = (r, c', w') \<Longrightarrow> (\<exists>h. w' = w\<lparr>wd_host := h\<rparr>) \<and> col_filePath c' = col_filePath c"
  by (auto simp: collect_def dest: usage_gather split: prod.splits sum.splits)

lemma keeps_collector:
  "col_filePath c = col_filePath (sw_collector w) \<Longrightarrow>
     keeps_host (served_ok cp) live_peers (live_saved s) w (w\<lparr>wd_host := h, sw_collector := c\<rparr>)"
  "col_filePath c = col_filePath (sw_collector w) \<Longrightarrow>
     keeps_host (served_ok cp) live_peers (live_saved s) w (w\<lparr>sw_collector := c\<rparr>)"
  by (simp_all add: keeps_host_def)

lemma snapshotGuard_cases:
  fixes w :: "'h server_world"
  obtains h c where "col_filePath c = col_filePath (sw_collector w)"
    "snapshotGuard run perform m w = perform m (w\<lparr>wd_host := h, sw_collector := c\<rparr>)
     \<or> (\<exists>e. snapshotGuard run perform m w = (Some e, m, w\<lparr>wd_host := h, sw_collector := c\<rparr>))"
proof -
  obtain r c w1 where col: "collect (server_usage run) True (sw_collector w) w = (r, c, w1)" by (metis prod_cases3)
  obtain h where h: "w1 = w\<lparr>wd_host := h\<rparr>" "col_filePath c = col_filePath (sw_collector w)"
    using usage_collect [OF col] by blast
  let ?w = "w\<lparr>wd_host := h, sw_collector := c\<rparr>"
  have "snapshotGuard run perform m w = perform m ?w \<or> (\<exists>e. snapshotGuard run perform m w = (Some e, m, ?w))"
  proof (cases r)
    case None
    obtain e m' w' where p: "perform m ?w = (e, m', w')" by (metis prod_cases3)
    have "w'\<lparr>sw_collector := sw_collector w'\<rparr> = w'" by simp
    with None p show ?thesis by (simp add: snapshotGuard_def WithRequiredSnapshot_def col h)
  next
    case (Some e)
    then show ?thesis by (simp add: snapshotGuard_def WithRequiredSnapshot_def col h)
  qed
  with h(2) show thesis by (rule that)
qed

lemma snapshotGuard_ok: "guard_ok (keeps_host (served_ok cp) live_peers (live_saved s)) (snapshotGuard run)"
  unfolding guard_ok_def
proof (intro allI)
  fix perform :: "'a server_world txn" and m :: "'a server_manager" and w :: "'a server_world"
  obtain h c where c: "col_filePath c = col_filePath (sw_collector w)"
    "snapshotGuard run perform m w = perform m (w\<lparr>wd_host := h, sw_collector := c\<rparr>)
     \<or> (\<exists>e. snapshotGuard run perform m w = (Some e, m, w\<lparr>wd_host := h, sw_collector := c\<rparr>))"
    by (rule snapshotGuard_cases)
  then show "\<exists>w1. keeps_host (served_ok cp) live_peers (live_saved s) w w1
      \<and> (snapshotGuard run perform m w = perform m w1 \<or> (\<exists>e. snapshotGuard run perform m w = (Some e, m, w1)))"
    by (intro exI [of _ "w\<lparr>wd_host := h, sw_collector := c\<rparr>"] conjI keeps_collector(1))
qed

section \<open>One request\<close>

definition server_inv ::
  "'h server_env \<Rightarrow> Storage \<Rightarrow> string \<Rightarrow> ManagerDefaults \<Rightarrow> 'h server_manager \<Rightarrow> 'h server_world \<Rightarrow> bool" where
  "server_inv env s cp df0 m w \<longleftrightarrow> manager_good (se_crypto env) df0 m \<and> m_pool m = livePool (se_run env) \<and> m_save m = liveSave s
     \<and> in_sync (served_ok cp) live_peers (live_saved s) (se_crypto env) m w"

text \<open>What a handler makes of an operation of the manager, for a status mapping that answers 500 to errors of the
  host and to failed rollbacks.\<close>

lemma op_kept:
  assumes step: "manager_step (se_crypto env) (keeps_host (served_ok cp) live_peers (live_saved s)) (m, w) e (m', w')"
    and inv: "server_inv env s cp df0 m w" and cr: "crypto_ok (se_crypto env)"
    and sync: "in_sync (served_ok cp) live_peers (live_saved s) (se_crypto env) m' w' \<or> (\<exists>x. e = Some x \<and> status x = (500::nat))"
    and status: "\<And>x. e = Some x \<Longrightarrow> status x \<noteq> 500" and host: "\<And>x. foreign x \<Longrightarrow> status x = 500"
  shows "server_inv env s cp df0 m' w'" "e \<noteq> None \<Longrightarrow> m' = m"
proof -
  have minv: "manager_inv (se_crypto env) m" using inv by (simp add: server_inv_def manager_good_def)
  note ok = manager_step_ok [OF step minv cr]
  from sync status have "in_sync (served_ok cp) live_peers (live_saved s) (se_crypto env) m' w'" by blast
  then show "server_inv env s cp df0 m' w'"
    using inv step_good [OF ok] ok by (simp add: server_inv_def step_ok_def)
  show "m' = m" if some: "e \<noteq> None"
  proof -
    obtain x where x: "e = Some x" using some by blast
    have "m_pool m' = livePool (se_run env)" using inv ok by (simp add: server_inv_def step_ok_def)
    then show ?thesis
      using failed_step [OF step [unfolded x] minv] foreign_rebuild [of m' "se_run env"] host status [OF x] by blast
  qed
qed

lemma status_foreign:
  "foreign x \<Longrightarrow> createErrorStatus x = 500" "foreign x \<Longrightarrow> clientUpdateErrorStatus x = 500"
  "foreign x \<Longrightarrow> lanGroupErrorStatus x = 500" "foreign x \<Longrightarrow> lookupErrorStatus x = 500"
  by (simp_all add: createErrorStatus_def clientUpdateErrorStatus_def lanGroupErrorStatus_def lookupErrorStatus_def foreign_status)

lemma response_status [simp]:
  "rs_Status (json_ok v) = 200" "rs_Status (jsonError msg st) = st" "rs_Status (writeError err st) = st"
  "rs_Status invalid_body = 400"
  by (simp_all add: json_ok_def jsonError_def writeError_def invalid_body_def)

abbreviation kept :: "'h server_env \<Rightarrow> Storage \<Rightarrow> string \<Rightarrow> ManagerDefaults \<Rightarrow> 'h server_manager \<Rightarrow> 'h served \<Rightarrow> bool" where
  "kept env s cp df0 m r \<equiv> rs_Status (fst r) \<noteq> 500 \<longrightarrow>
     server_inv env s cp df0 (fst (snd r)) (snd (snd r)) \<and> (400 \<le> rs_Status (fst r) \<longrightarrow> fst (snd r) = m)"

lemma inv_parts:
  assumes "server_inv env s cp df0 m w"
  shows "manager_inv (se_crypto env) m" "m_pool m = livePool (se_run env)" "m_save m = liveSave s"
    "in_sync (served_ok cp) live_peers (live_saved s) (se_crypto env) m w"
  using assms by (simp_all add: server_inv_def manager_good_def)

lemma create_kept:
  assumes inv: "server_inv env s cp df0 m w" and cr: "crypto_ok (se_crypto env)"
    and rnd: "rand_ok rnd" "fresh_peer (se_crypto env) rnd m"
  shows "kept env s cp df0 m (handleCreateClient env rnd now rq m w)"
proof -
  note P = inv_parts [OF inv]
  have run: "kept env s cp df0 m (case CreateClientWithVersion (se_crypto env) rnd now name v ps rt g m w of
        (Inl err, m', w') \<Rightarrow> (writeError err (createErrorStatus err), m', w')
      | (Inr client, m', w') \<Rightarrow> (\<lparr>rs_Status = 201, rs_Body = JsonBody (toResponse client)\<rparr>, m', w'))" for name v ps rt g
  proof -
    obtain r m' w' where c: "CreateClientWithVersion (se_crypto env) rnd now name v ps rt g m w = (r, m', w')"
      by (metis prod_cases3)
    have "in_sync (served_ok cp) live_peers (live_saved s) (se_crypto env) m' w' \<or> (\<exists>x. fault r = Some x \<and> createErrorStatus x = 500)"
      using served.create_sync [OF c P(1) rnd(1) cr rnd(2) P(2-4)] lost_status(1) by blast
    from op_kept [OF step_create [OF c rnd] inv cr this _ status_foreign(1)] c
    show ?thesis by (cases r) auto
  qed
  show ?thesis
    using inv run by (simp add: handleCreateClient_def CreateClient_def split: option.splits sum.splits)
qed

lemma reply_kept:
  assumes inv: "server_inv env s cp df0 m w" and cr: "crypto_ok (se_crypto env)" and r: "r = (x, m', w')"
    and step: "manager_step (se_crypto env) (keeps_host (served_ok cp) live_peers (live_saved s)) (m, w) (fault x) (m', w')"
    and sync: "in_sync (served_ok cp) live_peers (live_saved s) (se_crypto env) m' w'
      \<or> (\<exists>e. fault x = Some e \<and> lost_track (served_ok cp) (liveSave s) e)"
  shows "kept env s cp df0 m (client_reply r)"
proof -
  have "in_sync (served_ok cp) live_peers (live_saved s) (se_crypto env) m' w' \<or> (\<exists>e. fault x = Some e \<and> clientUpdateErrorStatus e = 500)"
    using sync lost_status(2) by blast
  from op_kept [OF step inv cr this _ status_foreign(2)] show ?thesis by (cases x) (auto simp: r client_reply_def)
qed

lemma update_kept:
  assumes inv: "server_inv env s cp df0 m w" and cr: "crypto_ok (se_crypto env)"
  shows "kept env s cp df0 m (handleUpdateClient env cid rq m w)"
proof -
  note P = inv_parts [OF inv]
  have "kept env s cp df0 m (client_reply (UpdateClient (se_crypto env) cid upd (Some (snapshotGuard (se_run env))) m w))" for upd
  proof -
    obtain x m' w' where u: "UpdateClient (se_crypto env) cid upd (Some (snapshotGuard (se_run env))) m w = (x, m', w')"
      by (metis prod_cases3)
    show ?thesis
      by (rule reply_kept [OF inv cr u step_update [OF u] served.update_sync [OF u _ P]]) (simp_all add: snapshotGuard_ok)
  qed
  then show ?thesis using inv by (simp add: handleUpdateClient_def split: option.splits sum.splits)
qed

lemma regenerate_kept:
  assumes inv: "server_inv env s cp df0 m w" and cr: "crypto_ok (se_crypto env)" and rnd: "rand_ok rnd"
  shows "kept env s cp df0 m (handleRegenerateClientAWGParams env rnd cid m w)"
proof -
  note P = inv_parts [OF inv]
  obtain x m' w' where u: "RegenerateAWGParams (se_crypto env) rnd cid (Some (snapshotGuard (se_run env))) m w = (x, m', w')"
    by (metis prod_cases3)
  show ?thesis unfolding handleRegenerateClientAWGParams_def
    by (rule reply_kept [OF inv cr u step_regenerate [OF u _ rnd] served.regenerate_sync [OF u rnd _ P]])
       (simp_all add: snapshotGuard_ok)
qed

lemma groups_kept:
  assumes inv: "server_inv env s cp df0 m w" and cr: "crypto_ok (se_crypto env)"
  shows "kept env s cp df0 m (handleUpdateLANGroup env rq m w)"
proof -
  note P = inv_parts [OF inv]
  have "kept env s cp df0 m (case UpdateLANGroup ids g m w of
        (Inl err, m', w') \<Rightarrow> (writeError err (lanGroupErrorStatus err), m', w')
      | (Inr updated, m', w') \<Rightarrow> (json_ok (JObj [(''clients'', JArr (map toResponse updated))]), m', w'))" for ids g
  proof -
    obtain r m' w' where u: "UpdateLANGroup ids g m w = (r, m', w')" by (metis prod_cases3)
    note A = op_kept [OF step_groups [OF u] inv cr disjI1 [OF served.groups_sync [OF u P]] _ status_foreign(3)]
    show ?thesis using A u by (cases r) auto
  qed
  then show ?thesis using inv by (simp add: handleUpdateLANGroup_def split: option.splits)
qed

lemma delete_kept:
  assumes inv: "server_inv env s cp df0 m w" and cr: "crypto_ok (se_crypto env)"
  shows "kept env s cp df0 m (handleDeleteClient env cid m w)"
proof -
  note P = inv_parts [OF inv]
  obtain e m' w' where u: "DeleteClient (se_crypto env) cid m w = (e, m', w')" by (metis prod_cases3)
  have "in_sync (served_ok cp) live_peers (live_saved s) (se_crypto env) m' w' \<or> (\<exists>x. e = Some x \<and> lookupErrorStatus x = 500)"
    using served.delete_sync [OF u P] lost_undo_foreign status_foreign(4) by blast
  note A = op_kept [OF step_delete [OF u] inv cr this _ status_foreign(4)]
  have B: "server_inv env s cp df0 m' (w'\<lparr>sw_collector := RemoveStats k (sw_collector w')\<rparr>)" if "server_inv env s cp df0 m' w'" for k
    using that by (auto simp: server_inv_def RemoveStats_def intro!: keeps_in_sync [OF keeps_collector(2)])
  show ?thesis using A B u inv by (cases e) (auto simp: handleDeleteClient_def split: sum.splits)
qed

lemma auth_exact:
  "authMiddleware env rq r m w =
     (if rq_Authorization rq = ''Bearer '' @ cfg_APIToken (se_config env) then r
      else (jsonError (if rq_Authorization rq = [] then ''missing authorization header'' else ''invalid token'') 401, m, w))"
proof (cases "has_prefix (rq_Authorization rq) ''Bearer ''")
  case True
  then obtain t where t: "rq_Authorization rq = ''Bearer '' @ t" unfolding has_prefix_iff by blast
  have "trim_prefix (''Bearer '' @ t) ''Bearer '' = t" by (rule trim_prefix_append)
  moreover have "t \<noteq> ''Bearer '' @ t" by simp
  ultimately show ?thesis unfolding authMiddleware_def Let_def t by (simp only: append_is_Nil_conv same_append_eq) auto
next
  case False
  then show ?thesis by (auto simp: authMiddleware_def Let_def trim_prefix_def)
qed

lemma auth_kept: "server_inv env s cp df0 m w \<Longrightarrow> kept env s cp df0 m r \<Longrightarrow> kept env s cp df0 m (authMiddleware env rq r m w)"
  by (simp add: auth_exact)

lemma request_kept:
  assumes inv: "server_inv env s cp df0 m w" and cr: "crypto_ok (se_crypto env)"
    and rnd: "rand_ok rnd" "fresh_peer (se_crypto env) rnd m"
  shows "kept env s cp df0 m (ServeHTTP env rnd now rq m w)"
proof -
  note H = auth_kept [OF inv create_kept [OF assms]] auth_kept [OF inv update_kept [OF inv cr]]
    auth_kept [OF inv regenerate_kept [OF inv cr rnd(1)]] auth_kept [OF inv groups_kept [OF inv cr]]
    auth_kept [OF inv delete_kept [OF inv cr]]
  have R: "kept env s cp df0 m (resp, m, w)" for resp using inv by simp
  have "kept env s cp df0 m (handle env rnd now rq r cid m w)" for r cid
    unfolding handle_def by (cases r; simp only: route.case; rule H R auth_kept [OF inv R])
  then show ?thesis using R unfolding ServeHTTP_def by (simp split: option.splits)
qed

section \<open>Runs of the server\<close>

lemma disk_rename_other: "disk_Rename src dst d = (r, d') \<Longrightarrow> p \<noteq> src \<Longrightarrow> p \<noteq> dst \<Longrightarrow> dk_files d' p = dk_files d p"
  by (auto simp: disk_Rename_def dest!: next_fault_files split: prod.splits option.splits disk_fault.splits)

lemma collector_save_world:
  assumes "collector_Save time_text world_os c w = (e, w')" "p \<noteq> col_filePath c" "p \<noteq> col_filePath c @ ''.tmp''"
  shows "\<exists>d. w' = w\<lparr>wd_disk := d\<rparr> \<and> (disk_ok (wd_disk w) \<longrightarrow> disk_ok d) \<and> dk_files d p = dk_files (wd_disk w) p"
proof -
  let ?tmp = "col_filePath c @ ''.tmp''"
  obtain e1 d1 where wr: "disk_WriteFile ?tmp (stats_json time_text (col_stats c)) (wd_disk w) = (e1, d1)" by fastforce
  obtain e2 d2 where rn: "disk_Rename ?tmp (col_filePath c) d1 = (e2, d2)" by fastforce
  note run = assms(1) [unfolded collector_Save_def world_os_def on_disk_def os_ops.simps Let_def wr prod.case]
  have "w' = w\<lparr>wd_disk := d1\<rparr> \<or> w' = w\<lparr>wd_disk := d2\<rparr>" using run rn by (auto split: option.splits prod.splits)
  moreover have "disk_ok (wd_disk w) \<longrightarrow> disk_ok d1 \<and> disk_ok d2" using disk_ops_ok(2) [OF wr] disk_ops_ok(3) [OF rn] by auto
  moreover have "dk_files d1 p = dk_files (wd_disk w) p" "dk_files d2 p = dk_files d1 p"
    using disk_frame(2) [OF wr assms(3)] disk_rename_other [OF rn assms(3,2)] by auto
  ultimately show ?thesis by auto
qed

lemma tick_keeps:
  assumes "filePath s \<noteq> cp" "filePath s \<noteq> cp @ ''.tmp''"
    and sync: "in_sync (served_ok cp) live_peers (live_saved s) cr m w"
  shows "in_sync (served_ok cp) live_peers (live_saved s) cr m (collector_tick run time_text w)"
proof -
  obtain r c w1 where col: "collect (server_usage run) False (sw_collector w) w = (r, c, w1)" by (metis prod_cases3)
  obtain e w2 where sv: "collector_Save time_text world_os c w1 = (e, w2)" by fastforce
  have tick: "collector_tick run time_text w = w2\<lparr>sw_collector := c\<rparr>"
    by (simp add: collector_tick_def collector_round_def collector_Collect_def col sv)
  obtain h where h: "w1 = w\<lparr>wd_host := h\<rparr>" "col_filePath c = col_filePath (sw_collector w)"
    using usage_collect [OF col] by blast
  note S = sync [unfolded in_sync_def]
  obtain d where "w2 = w1\<lparr>wd_disk := d\<rparr>" "disk_ok d" "dk_files d (filePath s) = dk_files (wd_disk w1) (filePath s)"
    using collector_save_world [OF sv, of "filePath s"] assms(1,2) h S by auto
  with h S tick show ?thesis by (simp add: in_sync_def file_holds_def)
qed

text \<open>
  The server answers requests and the collector ticks, over any command runner and any disk whose errors are
  foreign; the files are \<open>clients.json\<close> and \<open>usage.json\<close> of one directory. A run goes on only as long as no request
  is answered with status 500; new keys are fresh.
\<close>

inductive server_run ::
  "'h server_env \<Rightarrow> Storage \<Rightarrow> (string \<Rightarrow> addr4 option) \<Rightarrow> ManagerDefaults \<Rightarrow> 'h server_manager \<times> 'h server_world \<Rightarrow> bool"
  for env s parseIP df0 where
  server_start: "live_run (se_crypto env) (se_run env) s parseIP df0 (m, w) \<Longrightarrow> disk_ok (wd_disk w) \<Longrightarrow>
     filePath s = path_base dir @ ''clients.json'' \<Longrightarrow> col_filePath (sw_collector w) = path_base dir @ ''usage.json'' \<Longrightarrow>
     server_run env s parseIP df0 (m, w)"
| server_request: "server_run env s parseIP df0 (m, w) \<Longrightarrow> ServeHTTP env rnd now rq m w = (resp, m', w') \<Longrightarrow>
     rs_Status resp \<noteq> 500 \<Longrightarrow> rand_ok rnd \<Longrightarrow> fresh_peer (se_crypto env) rnd m \<Longrightarrow> server_run env s parseIP df0 (m', w')"
| server_tick: "server_run env s parseIP df0 (m, w) \<Longrightarrow>
     server_run env s parseIP df0 (m, collector_tick (se_run env) time_text w)"

lemma usage_path: "dir @ ''clients.json'' \<noteq> dir @ ''usage.json''" "dir @ ''clients.json'' \<noteq> (dir @ ''usage.json'') @ ''.tmp''"
  by simp_all

lemma server_run_inv:
  assumes "server_run env s parseIP df0 st" "crypto_ok (se_crypto env)"
  shows "\<exists>cp. filePath s \<noteq> cp \<and> filePath s \<noteq> cp @ ''.tmp'' \<and> server_inv env s cp df0 (fst st) (snd st)"
  using assms(1)
proof (induction rule: server_run.induct)
  case (server_start m w dir)
  have "server_inv env s (path_base dir @ ''usage.json'') df0 m w"
    using live_run_sync [OF server_start(1) assms(2)] server_start by (simp add: server_inv_def in_sync_def)
  with usage_path [of "path_base dir", folded server_start(3)] show ?case unfolding fst_conv snd_conv by blast
next
  case (server_request m w rnd now rq resp m' w')
  then obtain cp where cp: "filePath s \<noteq> cp" "filePath s \<noteq> cp @ ''.tmp''" and inv: "server_inv env s cp df0 m w" by auto
  have "server_inv env s cp df0 m' w'"
    using request_kept [OF inv assms(2) server_request(4,5), of now rq] server_request(2,3) by simp
  with cp show ?case by auto
next
  case (server_tick m w time_text)
  then obtain cp where cp: "filePath s \<noteq> cp" "filePath s \<noteq> cp @ ''.tmp''" and inv: "server_inv env s cp df0 m w" by auto
  have "server_inv env s cp df0 m (collector_tick (se_run env) time_text w)"
    using inv by (auto simp: server_inv_def intro: tick_keeps [OF cp])
  with cp show ?case by auto
qed

end
