(* ===== verification/Api_Properties.thy ===== *)
theory Api_Properties
  imports Api_Steps
begin

text \<open>
  What the HTTP interface promises: agreement of devices, storage and memory along every run, requests that are
  refused change nothing, authorisation, the shape of errors, and deletion.
\<close>

section \<open>Replies\<close>

lemma status_of_range: "status_of table e = 500 \<or> status_of table e \<in> snd ` set table"
  by (induction table) (auto simp: status_of_def)

lemma error_statuses:
  "createErrorStatus e \<in> {400, 409, 500, 503}" "clientUpdateErrorStatus e \<in> {400, 404, 409, 500, 503}"
  "lanGroupErrorStatus e \<in> {400, 404, 500}" "lookupErrorStatus e \<in> {404, 500}"
  using status_of_range [of "[(ErrRollbackFailed, 500), (ErrClientExists, 409), (ErrInvalidParams, 400), (ErrInvalidPort, 400),
      (ErrInvalidRouting, 400), (ErrPortInUse, 409), (ErrProfilePortConflict, 409), (ErrMaxInterfacesReached, 503)]" e]
    status_of_range [of "[(ErrRollbackFailed, 500), (ErrClientNotFound, 404), (ErrInvalidParams, 400), (ErrInvalidPort, 400),
      (ErrInvalidRouting, 400), (ErrEmptyClientUpdate, 400), (ErrPortInUse, 409), (ErrPortShared, 409),
      (ErrProfilePortConflict, 409), (ErrMaxInterfacesReached, 503)]" e]
    status_of_range [of "[(ErrEmptyClientIDs, 400), (ErrEmptyLANGroupID, 400), (ErrDuplicateClientID, 400), (ErrClientNotFound, 404)]" e]
    status_of_range [of "[(ErrClientNotFound, 404)]" e]
  by (auto simp: createErrorStatus_def clientUpdateErrorStatus_def lanGroupErrorStatus_def lookupErrorStatus_def)

text \<open>The shape of every reply of a handler.\<close>

definition good_reply :: "http_response \<Rightarrow> bool" where
  "good_reply resp \<longleftrightarrow> rs_Status resp \<in> {200, 201, 204, 400, 404, 409, 500, 503}
     \<and> (400 \<le> rs_Status resp \<longrightarrow> (\<exists>msg. resp = jsonError msg (rs_Status resp)
          \<and> (rs_Status resp = 500 \<longrightarrow> msg = ''internal server error'')))"

lemma good_replies:
  "good_reply (json_ok v)" "good_reply (jsonError msg 400)" "good_reply invalid_body" "good_reply (writeError e 500)"
  "good_reply (writeError e (createErrorStatus e))" "good_reply (writeError e (clientUpdateErrorStatus e))"
  "good_reply (writeError e (lanGroupErrorStatus e))" "good_reply (writeError e (lookupErrorStatus e))"
  using error_statuses [of e] by (auto simp: good_reply_def jsonError_def json_ok_def invalid_body_def writeError_def)

lemma good_success:
  "good_reply \<lparr>rs_Status = 200, rs_Body = b\<rparr>" "good_reply \<lparr>rs_Status = 201, rs_Body = b\<rparr>"
  "good_reply \<lparr>rs_Status = 204, rs_Body = b\<rparr>"
  by (simp_all add: good_reply_def)

lemma handlers_reply:
  "good_reply handleHealth" "good_reply handleCapabilities" "good_reply (handleListClients m)"
  "good_reply (handleGenerateAWGParams env rnd rq)" "good_reply (handleGetConfiguration env cid m w)"
  "good_reply (handleGetClientStats env cid m w)"
  by (auto simp: handleHealth_def handleCapabilities_def handleListClients_def handleGenerateAWGParams_def
      handleGetConfiguration_def handleGetClientStats_def good_replies good_success split: sum.splits)

lemma handlers_reply_state:
  "good_reply (fst (handleCreateClient env rnd now rq m w))" "good_reply (fst (handleUpdateLANGroup env rq m w))"
  "good_reply (fst (client_reply r))" "good_reply (fst (handleUpdateClient env cid rq m w))"
  "good_reply (fst (handleRegenerateClientAWGParams env rnd cid m w))" "good_reply (fst (handleDeleteClient env cid m w))"
proof -
  show A: "good_reply (fst (client_reply r))" for r :: "(ClientData, 'h server_world) op_result"
    by (auto simp: client_reply_def good_replies split: prod.splits sum.splits)
  show "good_reply (fst (handleCreateClient env rnd now rq m w))"
    by (auto simp: handleCreateClient_def good_replies good_success split: prod.splits sum.splits option.splits)
  show "good_reply (fst (handleUpdateLANGroup env rq m w))"
    by (auto simp: handleUpdateLANGroup_def good_replies split: prod.splits sum.splits option.splits)
  show "good_reply (fst (handleUpdateClient env cid rq m w))"
    by (auto simp: handleUpdateClient_def good_replies A split: sum.splits option.splits)
  show "good_reply (fst (handleRegenerateClientAWGParams env rnd cid m w))"
    by (simp add: handleRegenerateClientAWGParams_def A)
  show "good_reply (fst (handleDeleteClient env cid m w))"
    by (auto simp: handleDeleteClient_def good_replies good_success split: prod.splits sum.splits option.splits)
qed

definition authorised :: "'h server_env \<Rightarrow> http_request \<Rightarrow> bool" where
  "authorised env rq \<longleftrightarrow> rq_Authorization rq = ''Bearer '' @ cfg_APIToken (se_config env)"

lemma handle_refused:
  "r \<noteq> Health \<Longrightarrow> \<not> authorised env rq \<Longrightarrow> handle env rnd now rq r cid m w =
     (jsonError (if rq_Authorization rq = [] then ''missing authorization header'' else ''invalid token'') 401, m, w)"
  by (cases r) (simp_all add: handle_def auth_exact authorised_def)

lemma handle_reply:
  "r = Health \<or> authorised env rq \<Longrightarrow> good_reply (fst (handle env rnd now rq r cid m w))"
  by (cases r) (simp_all add: handle_def auth_exact authorised_def handlers_reply handlers_reply_state)

section \<open>Properties\<close>

text \<open>C3. At every point of a run of the server, over any requests, any times at which usage is collected, any
  command runner and any disk faults, as long as no request was answered with status 500: the interfaces track
  exactly the manager's clients, and the storage file holds exactly the manager's document. Status 500 is the only
  warning a caller needs to watch for.\<close>

theorem server_devices_and_storage_agree:
  assumes "server_run env s parseIP df0 (m, w)" "crypto_ok (se_crypto env)"
  shows "tracked (wd_pool w) = peer_table (se_crypto env) (m_defaults m) (m_data m)
    \<and> disk_ReadFile (filePath s) (wd_disk w) = FileText (Some (storage_MarshalJSON (m_data m)))"
  using server_run_inv [OF assms] by (auto simp: server_inv_def in_sync_def file_holds_def disk_ReadFile_def)

definition served_world :: "unit server_world" where
  "served_world = \<lparr>wd_pool = sample_pool, wd_host = (),
     wd_disk = \<lparr>dk_files = [''/data/clients.json'' \<mapsto> Some (storage_MarshalJSON sample_data)], dk_faults = []\<rparr>,
     sw_collector = \<lparr>col_filePath = ''/data/usage.json'', col_stats = []\<rparr>\<rparr>"

definition served_manager :: "unit server_manager" where
  "served_manager = \<lparr>m_pool = livePool ok_run, m_save = liveSave sample_storage, m_config = sample_cfg,
     m_defaults = sample_resolved, m_clients = [], m_usedIPs = {}, m_data = sample_data\<rparr>"

definition sample_http :: "unit server_env" where
  "sample_http = \<lparr>se_crypto = sample_cr, se_run = ok_run, se_config = sample_cfg, se_stream = (\<lambda>_. ([], True)),
     se_rfc3339 = (\<lambda>_. [])\<rparr>"

lemma served_start: "server_run sample_http sample_storage (\<lambda>_. None) sample_defaults (served_manager, served_world)"
proof (rule server_start)
  have "ParsePrefix4 ''10.0.0.0/24'' = Some (167772160, 24)"
    by (simp add: ParseAddr4_def ParsePrefix4_def valid_octet_def no_leading_zero_def octets_addr_def go_eval)
  then have "NewManagerFromRestorePlan (livePool ok_run) (liveSave sample_storage) sample_cfg
      \<lparr>rp_data = sample_data, rp_defaults = sample_resolved, rp_entries = [], rp_needsNormalization = False\<rparr> served_world
    = (Inr served_manager, served_world)"
    by (simp add: NewManagerFromRestorePlan_def served_world_def livePool_def ApplyLANIsolation_def
        lanFirewallHookExists_def renderLANFirewall_def lanPeers_def host_eval sample_pool_def Let_def
        sample_data_simps served_manager_def)
  from live_start [OF sample_plan sample_env_ok(3,4) _ this]
  show "live_run (se_crypto sample_http) (se_run sample_http) sample_storage (\<lambda>_. None) sample_defaults (served_manager, served_world)"
    by (simp add: pool_fresh_def served_world_def sample_pool_def file_holds_def sample_storage_def served_manager_def sample_http_def)
  show "disk_ok (wd_disk served_world)" by (simp add: disk_ok_def served_world_def)
  have "path_base ''/data'' = ''/data/''" by code_simp
  then show "filePath sample_storage = path_base ''/data'' @ ''clients.json''"
    "col_filePath (sw_collector served_world) = path_base ''/data'' @ ''usage.json''"
    by (simp_all add: sample_storage_def served_world_def)
qed

text \<open>A request that the server refuses: the deletion of a client, without a token.\<close>

definition delete_request :: http_request where
  "delete_request = \<lparr>rq_Method = ''DELETE'', rq_Path = [''api'', ''clients'', ''alice''], rq_RawQuery = [],
     rq_Authorization = [], rq_Body = []\<rparr>"

lemma delete_route: "find_route routes ''DELETE'' [''api'', ''clients'', ''alice''] = Some (Remove, ''alice'')"
  by (simp add: routes_def method_matches_def)

lemma delete_refused:
  "ServeHTTP env rnd now delete_request m w = (jsonError ''missing authorization header'' 401, m, w)"
  by (simp add: ServeHTTP_def delete_request_def delete_route handle_refused authorised_def)

theorem server_devices_and_storage_agree_witness:
  "tracked (wd_pool (collector_tick ok_run (\<lambda>_. []) served_world)) = peer_table sample_cr sample_resolved sample_data"
proof -
  have c: "crypto_ok (se_crypto sample_http)" using sample_crypto by (simp add: sample_http_def)
  have "server_run sample_http sample_storage (\<lambda>_. None) sample_defaults
      (served_manager, collector_tick (se_run sample_http) (\<lambda>_. []) served_world)"
    by (rule server_tick [OF served_start])
  from server_devices_and_storage_agree [OF this c] show ?thesis by (simp add: sample_http_def served_manager_def)
qed

text \<open>C4. A request that is answered with an error other than 500 has changed nothing: the manager is the same
  one, and the interfaces and the file still describe it.\<close>

theorem refused_request_changes_nothing:
  assumes "server_run env s parseIP df0 (m, w)" "crypto_ok (se_crypto env)"
    and "ServeHTTP env rnd now rq m w = (resp, m', w')" "400 \<le> rs_Status resp" "rs_Status resp \<noteq> 500"
    and "rand_ok rnd" "fresh_peer (se_crypto env) rnd m"
  shows "m' = m \<and> tracked (wd_pool w') = tracked (wd_pool w)
    \<and> disk_ReadFile (filePath s) (wd_disk w') = disk_ReadFile (filePath s) (wd_disk w)"
proof -
  obtain cp where inv: "server_inv env s cp df0 m w" using server_run_inv [OF assms(1,2)] by auto
  have "kept env s cp df0 m (resp, m', w')"
    using request_kept [OF inv assms(2,6,7), of now rq] unfolding assms(3) .
  then have "m' = m" "server_inv env s cp df0 m' w'" using assms(4,5) by auto
  with inv show ?thesis by (simp add: server_inv_def in_sync_def file_holds_def disk_ReadFile_def)
qed

theorem refused_request_changes_nothing_witness:
  "snd (ServeHTTP sample_http sample_rand [] delete_request served_manager served_world) = (served_manager, served_world)
   \<and> fst (snd (ServeHTTP sample_http sample_rand [] delete_request served_manager served_world)) = served_manager"
proof -
  have c: "crypto_ok (se_crypto sample_http)" using sample_crypto by (simp add: sample_http_def)
  have "rand_ok sample_rand" "fresh_peer (se_crypto sample_http) sample_rand served_manager"
    using sample_env_ok(1) by (simp_all add: fresh_peer_def served_manager_def sample_data_simps)
  from refused_request_changes_nothing [OF served_start c delete_refused [where now = "[]"] _ _ this] show ?thesis
    by (simp add: delete_refused)
qed

text \<open>C5. Authorisation. A request that has a route other than the health check gets past the middleware exactly
  when its Authorization header is the word Bearer, a space and the configured token; otherwise it is answered
  with 401 and changes nothing. No other reply has status 401.\<close>

theorem authorisation_exact:
  "case find_route routes (rq_Method rq) (rq_Path rq) of
     None \<Rightarrow> rs_Status (fst (ServeHTTP env rnd now rq m w)) \<in> {404, 405} \<and> snd (ServeHTTP env rnd now rq m w) = (m, w)
   | Some (r, cid) \<Rightarrow>
       if r = Health \<or> rq_Authorization rq = ''Bearer '' @ cfg_APIToken (se_config env)
       then ServeHTTP env rnd now rq m w = handle env rnd now rq r cid m w
         \<and> rs_Status (fst (ServeHTTP env rnd now rq m w)) \<noteq> 401
       else \<exists>msg. ServeHTTP env rnd now rq m w = (jsonError msg 401, m, w)"
proof -
  have "rs_Status (fst (handle env rnd now rq r cid m w)) \<noteq> 401" if "r = Health \<or> authorised env rq" for r cid
    using handle_reply [OF that, of rnd now cid m w] by (auto simp: good_reply_def)
  then show ?thesis
    by (auto simp: ServeHTTP_def no_route_def authorised_def handle_refused split: option.splits)
qed



text \<open>C6. Deletion. After a deletion that was answered with 204 the client is not in the manager's table, the collector
  has no statistics for its key, and every authorised request for its configuration or statistics, for new
  parameters or for another deletion is answered with 404 and changes nothing.\<close>

theorem deleted_client_is_gone:
  assumes "ServeHTTP env rnd now rq m w = (resp, m', w')" "rs_Status resp = 204"
    and "find_route routes (rq_Method rq) (rq_Path rq) = Some (Remove, cid)"
  shows "(\<exists>client. map_of (m_clients m) cid = Some client
        \<and> GetStats (sw_collector w') (cd_PublicKey client) = (zeroPeerStats, False))
    \<and> map_of (m_clients m') cid = None
    \<and> (\<forall>rnd' now' rq' r. find_route routes (rq_Method rq') (rq_Path rq') = Some (r, cid)
         \<and> r \<in> {Configuration, Stats, Regenerate, Remove} \<and> rq_Authorization rq' = ''Bearer '' @ cfg_APIToken (se_config env)
         \<longrightarrow> ServeHTTP env rnd' now' rq' m' w' = (jsonError ''client not found'' 404, m', w'))"
proof -
  have "authorised env rq" using assms by (cases "authorised env rq") (auto simp: ServeHTTP_def handle_refused)
  then have run: "handleDeleteClient env cid m w = (resp, m', w')"
    using assms(1,3) by (simp add: ServeHTTP_def handle_def auth_exact authorised_def)
  obtain e m1 w1 where del: "DeleteClient (se_crypto env) cid m w = (e, m1, w1)" by (metis prod_cases3)
  have "lookupErrorStatus x \<noteq> 204" for x using error_statuses(4) [of x] by auto
  then obtain client where client: "map_of (m_clients m) cid = Some client" and e: "e = None" "m' = m1"
    and w': "w' = w1\<lparr>sw_collector := RemoveStats (cd_PublicKey client) (sw_collector w1)\<rparr>"
    using run assms(2) by (auto simp: handleDeleteClient_def GetClient_def del cloneClientData_def split: option.splits)
  have gone: "map_of (m_clients m') cid = None"
    using del [unfolded e(1)] by (cases rule: DeleteClient_cases) (auto simp: e(2) delete_conv')
  have "map_of (AList.delete k al) k = None" for k and al :: stats_map by (simp add: delete_conv')
  then have "GetStats (sw_collector w') (cd_PublicKey client) = (zeroPeerStats, False)"
    by (simp add: w' GetStats_def RemoveStats_def)
  moreover have "lookupErrorStatus (Sentinel ErrClientNotFound) = 404" "clientUpdateErrorStatus (Sentinel ErrClientNotFound) = 404"
    by (simp_all add: lookupErrorStatus_def clientUpdateErrorStatus_def status_of_def)
  then have "handle env rnd' now' rq' r cid m' w' = (jsonError ''client not found'' 404, m', w')"
    if "r \<in> {Configuration, Stats, Regenerate, Remove}" "authorised env rq'" for rnd' now' rq' r
    using that gone by (auto simp: handle_def auth_exact authorised_def handleGetConfiguration_def handleGetClientStats_def
        handleRegenerateClientAWGParams_def handleDeleteClient_def client_reply_def GetClientConfig_def GetClient_def
        RegenerateAWGParams_def writeError_def)
  ultimately show ?thesis using client gone by (auto simp: ServeHTTP_def authorised_def)
qed

text \<open>The installation with one client, on its interface.\<close>

definition alice_world :: "unit server_world" where
  "alice_world = served_world\<lparr>wd_pool := sample_pool\<lparr>ifaces := [(pkey sample_profile, \<lparr>ifName = ''awg0'', ifPort = 51820,
       ifProfile = sample_profile, peerCount = 1, peerPSKs = [(clamp_key one_key, Some one_key)]\<rparr>)],
     usedPorts := {51820}, nextIndex := 1, masqAdded := True\<rparr>\<rparr>"

definition alice_manager :: "unit server_manager" where
  "alice_manager = served_manager\<lparr>m_clients := [(''alice'', alice)], m_usedIPs := {cd_Address alice}, m_data := sample_data1\<rparr>"

lemma alice_prepare:
  "\<exists>port d. delete_prepare sample_cr ''alice'' alice_manager alice_world
     = Inr (alice, clamp_key one_key, Some one_key, sample_profile, port, d)"
proof -
  have k: "Base64ToKey (cd_PublicKey alice) = Inr (clamp_key one_key)" by (simp add: alice_def one_key_ok)
  have "decodePresharedKey (KeyToBase64 one_key) = Inr (Some one_key)"
    by (simp add: decodePresharedKey_def KeyToBase64_Nil_iff one_key_ok) (simp add: one_key_def)
  then have psk: "decodePresharedKey (cd_PresharedKey alice) = Inr (Some one_key)" by (simp add: alice_def)
  have prof: "client_profile sample_cr alice_manager alice = Inr sample_profile"
    using sample_profile_eq by (simp add: client_profile_def alice_manager_def served_manager_def sample_data1_def alice_def)
  have port: "dp_PortForProfile (m_pool alice_manager) sample_profile alice_world = Inr 51820"
    by (simp add: alice_manager_def served_manager_def livePool_def PortForProfile_def sample_profile_valid alice_world_def)
  have c: "map_of (m_clients alice_manager) ''alice'' = Some alice" by (simp add: alice_manager_def)
  have d: "cloneStorageData (m_data alice_manager) = sample_data1"
    by (simp add: alice_manager_def cloneStorageData_def sample_data1_def cloneClientData_def alice_def)
  have i: "stored_index ''alice'' (sd_Clients sample_data1) = Some 0" by (simp add: sample_data1_def alice_def)
  show ?thesis unfolding delete_prepare_def Let_def c d by (simp add: k psk prof port i)
qed

lemma alice_removed:
  "\<exists>pool. RemovePeer (hostPoolOperations ok_run) sample_profile (clamp_key one_key) (cd_Address alice) (wd_pool alice_world) ()
     = (None, pool, ()) \<and> pool_config pool = pool_config sample_pool"
  by (simp add: RemovePeer_def sample_profile_valid host_eval alice_world_def untrackPeerLocked_def set_iface_def Let_def
      destroy_emptied_def destroyTrackedInterfaceLocked_def)

lemma alice_delete: "\<exists>m w. DeleteClient sample_cr ''alice'' alice_manager alice_world = (None, m, w)"
proof -
  obtain port d where prep: "delete_prepare sample_cr ''alice'' alice_manager alice_world
      = Inr (alice, clamp_key one_key, Some one_key, sample_profile, port, d)" using alice_prepare by blast
  obtain pool where pool: "RemovePeer (hostPoolOperations ok_run) sample_profile (clamp_key one_key) (cd_Address alice)
      (wd_pool alice_world) () = (None, pool, ())" "pool_config pool = pool_config sample_pool" using alice_removed by blast
  have m: "m_pool alice_manager = livePool ok_run" "m_save alice_manager = liveSave sample_storage"
    by (simp_all add: alice_manager_def served_manager_def)
  have w: "wd_host alice_world = ()" "pool_config (wd_pool alice_world) = pool_config sample_pool"
    "dk_faults (wd_disk alice_world) = []" by (simp_all add: alice_world_def served_world_def)
  have block: "blockLANLocked alice_manager alice_world = (None, alice_world)"
    using sample_lan(1) [OF w(2)] by (simp add: blockLANLocked_def m wrap_err_def)
  let ?w = "alice_world\<lparr>wd_pool := pool, wd_host := ()\<rparr>"
  have rm: "dp_RemovePeer (livePool ok_run) sample_profile (clamp_key one_key) (cd_Address alice) alice_world = (None, ?w)"
    using pool(1) by (simp add: lift_pool_def)
  obtain w2 where sv: "liveSave sample_storage d ?w = (None, w2)" "wd_pool w2 = pool"
    using sample_save [of ?w d] w(3) by auto
  let ?m = "alice_manager\<lparr>m_usedIPs := m_usedIPs alice_manager - {cd_Address alice},
     m_clients := AList.delete ''alice'' (m_clients alice_manager), m_data := d\<rparr>"
  obtain e w3 where lan: "rebuildLANLocked ?m w2 = (e, w3)" by fastforce
  have d: "sd_Clients d = []"
    using prep by (auto simp: delete_prepare_def res_simps Let_def alice_manager_def cloneStorageData_def sample_data1_def
      cloneClientData_def alice_def split: option.splits)
  then have "rebuildLANLocked ?m w2 = (None, w2)"
    using sample_lan(1) [of w2] pool(2) sv(2) by (simp add: rebuildLANLocked_def m wrap_err_def lanPeers_def)
  then show ?thesis
    unfolding DeleteClient_def Let_def prep sum.case prod.case block m rm sv(1) option.case by simp
qed

theorem deleted_client_is_gone_witness:
  "\<exists>m w. map_of (m_clients m) ''alice'' = None
     \<and> ServeHTTP sample_http sample_rand [] (delete_request\<lparr>rq_Authorization := ''Bearer '' @ cfg_APIToken sample_cfg\<rparr>)
         alice_manager alice_world = (\<lparr>rs_Status = 204, rs_Body = EmptyBody\<rparr>, m, w)"
proof -
  let ?rq = "delete_request\<lparr>rq_Authorization := ''Bearer '' @ cfg_APIToken sample_cfg\<rparr>"
  obtain m w where d: "DeleteClient sample_cr ''alice'' alice_manager alice_world = (None, m, w)" using alice_delete by blast
  have c: "GetClient alice_manager ''alice'' = Inr alice"
    by (simp add: GetClient_def alice_manager_def cloneClientData_def alice_def)
  have route: "find_route routes (rq_Method ?rq) (rq_Path ?rq) = Some (Remove, ''alice'')"
    by (simp add: delete_request_def delete_route)
  let ?w = "w\<lparr>sw_collector := RemoveStats (cd_PublicKey alice) (sw_collector w)\<rparr>"
  have run: "ServeHTTP sample_http sample_rand [] ?rq alice_manager alice_world
      = (\<lparr>rs_Status = 204, rs_Body = EmptyBody\<rparr>, m, ?w)"
    unfolding ServeHTTP_def route by (simp add: handle_def auth_exact sample_http_def handleDeleteClient_def c d)
  from deleted_client_is_gone [OF run _ route] run show ?thesis by auto
qed

end
