(* ===== verification/Runtime.thy ===== *)
theory Runtime
  imports Device Dns Hex
begin

text \<open>
  The qualification of the host, \<^verbatim>\<open>src/internal/awg/runtime.go\<close>: versions of the installed packages and tools, and
  a probe that creates a temporary interface, configures it and reads its configuration back.

  The dependencies of the code are a record of functions on a host state \<open>'w\<close>. A command gets its context, the
  qualification with its timeout or the cleanup with its own; \<open>rd_Err\<close> is \<open>ctx.Err()\<close> of the qualification. Random
  bytes and SHA-256 are parameters, as for the generators and profiles.
\<close>

section \<open>Dependencies\<close>

datatype probe_ctx = Qualification | Cleanup

record RuntimeDiagnostics =
  ToolsPackageVersion :: string
  DKMSPackageVersion :: string
  ToolsVersion :: string
  ModuleVersion :: string

record 'w runtimeDependencies =
  rd_run :: "probe_ctx \<Rightarrow> 'w run"
  rd_readFile :: "string \<Rightarrow> 'w \<Rightarrow> string option"
  rd_randomName :: "'w \<Rightarrow> string res \<times> 'w"
  rd_Err :: "'w \<Rightarrow> go_error option"

definition minimumToolsPackageVersion :: string where
  "minimumToolsPackageVersion = ''1.0.20210914-0~202608130145+ee0f0a9~ubuntu22.04.1''"
definition minimumDKMSPackageVersion :: string where
  "minimumDKMSPackageVersion = ''1.0.0-0~202608271845+b72bb7a~ubuntu22.04.1''"
definition runtimeModuleVersionPath :: string where "runtimeModuleVersionPath = ''/sys/module/amneziawg/version''"
definition runtimeProbePort :: int where "runtimeProbePort = 0"
definition runtimeInterfaceAttempts :: nat where "runtimeInterfaceAttempts = 8"
definition maxInterfaceNameLength :: nat where "maxInterfaceNameLength = 15"

definition runtimePackageQueryFormat :: string where
  "runtimePackageQueryFormat = ''-f=${db:Status-Abbrev}'' @ CHR 0x5C # ''t${Version}'' @ CHR 0x5C # ''n''"

section \<open>Packages and tools\<close>

definition installedOKPackageStatus :: "string \<Rightarrow> bool" where
  "installedOKPackageStatus status =
     (if length status \<noteq> 3 \<or> status ! 1 \<noteq> CHR ''i'' \<or> status ! 2 \<noteq> CHR '' '' then False
      else status ! 0 \<in> set ''uihrp'')"

definition parseInstalledPackageVersion :: "string \<Rightarrow> string res" where
  "parseInstalledPackageVersion output =
     (if \<not> has_suffix output [CHR 0x0A] then Inl (Plain ''malformed output'')
      else
        (let result = trim_suffix output [CHR 0x0A] in
         if CHR 0x0A \<in> set result then Inl (Plain ''malformed output'')
         else
           (let flds = split_on (CHR 0x09) result in
            if length flds \<noteq> 2 \<or> \<not> installedOKPackageStatus (flds ! 0) \<or> flds ! 1 = []
            then Inl (Plain ''package is not installed and ok'')
            else Inr (flds ! 1))))"

definition checkRuntimePackage ::
  "'w runtimeDependencies \<Rightarrow> string \<Rightarrow> string \<Rightarrow> 'w \<Rightarrow> string res \<times> 'w" where
  "checkRuntimePackage deps packageName minimumVersion w =
     (case rd_run deps Qualification [''dpkg-query'', ''-W'', runtimePackageQueryFormat, packageName] [] w of
        (CmdFail _ _ e, w1) \<Rightarrow> (Inl (Wrap (''query '' @ packageName @ '' package version: '') (Plain e) []), w1)
      | (CmdOk output, w1) \<Rightarrow>
          (case parseInstalledPackageVersion output of
             Inl err \<Rightarrow> (Inl (Wrap (''query '' @ packageName @ '' package status: '') err []), w1)
           | Inr ver \<Rightarrow>
               (case rd_run deps Qualification [''dpkg'', ''--compare-versions'', ver, ''ge'', minimumVersion] [] w1 of
                  (CmdFail _ _ e, w2) \<Rightarrow> (Inl (Wrap (''verify '' @ packageName @ '' package version: '') (Plain e) []), w2)
                | (CmdOk _, w2) \<Rightarrow> (Inr ver, w2))))"

text \<open>The regular expression \<open>runtimeToolsVersionPattern\<close>.\<close>

definition tools_version_matches :: "string \<Rightarrow> bool" where
  "tools_version_matches s =
     (let p = ''amneziawg-tools v3.1.''; q = '' - https://amnezia.org''; t = drop (length p) s in
      has_prefix s p \<and> length t \<ge> 8 \<and> all_digits (take 8 t) \<and> drop 8 t \<in> {q, q @ [CHR 0x0A]})"

section \<open>The configuration read back\<close>

definition parse_runtime_line :: "string \<Rightarrow> (string, string) gmap \<Rightarrow> (string, string) gmap res" where
  "parse_runtime_line raw flds =
     (let line = TrimSpace raw in
      if line = [] \<or> line = ''[Interface]'' then Inr flds
      else if CHR ''='' \<notin> set line then Inl (Plain ''invalid configuration line'')
      else
        (let field = TrimSpace (takeWhile (\<lambda>c. c \<noteq> CHR ''='') line);
             fieldValue = TrimSpace (drop 1 (dropWhile (\<lambda>c. c \<noteq> CHR ''='') line)) in
         if field = [] \<or> fieldValue = [] then Inl (Plain ''invalid configuration field'')
         else if map_of flds field \<noteq> None then Inl (Plain ''duplicate configuration field'')
         else Inr (AList.update field fieldValue flds)))"

fun parse_runtime_lines :: "string list \<Rightarrow> (string, string) gmap \<Rightarrow> (string, string) gmap res" where
  "parse_runtime_lines [] flds = Inr flds"
| "parse_runtime_lines (l # ls) flds = res_bind (parse_runtime_line l flds) (parse_runtime_lines ls)"

definition parseRuntimeConfig :: "string \<Rightarrow> (string, string) gmap res" where
  "parseRuntimeConfig value = parse_runtime_lines (split_on (CHR 0x0A) value) []"

definition validRuntimeProbePort :: "string \<Rightarrow> bool" where
  "validRuntimeProbePort value =
     (if value = [] then False
      else if \<not> all_digits value then False
      else (case parse_uint 16 value of None \<Rightarrow> False | Some port \<Rightarrow> port \<noteq> 0))"

text \<open>A field that is missing from the map reads as the empty string.\<close>

definition field_mismatch :: "(string, string) gmap \<Rightarrow> string \<times> string \<Rightarrow> go_error option" where
  "field_mismatch actual e =
     (let value = (case map_of actual (fst e) of None \<Rightarrow> [] | Some v \<Rightarrow> v) in
      if fst e = ''ListenPort''
      then fail_if (\<not> validRuntimeProbePort value) (Plain ''runtime probe readback mismatch for ListenPort'')
      else fail_if (value \<noteq> snd e) (Plain (''runtime probe readback mismatch for '' @ fst e)))"

definition compareRuntimeConfig :: "string \<Rightarrow> string \<Rightarrow> go_error option" where
  "compareRuntimeConfig expectedConfig actualConfig =
     (case parseRuntimeConfig expectedConfig of
        Inl err \<Rightarrow> Some (Wrap ''parse expected runtime probe configuration: '' err [])
      | Inr expected \<Rightarrow>
          (case parseRuntimeConfig actualConfig of
             Inl err \<Rightarrow> Some (Wrap ''parse runtime probe readback: '' err [])
           | Inr actual \<Rightarrow> first_err (map (field_mismatch actual) expected)))"

section \<open>The probe\<close>

definition probe_range :: "string \<Rightarrow> string \<Rightarrow> Uint16Range res" where
  "probe_range what value =
     map_err (\<lambda>e. Wrap (''build runtime probe '' @ what @ '': '') e []) (ParseUint16Range value)"

definition newRuntimeProbeProfile :: "(byte list \<Rightarrow> key32) \<Rightarrow> key32 \<Rightarrow> Profile res" where
  "newRuntimeProbeProfile sha256 hpk =
     res_bind (probe_range ''persistent keepalive'' ''25-35'') (\<lambda>pk.
     res_bind (probe_range ''content padding'' ''10-100'') (\<lambda>cpa.
     res_bind (probe_range ''rekey after time'' ''100-120'') (\<lambda>rat.
     res_bind (probe_range ''rekey timeout'' ''3-7'') (\<lambda>rt.
     res_bind (probe_range ''reject after time'' ''150-180'') (\<lambda>rjt.
     res_bind (probe_range ''keepalive timeout'' ''5-15'') (\<lambda>kt.
     res_bind (probe_range ''max handshake attempts'' ''15-20'') (\<lambda>mha.
       NewAWG31Profile sha256
         (zeroParams\<lparr>Jc := 5, Jmin := 50, Jmax := 1000, S1 := 15, S2 := 72, S3 := 15, S4 := 12,
            H1 := ''100001'', H2 := ''1000001'', H3 := ''10000001'', H4 := ''100000001'',
            PersistentKeepalive := Some pk, ContentPaddingAddition := Some cpa, RekeyAfterTime := Some rat,
            RekeyTimeout := Some rt, RejectAfterTime := Some rjt, KeepaliveTimeout := Some kt,
            MaxHandshakeAttempts := Some mha, RandomTrailers := ''on'', DisableCookies := ''off''\<rparr>) hpk)))))))"

text \<open>\<open>rand.Read\<close> of five bytes.\<close>

definition generateRuntimeInterfaceName :: "byte list option \<Rightarrow> string res" where
  "generateRuntimeInterfaceName bytes =
     (case bytes of None \<Rightarrow> Inl (Plain ''rand.Read failed'') | Some bs \<Rightarrow> Inr (''awgrt'' @ hex_encode bs))"

definition validateRuntimeInterfaceName :: "string \<Rightarrow> go_error option" where
  "validateRuntimeInterfaceName ifName =
     (if ifName = [] \<or> length ifName > maxInterfaceNameLength then Some (Plain ''invalid runtime probe interface name'')
      else if \<not> list_all (\<lambda>c. (97 \<le> (of_char c :: nat) \<and> (of_char c :: nat) \<le> 122) \<or> is_digit c) ifName
      then Some (Plain ''invalid runtime probe interface name'') else None)"

text \<open>\<open>strings.ToLower\<close> on ASCII text, and \<open>strings.Contains\<close>.\<close>

definition contains :: "string \<Rightarrow> string \<Rightarrow> bool" where
  "contains s p = list_ex (\<lambda>i. has_prefix (drop i s) p) [0..<Suc (length s)]"

definition runtimeInterfaceExists :: "string \<Rightarrow> bool" where
  "runtimeInterfaceExists output = contains (map lower_char output) ''file exists''"

definition run_step :: "'w runtimeDependencies \<Rightarrow> string \<Rightarrow> probe_ctx \<Rightarrow> string list \<Rightarrow> string \<Rightarrow> 'w action" where
  "run_step deps what ctx args stdin w =
     (case rd_run deps ctx args stdin w of
        (CmdOk _, w') \<Rightarrow> (None, w') | (CmdFail _ _ e, w') \<Rightarrow> (Some (Wrap (what @ '': '') (Plain e) []), w'))"

definition deleteRuntimeProbeInterface :: "'w runtimeDependencies \<Rightarrow> string \<Rightarrow> 'w action" where
  "deleteRuntimeProbeInterface deps ifName =
     run_step deps ''delete runtime probe interface'' Cleanup [''ip'', ''link'', ''del'', ifName] []"

text \<open>The body of \<open>probeCreatedRuntimeInterface\<close>, before its deferred cleanup.\<close>

definition probe_created :: "'w runtimeDependencies \<Rightarrow> string \<Rightarrow> string \<Rightarrow> 'w action" where
  "probe_created deps ifName serverConfig w =
     (case run_step deps ''configure runtime probe interface'' Qualification
             [''awg'', ''setconf'', ifName, ''/dev/stdin''] serverConfig w of
        (Some e, w1) \<Rightarrow> (Some e, w1)
      | (None, w1) \<Rightarrow>
          (case run_step deps ''activate runtime probe interface'' Qualification
                  [''ip'', ''link'', ''set'', ifName, ''up''] [] w1 of
             (Some e, w2) \<Rightarrow> (Some e, w2)
           | (None, w2) \<Rightarrow>
               (case rd_run deps Qualification [''awg'', ''showconf'', ifName] [] w2 of
                  (CmdFail _ _ e, w3) \<Rightarrow> (Some (Wrap ''read runtime probe interface configuration: '' (Plain e) []), w3)
                | (CmdOk readback, w3) \<Rightarrow> (compareRuntimeConfig serverConfig readback, w3))))"

definition probeCreatedRuntimeInterface :: "'w runtimeDependencies \<Rightarrow> string \<Rightarrow> Profile \<Rightarrow> key32 \<Rightarrow> 'w action" where
  "probeCreatedRuntimeInterface deps ifName profile privateKey w =
     (case probe_created deps ifName (ServerConfig profile privateKey runtimeProbePort) w of
        (err, w1) \<Rightarrow>
          (case deleteRuntimeProbeInterface deps ifName w1 of
             (None, w2) \<Rightarrow> (err, w2)
           | (Some cleanupErr, w2) \<Rightarrow>
               (case err of
                  None \<Rightarrow> (Some cleanupErr, w2)
                | Some e \<Rightarrow> (errors_Join [Some e, Some cleanupErr], w2))))"

definition create_probe_err :: "go_error \<Rightarrow> go_error" where
  "create_probe_err e = Wrap ''create runtime probe interface: '' e []"

fun probe_attempts :: "'w runtimeDependencies \<Rightarrow> Profile \<Rightarrow> key32 \<Rightarrow> nat \<Rightarrow> 'w action" where
  "probe_attempts deps profile privateKey 0 w =
     (Some (Plain ''create runtime probe interface: exhausted collision-safe names''), w)"
| "probe_attempts deps profile privateKey (Suc attempts) w =
     (case rd_Err deps w of
        Some err \<Rightarrow> (Some (create_probe_err err), w)
      | None \<Rightarrow>
          (case rd_randomName deps w of
             (Inl err, w1) \<Rightarrow> (Some (Wrap ''generate runtime probe interface name: '' err []), w1)
           | (Inr ifName, w1) \<Rightarrow>
               (case validateRuntimeInterfaceName ifName of
                  Some err \<Rightarrow> (Some err, w1)
                | None \<Rightarrow>
                    (case rd_run deps Qualification [''ip'', ''link'', ''add'', ifName, ''type'', ''amneziawg''] [] w1 of
                       (CmdOk _, w2) \<Rightarrow> probeCreatedRuntimeInterface deps ifName profile privateKey w2
                     | (CmdFail output _ e, w2) \<Rightarrow>
                         if runtimeInterfaceExists output then
                           (if rd_Err deps w2 \<noteq> None then (Some (create_probe_err (Plain e)), w2)
                            else probe_attempts deps profile privateKey attempts w2)
                         else if rd_Err deps w2 = None then (Some (create_probe_err (Plain e)), w2)
                         else (case deleteRuntimeProbeInterface deps ifName w2 of
                           (Some cleanupErr, w3) \<Rightarrow> (errors_Join [Some (create_probe_err (Plain e)), Some cleanupErr], w3)
                         | (None, w3) \<Rightarrow> (Some (create_probe_err (Plain e)), w3))))))"

definition probeRuntime :: "(byte list \<Rightarrow> key32) \<Rightarrow> blocks \<Rightarrow> 'w runtimeDependencies \<Rightarrow> 'w action" where
  "probeRuntime sha256 src deps w =
     (case GeneratePrivateKey src of
        Inl err \<Rightarrow> (Some (Wrap ''generate runtime probe private key: '' err []), w)
      | Inr (privateKey, src') \<Rightarrow>
          (case GenerateHeaderProtectionKey src' of
             Inl err \<Rightarrow> (Some (Wrap ''generate runtime probe header protection key: '' err []), w)
           | Inr (headerKey, _) \<Rightarrow>
               (case newRuntimeProbeProfile sha256 headerKey of
                  Inl err \<Rightarrow> (Some err, w)
                | Inr profile \<Rightarrow> probe_attempts deps profile privateKey runtimeInterfaceAttempts w)))"

definition checkRuntime ::
  "(byte list \<Rightarrow> key32) \<Rightarrow> blocks \<Rightarrow> 'w runtimeDependencies \<Rightarrow> 'w \<Rightarrow> RuntimeDiagnostics res \<times> 'w" where
  "checkRuntime sha256 src deps w =
     (case checkRuntimePackage deps ''amneziawg-tools'' minimumToolsPackageVersion w of
        (Inl err, w1) \<Rightarrow> (Inl err, w1)
      | (Inr tools, w1) \<Rightarrow>
          (case checkRuntimePackage deps ''amneziawg-dkms'' minimumDKMSPackageVersion w1 of
             (Inl err, w2) \<Rightarrow> (Inl err, w2)
           | (Inr dkms, w2) \<Rightarrow>
               (case rd_run deps Qualification [''awg'', ''--version''] [] w2 of
                  (CmdFail _ _ e, w3) \<Rightarrow> (Inl (Wrap ''read awg tools version: '' (Plain e) []), w3)
                | (CmdOk toolsOutput, w3) \<Rightarrow>
                    if \<not> tools_version_matches toolsOutput then (Inl (Plain ''unexpected awg tools version output''), w3)
                    else
                      (let diagnostics = \<lparr>ToolsPackageVersion = tools, DKMSPackageVersion = dkms,
                             ToolsVersion = trim_suffix toolsOutput [CHR 0x0A],
                             ModuleVersion = (case rd_readFile deps runtimeModuleVersionPath w3 of
                                None \<Rightarrow> ''unavailable'' | Some m \<Rightarrow> trim_suffix m [CHR 0x0A])\<rparr> in
                       case probeRuntime sha256 src deps w3 of
                         (Some err, w4) \<Rightarrow> (Inl err, w4)
                       | (None, w4) \<Rightarrow> (Inr diagnostics, w4)))))"

end
