(* ===== verification/Runtime_Properties.thy ===== *)
theory Runtime_Properties
  imports Runtime
begin

text \<open>
  Qualification of the host: the probe's profile is always valid, the configuration read back is compared field by
  field, the version of a package is read exactly, and the probe leaves no interface behind.
\<close>

section \<open>The profile of the probe\<close>

definition span :: "nat \<Rightarrow> nat \<Rightarrow> Uint16Range" where
  "span a b = \<lparr>kind = uint16RangeSpan, range_start = of_nat a, range_end = of_nat b\<rparr>"

definition probe_params :: AWGParams where
  "probe_params = zeroParams\<lparr>Jc := 5, Jmin := 50, Jmax := 1000, S1 := 15, S2 := 72, S3 := 15, S4 := 12,
     H1 := ''100001'', H2 := ''1000001'', H3 := ''10000001'', H4 := ''100000001'',
     PersistentKeepalive := Some (span 25 35), ContentPaddingAddition := Some (span 10 100),
     RekeyAfterTime := Some (span 100 120), RekeyTimeout := Some (span 3 7), RejectAfterTime := Some (span 150 180),
     KeepaliveTimeout := Some (span 5 15), MaxHandshakeAttempts := Some (span 15 20),
     RandomTrailers := ''on'', DisableCookies := ''off''\<rparr>"

lemma probe_ranges:
  "ParseUint16Range ''25-35'' = Inr (span 25 35)" "ParseUint16Range ''10-100'' = Inr (span 10 100)"
  "ParseUint16Range ''100-120'' = Inr (span 100 120)" "ParseUint16Range ''3-7'' = Inr (span 3 7)"
  "ParseUint16Range ''150-180'' = Inr (span 150 180)" "ParseUint16Range ''5-15'' = Inr (span 5 15)"
  "ParseUint16Range ''15-20'' = Inr (span 15 20)"
  by (simp_all add: ParseUint16Range_def parseUint16Decimal_def span_def go_eval)

lemma probe_header: "header_spans ''100001'' (100001, 100001)" "header_spans ''1000001'' (1000001, 1000001)"
  "header_spans ''10000001'' (10000001, 10000001)" "header_spans ''100000001'' (100000001, 100000001)"
  by (simp_all add: header_spans_def go_eval)

lemma probe_params_ok: "profile_ok ''3.1'' probe_params"
proof -
  have "\<exists>spans. list_all2 header_spans [''100001'', ''1000001'', ''10000001'', ''100000001''] spans \<and> disjoint_spans spans"
    using probe_header
    by (intro exI [of _ "[(100001, 100001), (1000001, 1000001), (10000001, 10000001), (100000001, 100000001)]"])
       (simp add: disjoint_spans_def)
  moreover have "\<exists>ab. header_spans h ab" if "h \<in> {''100001'', ''1000001'', ''10000001'', ''100000001''}" for h
    using that probe_header by blast
  ultimately show ?thesis
    by (simp add: profile_ok_def overrides_ok_def probe_params_def zeroParams_def dns_ok_def slice_def)
qed

lemma probe_profile:
  assumes "hpk \<noteq> zero_key"
  shows "newRuntimeProbeProfile sha256 hpk = Inr (newProfile sha256 ''3.1'' probe_params hpk True)"
proof -
  have "NewAWG31Profile sha256 probe_params hpk = Inr (newProfile sha256 ''3.1'' probe_params hpk True)"
    using assms probe_params_ok by (simp add: NewAWG31Profile_def check_eq_Inr ValidateProfile_None version_consts)
  then show ?thesis by (simp add: newRuntimeProbeProfile_def probe_range_def probe_ranges probe_params_def)
qed

section \<open>The configuration read back\<close>

lemma dropWhile_no_space: "no_space s \<Longrightarrow> dropWhile is_space s = s" "no_space s \<Longrightarrow> dropWhile is_space (rev s) = rev s"
proof -
  show "dropWhile is_space s = s" if "no_space s" using that by (cases s) (simp_all add: no_space_def)
  show "dropWhile is_space (rev s) = rev s" if "no_space s"
    using that by (cases s rule: rev_cases) (simp_all add: no_space_def)
qed

lemma TrimSpace_word [simp]:
  assumes "no_space s"
  shows "TrimSpace s = s" "TrimSpace (s @ '' '') = s" "TrimSpace (CHR '' '' # s) = s"
proof -
  have sp: "is_space (CHR '' '')" by (simp add: is_space_def)
  have "dropWhile is_space (s @ '' '') = s @ '' ''"
    using assms by (cases s) (simp_all add: no_space_def)
  with assms sp show "TrimSpace s = s" "TrimSpace (s @ '' '') = s" "TrimSpace (CHR '' '' # s) = s"
    by (simp_all add: TrimSpace_def dropWhile_no_space)
qed

text \<open>A setting, as \<open>awg\<close> writes and reads it.\<close>

definition setting_line :: "string \<times> string \<Rightarrow> string" where
  "setting_line e = fst e @ '' = '' @ snd e"

definition setting_ok :: "string \<times> string \<Rightarrow> bool" where
  "setting_ok e \<longleftrightarrow> no_space (fst e) \<and> no_space (snd e) \<and> CHR ''='' \<notin> set (fst e)"

lemma TrimSpace_line:
  assumes "no_space f" "no_space v"
  shows "TrimSpace (f @ '' = '' @ v) = f @ '' = '' @ v"
proof -
  obtain a s where f: "f = a # s" "\<not> is_space a" using assms(1) by (cases f) (auto simp: no_space_def)
  obtain t z where v: "v = t @ [z]" "\<not> is_space z" using assms(2) by (cases v rule: rev_cases) (auto simp: no_space_def)
  show ?thesis by (simp add: TrimSpace_def f v)
qed

lemma parse_setting:
  assumes "setting_ok e" "map_of flds (fst e) = None"
  shows "parse_runtime_line (setting_line e) flds = Inr (flds @ [e])"
proof -
  obtain f v where e: "e = (f, v)" by (cases e)
  have ok: "no_space f" "no_space v" "CHR ''='' \<notin> set f" using assms(1) by (simp_all add: setting_ok_def e)
  have line: "TrimSpace (f @ '' = '' @ v) = f @ '' = '' @ v" by (rule TrimSpace_line [OF ok(1,2)])
  have take: "takeWhile (\<lambda>c. c \<noteq> CHR ''='') (f @ '' = '' @ v) = f @ '' ''"
    "dropWhile (\<lambda>c. c \<noteq> CHR ''='') (f @ '' = '' @ v) = CHR ''='' # CHR '' '' # v"
    using ok(3) by (auto simp: takeWhile_append dropWhile_append)
  have "f @ '' = '' @ v \<noteq> ''[Interface]''"
  proof
    assume "f @ '' = '' @ v = ''[Interface]''"
    then have "CHR ''='' \<in> set ''[Interface]''" by (metis in_set_conv_decomp append_Cons append_assoc append_Nil Un_iff set_append list.set_intros(1,2))
    then show False by simp
  qed
  moreover have "f \<noteq> []" "v \<noteq> []" using ok by (auto simp: no_space_def)
  moreover have "AList.update f v flds = flds @ [(f, v)]"
    using assms(2) by (induction flds) (auto simp: e split: if_splits)
  ultimately show ?thesis
    unfolding parse_runtime_line_def e setting_line_def fst_conv snd_conv line Let_def take
    using assms(2) ok by (simp add: e)
qed

lemma parse_settings:
  assumes "\<forall>e \<in> set es. setting_ok e" "distinct (map fst flds @ map fst es)"
  shows "parse_runtime_lines (map setting_line es @ ls) flds = parse_runtime_lines ls (flds @ es)"
  using assms
proof (induction es arbitrary: flds)
  case (Cons e es)
  have "map_of flds (fst e) = None" using Cons.prems(2) by (auto simp: map_of_eq_None_iff)
  with Cons.prems Cons.IH [of "flds @ [e]"] show ?case by (simp add: parse_setting)
qed simp

lemma parse_config:
  assumes "\<forall>e \<in> set es. setting_ok e" "distinct (map fst es)"
  shows "parseRuntimeConfig (join_str [CHR 0x0A] (''[Interface]'' # map setting_line es @ [[]])) = Inr es"
proof -
  have "CHR 0x0A \<notin> set (setting_line e)" if "e \<in> set es" for e
    using assms(1) that no_space_not_mem [of _ "CHR 0x0A"] is_space_ctl by (auto simp: setting_ok_def setting_line_def)
  then have "split_on (CHR 0x0A) (join_str [CHR 0x0A] (''[Interface]'' # map setting_line es @ [[]]))
      = ''[Interface]'' # map setting_line es @ [[]]" by (intro split_on_join) auto
  moreover have "parse_runtime_line ''[Interface]'' [] = Inr []" "parse_runtime_line [] es = Inr es"
    by (simp_all add: parse_runtime_line_def TrimSpace_def is_space_def)
  ultimately show ?thesis
    using parse_settings [OF assms(1), of "[]" "[[]]"] assms(2) by (simp add: parseRuntimeConfig_def)
qed

definition probe_settings :: "key32 \<Rightarrow> key32 \<Rightarrow> nat \<Rightarrow> (string \<times> string) list" where
  "probe_settings privateKey hpk port =
     [(''PrivateKey'', KeyToBase64 privateKey), (''ListenPort'', dec_nat port),
      (''Jc'', ''5''), (''Jmin'', ''50''), (''Jmax'', ''1000''), (''S1'', ''15''), (''S2'', ''72''), (''S3'', ''15''), (''S4'', ''12''),
      (''H1'', ''100001''), (''H2'', ''1000001''), (''H3'', ''10000001''), (''H4'', ''100000001''),
      (''ContentPaddingAddition'', ''10-100''), (''RekeyAfterTime'', ''100-120''), (''RekeyTimeout'', ''3-7''),
      (''RejectAfterTime'', ''150-180''), (''KeepaliveTimeout'', ''5-15''), (''MaxHandshakeAttempts'', ''15-20''),
      (''RandomTrailers'', ''on''), (''DisableCookies'', ''off''),
      (''HeaderProtectionKey'', HeaderProtectionKeyToBase64 hpk)]"

lemma probe_settings_ok:
  assumes "length privateKey = 32" "length hpk = 32"
  shows "\<forall>e \<in> set (probe_settings privateKey hpk port). setting_ok e" "distinct (map fst (probe_settings privateKey hpk port))"
proof -
  have "no_space (b64_encode hpk)" using no_space_key [OF assms(2)] by (simp add: KeyToBase64_def)
  then show "\<forall>e \<in> set (probe_settings privateKey hpk port). setting_ok e"
    using no_space_key [OF assms(1)] no_space_dec_nat [of port]
    by (simp add: probe_settings_def setting_ok_def HeaderProtectionKeyToBase64_def) (simp add: no_space_def is_space_def)
  show "distinct (map fst (probe_settings privateKey hpk port))" by (simp add: probe_settings_def)
qed

lemma probe_span_text:
  "range_String (span 10 100) = ''10-100''" "range_String (span 100 120) = ''100-120''"
  "range_String (span 3 7) = ''3-7''" "range_String (span 150 180) = ''150-180''"
  "range_String (span 5 15) = ''5-15''" "range_String (span 15 20) = ''15-20''"
  by (simp_all add: range_String_def Canonical_def IsCanonical_def span_def Let_def go_eval)

lemma probe_numbers: "dec_int 5 = ''5''" "dec_int 50 = ''50''" "dec_int 1000 = ''1000''" "dec_int 15 = ''15''"
  "dec_int 72 = ''72''" "dec_int 12 = ''12''"
  by (simp_all add: go_eval)

lemma probe_text:
  "ServerConfig (newProfile sha256 ''3.1'' probe_params hpk True) privateKey (int port)
     = join_str [CHR 0x0A] (''[Interface]'' # map setting_line (probe_settings privateKey hpk port) @ [[]])"
proof -
  have p: "params (newProfile sha256 ''3.1'' probe_params hpk True) = canonicalizeUnsignedRanges probe_params"
    by (simp add: newProfile_def Let_def)
  have "serverConfigLines (canonicalizeUnsignedRanges probe_params)
      = concat (map (\<lambda>e. cfg_line (fst e) (snd e)) (take 19 (drop 2 (probe_settings privateKey hpk port))))"
    by (simp add: serverConfigLines_def canonicalizeUnsignedRanges_def probe_params_def zeroParams_def line_pos_def line_str_def
        appendRangeConfigLine_def Let_def probe_settings_def probe_numbers probe_span_text)
  then show ?thesis
    by (simp add: ServerConfig_def p newProfile_def Let_def probe_settings_def setting_line_def cfg_line_def dec_int_def)
qed

lemma probe_parse:
  assumes "length privateKey = 32" "length hpk = 32"
  shows "parseRuntimeConfig (ServerConfig (newProfile sha256 ''3.1'' probe_params hpk True) privateKey (int port))
    = Inr (probe_settings privateKey hpk port)"
  unfolding probe_text by (rule parse_config [OF probe_settings_ok [OF assms]])

section \<open>Package versions\<close>

lemma parseInstalledPackageVersion_exact:
  "parseInstalledPackageVersion output = Inr v \<longleftrightarrow>
     v \<noteq> [] \<and> CHR 0x09 \<notin> set v \<and> CHR 0x0A \<notin> set v
     \<and> (\<exists>c \<in> set ''uihrp''. output = c # ''i '' @ CHR 0x09 # v @ [CHR 0x0A])"
proof
  assume ok: "parseInstalledPackageVersion output = Inr v"
  then obtain t where t: "output = t @ [CHR 0x0A]" "CHR 0x0A \<notin> set t"
    by (auto simp: parseInstalledPackageVersion_def has_suffix_iff Let_def split: if_splits)
  obtain a b where ab: "split_on (CHR 0x09) t = [a, b]"
    using ok by (auto simp: parseInstalledPackageVersion_def t Let_def numeral_2_eq_2 length_Suc_conv split: if_splits)
  have "t = a @ CHR 0x09 # b" using join_split_on [of "CHR 0x09" t] ab by simp
  moreover have "CHR 0x09 \<notin> set b" using split_on_parts_no_sep [of b "CHR 0x09" t] ab by simp
  moreover have v: "installedOKPackageStatus a" "b \<noteq> []" "v = b"
    using ok ab t(2) by (auto simp: parseInstalledPackageVersion_def t(1) Let_def has_suffix_iff split: if_splits)
  obtain x y z where "a = [x, y, z]"
    using v(1) by (auto simp: installedOKPackageStatus_def numeral_3_eq_3 length_Suc_conv split: if_splits)
  then have "a = x # ''i ''" "x \<in> set ''uihrp''" using v(1) by (simp_all add: installedOKPackageStatus_def split: if_splits)
  ultimately show "v \<noteq> [] \<and> CHR 0x09 \<notin> set v \<and> CHR 0x0A \<notin> set v
     \<and> (\<exists>c \<in> set ''uihrp''. output = c # ''i '' @ CHR 0x09 # v @ [CHR 0x0A])"
    using t v by auto
next
  assume R: "v \<noteq> [] \<and> CHR 0x09 \<notin> set v \<and> CHR 0x0A \<notin> set v
     \<and> (\<exists>c \<in> set ''uihrp''. output = c # ''i '' @ CHR 0x09 # v @ [CHR 0x0A])"
  then obtain c where c: "c \<in> set ''uihrp''" "output = (c # ''i '' @ CHR 0x09 # v) @ [CHR 0x0A]" by auto
  have "split_on (CHR 0x09) ((c # ''i '') @ CHR 0x09 # v) = [c # ''i '', v]"
    using R c(1) by (subst split_on_append) (auto simp: split_on_no_sep)
  moreover have "trim_suffix output [CHR 0x0A] = (c # ''i '') @ CHR 0x09 # v" "has_suffix output [CHR 0x0A]"
    unfolding c(2) by (simp_all add: trim_suffix_def has_suffix_def)
  moreover have "installedOKPackageStatus (c # ''i '')" "CHR 0x0A \<noteq> c"
    using c(1) by (auto simp: installedOKPackageStatus_def)
  ultimately show "parseInstalledPackageVersion output = Inr v"
    using R by (simp add: parseInstalledPackageVersion_def Let_def)
qed

section \<open>Interfaces of the probe\<close>

text \<open>
  A host with network interfaces: \<open>links w\<close> are their names. Adding an interface succeeds only for a new name, and
  a failed attempt says so when the name is taken; a command that the timeout kills may have done its work.
  Deleting removes the name or fails; nothing else changes the set.
\<close>

definition add_link :: "string \<Rightarrow> string list" where "add_link n = [''ip'', ''link'', ''add'', n, ''type'', ''amneziawg'']"
definition del_link :: "string \<Rightarrow> string list" where "del_link n = [''ip'', ''link'', ''del'', n]"

definition link_host :: "'w runtimeDependencies \<Rightarrow> ('w \<Rightarrow> string set) \<Rightarrow> bool" where
  "link_host deps links \<longleftrightarrow>
     (\<forall>n w out w'. rd_run deps Qualification (add_link n) [] w = (CmdOk out, w') \<longrightarrow>
        n \<notin> links w \<and> links w' = insert n (links w))
   \<and> (\<forall>n w out c e w'. rd_run deps Qualification (add_link n) [] w = (CmdFail out c e, w') \<longrightarrow>
        links w' = links w
        \<or> n \<notin> links w \<and> links w' = insert n (links w) \<and> rd_Err deps w' \<noteq> None \<and> \<not> runtimeInterfaceExists out)
   \<and> (\<forall>n w out w'. rd_run deps Cleanup (del_link n) [] w = (CmdOk out, w') \<longrightarrow> links w' = links w - {n})
   \<and> (\<forall>n w out c e w'. rd_run deps Cleanup (del_link n) [] w = (CmdFail out c e, w') \<longrightarrow> links w' = links w)
   \<and> (\<forall>ctx args stdin w r w'. rd_run deps ctx args stdin w = (r, w') \<and> take 3 args \<noteq> [''ip'', ''link'', ''add'']
        \<and> take 3 args \<noteq> [''ip'', ''link'', ''del''] \<longrightarrow> links w' = links w)
   \<and> (\<forall>w r w'. rd_randomName deps w = (r, w') \<longrightarrow> links w' = links w)"

text \<open>The error reports that the interface of the probe could not be deleted.\<close>

definition cleanup_failed :: "go_error \<Rightarrow> bool" where
  "cleanup_failed e \<longleftrightarrow> (\<exists>x. e = Wrap ''delete runtime probe interface: '' x [] \<or> (\<exists>a. e = Joined [a, Wrap ''delete runtime probe interface: '' x []]))"

text \<open>
  What a part of the probe does to the interfaces: nothing; or it leaves a new one and says so; or, when the timeout
  killed the command that adds an interface, it deletes one whose name the probe happened to draw.
\<close>

definition links_kept :: "('w \<Rightarrow> string set) \<Rightarrow> 'w \<Rightarrow> go_error option \<Rightarrow> 'w \<Rightarrow> bool" where
  "links_kept links w r w' \<longleftrightarrow>
     links w' = links w
     \<or> (\<exists>e n. r = Some e \<and> cleanup_failed e \<and> n \<notin> links w \<and> links w' = insert n (links w))
     \<or> (\<exists>e n. r = Some e \<and> n \<in> links w \<and> links w' = links w - {n})"

lemma links_kept_refl [simp]: "links_kept links w r w"
  by (simp add: links_kept_def)

lemma links_add:
  assumes "link_host deps links"
  shows "rd_run deps Qualification (add_link n) [] w = (CmdOk out, w') \<Longrightarrow> n \<notin> links w \<and> links w' = insert n (links w)"
    "rd_run deps Qualification (add_link n) [] w = (CmdFail out c e, w') \<Longrightarrow> links w' = links w
       \<or> n \<notin> links w \<and> links w' = insert n (links w) \<and> rd_Err deps w' \<noteq> None \<and> \<not> runtimeInterfaceExists out"
  using assms [unfolded link_host_def, THEN conjunct1, rule_format]
    assms [unfolded link_host_def, THEN conjunct2, THEN conjunct1, rule_format] by - assumption+

lemma links_other:
  assumes "link_host deps links" "rd_run deps ctx args stdin w = (r, w')"
    "take 3 args \<noteq> [''ip'', ''link'', ''add'']" "take 3 args \<noteq> [''ip'', ''link'', ''del'']"
  shows "links w' = links w"
  using assms unfolding link_host_def by blast

lemma links_delete:
  assumes "link_host deps links" "deleteRuntimeProbeInterface deps n w = (r, w')"
  shows "r = None \<Longrightarrow> links w' = links w - {n}"
    "r = Some e \<Longrightarrow> links w' = links w \<and> (\<exists>x. e = Wrap ''delete runtime probe interface: '' x [])"
proof -
  obtain c w1 where run: "rd_run deps Cleanup (del_link n) [] w = (c, w1)" by fastforce
  note R = assms(2) [unfolded deleteRuntimeProbeInterface_def run_step_def del_link_def [symmetric] run prod.case]
  show "links w' = links w - {n}" if "r = None"
    using R run that assms(1) unfolding link_host_def by (cases c) auto
  show "links w' = links w \<and> (\<exists>x. e = Wrap ''delete runtime probe interface: '' x [])" if "r = Some e"
    using R run that assms(1) unfolding link_host_def by (cases c) auto
qed

lemma links_step:
  assumes "link_host deps links" "run_step deps what Qualification args stdin w = (r, w')"
    "take 3 args \<noteq> [''ip'', ''link'', ''add'']" "take 3 args \<noteq> [''ip'', ''link'', ''del'']"
  shows "links w' = links w"
  using assms(2) links_other [OF assms(1) _ assms(3,4)] by (auto simp: run_step_def split: prod.splits cmd_result.splits)

lemma links_created:
  assumes "link_host deps links" "probe_created deps n conf w = (r, w')"
  shows "links w' = links w"
proof -
  obtain e1 w1 where s1: "run_step deps ''configure runtime probe interface'' Qualification
      [''awg'', ''setconf'', n, ''/dev/stdin''] conf w = (e1, w1)" by fastforce
  obtain e2 w2 where s2: "run_step deps ''activate runtime probe interface'' Qualification
      [''ip'', ''link'', ''set'', n, ''up''] [] w1 = (e2, w2)" by fastforce
  obtain c w3 where s3: "rd_run deps Qualification [''awg'', ''showconf'', n] [] w2 = (c, w3)" by fastforce
  note R = assms(2) [unfolded probe_created_def s1 prod.case s2 s3]
  have "links w1 = links w" "links w2 = links w1" "links w3 = links w2"
    using links_step [OF assms(1) s1] links_step [OF assms(1) s2] links_other [OF assms(1) s3] by simp_all
  with R show ?thesis by (auto simp: s2 s3 split: option.splits cmd_result.splits)
qed

lemma links_probe:
  assumes host: "link_host deps links" and new: "n \<notin> links w" "links w1 = insert n (links w)"
    and run: "probeCreatedRuntimeInterface deps n profile privateKey w1 = (r, w')"
  shows "links_kept links w r w'"
proof -
  obtain err w2 where body: "probe_created deps n (ServerConfig profile privateKey runtimeProbePort) w1 = (err, w2)" by fastforce
  obtain d w3 where del: "deleteRuntimeProbeInterface deps n w2 = (d, w3)" by fastforce
  note R = run [unfolded probeCreatedRuntimeInterface_def body prod.case del]
  have w2: "links w2 = insert n (links w)" using links_created [OF host body] new(2) by simp
  show ?thesis
  proof (cases d)
    case None
    with R del have "links w' = links w" using links_delete(1) [OF host del] w2 new(1) by auto
    then show ?thesis by (simp add: links_kept_def)
  next
    case (Some x)
    with links_delete(2) [OF host del] w2 have "links w3 = insert n (links w)"
      "\<exists>y. x = Wrap ''delete runtime probe interface: '' y []" by auto
    then have "\<exists>e. r = Some e \<and> cleanup_failed e" "links w' = insert n (links w)"
      using R Some by (auto simp: del cleanup_failed_def map_filter_simps split: option.splits)
    with new(1) show ?thesis unfolding links_kept_def by blast
  qed
qed

lemma links_attempts:
  assumes host: "link_host deps links"
  shows "probe_attempts deps profile privateKey attempts w = (r, w') \<Longrightarrow> links_kept links w r w'"
proof (induction attempts arbitrary: w)
  case 0
  then show ?case by (simp add: links_kept_def)
next
  case (Suc attempts)
  obtain d w1 where name: "rd_randomName deps w = (d, w1)" by fastforce
  have w1: "links w1 = links w" using host name unfolding link_host_def by blast
  obtain c w2 where add: "rd_run deps Qualification (add_link (projr d)) [] w1 = (c, w2)" by fastforce
  show ?case
  proof (cases "rd_Err deps w = None \<and> (\<exists>n. d = Inr n \<and> validateRuntimeInterfaceName n = None)")
    case False
    then have "w' = w \<or> w' = w1"
      using Suc.prems name by (auto split: option.splits sum.splits)
    with w1 show ?thesis by (auto simp: links_kept_def)
  next
    case True
    then obtain n where n: "rd_Err deps w = None" "d = Inr n" "validateRuntimeInterfaceName n = None" by blast
    note R = Suc.prems [unfolded probe_attempts.simps n option.case name prod.case sum.case add_link_def [symmetric]
        add [unfolded n sum.sel]]
    show ?thesis
    proof (cases c)
      case (CmdOk out)
      then have "n \<notin> links w1" "links w2 = insert n (links w1)" using links_add(1) [OF host] add n(2) by auto
      with links_probe [OF host] R CmdOk w1 show ?thesis by auto
    next
      case (CmdFail out k e)
      have step: "links w2 = links w
          \<or> n \<notin> links w \<and> links w2 = insert n (links w) \<and> rd_Err deps w2 \<noteq> None \<and> \<not> runtimeInterfaceExists out"
        using links_add(2) [OF host add [unfolded CmdFail]] unfolding n(2) sum.sel w1 .
      consider (taken) "runtimeInterfaceExists out" "rd_Err deps w2 = None"
        | (failed) "runtimeInterfaceExists out \<longleftrightarrow> rd_Err deps w2 \<noteq> None"
        | (killed) "\<not> runtimeInterfaceExists out" "rd_Err deps w2 \<noteq> None" by blast
      then show ?thesis
      proof cases
        case taken
        with Suc.IH [of w2] R CmdFail step show ?thesis by (auto simp: links_kept_def)
      next
        case failed
        with R CmdFail step show ?thesis by (auto simp: links_kept_def split: if_splits)
      next
        case killed
        obtain x w3 where del: "deleteRuntimeProbeInterface deps n w2 = (x, w3)" by fastforce
        note R' = R [unfolded CmdFail cmd_result.case del prod.case]
        show ?thesis
        proof (cases x)
          case None
          with links_delete(1) [OF host del] step show ?thesis
            using R' killed by (auto simp: links_kept_def)
        next
          case (Some y)
          with links_delete(2) [OF host del] have w3: "links w3 = links w2"
            "\<exists>z. y = Wrap ''delete runtime probe interface: '' z []" by auto
          with R' killed Some have "\<exists>e. r = Some e \<and> cleanup_failed e" "w' = w3"
            by (auto simp: errors_Join_def cleanup_failed_def map_filter_simps)
          with step w3 show ?thesis unfolding links_kept_def by auto
        qed
      qed
    qed
  qed
qed

section \<open>Properties\<close>

text \<open>C39. The probe's verdict. For every private key and every header protection key that is not zero the profile of the
  probe is built, and the text read back is accepted exactly when it parses, its listen port is one of 1 to
  65535 in decimal digits, and every other setting of the probe has exactly the value that was sent. In particular
  the text that was sent, with the port the kernel chose, is accepted.\<close>

theorem probe_readback_exact:
  assumes "length privateKey = 32" "length hpk = 32" "hpk \<noteq> zero_key"
  shows "\<exists>profile. newRuntimeProbeProfile sha256 hpk = Inr profile
    \<and> (\<forall>readback. compareRuntimeConfig (ServerConfig profile privateKey runtimeProbePort) readback = None \<longleftrightarrow>
         (\<exists>flds. parseRuntimeConfig readback = Inr flds
           \<and> (\<exists>p. map_of flds ''ListenPort'' = Some p \<and> p \<noteq> [] \<and> all_digits p \<and> 0 < dec_val p \<and> dec_val p < 2 ^ 16)
           \<and> (\<forall>e \<in> set (probe_settings privateKey hpk 0). fst e \<noteq> ''ListenPort'' \<longrightarrow> map_of flds (fst e) = Some (snd e))))
    \<and> (\<forall>port. 0 < port \<and> port < 2 ^ 16 \<longrightarrow>
         compareRuntimeConfig (ServerConfig profile privateKey runtimeProbePort) (ServerConfig profile privateKey (int port)) = None)"
proof -
  let ?profile = "newProfile sha256 ''3.1'' probe_params hpk True"
  let ?sent = "probe_settings privateKey hpk 0"
  have sent: "parseRuntimeConfig (ServerConfig ?profile privateKey runtimeProbePort) = Inr ?sent"
    using probe_parse [OF assms(1,2), of sha256 0] by (simp add: runtimeProbePort_def)
  have nonempty: "snd e \<noteq> []" if "e \<in> set ?sent" for e
    using probe_settings_ok(1) [OF assms(1,2)] that by (auto simp: setting_ok_def no_space_def)
  have listen: "field_mismatch flds e = None \<longleftrightarrow>
      (\<exists>p. map_of flds ''ListenPort'' = Some p \<and> p \<noteq> [] \<and> all_digits p \<and> 0 < dec_val p \<and> dec_val p < 2 ^ 16)"
    if "fst e = ''ListenPort''" for e flds
    using that by (auto simp: field_mismatch_def Let_def fail_if_eq validRuntimeProbePort_def parse_uint_def split: option.splits if_splits)
  have other: "field_mismatch flds e = None \<longleftrightarrow> map_of flds (fst e) = Some (snd e)"
    if "e \<in> set ?sent" "fst e \<noteq> ''ListenPort''" for e flds
    using that nonempty [OF that(1)] by (cases "map_of flds (fst e)") (auto simp: field_mismatch_def Let_def fail_if_eq)
  have port: "(''ListenPort'', ''0'') \<in> set ?sent" by (simp add: probe_settings_def go_eval)
  have fields: "(\<forall>e \<in> set ?sent. field_mismatch flds e = None) \<longleftrightarrow>
      (\<exists>p. map_of flds ''ListenPort'' = Some p \<and> p \<noteq> [] \<and> all_digits p \<and> 0 < dec_val p \<and> dec_val p < 2 ^ 16)
      \<and> (\<forall>e \<in> set ?sent. fst e \<noteq> ''ListenPort'' \<longrightarrow> map_of flds (fst e) = Some (snd e))"
    (is "?all \<longleftrightarrow> ?port \<and> ?others") for flds
  proof
    assume ?all
    then have ?port using listen [of "(''ListenPort'', ''0'')" flds] port by fastforce
    with \<open>?all\<close> show "?port \<and> ?others" using other by blast
  next
    assume R: "?port \<and> ?others"
    show ?all
    proof
      fix e assume e: "e \<in> set ?sent"
      show "field_mismatch flds e = None"
        by (cases "fst e = ''ListenPort''") (use R listen [of e flds] other [OF e] e in blast)+
    qed
  qed
  have exact: "compareRuntimeConfig (ServerConfig ?profile privateKey runtimeProbePort) readback = None \<longleftrightarrow>
      (\<exists>flds. parseRuntimeConfig readback = Inr flds \<and> (\<forall>e \<in> set ?sent. field_mismatch flds e = None))" for readback
    by (auto simp: compareRuntimeConfig_def sent first_err_None_iff split: sum.splits)
  have "compareRuntimeConfig (ServerConfig ?profile privateKey runtimeProbePort) (ServerConfig ?profile privateKey (int port)) = None"
    if "0 < port" "port < 2 ^ 16" for port
    using that unfolding exact probe_parse [OF assms(1,2)] fields by (simp add: probe_settings_def)
  with exact fields probe_profile [OF assms(3)] show ?thesis by (intro exI [of _ ?profile]) simp
qed

theorem probe_readback_exact_witness:
  "\<exists>profile. newRuntimeProbeProfile (\<lambda>_. zero_key) (replicate 32 1) = Inr profile
    \<and> (\<forall>readback. compareRuntimeConfig (ServerConfig profile zero_key runtimeProbePort) readback = None \<longleftrightarrow>
         (\<exists>flds. parseRuntimeConfig readback = Inr flds
           \<and> (\<exists>p. map_of flds ''ListenPort'' = Some p \<and> p \<noteq> [] \<and> all_digits p \<and> 0 < dec_val p \<and> dec_val p < 2 ^ 16)
           \<and> (\<forall>e \<in> set (probe_settings zero_key (replicate 32 1) 0). fst e \<noteq> ''ListenPort'' \<longrightarrow> map_of flds (fst e) = Some (snd e))))
    \<and> (\<forall>port. 0 < port \<and> port < 2 ^ 16 \<longrightarrow>
         compareRuntimeConfig (ServerConfig profile zero_key runtimeProbePort) (ServerConfig profile zero_key (int port)) = None)"
  by (rule probe_readback_exact) (simp_all add: zero_key_def)


text \<open>A host for the witnesses: interfaces are added and deleted by name, every other command succeeds.\<close>

definition probe_host :: "string set runtimeDependencies" where
  "probe_host = \<lparr>
     rd_run = (\<lambda>ctx args stdin w.
       if take 3 args = [''ip'', ''link'', ''add''] then
         (if args ! 3 \<in> w then (CmdFail ''RTNETLINK answers: File exists'' (Some 2) ''exit status 2'', w)
          else (CmdOk [], insert (args ! 3) w))
       else if take 3 args = [''ip'', ''link'', ''del''] then (CmdOk [], w - {args ! 3})
       else (CmdOk [], w)),
     rd_readFile = (\<lambda>_ _. None),
     rd_randomName = (\<lambda>w. (Inr ''awgrt0102030405'', w)),
     rd_Err = (\<lambda>_. None)\<rparr>"

lemma probe_host_links: "link_host probe_host (\<lambda>w. w)"
  by (auto simp: link_host_def probe_host_def add_link_def del_link_def split: if_splits)


end
