(* ===== verification/Spec2Isabelle.thy ===== *)
theory Spec2Isabelle
  imports Routing Device Firewall Pool_Properties Config Storage Manager_Properties
    Update_Properties Usage_Properties Api_Properties Runtime_Properties
begin

text \<open>
  A verification development for awg-server, the control daemon of an AmneziaWG VPN server (Go, sources under
  \<^verbatim>\<open>src/\<close>).

  \<^bold>\<open>The program.\<close> The daemon reads its configuration from the environment (\<^verbatim>\<open>internal/config\<close>), loads a JSON
  document with the server key and the VPN clients (\<^verbatim>\<open>internal/clients/storage.go\<close>), and serves calls that
  create, change, regroup and delete clients (\<^verbatim>\<open>internal/clients/manager.go\<close>). Every client has obfuscation
  parameters; they determine a profile (\<^verbatim>\<open>internal/awg/profile.go\<close>), and all clients with the same profile
  share one network interface. The pool (\<^verbatim>\<open>internal/awg/pool.go\<close>) owns the interfaces, their ports and peers,
  and drives the host with the commands of \<^verbatim>\<open>internal/awg/device.go\<close> and \<^verbatim>\<open>internal/awg/firewall.go\<close>.

  \<^bold>\<open>Theories.\<close> In the order of their dependencies:

  \<^item> \<open>Go_Prelude\<close>: what the sources use of Go: errors with wrapping and \<open>errors.Is\<close>, the sum type \<open>'a res\<close> of
    results, decimal printing and parsing, JSON values, slices, maps as association lists, \<open>strings\<close> functions;
    the evaluation rules \<open>go_eval\<close> of the witnesses.
  \<^item> \<open>Base64\<close>, \<open>Hex\<close>, \<open>Netip\<close>: encodings and the IPv4 part of \<open>net/netip\<close> over 32-bit words.
  \<^item> \<open>Uint16_Range\<close>, \<open>Config\<close>: \<^verbatim>\<open>config/range.go\<close> and \<^verbatim>\<open>config/config.go\<close>.
  \<^item> \<open>Routing_Ranges\<close>, \<open>Routing\<close>: the interval arithmetic of \<^verbatim>\<open>clients/routing_ranges.go\<close> and the routing
    policies of \<^verbatim>\<open>clients/routing.go\<close>.
  \<^item> \<open>Params\<close>, \<open>Validation\<close>, \<open>Dns\<close>, \<open>Profile\<close>: parameters, generators, validators, DNS settings, keys and
    profiles of \<^verbatim>\<open>internal/awg\<close>.
  \<^item> \<open>Device\<close>, \<open>Firewall\<close>: the host commands and the rules they install.
  \<^item> \<open>Pool\<close> (model), \<open>Pool_Invariant\<close> (preservation), \<open>Pool_Properties\<close> (accounting, refinement, atomicity).
  \<^item> \<open>Storage\<close>: the records of the document, its JSON form both ways, loading and the atomic save.
  \<^item> \<open>Manager\<close> (model), \<open>Manager_Invariant\<close>, \<open>Manager_Steps\<close> (one case rule and one preservation lemma per
    operation), \<open>Manager_Restore\<close> (restore plans), \<open>Manager_Reach\<close> (the step relation and reachable managers),
    \<open>Manager_Sync\<close> (the interface \<open>peer_devices\<close> of a device pool with a storage, and the lemmas the manager
    gets from it), \<open>Deployment\<close> (the interpretation of that interface on the pool, the command runner and a
    disk with faults), \<open>Restore_Dry_Run\<close>, \<open>Manager_Sample\<close> (an evaluated installation), \<open>Manager_Properties\<close>.
  \<^item> \<open>Update\<close> (model of \<^verbatim>\<open>update/update.go\<close> and its lock), \<open>Update_Versions\<close> (versions as a linear order, the
    text of a manifest), \<open>Update_Apply\<close> (the interface \<open>update_files\<close> of a file system and its interpretation
    on one with faults), \<open>Update_Properties\<close>.
  \<^item> \<open>Json_Fields\<close>: how a written JSON object is read back, shared by the round trips. \<open>Usage\<close> (model of
    \<^verbatim>\<open>usage/collector.go\<close>), \<open>Usage_Properties\<close>.
  \<^item> \<open>Api\<close> (routes, middleware, decoding and handlers of \<^verbatim>\<open>internal/api\<close>), \<open>Api_Steps\<close> (one request and one
    round of the collector as steps, over a second interpretation of \<open>peer_devices\<close>), \<open>Api_Properties\<close>.

  \<^bold>\<open>State and operations.\<close> Structures are records with the fields of the source; a function that changes the
  host, the pool, the manager or the storage takes the state and returns it updated; a returned Go error is \<open>Inl\<close>
  or \<open>Some\<close>. Calls of the operating system are a parameter \<open>run\<close> that answers each command with an output or an
  error, so every statement covers every failure of every command. Words have their width (ports and counters of
  ranges, IPv4 addresses, transfer counters); an \<open>int\<close> of Go that the code only compares is \<open>int\<close>.

  \<^bold>\<open>Interfaces.\<close> Two locales state what one component relies on: the laws of pool operations
  (\<open>Pool_Properties\<close>, interpreted on the host operations) and \<open>peer_devices\<close> (\<open>Manager_Sync\<close>, interpreted in
  \<open>Deployment\<close>).

  \<^bold>\<open>What the lemmas show.\<close> For the manager: every reachable manager satisfies \<open>manager_inv\<close>; devices, file and memory
  agree after every call that reported no failed rollback; a failed call changes nothing; a restart reproduces the
  state; the dry run of the interfaces is exact, and a reachable state exists that it refuses. For the pool: exact
  accounting of names, ports and peers, refinement of a table of peers, and atomicity of failed operations. For the
  values: the parsers accept exactly their grammars, the validators exactly their bounds, the routing arithmetic
  is exact on sets of addresses, and profile keys separate different settings up to a SHA-256 collision.

  \<^bold>\<open>Parameters.\<close> SHA-256 and Curve25519 are arbitrary functions whose values have 32 bytes;
  \<open>net.ParseIP\<close> is an arbitrary function, where needed one that reads dotted quads; random numbers are the lists of
  bytes and words that an operation consumes, and an exhausted list is a failed read of the source.

  \<^bold>\<open>Bounds and fuel.\<close> No definition uses fuel that the code does not have: loops are structural or have a measure,
  and the counters of attempts (eight regenerations, eight key identifiers) are those of the code. Where the code
  retries for as long as the random source gives bad values, the model recurses on the list of values it consumes.

  \<^bold>\<open>Not modelled.\<close> Locks and logging: operations are atomic steps, as their mutex makes them. The text syntax of
  JSON: documents are JSON values, and decoding follows \<open>encoding/json\<close> on them (field names in any letter case,
  null, repeated keys; a repeated key of a nested structure starts again from the zero value, where the library
  merges into the earlier one). Message texts of library errors. The HTTP server, process start-up and signals.
\<close>

end
